(* ===== verification/Prelude.thy ===== *)
theory Prelude
  imports Main "HOL-Library.Word"
begin

text \<open>
  Shared vocabulary of the development: machine integers, program keys, the error type of
  \<^verbatim>\<open>programs/marginfi/src/errors.rs\<close>, the result type that stands for
  \<^verbatim>\<open>MarginfiResult\<close>, its sequencing combinators, and the facts every component uses to take a
  successful run apart.

  A handler aborts in one of three ways and the three are kept apart, because
  \<^verbatim>\<open>map_err\<close> catches the first two and not the third:
  \<^item> \<open>Mfi e\<close>: the program returned \<^verbatim>\<open>MarginfiError::e\<close>;
  \<^item> \<open>Anchor e\<close>: the framework or a called program returned an error;
  \<^item> \<open>Panic\<close>: \<^verbatim>\<open>assert!\<close>, \<^verbatim>\<open>unwrap\<close>, an index out of range, or an arithmetic operator
    that overflows (the workspace is built with \<^verbatim>\<open>overflow-checks = true\<close>).
\<close>

unbundle bit_operations_syntax

section \<open>Machine integers and keys\<close>

type_synonym u8 = "8 word"
type_synonym u16 = "16 word"
type_synonym u32 = "32 word"
type_synonym u64 = "64 word"

text \<open>Signed integers are words read by \<^const>\<open>sint\<close>.\<close>

type_synonym i32 = "32 word"
type_synonym i64 = "64 word"

text \<open>A 32-byte key; \<^verbatim>\<open>Pubkey::default()\<close> is all zeros.\<close>

type_synonym pubkey = "256 word"

definition default_pubkey :: pubkey where
  "default_pubkey = 0"

section \<open>Errors\<close>

datatype marginfi_error =
    MathError
  | BankNotFound
  | LendingAccountBalanceNotFound
  | BankAssetCapacityExceeded
  | InvalidTransfer
  | MissingPythOrBankAccount
  | MissingPythAccount
  | InvalidOracleAccount
  | MissingBankAccount
  | InvalidBankAccount
  | RiskEngineInitRejected
  | LendingAccountBalanceSlotsFull
  | BankAlreadyExists
  | IllegalLiquidation
  | AccountNotBankrupt
  | BalanceNotBadDebt
  | InvalidConfig
  | StaleOracle
  | BankPaused
  | BankReduceOnly
  | BankAccountNotFound
  | OperationDepositOnly
  | OperationWithdrawOnly
  | OperationBorrowOnly
  | OperationRepayOnly
  | NoAssetFound
  | NoLiabilityFound
  | InvalidOracleSetup
  | IllegalUtilizationRatio
  | BankLiabilityCapacityExceeded
  | InvalidPrice
  | IsolatedAccountIllegalState
  | EmissionsAlreadySetup
  | OracleNotSetup
  | InvalidSwitchboardDecimalConversion
  | CannotCloseOutstandingEmissions
  | EmissionsUpdateError
  | AccountDisabled
  | AccountTempActiveBalanceLimitExceeded
  | AccountInFlashloan
  | IllegalFlashloan
  | IllegalFlag
  | IllegalBalanceState
  | IllegalAccountAuthorityTransfer
  | Unauthorized
  | IllegalAction
  | T22MintRequired
  | InvalidFeeAta

text \<open>Errors raised by the framework before or during a handler.\<close>

datatype anchor_error =
    AccountNotLoadable
  | AccountBorrowFailed
  | ConstraintRaw
  | ConstraintAddress
  | ConstraintSeeds
  | ConstraintHasOne
  | RequireViolated
  | CallFailed
  | InvalidAccountData

text \<open>Errors of the liquidity incentive program.\<close>

datatype lip_error = CampaignNotActive | DepositAmountTooLarge | DepositNotMature

datatype failure = Mfi marginfi_error | Anchor anchor_error | Lip lip_error | Panic

type_synonym 'a result = "failure + 'a"

abbreviation Ok :: "'a \<Rightarrow> 'a result" where
  "Ok x \<equiv> Inr x"

abbreviation Err :: "failure \<Rightarrow> 'a result" where
  "Err e \<equiv> Inl e"

section \<open>Sequencing\<close>

named_theorems run_iff \<open>a run that succeeds, taken apart into the runs of its steps\<close>

text \<open>The question-mark operator.\<close>

definition bind :: "'a result \<Rightarrow> ('a \<Rightarrow> 'b result) \<Rightarrow> 'b result" where
  "bind m f = (case m of Inl e \<Rightarrow> Inl e | Inr x \<Rightarrow> f x)"

text \<open>\<^verbatim>\<open>check!(cond, err)\<close> of macros.rs, \<^verbatim>\<open>assert!\<close>, \<^verbatim>\<open>ok_or\<close>, \<^verbatim>\<open>unwrap\<close> and \<^verbatim>\<open>map_err\<close>.\<close>

definition check :: "bool \<Rightarrow> marginfi_error \<Rightarrow> unit result" where
  "check c e = (if c then Ok () else Err (Mfi e))"

definition require :: "bool \<Rightarrow> anchor_error \<Rightarrow> unit result" where
  "require c e = (if c then Ok () else Err (Anchor e))"

definition assert_that :: "bool \<Rightarrow> unit result" where
  "assert_that c = (if c then Ok () else Err Panic)"

definition ok_or :: "'a option \<Rightarrow> failure \<Rightarrow> 'a result" where
  "ok_or m e = (case m of None \<Rightarrow> Err e | Some x \<Rightarrow> Ok x)"

abbreviation ok_or_math_error :: "'a option \<Rightarrow> 'a result" where
  "ok_or_math_error m \<equiv> ok_or m (Mfi MathError)"

abbreviation unwrap :: "'a option \<Rightarrow> 'a result" where
  "unwrap m \<equiv> ok_or m Panic"

definition map_err :: "'a result \<Rightarrow> marginfi_error \<Rightarrow> 'a result" where
  "map_err m e = (case m of Inr x \<Rightarrow> Inr x
     | Inl Panic \<Rightarrow> Inl Panic | Inl _ \<Rightarrow> Inl (Mfi e))"

definition is_ok :: "'a result \<Rightarrow> bool" where
  "is_ok m = (case m of Inr _ \<Rightarrow> True | Inl _ \<Rightarrow> False)"

text \<open>\<^verbatim>\<open>set_if_some!(attr, val)\<close>: the value the attribute has afterwards.\<close>

definition set_if_some :: "'a \<Rightarrow> 'a option \<Rightarrow> 'a" where
  "set_if_some old v = (case v of Some x \<Rightarrow> x | None \<Rightarrow> old)"

text \<open>Reading an array: a panic out of range.\<close>

definition index_at :: "'a list \<Rightarrow> nat \<Rightarrow> 'a result" where
  "index_at xs i = (if i < length xs then Ok (xs ! i) else Err Panic)"

lemma bind_simps [simp]:
  "bind (Inr x) f = f x"
  "bind (Inl e) f = Inl e"
  by (simp_all add: bind_def)

lemma bind_Ok_iff [run_iff]: "bind m f = Inr y \<longleftrightarrow> (\<exists>x. m = Inr x \<and> f x = Inr y)"
  by (cases m) auto

lemma bind_Err_iff: "bind m f = Inl e \<longleftrightarrow> m = Inl e \<or> (\<exists>x. m = Inr x \<and> f x = Inl e)"
  by (cases m) auto

lemma check_Ok_iff [run_iff]: "check c e = Inr u \<longleftrightarrow> c"
  by (simp add: check_def)

lemma require_Ok_iff [run_iff]: "require c e = Inr u \<longleftrightarrow> c"
  by (simp add: require_def)

lemma assert_that_Ok_iff [run_iff]: "assert_that c = Inr u \<longleftrightarrow> c"
  by (simp add: assert_that_def)

lemma ok_or_Ok_iff [run_iff]: "ok_or m e = Inr x \<longleftrightarrow> m = Some x"
  by (cases m) (simp_all add: ok_or_def)

lemma map_err_Ok_iff [run_iff]: "map_err m e = Inr x \<longleftrightarrow> m = Inr x"
  by (auto simp: map_err_def split: sum.splits failure.splits)

lemma index_at_Ok_iff [run_iff]: "index_at xs i = Inr x \<longleftrightarrow> i < length xs \<and> xs ! i = x"
  by (simp add: index_at_def)

lemma check_simps [simp]:
  "check True e = Ok ()" "check False e = Err (Mfi e)"
  by (simp_all add: check_def)

lemma require_simps [simp]:
  "require True e' = Ok ()" "require False e' = Err (Anchor e')"
  by (simp_all add: require_def)

lemma assert_that_simps [simp]:
  "assert_that True = Ok ()" "assert_that False = Err Panic"
  by (simp_all add: assert_that_def)

lemma ok_or_simps [simp]:
  "ok_or (Some x) e = Ok x" "ok_or None e = Err e"
  by (simp_all add: ok_or_def)

lemma no_panic [simp]:
  "check c e \<noteq> Inl Panic" "require c e' \<noteq> Inl Panic"
  "ok_or m (Mfi e) \<noteq> Inl Panic" "ok_or m (Anchor e') \<noteq> Inl Panic"
  by (auto simp: check_def require_def ok_or_def split: option.splits)

lemma set_if_some_simps [simp]:
  "set_if_some old None = old" "set_if_some old (Some x) = x"
  by (simp_all add: set_if_some_def)

lemma is_ok_iff: "is_ok m \<longleftrightarrow> (\<exists>x. m = Inr x)"
  by (cases m) (simp_all add: is_ok_def)

text \<open>A word with no bit outside a mask.\<close>

lemma and_not_zeroD:
  assumes "(x :: 'a::len word) AND NOT m = 0" and "bit x n"
  shows "bit m n"
proof -
  have "\<not> bit (x AND NOT m) n"
    using assms(1) by simp
  then show ?thesis
    using assms(2) by (auto simp: bit_and_iff bit_not_iff dest: bit_imp_le_length)
qed

text \<open>The first position of a list that satisfies a predicate (\<^verbatim>\<open>Iterator::position\<close>).\<close>

fun position :: "('a \<Rightarrow> bool) \<Rightarrow> 'a list \<Rightarrow> nat option" where
  "position P [] = None"
| "position P (x # xs) = (if P x then Some 0 else map_option Suc (position P xs))"

lemma position_SomeD:
  "position P xs = Some i \<Longrightarrow> i < length xs \<and> P (xs ! i) \<and> (\<forall>j < i. \<not> P (xs ! j))"
proof (induction xs arbitrary: i)
  case Nil
  then show ?case by simp
next
  case (Cons x xs)
  then show ?case
    by (fastforce split: if_splits simp: less_Suc_eq_0_disj)
qed

lemma position_update:
  assumes "i < length xs" and "P x" and "\<forall>j < length xs. \<not> P (xs ! j)"
  shows "position P (xs[i := x]) = Some i"
  using assms
proof (induction xs arbitrary: i)
  case (Cons y ys)
  then have "\<not> P y" "\<forall>j < length ys. \<not> P (ys ! j)"
    by force+
  with Cons show ?case
    by (cases i) auto
qed simp

lemma position_None_iff: "position P xs = None \<longleftrightarrow> (\<forall>x \<in> set xs. \<not> P x)"
  by (induction xs) auto

lemma mem_update_iff:
  assumes "i < length xs" and "y \<noteq> x" and "y \<noteq> xs ! i"
  shows "y \<in> set (xs[i := x]) \<longleftrightarrow> y \<in> set xs"
  using assms by (auto simp: in_set_conv_nth nth_list_update split: if_splits)

end
