(* ===== verification/Fixed_Point.thy ===== *)
theory Fixed_Point
  imports Prelude
begin

text \<open>
  The arithmetic interface. The program computes with \<^verbatim>\<open>I80F48\<close> of the \<^verbatim>\<open>fixed\<close> crate, a
  128-bit signed number with 48 fractional bits. The crate is not part of the repository, so
  its operations are a parameter of every definition that uses them, the record
  \<open>fixed_ops\<close>, and what the program relies on is the locale \<open>fixed_point\<close>: the crate's
  documented behaviour on the number a value's bits spell. A value is represented by its bits
  read as a signed integer, so \<open>x\<close> stands for the number \<open>x / 2^48\<close> and comparing two values
  is comparing their representations.

  The locale is interpreted on \<open>i80f48_ref\<close>, the operations computed on the representation.
  The constants of \<^verbatim>\<open>constants.rs\<close> follow, then the facts on products and quotients that the
  components use.
\<close>

section \<open>Representation\<close>

type_synonym i80f48 = int

definition SCALE :: int where
  "SCALE = 2 ^ 48"

definition fits :: "int \<Rightarrow> bool" where
  "fits x \<longleftrightarrow> - (2 ^ 127) \<le> x \<and> x < 2 ^ 127"

definition fit :: "int \<Rightarrow> i80f48 option" where
  "fit x = (if fits x then Some x else None)"

text \<open>Division of integers that rounds towards zero.\<close>

definition trunc_div :: "int \<Rightarrow> int \<Rightarrow> int" where
  "trunc_div a b = sgn a * sgn b * (\<bar>a\<bar> div \<bar>b\<bar>)"

section \<open>Facts on the representation\<close>

lemma SCALE_pos [simp]: "0 < SCALE" "0 \<le> SCALE" "SCALE \<noteq> 0"
  by (simp_all add: SCALE_def)

lemma fit_Some_iff [run_iff]: "fit x = Some y \<longleftrightarrow> fits x \<and> y = x"
  by (auto simp: fit_def)

lemma fit_fits [simp]: "fits x \<Longrightarrow> fit x = Some x"
  by (simp add: fit_def)

lemma fits_between: "fits a \<Longrightarrow> fits b \<Longrightarrow> a \<le> x \<Longrightarrow> x \<le> b \<Longrightarrow> fits x"
  by (simp add: fits_def)

lemma fits_nonneg_le: "0 \<le> x \<Longrightarrow> x \<le> b \<Longrightarrow> fits b \<Longrightarrow> fits x"
  by (simp add: fits_def)

lemma trunc_div_nonneg: "0 \<le> a \<Longrightarrow> 0 < b \<Longrightarrow> trunc_div a b = a div b"
  by (cases "a = 0") (auto simp: trunc_div_def)

text \<open>A product or quotient with one rounding, against the exact value.\<close>

lemma quot_mult_le: "0 < b \<Longrightarrow> a div b * b \<le> (a :: int)"
  using pos_mod_sign [of b a] by (simp add: minus_mod_eq_div_mult [symmetric])

lemma le_quot_mult: "0 < b \<Longrightarrow> a \<le> (a div b + 1) * (b :: int)"
  using less_imp_le [OF pos_mod_bound [of b a]]
  by (simp add: distrib_right minus_mod_eq_div_mult [symmetric])

lemma mul_floor_le: "a * b div SCALE * SCALE \<le> a * b"
  by (simp add: quot_mult_le)

lemma mul_floor_gt: "a * b < (a * b div SCALE + 1) * SCALE"
  using pos_mod_bound [of SCALE "a * b"] by (simp add: algebra_simps minus_div_mult_eq_mod [symmetric])

lemma mul_floor_nonneg [simp]: "0 \<le> a \<Longrightarrow> 0 \<le> b \<Longrightarrow> 0 \<le> a * b div SCALE"
  by (simp add: pos_imp_zdiv_nonneg_iff)

lemma mul_floor_mono: "a * b \<le> c * d \<Longrightarrow> a * b div SCALE \<le> c * d div SCALE"
  by (simp add: zdiv_mono1)

lemma mul_floor_le_factor: "0 \<le> b \<Longrightarrow> 0 \<le> a \<Longrightarrow> a \<le> SCALE \<Longrightarrow> a * b div SCALE \<le> b"
  using mul_floor_mono [of a b SCALE b] by (simp add: mult_right_mono)

lemma mul_floor_add_scale: "(a + SCALE) * b div SCALE = a * b div SCALE + b"
  by (simp add: algebra_simps)

lemma quot_le_scale: "a \<le> b \<Longrightarrow> 0 < b \<Longrightarrow> a * SCALE div b \<le> SCALE"
  using zdiv_mono1 [of "a * SCALE" "b * SCALE" b] by (simp add: mult_right_mono)

lemma div_less_by_bound: "0 < k \<Longrightarrow> a < n * k \<Longrightarrow> a div k < (n :: int)"
  using quot_mult_le [of k a] by (meson le_less_trans mult_less_cancel_right_pos)

lemma floor_sum: "0 < k \<Longrightarrow> a div k + b div k \<le> (a + b) div (k :: int)"
  "0 < k \<Longrightarrow> (a + b) div k \<le> a div k + b div (k :: int) + 1"
proof -
  assume k: "0 < k"
  have "(a + b) div k = a div k + b div k + (a mod k + b mod k) div k"
    by (rule div_add1_eq)
  moreover have "0 \<le> (a mod k + b mod k) div k"
    using k by (simp add: pos_imp_zdiv_nonneg_iff)
  moreover have "(a mod k + b mod k) div k < 2"
    using pos_mod_bound [OF k, of a] pos_mod_bound [OF k, of b]
    by (intro div_less_by_bound [OF k]) simp
  ultimately show "a div k + b div k \<le> (a + b) div k" "(a + b) div k \<le> a div k + b div k + 1"
    by simp_all
qed

text \<open>
  Turning shares into an amount and the amount back into shares never gains shares: both
  roundings go down.
\<close>

lemma shares_round_trip_le:
  assumes "0 \<le> s" and "0 < v"
  shows "(s * v div SCALE) * SCALE div v \<le> s"
proof -
  have "(s * v div SCALE) * SCALE div v \<le> s * v div v"
    by (rule zdiv_mono1) (use assms in \<open>simp_all add: mul_floor_le\<close>)
  with assms show ?thesis by simp
qed

lemma quot_le_self: "0 \<le> a \<Longrightarrow> 0 < k \<Longrightarrow> a div k \<le> (a :: int)"
  using quot_mult_le [of k a] by (metis div_by_1 int_one_le_iff_zero_less zdiv_mono2 zero_less_one)

text \<open>Dividing in two steps around a multiplication loses at most one unit.\<close>

lemma two_step_quot:
  fixes k n s m :: int
  assumes "0 < k" and "0 < n" and "0 \<le> s" and "s \<le> n"
  shows "m div k * s div n \<le> m * s div (k * n)" and "m * s div (k * n) \<le> m div k * s div n + 1"
proof -
  have eq: "m * s div (k * n) = m * s div k div n"
    using assms by (simp add: zdiv_zmult2_eq)
  have lo: "m div k * s \<le> m * s div k"
    using zdiv_mono1 [OF mult_right_mono [OF quot_mult_le [of k m], of s], of k] assms
    by (simp add: ac_simps)
  have "m * s div k \<le> m div k * s + s"
    using zdiv_mono1 [OF mult_right_mono [OF le_quot_mult [of k m], of s], of k] assms
    by (simp add: algebra_simps)
  then have hi: "m * s div k \<le> m div k * s + n"
    using assms by simp
  show "m div k * s div n \<le> m * s div (k * n)"
    unfolding eq by (rule zdiv_mono1 [OF lo assms(2)])
  show "m * s div (k * n) \<le> m div k * s div n + 1"
    using zdiv_mono1 [OF hi assms(2)] div_add_self2 [of n "m div k * s"] assms(2) by (simp add: eq)
qed

text \<open>\<^verbatim>\<open>I80F48::ZERO\<close> and \<^verbatim>\<open>I80F48::ONE\<close>.\<close>

definition ZERO :: i80f48 where
  "ZERO = 0"

definition ONE :: i80f48 where
  "ONE = 2 ^ 48"

section \<open>The operations of the crate\<close>

record fixed_ops =
  checked_add :: "i80f48 \<Rightarrow> i80f48 \<Rightarrow> i80f48 option"
  checked_sub :: "i80f48 \<Rightarrow> i80f48 \<Rightarrow> i80f48 option"
  checked_mul :: "i80f48 \<Rightarrow> i80f48 \<Rightarrow> i80f48 option"
  checked_div :: "i80f48 \<Rightarrow> i80f48 \<Rightarrow> i80f48 option"
  checked_neg :: "i80f48 \<Rightarrow> i80f48 option"
  checked_abs :: "i80f48 \<Rightarrow> i80f48 option"
  saturating_add :: "i80f48 \<Rightarrow> i80f48 \<Rightarrow> i80f48"
  saturating_sub :: "i80f48 \<Rightarrow> i80f48 \<Rightarrow> i80f48"
  checked_floor :: "i80f48 \<Rightarrow> i80f48 option"
  checked_ceil :: "i80f48 \<Rightarrow> i80f48 option"
  int_part :: "i80f48 \<Rightarrow> i80f48"
  frac_part :: "i80f48 \<Rightarrow> i80f48"
  checked_from_int :: "int \<Rightarrow> i80f48 option"
  checked_to_u64 :: "i80f48 \<Rightarrow> u64 option"

text \<open>
  The operators \<^verbatim>\<open>+\<close>, \<^verbatim>\<open>-\<close> and unary \<^verbatim>\<open>-\<close> are the checked operations with a panic on
  overflow. \<^verbatim>\<open>from_num\<close> is specified only for an integer that the format can hold.
\<close>

definition op_add :: "fixed_ops \<Rightarrow> i80f48 \<Rightarrow> i80f48 \<Rightarrow> i80f48 result" where
  "op_add fx a b = unwrap (checked_add fx a b)"

definition op_sub :: "fixed_ops \<Rightarrow> i80f48 \<Rightarrow> i80f48 \<Rightarrow> i80f48 result" where
  "op_sub fx a b = unwrap (checked_sub fx a b)"

definition op_neg :: "fixed_ops \<Rightarrow> i80f48 \<Rightarrow> i80f48 result" where
  "op_neg fx a = unwrap (checked_neg fx a)"

definition from_num :: "fixed_ops \<Rightarrow> int \<Rightarrow> i80f48 result" where
  "from_num fx n = unwrap (checked_from_int fx n)"

abbreviation from_u64 :: "fixed_ops \<Rightarrow> u64 \<Rightarrow> i80f48 result" where
  "from_u64 fx n \<equiv> from_num fx (uint n)"

section \<open>What the program relies on\<close>

named_theorems fixed_simps \<open>the laws of the arithmetic interface, as equations\<close>

locale fixed_point =
  fixes fx :: fixed_ops
  assumes add_law [fixed_simps]: "checked_add fx a b = fit (a + b)"
    and sub_law [fixed_simps]: "checked_sub fx a b = fit (a - b)"
    and mul_law [fixed_simps]: "checked_mul fx a b = fit (a * b div SCALE)"
    and div_law [fixed_simps]: "checked_div fx a b = (if b = 0 then None else fit (trunc_div (a * SCALE) b))"
    and neg_law [fixed_simps]: "checked_neg fx a = fit (- a)"
    and abs_law [fixed_simps]: "checked_abs fx a = fit \<bar>a\<bar>"
    and saturating_add_law [fixed_simps]: "saturating_add fx a b = max (- (2 ^ 127)) (min (2 ^ 127 - 1) (a + b))"
    and saturating_sub_law [fixed_simps]: "saturating_sub fx a b = max (- (2 ^ 127)) (min (2 ^ 127 - 1) (a - b))"
    and floor_law [fixed_simps]: "checked_floor fx a = fit (a div SCALE * SCALE)"
    and ceil_law [fixed_simps]: "checked_ceil fx a = fit (- (- a div SCALE) * SCALE)"
    and int_law [fixed_simps]: "int_part fx a = a div SCALE * SCALE"
    and frac_law [fixed_simps]: "frac_part fx a = a mod SCALE"
    and from_int_law: "fits (n * SCALE) \<Longrightarrow> checked_from_int fx n = Some (n * SCALE)"
    and to_u64_law [fixed_simps]: "checked_to_u64 fx a =
      (if 0 \<le> a div SCALE \<and> a div SCALE < 2 ^ 64 then Some (word_of_int (a div SCALE)) else None)"

section \<open>The operations on the representation\<close>

definition i80f48_ref :: fixed_ops where
  "i80f48_ref = \<lparr>
     checked_add = (\<lambda>a b. fit (a + b)),
     checked_sub = (\<lambda>a b. fit (a - b)),
     checked_mul = (\<lambda>a b. fit (a * b div SCALE)),
     checked_div = (\<lambda>a b. if b = 0 then None else fit (trunc_div (a * SCALE) b)),
     checked_neg = (\<lambda>a. fit (- a)),
     checked_abs = (\<lambda>a. fit \<bar>a\<bar>),
     saturating_add = (\<lambda>a b. max (- (2 ^ 127)) (min (2 ^ 127 - 1) (a + b))),
     saturating_sub = (\<lambda>a b. max (- (2 ^ 127)) (min (2 ^ 127 - 1) (a - b))),
     checked_floor = (\<lambda>a. fit (a div SCALE * SCALE)),
     checked_ceil = (\<lambda>a. fit (- (- a div SCALE) * SCALE)),
     int_part = (\<lambda>a. a div SCALE * SCALE),
     frac_part = (\<lambda>a. a mod SCALE),
     checked_from_int = (\<lambda>n. fit (n * SCALE)),
     checked_to_u64 = (\<lambda>a. if 0 \<le> a div SCALE \<and> a div SCALE < 2 ^ 64
       then Some (word_of_int (a div SCALE)) else None) \<rparr>"

interpretation reference: fixed_point i80f48_ref
  by unfold_locales (simp_all add: i80f48_ref_def)

section \<open>Constants\<close>

text \<open>
  A literal \<^verbatim>\<open>I80F48!(d)\<close> is the representation nearest to \<open>d * 2^48\<close>.
\<close>

definition LIQUIDATION_LIQUIDATOR_FEE :: i80f48 where
  "LIQUIDATION_LIQUIDATOR_FEE = 7036874417766"

definition LIQUIDATION_INSURANCE_FEE :: i80f48 where
  "LIQUIDATION_INSURANCE_FEE = 7036874417766"

definition SECONDS_PER_YEAR :: i80f48 where
  "SECONDS_PER_YEAR = 31536000 * 2 ^ 48"

definition MAX_PYTH_ORACLE_AGE :: u64 where
  "MAX_PYTH_ORACLE_AGE = 60"

definition MAX_SWB_ORACLE_AGE :: u64 where
  "MAX_SWB_ORACLE_AGE = 180"

definition CONF_INTERVAL_MULTIPLE :: i80f48 where
  "CONF_INTERVAL_MULTIPLE = 596726950626591"

definition STD_DEV_MULTIPLE :: i80f48 where
  "STD_DEV_MULTIPLE = 551690954352886"

definition MAX_CONF_INTERVAL :: i80f48 where
  "MAX_CONF_INTERVAL = 14073748835533"

definition EMPTY_BALANCE_THRESHOLD :: i80f48 where
  "EMPTY_BALANCE_THRESHOLD = 2 ^ 48"

definition BANKRUPT_THRESHOLD :: i80f48 where
  "BANKRUPT_THRESHOLD = 28147497671066"

definition ZERO_AMOUNT_THRESHOLD :: i80f48 where
  "ZERO_AMOUNT_THRESHOLD = 28147497671"

definition MIN_EMISSIONS_START_TIME :: u64 where
  "MIN_EMISSIONS_START_TIME = 1681989983"

text \<open>The powers of ten, with the length the arrays have in the source.\<close>

definition EXP_10_I80F48 :: "i80f48 list" where
  "EXP_10_I80F48 = map (\<lambda>n. 10 ^ n * SCALE) [0 ..< 24]"

definition EXP_10 :: "int list" where
  "EXP_10 = map (\<lambda>n. 10 ^ n) [0 ..< 21]"

section \<open>Helpers of utils.rs\<close>

lemma ONE_SCALE: "ONE = SCALE"
  by (simp add: ONE_def SCALE_def)

lemma uint_u64_fits [simp]: "fits (uint (n :: u64) * SCALE)"
  using uint_bounded [of n]
  by (auto simp: fits_def SCALE_def intro: order_trans [OF _ uint_nonnegative])

context fixed_point
begin

text \<open>The laws of the panicking operators, and that every \<^verbatim>\<open>u64\<close> converts.\<close>

lemma op_laws [fixed_simps]:
  "op_add fx a b = unwrap (fit (a + b))"
  "op_sub fx a b = unwrap (fit (a - b))"
  "op_neg fx a = unwrap (fit (- a))"
  by (simp_all add: op_add_def op_sub_def op_neg_def fixed_simps)

lemma from_num_fits: "fits (n * SCALE) \<Longrightarrow> from_num fx n = Ok (n * SCALE)"
  by (simp add: from_num_def from_int_law)

lemma from_u64_law [simp]: "from_u64 fx n = Ok (uint n * SCALE)"
  by (simp add: from_num_fits)

end

definition is_zero_with_tolerance :: "fixed_ops \<Rightarrow> i80f48 \<Rightarrow> i80f48 \<Rightarrow> bool result" where
  "is_zero_with_tolerance fx x t = bind (unwrap (checked_abs fx x)) (\<lambda>a. Ok (a < t))"

definition is_positive_with_tolerance :: "i80f48 \<Rightarrow> i80f48 \<Rightarrow> bool" where
  "is_positive_with_tolerance x t \<longleftrightarrow> t < x"

end
