(* ===== verification/Group_State.thy ===== *)
theory Group_State
  imports Fixed_Point
begin

text \<open>
  The marginfi group and the program-wide fee state: \<^verbatim>\<open>MarginfiGroup\<close> and \<^verbatim>\<open>FeeStateCache\<close> of
  \<^verbatim>\<open>state/marginfi_group.rs\<close>, \<^verbatim>\<open>FeeState\<close> of \<^verbatim>\<open>state/fee_state.rs\<close>, and their setters.
  Padding fields are left out. A \<^verbatim>\<open>WrappedI80F48\<close> is the value it wraps.
\<close>

section \<open>State\<close>

record fee_state_cache =
  fsc_global_fee_wallet :: pubkey
  fsc_program_fee_fixed :: i80f48
  fsc_program_fee_rate :: i80f48

record marginfi_group =
  grp_admin :: pubkey
  group_flags :: u64
  grp_fee_state_cache :: fee_state_cache

record fee_state =
  fst_key :: pubkey
  global_fee_admin :: pubkey
  global_fee_wallet :: pubkey
  bank_init_flat_sol_fee :: u32
  fst_bump_seed :: u8
  program_fee_fixed :: i80f48
  program_fee_rate :: i80f48

record group_config =
  gcfg_admin :: "pubkey option"

record group_bank_config =
  gbc_program_fees :: bool

section \<open>Operations\<close>

definition PROGRAM_FEES_ENABLED :: u64 where
  "PROGRAM_FEES_ENABLED = 1"

definition ALLOWED_FLAGS :: u64 where
  "ALLOWED_FLAGS = PROGRAM_FEES_ENABLED"

definition group_configure :: "marginfi_group \<Rightarrow> group_config \<Rightarrow> marginfi_group" where
  "group_configure g cfg = g\<lparr>grp_admin := set_if_some (grp_admin g) (gcfg_admin cfg)\<rparr>"

definition set_initial_configuration :: "marginfi_group \<Rightarrow> pubkey \<Rightarrow> marginfi_group" where
  "set_initial_configuration g admin_pk = g\<lparr>grp_admin := admin_pk, group_flags := PROGRAM_FEES_ENABLED\<rparr>"

definition get_group_bank_config :: "marginfi_group \<Rightarrow> group_bank_config" where
  "get_group_bank_config g = \<lparr>gbc_program_fees = (group_flags g = PROGRAM_FEES_ENABLED)\<rparr>"

definition validate_flags :: "u64 \<Rightarrow> unit result" where
  "validate_flags flag = check (flag AND NOT ALLOWED_FLAGS = 0) IllegalFlag"

definition set_flags :: "marginfi_group \<Rightarrow> u64 \<Rightarrow> marginfi_group result" where
  "set_flags g flag = bind (validate_flags flag) (\<lambda>_. Ok (g\<lparr>group_flags := flag\<rparr>))"

definition program_fees_enabled :: "marginfi_group \<Rightarrow> bool" where
  "program_fees_enabled g \<longleftrightarrow> group_flags g AND PROGRAM_FEES_ENABLED \<noteq> 0"

text \<open>The part of \<^verbatim>\<open>propagate_fee\<close> and \<^verbatim>\<open>initialize_group\<close> that copies the fee state.\<close>

definition cache_fee_state :: "marginfi_group \<Rightarrow> fee_state \<Rightarrow> marginfi_group" where
  "cache_fee_state g fs = g\<lparr>grp_fee_state_cache :=
     \<lparr>fsc_global_fee_wallet = global_fee_wallet fs,
      fsc_program_fee_fixed = program_fee_fixed fs,
      fsc_program_fee_rate = program_fee_rate fs\<rparr>\<rparr>"

section \<open>Flags\<close>

text \<open>Only bit 0 passes the mask.\<close>

lemma and_not_one_eq_0_iff: "(flag :: 'a::len word) AND NOT 1 = 0 \<longleftrightarrow> flag = 0 \<or> flag = 1"
proof
  assume "flag AND NOT 1 = 0"
  then have "bit flag n \<Longrightarrow> n = 0" for n
    using and_not_zeroD [of flag 1 n] by (simp add: bit_1_iff)
  then show "flag = 0 \<or> flag = 1"
    by (cases "bit flag 0") (auto intro!: bit_eqI simp: bit_1_iff)
qed auto

lemma validate_flags_Ok_iff: "validate_flags flag = Ok () \<longleftrightarrow> flag = 0 \<or> flag = PROGRAM_FEES_ENABLED"
  unfolding validate_flags_def ALLOWED_FLAGS_def PROGRAM_FEES_ENABLED_def check_Ok_iff
  by (rule and_not_one_eq_0_iff)

section \<open>Properties\<close>

text \<open>
  C35. The two readings of the group's fee flag agree. \<^verbatim>\<open>get_group_bank_config\<close> compares the
  whole word with the flag and \<^verbatim>\<open>program_fees_enabled\<close> tests the bit; after the only setters
  of the word, the initial configuration and an accepted \<^verbatim>\<open>set_flags\<close>, they give the same
  answer, and \<^verbatim>\<open>set_flags\<close> accepts exactly the words with no other bit.
\<close>

theorem group_flag_readings_agree:
  "gbc_program_fees (get_group_bank_config (set_initial_configuration g admin)) \<and>
   program_fees_enabled (set_initial_configuration g admin) \<and>
   (case set_flags g flag of
      Inr g' \<Rightarrow> flag \<in> {0, PROGRAM_FEES_ENABLED} \<and> g' = g\<lparr>group_flags := flag\<rparr> \<and>
        gbc_program_fees (get_group_bank_config g') = program_fees_enabled g'
    | Inl e \<Rightarrow> e = Mfi IllegalFlag \<and> flag \<notin> {0, PROGRAM_FEES_ENABLED})"
proof (cases "validate_flags flag")
  case (Inl e)
  then have "e = Mfi IllegalFlag"
    by (simp add: validate_flags_def check_def split: if_splits)
  moreover have "flag \<notin> {0, PROGRAM_FEES_ENABLED}"
    using Inl validate_flags_Ok_iff [of flag] by auto
  ultimately show ?thesis
    using Inl by (simp add: set_flags_def set_initial_configuration_def get_group_bank_config_def
        program_fees_enabled_def PROGRAM_FEES_ENABLED_def)
next
  case (Inr u)
  then have "flag = 0 \<or> flag = PROGRAM_FEES_ENABLED"
    using validate_flags_Ok_iff [of flag] by simp
  then show ?thesis
    using Inr by (auto simp: set_flags_def set_initial_configuration_def get_group_bank_config_def
        program_fees_enabled_def PROGRAM_FEES_ENABLED_def)
qed

end
