(* ===== verification/Interest_Rate.thy ===== *)
theory Interest_Rate
  imports Group_State
begin

text \<open>
  The interest rate model of \<^verbatim>\<open>state/marginfi_group.rs\<close>: the bank's rate configuration and its
  validation and update, the calculator with its piecewise linear curve and fees, and the
  per-period accrual. A function that returns a Rust \<^verbatim>\<open>Option\<close> and may also panic returns
  \<open>'a option result\<close>.
\<close>

section \<open>Sequencing of optional results\<close>

definition obind :: "'a option result \<Rightarrow> ('a \<Rightarrow> 'b option result) \<Rightarrow> 'b option result" where
  "obind m f = bind m (\<lambda>v. case v of None \<Rightarrow> Ok None | Some x \<Rightarrow> f x)"

lemma obind_simps [simp]:
  "obind (Inr (Some x)) f = f x"
  "obind (Inr None) f = Inr None"
  "obind (Inl e) f = Inl e"
  by (simp_all add: obind_def)

lemma obind_Some_iff [run_iff]:
  "obind m f = Inr (Some y) \<longleftrightarrow> (\<exists>x. m = Inr (Some x) \<and> f x = Inr (Some y))"
  by (cases m) (auto simp: obind_def split: option.splits)

section \<open>Configuration\<close>

record interest_rate_config =
  optimal_utilization_rate :: i80f48
  plateau_interest_rate :: i80f48
  max_interest_rate :: i80f48
  insurance_fee_fixed_apr :: i80f48
  insurance_ir_fee :: i80f48
  protocol_fixed_fee_apr :: i80f48
  protocol_ir_fee :: i80f48
  protocol_origination_fee :: i80f48

record interest_rate_config_compact =
  cmp_optimal_utilization_rate :: i80f48
  cmp_plateau_interest_rate :: i80f48
  cmp_max_interest_rate :: i80f48
  cmp_insurance_fee_fixed_apr :: i80f48
  cmp_insurance_ir_fee :: i80f48
  cmp_protocol_fixed_fee_apr :: i80f48
  cmp_protocol_ir_fee :: i80f48
  cmp_protocol_origination_fee :: i80f48

record interest_rate_config_opt =
  opt_optimal_utilization_rate :: "i80f48 option"
  opt_plateau_interest_rate :: "i80f48 option"
  opt_max_interest_rate :: "i80f48 option"
  opt_insurance_fee_fixed_apr :: "i80f48 option"
  opt_insurance_ir_fee :: "i80f48 option"
  opt_protocol_fixed_fee_apr :: "i80f48 option"
  opt_protocol_ir_fee :: "i80f48 option"
  opt_protocol_origination_fee :: "i80f48 option"

definition ir_config_from_compact :: "interest_rate_config_compact \<Rightarrow> interest_rate_config" where
  "ir_config_from_compact c = \<lparr>
     optimal_utilization_rate = cmp_optimal_utilization_rate c,
     plateau_interest_rate = cmp_plateau_interest_rate c,
     max_interest_rate = cmp_max_interest_rate c,
     insurance_fee_fixed_apr = cmp_insurance_fee_fixed_apr c,
     insurance_ir_fee = cmp_insurance_ir_fee c,
     protocol_fixed_fee_apr = cmp_protocol_fixed_fee_apr c,
     protocol_ir_fee = cmp_protocol_ir_fee c,
     protocol_origination_fee = cmp_protocol_origination_fee c\<rparr>"

definition ir_config_to_compact :: "interest_rate_config \<Rightarrow> interest_rate_config_compact" where
  "ir_config_to_compact c = \<lparr>
     cmp_optimal_utilization_rate = optimal_utilization_rate c,
     cmp_plateau_interest_rate = plateau_interest_rate c,
     cmp_max_interest_rate = max_interest_rate c,
     cmp_insurance_fee_fixed_apr = insurance_fee_fixed_apr c,
     cmp_insurance_ir_fee = insurance_ir_fee c,
     cmp_protocol_fixed_fee_apr = protocol_fixed_fee_apr c,
     cmp_protocol_ir_fee = protocol_ir_fee c,
     cmp_protocol_origination_fee = protocol_origination_fee c\<rparr>"

definition ir_config_validate :: "interest_rate_config \<Rightarrow> unit result" where
  "ir_config_validate c =
     (let optimal_ur = optimal_utilization_rate c;
          plateau_ir = plateau_interest_rate c;
          max_ir = max_interest_rate c in
      bind (check (ZERO < optimal_ur \<and> optimal_ur < ONE) InvalidConfig) (\<lambda>_.
      bind (check (ZERO < plateau_ir) InvalidConfig) (\<lambda>_.
      bind (check (ZERO < max_ir) InvalidConfig) (\<lambda>_.
      bind (check (plateau_ir < max_ir) InvalidConfig) (\<lambda>_.
      Ok ())))))"

definition ir_config_update :: "interest_rate_config \<Rightarrow> interest_rate_config_opt \<Rightarrow> interest_rate_config" where
  "ir_config_update c o' = c\<lparr>
     optimal_utilization_rate := set_if_some (optimal_utilization_rate c) (opt_optimal_utilization_rate o'),
     plateau_interest_rate := set_if_some (plateau_interest_rate c) (opt_plateau_interest_rate o'),
     max_interest_rate := set_if_some (max_interest_rate c) (opt_max_interest_rate o'),
     insurance_fee_fixed_apr := set_if_some (insurance_fee_fixed_apr c) (opt_insurance_fee_fixed_apr o'),
     insurance_ir_fee := set_if_some (insurance_ir_fee c) (opt_insurance_ir_fee o'),
     protocol_fixed_fee_apr := set_if_some (protocol_fixed_fee_apr c) (opt_protocol_fixed_fee_apr o'),
     protocol_ir_fee := set_if_some (protocol_ir_fee c) (opt_protocol_ir_fee o')\<rparr>"

section \<open>Calculator\<close>

record interest_rate_calc =
  calc_optimal_utilization_rate :: i80f48
  calc_plateau_interest_rate :: i80f48
  calc_max_interest_rate :: i80f48
  calc_insurance_fixed_fee :: i80f48
  calc_insurance_rate_fee :: i80f48
  calc_protocol_fixed_fee :: i80f48
  calc_protocol_rate_fee :: i80f48
  calc_program_fee_fixed :: i80f48
  calc_program_fee_rate :: i80f48
  calc_add_program_fees :: bool

record fees =
  insurance_fee_rate :: i80f48
  insurance_fee_fixed :: i80f48
  group_fee_rate :: i80f48
  group_fee_fixed :: i80f48
  protocol_fee_rate :: i80f48
  protocol_fee_fixed :: i80f48

record computed_interest_rates =
  lending_rate_apr :: i80f48
  borrowing_rate_apr :: i80f48
  group_fee_apr :: i80f48
  insurance_fee_apr :: i80f48
  protocol_fee_apr :: i80f48

record interest_rate_state_changes =
  new_asset_share_value :: i80f48
  new_liability_share_value :: i80f48
  insurance_fees_collected :: i80f48
  group_fees_collected :: i80f48
  protocol_fees_collected :: i80f48

definition create_interest_rate_calculator ::
    "interest_rate_config \<Rightarrow> marginfi_group \<Rightarrow> interest_rate_calc" where
  "create_interest_rate_calculator c g = \<lparr>
     calc_optimal_utilization_rate = optimal_utilization_rate c,
     calc_plateau_interest_rate = plateau_interest_rate c,
     calc_max_interest_rate = max_interest_rate c,
     calc_insurance_fixed_fee = insurance_fee_fixed_apr c,
     calc_insurance_rate_fee = insurance_ir_fee c,
     calc_protocol_fixed_fee = protocol_fixed_fee_apr c,
     calc_protocol_rate_fee = protocol_ir_fee c,
     calc_program_fee_fixed = fsc_program_fee_fixed (grp_fee_state_cache g),
     calc_program_fee_rate = fsc_program_fee_rate (grp_fee_state_cache g),
     calc_add_program_fees = gbc_program_fees (get_group_bank_config g)\<rparr>"

definition get_fees :: "interest_rate_calc \<Rightarrow> fees" where
  "get_fees c =
     (let (rate, fixed) = (if calc_add_program_fees c
        then (calc_program_fee_rate c, calc_program_fee_fixed c) else (ZERO, ZERO)) in
      \<lparr>insurance_fee_rate = calc_insurance_rate_fee c,
       insurance_fee_fixed = calc_insurance_fixed_fee c,
       group_fee_rate = calc_protocol_rate_fee c,
       group_fee_fixed = calc_protocol_fixed_fee c,
       protocol_fee_rate = rate,
       protocol_fee_fixed = fixed\<rparr>)"

definition interest_rate_curve :: "fixed_ops \<Rightarrow> interest_rate_calc \<Rightarrow> i80f48 \<Rightarrow> i80f48 option result" where
  "interest_rate_curve fx c ur =
     (let optimal_ur = calc_optimal_utilization_rate c;
          plateau_ir = calc_plateau_interest_rate c;
          max_ir = calc_max_interest_rate c in
      if ur \<le> optimal_ur
      then obind (Ok (checked_div fx ur optimal_ur)) (\<lambda>q.
           Ok (checked_mul fx q plateau_ir))
      else bind (op_sub fx ur optimal_ur) (\<lambda>over.
           bind (op_sub fx ONE optimal_ur) (\<lambda>rest.
           obind (Ok (checked_div fx over rest)) (\<lambda>q.
           bind (op_sub fx max_ir plateau_ir) (\<lambda>rise.
           obind (Ok (checked_mul fx q rise)) (\<lambda>r.
           Ok (checked_add fx r plateau_ir)))))))"

definition calc_fee_rate :: "fixed_ops \<Rightarrow> i80f48 \<Rightarrow> i80f48 \<Rightarrow> i80f48 \<Rightarrow> i80f48 option" where
  "calc_fee_rate fx base_rate rate_fees fixed_fees =
     (if rate_fees = ZERO then Some fixed_fees
      else Option.bind (checked_mul fx base_rate rate_fees) (\<lambda>r. checked_add fx r fixed_fees))"

definition calc_interest_rate ::
    "fixed_ops \<Rightarrow> interest_rate_calc \<Rightarrow> i80f48 \<Rightarrow> computed_interest_rates option result" where
  "calc_interest_rate fx c utilization_ratio =
     (let f = get_fees c in
      bind (op_add fx (insurance_fee_rate f) (group_fee_rate f)) (\<lambda>ir.
      bind (op_add fx ir (protocol_fee_rate f)) (\<lambda>fee_ir.
      bind (op_add fx (insurance_fee_fixed f) (group_fee_fixed f)) (\<lambda>fixed.
      bind (op_add fx fixed (protocol_fee_fixed f)) (\<lambda>fee_fixed.
      obind (interest_rate_curve fx c utilization_ratio) (\<lambda>base_rate.
      obind (Ok (checked_mul fx base_rate utilization_ratio)) (\<lambda>lending.
      obind (Ok (checked_add fx ONE fee_ir)) (\<lambda>factor.
      obind (Ok (checked_mul fx base_rate factor)) (\<lambda>scaled.
      obind (Ok (checked_add fx scaled fee_fixed)) (\<lambda>borrowing.
      obind (Ok (calc_fee_rate fx base_rate (group_fee_rate f) (group_fee_fixed f))) (\<lambda>group_fee.
      obind (Ok (calc_fee_rate fx base_rate (insurance_fee_rate f) (insurance_fee_fixed f))) (\<lambda>insurance_fee.
      obind (Ok (calc_fee_rate fx base_rate (protocol_fee_rate f) (protocol_fee_fixed f))) (\<lambda>protocol_fee.
      bind (assert_that (ZERO \<le> lending)) (\<lambda>_.
      bind (assert_that (ZERO \<le> borrowing)) (\<lambda>_.
      bind (assert_that (ZERO \<le> group_fee)) (\<lambda>_.
      bind (assert_that (ZERO \<le> insurance_fee)) (\<lambda>_.
      bind (assert_that (ZERO \<le> protocol_fee)) (\<lambda>_.
      Ok (Some \<lparr>lending_rate_apr = lending, borrowing_rate_apr = borrowing,
                group_fee_apr = group_fee, insurance_fee_apr = insurance_fee,
                protocol_fee_apr = protocol_fee\<rparr>)))))))))))))))))))"

section \<open>Accrual over a period\<close>

definition calc_accrued_interest_payment_per_period ::
    "fixed_ops \<Rightarrow> i80f48 \<Rightarrow> u64 \<Rightarrow> i80f48 \<Rightarrow> i80f48 option result" where
  "calc_accrued_interest_payment_per_period fx apr time_delta value =
     (bind (from_u64 fx time_delta) (\<lambda>t.
      obind (Ok (checked_mul fx apr t)) (\<lambda>r.
      obind (Ok (checked_div fx r SECONDS_PER_YEAR)) (\<lambda>ir_per_period.
      obind (Ok (checked_add fx ONE ir_per_period)) (\<lambda>factor.
      Ok (checked_mul fx value factor))))))"

definition calc_interest_payment_for_period ::
    "fixed_ops \<Rightarrow> i80f48 \<Rightarrow> u64 \<Rightarrow> i80f48 \<Rightarrow> i80f48 option result" where
  "calc_interest_payment_for_period fx apr time_delta value =
     (if apr = ZERO then Ok (Some ZERO)
      else obind (Ok (checked_mul fx value apr)) (\<lambda>p.
           bind (from_u64 fx time_delta) (\<lambda>t.
           obind (Ok (checked_mul fx p t)) (\<lambda>q.
           Ok (checked_div fx q SECONDS_PER_YEAR)))))"

definition calc_interest_rate_accrual_state_changes ::
    "fixed_ops \<Rightarrow> u64 \<Rightarrow> i80f48 \<Rightarrow> i80f48 \<Rightarrow> interest_rate_calc \<Rightarrow> i80f48 \<Rightarrow> i80f48 \<Rightarrow>
     interest_rate_state_changes option result" where
  "calc_interest_rate_accrual_state_changes fx time_delta total_assets_amount
       total_liabilities_amount calc asset_share_value liability_share_value =
     (obind (Ok (checked_div fx total_liabilities_amount total_assets_amount)) (\<lambda>utilization_rate.
      obind (calc_interest_rate fx calc utilization_rate) (\<lambda>rates.
      obind (calc_accrued_interest_payment_per_period fx (lending_rate_apr rates) time_delta
               asset_share_value) (\<lambda>assets'.
      obind (calc_accrued_interest_payment_per_period fx (borrowing_rate_apr rates) time_delta
               liability_share_value) (\<lambda>liabs'.
      obind (calc_interest_payment_for_period fx (insurance_fee_apr rates) time_delta
               total_liabilities_amount) (\<lambda>insurance.
      obind (calc_interest_payment_for_period fx (group_fee_apr rates) time_delta
               total_liabilities_amount) (\<lambda>group'.
      obind (calc_interest_payment_for_period fx (protocol_fee_apr rates) time_delta
               total_liabilities_amount) (\<lambda>protocol.
      Ok (Some \<lparr>new_asset_share_value = assets', new_liability_share_value = liabs',
                insurance_fees_collected = insurance, group_fees_collected = group',
                protocol_fees_collected = protocol\<rparr>)))))))))"

section \<open>Well-formed calculators\<close>

text \<open>
  What \<^verbatim>\<open>validate\<close> establishes of the curve, and what the fees have to satisfy for the
  assertions of \<^verbatim>\<open>calc_interest_rate\<close> to hold.
\<close>

definition curve_ok :: "interest_rate_calc \<Rightarrow> bool" where
  "curve_ok c \<longleftrightarrow> 0 < calc_optimal_utilization_rate c \<and> calc_optimal_utilization_rate c < SCALE
     \<and> 0 < calc_plateau_interest_rate c \<and> calc_plateau_interest_rate c < calc_max_interest_rate c"

definition fees_ok :: "fees \<Rightarrow> bool" where
  "fees_ok f \<longleftrightarrow> 0 \<le> insurance_fee_rate f \<and> 0 \<le> insurance_fee_fixed f
     \<and> 0 \<le> group_fee_rate f \<and> 0 \<le> group_fee_fixed f
     \<and> 0 \<le> protocol_fee_rate f \<and> 0 \<le> protocol_fee_fixed f"

lemma ir_config_validate_Ok_iff [run_iff]:
  "ir_config_validate c = Ok () \<longleftrightarrow>
     0 < optimal_utilization_rate c \<and> optimal_utilization_rate c < SCALE
     \<and> 0 < plateau_interest_rate c \<and> plateau_interest_rate c < max_interest_rate c"
  by (auto simp: ir_config_validate_def run_iff ZERO_def ONE_SCALE Let_def)

lemma curve_ok_create:
  "ir_config_validate c = Ok () \<Longrightarrow> curve_ok (create_interest_rate_calculator c g)"
  by (simp add: curve_ok_def create_interest_rate_calculator_def run_iff)


section \<open>The curve\<close>

text \<open>The curve on representations, without the overflow checks.\<close>

definition curve_value :: "interest_rate_calc \<Rightarrow> i80f48 \<Rightarrow> i80f48" where
  "curve_value c ur =
     (let opt = calc_optimal_utilization_rate c;
          plateau = calc_plateau_interest_rate c;
          top = calc_max_interest_rate c in
      if ur \<le> opt then (ur * SCALE div opt) * plateau div SCALE
      else ((ur - opt) * SCALE div (SCALE - opt)) * (top - plateau) div SCALE + plateau)"

lemma curve_value_low:
  assumes "curve_ok c" and "0 \<le> ur" and "ur \<le> calc_optimal_utilization_rate c"
  shows "0 \<le> curve_value c ur" and "curve_value c ur \<le> calc_plateau_interest_rate c"
proof -
  have "0 \<le> ur * SCALE div calc_optimal_utilization_rate c"
    using assms by (simp add: curve_ok_def pos_imp_zdiv_nonneg_iff)
  moreover have "ur * SCALE div calc_optimal_utilization_rate c \<le> SCALE"
    using assms by (simp add: curve_ok_def quot_le_scale)
  ultimately show "0 \<le> curve_value c ur" "curve_value c ur \<le> calc_plateau_interest_rate c"
    using assms by (simp_all add: curve_value_def curve_ok_def Let_def mul_floor_le_factor)
qed

lemma curve_value_high:
  assumes "curve_ok c" and "calc_optimal_utilization_rate c < ur"
  shows "calc_plateau_interest_rate c \<le> curve_value c ur"
    and "ur \<le> SCALE \<Longrightarrow> curve_value c ur \<le> calc_max_interest_rate c"
proof -
  let ?q = "(ur - calc_optimal_utilization_rate c) * SCALE div (SCALE - calc_optimal_utilization_rate c)"
  have q: "0 \<le> ?q"
    using assms by (simp add: curve_ok_def pos_imp_zdiv_nonneg_iff)
  then show "calc_plateau_interest_rate c \<le> curve_value c ur"
    using assms by (simp add: curve_value_def curve_ok_def Let_def)
  assume "ur \<le> SCALE"
  then have "?q \<le> SCALE"
    using assms by (simp add: curve_ok_def quot_le_scale)
  with q have "?q * (calc_max_interest_rate c - calc_plateau_interest_rate c) div SCALE
      \<le> calc_max_interest_rate c - calc_plateau_interest_rate c"
    using assms by (simp add: curve_ok_def mul_floor_le_factor)
  then show "curve_value c ur \<le> calc_max_interest_rate c"
    using assms by (simp add: curve_value_def Let_def)
qed

lemma curve_value_nonneg: "curve_ok c \<Longrightarrow> 0 \<le> ur \<Longrightarrow> 0 \<le> curve_value c ur"
  using curve_value_low(1) [of c ur] curve_value_high(1) [of c ur]
  by (cases "ur \<le> calc_optimal_utilization_rate c") (simp_all add: curve_ok_def)

lemma curve_value_corners:
  assumes "curve_ok c"
  shows "curve_value c 0 = 0"
    and "curve_value c (calc_optimal_utilization_rate c) = calc_plateau_interest_rate c"
    and "curve_value c SCALE = calc_max_interest_rate c"
  using assms by (simp_all add: curve_value_def curve_ok_def Let_def)

lemma curve_value_mono:
  assumes ok: "curve_ok c" and nonneg: "0 \<le> u" and le: "u \<le> v"
  shows "curve_value c u \<le> curve_value c v"
proof -
  let ?o = "calc_optimal_utilization_rate c"
  consider (low) "v \<le> ?o" | (mid) "u \<le> ?o" "?o < v" | (high) "?o < u"
    using le by linarith
  then show ?thesis
  proof cases
    case low
    then have "u * SCALE div ?o \<le> v * SCALE div ?o"
      using ok le by (simp add: curve_ok_def zdiv_mono1 mult_right_mono)
    with low ok le show ?thesis
      by (simp add: curve_value_def Let_def curve_ok_def mul_floor_mono mult_right_mono)
  next
    case mid
    then show ?thesis
      using curve_value_low(2) [OF ok nonneg] curve_value_high(1) [OF ok] by force
  next
    case high
    then have "(u - ?o) * SCALE div (SCALE - ?o) \<le> (v - ?o) * SCALE div (SCALE - ?o)"
      using ok le by (simp add: curve_ok_def zdiv_mono1 mult_right_mono)
    with high ok le show ?thesis
      by (simp add: curve_value_def Let_def curve_ok_def mul_floor_mono mult_right_mono)
  qed
qed

context fixed_point
begin

lemma interest_rate_curve_SomeD:
  assumes "curve_ok c" and "0 \<le> ur" and "interest_rate_curve fx c ur = Ok (Some r)"
  shows "r = curve_value c ur"
  using assms
  by (auto simp: interest_rate_curve_def curve_value_def curve_ok_def Let_def fixed_simps run_iff
      trunc_div_nonneg ONE_SCALE split: if_splits)

lemma interest_rate_curve_total:
  assumes ok: "curve_ok c" and ur: "0 \<le> ur" "ur \<le> SCALE" and top: "fits (calc_max_interest_rate c)"
  shows "interest_rate_curve fx c ur = Ok (Some (curve_value c ur))"
proof -
  let ?o = "calc_optimal_utilization_rate c" and ?p = "calc_plateau_interest_rate c"
    and ?m = "calc_max_interest_rate c"
  have scale: "fits SCALE"
    by (simp add: fits_def SCALE_def)
  have small: "fits x" if "0 \<le> x" "x \<le> ?m" for x
    using that top by (rule fits_nonneg_le)
  have unit: "fits x" if "0 \<le> x" "x \<le> SCALE" for x
    using that scale by (rule fits_nonneg_le)
  show ?thesis
  proof (cases "ur \<le> ?o")
    case True
    have q: "0 \<le> ur * SCALE div ?o" "ur * SCALE div ?o \<le> SCALE"
      using ok ur True by (simp_all add: curve_ok_def quot_le_scale pos_imp_zdiv_nonneg_iff)
    have "fits (curve_value c ur)"
      using curve_value_low [OF ok ur(1) True] ok by (intro small) (auto simp: curve_ok_def)
    with q True ok ur show ?thesis
      by (simp add: interest_rate_curve_def curve_value_def curve_ok_def Let_def fixed_simps
          trunc_div_nonneg unit)
  next
    case False
    let ?q = "(ur - ?o) * SCALE div (SCALE - ?o)"
    have q: "0 \<le> ?q" "?q \<le> SCALE"
      using ok ur False by (simp_all add: curve_ok_def quot_le_scale pos_imp_zdiv_nonneg_iff)
    have r: "0 \<le> ?q * (?m - ?p) div SCALE" "?q * (?m - ?p) div SCALE \<le> ?m - ?p"
      using ok q by (simp_all add: curve_ok_def mul_floor_le_factor)
    have "fits (?q * (?m - ?p) div SCALE)" "fits (?q * (?m - ?p) div SCALE + ?p)" "fits (?m - ?p)"
      using ok r by (auto simp: curve_ok_def intro!: small)
    moreover have "fits (ur - ?o)" "fits (SCALE - ?o)" "fits ?q"
      using ok ur False q by (auto simp: curve_ok_def intro!: unit)
    ultimately show ?thesis
      using ok ur False
      by (simp add: interest_rate_curve_def curve_value_def curve_ok_def Let_def fixed_simps
          trunc_div_nonneg ONE_SCALE)
  qed
qed

text \<open>Beyond full utilization the curve goes on with the same slope, as long as the numbers fit.\<close>

lemma interest_rate_curve_beyond:
  assumes ok: "curve_ok c" and ur: "calc_optimal_utilization_rate c < ur" "ur \<le> 2 ^ 64"
    and top: "calc_max_interest_rate c \<le> 2 ^ 64" and v: "curve_value c ur \<le> 2 ^ 64"
  shows "interest_rate_curve fx c ur = Ok (Some (curve_value c ur))"
proof -
  let ?o = "calc_optimal_utilization_rate c" and ?p = "calc_plateau_interest_rate c" and ?m = "calc_max_interest_rate c"
  let ?q = "(ur - ?o) * SCALE div (SCALE - ?o)"
  have o: "0 < ?o" "?o < SCALE" "0 < ?p" "?p < ?m" using ok by (auto simp: curve_ok_def)
  have small: "fits x" if "0 \<le> x" "x \<le> 2 ^ 112" for x
    using that by (simp add: fits_def)
  have "?q \<le> (ur - ?o) * SCALE div 1"
    using o ur by (intro zdiv_mono2) simp_all
  also have "\<dots> \<le> 2 ^ 64 * SCALE" using o ur by simp
  finally have q: "0 \<le> ?q" "?q \<le> 2 ^ 112"
    using o ur by (simp_all add: pos_imp_zdiv_nonneg_iff SCALE_def)
  have r: "0 \<le> ?q * (?m - ?p) div SCALE" "?q * (?m - ?p) div SCALE + ?p \<le> 2 ^ 64"
    using q o v ur by (simp_all add: curve_value_def Let_def)
  have scale: "SCALE \<le> 2 ^ 112" "(2 :: int) ^ 64 \<le> 2 ^ 112" by (simp_all add: SCALE_def)
  have "fits (?q * (?m - ?p) div SCALE)" by (rule small) (use r o scale in linarith)+
  moreover have "fits (?q * (?m - ?p) div SCALE + ?p)" by (rule small) (use r o scale in linarith)+
  moreover have "fits (?m - ?p)" by (rule small) (use top o scale in linarith)+
  moreover have "fits (ur - ?o)" by (rule small) (use ur o scale in linarith)+
  moreover have "fits (SCALE - ?o)" by (rule small) (use scale o in linarith)+
  moreover have "fits ?q" by (rule small [OF q])
  ultimately show ?thesis
    using o ur by (simp add: interest_rate_curve_def curve_value_def Let_def fixed_simps trunc_div_nonneg ONE_SCALE)
qed

end

section \<open>Rates\<close>

text \<open>Seconds in a year, as the number the constant represents.\<close>

definition year :: int where
  "year = 31536000"

lemma SECONDS_PER_YEAR_year: "SECONDS_PER_YEAR = year * SCALE"
  by (simp add: SECONDS_PER_YEAR_def year_def SCALE_def)

lemma year_pos [simp]: "0 < year" "year \<noteq> 0"
  by (simp_all add: year_def)

text \<open>
  The rates of a computation, on representations: \<open>b\<close> is the value of the curve. The borrowing
  rate covers the base rate and the three fee rates, with at most two units of the last
  place to spare.
\<close>

definition rates_of :: "fees \<Rightarrow> int \<Rightarrow> int \<Rightarrow> computed_interest_rates \<Rightarrow> bool" where
  "rates_of f b ur r \<longleftrightarrow>
     lending_rate_apr r = b * ur div SCALE
   \<and> borrowing_rate_apr r =
       b * (SCALE + (insurance_fee_rate f + group_fee_rate f + protocol_fee_rate f)) div SCALE
       + (insurance_fee_fixed f + group_fee_fixed f + protocol_fee_fixed f)
   \<and> group_fee_apr r = b * group_fee_rate f div SCALE + group_fee_fixed f
   \<and> insurance_fee_apr r = b * insurance_fee_rate f div SCALE + insurance_fee_fixed f
   \<and> protocol_fee_apr r = b * protocol_fee_rate f div SCALE + protocol_fee_fixed f
   \<and> 0 \<le> lending_rate_apr r \<and> 0 \<le> borrowing_rate_apr r \<and> 0 \<le> group_fee_apr r
   \<and> 0 \<le> insurance_fee_apr r \<and> 0 \<le> protocol_fee_apr r"

lemma rates_of_nonneg:
  assumes "rates_of f b u r"
  shows "0 \<le> lending_rate_apr r" "0 \<le> borrowing_rate_apr r" "0 \<le> insurance_fee_apr r"
    "0 \<le> group_fee_apr r" "0 \<le> protocol_fee_apr r"
  using assms by (simp_all add: rates_of_def)

lemma rates_of_cover:
  assumes "rates_of f b ur r"
  shows "b + group_fee_apr r + insurance_fee_apr r + protocol_fee_apr r \<le> borrowing_rate_apr r"
    and "borrowing_rate_apr r \<le> b + group_fee_apr r + insurance_fee_apr r + protocol_fee_apr r + 2"
proof -
  let ?x = "b * insurance_fee_rate f" and ?y = "b * group_fee_rate f" and ?z = "b * protocol_fee_rate f"
  have "b * (SCALE + (insurance_fee_rate f + group_fee_rate f + protocol_fee_rate f)) div SCALE
      = b + (?x + ?y + ?z) div SCALE"
    by (simp add: algebra_simps)
  moreover have "?x div SCALE + ?y div SCALE + ?z div SCALE \<le> (?x + ?y + ?z) div SCALE"
    "(?x + ?y + ?z) div SCALE \<le> ?x div SCALE + ?y div SCALE + ?z div SCALE + 2"
    using floor_sum [of SCALE ?x ?y] floor_sum [of SCALE "?x + ?y" ?z] by simp_all
  ultimately show "b + group_fee_apr r + insurance_fee_apr r + protocol_fee_apr r \<le> borrowing_rate_apr r"
    "borrowing_rate_apr r \<le> b + group_fee_apr r + insurance_fee_apr r + protocol_fee_apr r + 2"
    using assms by (simp_all add: rates_of_def)
qed

text \<open>What depositors earn is covered by the base part of what borrowers owe.\<close>

lemma lending_le_base:
  assumes "0 \<le> b" and "0 \<le> liabs" and "0 < assets" and "rates_of f b (liabs * SCALE div assets) r"
  shows "lending_rate_apr r * assets \<le> b * liabs"
proof -
  let ?u = "liabs * SCALE div assets"
  have "b * ?u div SCALE * SCALE * assets \<le> b * ?u * assets"
    using assms(3) by (intro mult_right_mono mul_floor_le) simp
  also have "\<dots> \<le> b * (liabs * SCALE)"
    using quot_mult_le [OF assms(3), of "liabs * SCALE"] assms(1)
    by (metis mult.assoc mult_left_mono)
  finally have "lending_rate_apr r * assets * SCALE \<le> b * liabs * SCALE"
    using assms(4) by (simp add: rates_of_def ac_simps)
  then show ?thesis by simp
qed

lemma rates_of_solvent:
  assumes "0 \<le> b" and "0 \<le> liabs" and "0 < assets" and "rates_of f b (liabs * SCALE div assets) r"
  shows "lending_rate_apr r * assets
       + (group_fee_apr r + insurance_fee_apr r + protocol_fee_apr r) * liabs
     \<le> borrowing_rate_apr r * liabs"
proof -
  have "(b + (group_fee_apr r + insurance_fee_apr r + protocol_fee_apr r)) * liabs
      \<le> borrowing_rate_apr r * liabs"
    using rates_of_cover(1) [OF assms(4)] assms(2) by (intro mult_right_mono) simp_all
  then show ?thesis
    using lending_le_base [OF assms] by (simp add: algebra_simps)
qed

context fixed_point
begin

lemma calc_fee_rate_SomeD:
  "calc_fee_rate fx b rate fixed = Some x \<Longrightarrow> x = b * rate div SCALE + fixed"
  by (auto simp: calc_fee_rate_def fixed_simps run_iff ZERO_def bind_eq_Some_conv split: if_splits)

lemma calc_interest_rate_SomeD:
  assumes "curve_ok c" and "0 \<le> ur" and "calc_interest_rate fx c ur = Ok (Some r)"
  shows "rates_of (get_fees c) (curve_value c ur) ur r"
  using assms
  by (auto simp: calc_interest_rate_def rates_of_def Let_def fixed_simps run_iff ONE_SCALE ZERO_def
      dest!: interest_rate_curve_SomeD calc_fee_rate_SomeD)

lemma calc_accrued_SomeD:
  assumes "0 \<le> apr" and "calc_accrued_interest_payment_per_period fx apr t v = Ok (Some v')"
  shows "v' = v + v * (apr * uint t div year) div SCALE"
proof -
  have "trunc_div (apr * (uint t * SCALE) div SCALE * SCALE) (year * SCALE) = apr * uint t div year"
    using assms(1) by (simp add: trunc_div_nonneg mult.assoc [symmetric])
  with assms(2) show ?thesis
    by (auto simp: calc_accrued_interest_payment_per_period_def SECONDS_PER_YEAR_year ONE_SCALE
        run_iff fixed_simps algebra_simps)
qed

lemma calc_payment_SomeD:
  assumes "0 \<le> apr" and "0 \<le> v" and "calc_interest_payment_for_period fx apr t v = Ok (Some p)"
  shows "p = (v * apr div SCALE) * uint t div year"
proof (cases "apr = 0")
  case True
  with assms show ?thesis
    by (simp add: calc_interest_payment_for_period_def ZERO_def)
next
  case False
  have "trunc_div ((v * apr div SCALE) * (uint t * SCALE) div SCALE * SCALE) (year * SCALE)
      = (v * apr div SCALE) * uint t div year"
    using assms(1,2) by (simp add: trunc_div_nonneg mult.assoc [symmetric])
  with assms(3) False show ?thesis
    by (auto simp: calc_interest_payment_for_period_def SECONDS_PER_YEAR_year ZERO_def
        run_iff fixed_simps)
qed

text \<open>What one accrual computes, on representations.\<close>

lemma accrual_SomeD:
  assumes "curve_ok c" and "0 < assets" and "0 \<le> liabs"
    and "calc_interest_rate_accrual_state_changes fx t assets liabs c av lv = Ok (Some s)"
  obtains r where "rates_of (get_fees c) (curve_value c (liabs * SCALE div assets)) (liabs * SCALE div assets) r"
    and "new_asset_share_value s = av + av * (lending_rate_apr r * uint t div year) div SCALE"
    and "new_liability_share_value s = lv + lv * (borrowing_rate_apr r * uint t div year) div SCALE"
    and "insurance_fees_collected s = (liabs * insurance_fee_apr r div SCALE) * uint t div year"
    and "group_fees_collected s = (liabs * group_fee_apr r div SCALE) * uint t div year"
    and "protocol_fees_collected s = (liabs * protocol_fee_apr r div SCALE) * uint t div year"
proof -
  let ?u = "liabs * SCALE div assets"
  have u: "trunc_div (liabs * SCALE) assets = ?u" "0 \<le> ?u"
    using assms(2,3) by (simp_all add: trunc_div_nonneg pos_imp_zdiv_nonneg_iff)
  from assms(2,4) u(1) obtain r a l i g p where
    rates: "calc_interest_rate fx c ?u = Ok (Some r)"
    and periods: "calc_accrued_interest_payment_per_period fx (lending_rate_apr r) t av = Ok (Some a)"
      "calc_accrued_interest_payment_per_period fx (borrowing_rate_apr r) t lv = Ok (Some l)"
      "calc_interest_payment_for_period fx (insurance_fee_apr r) t liabs = Ok (Some i)"
      "calc_interest_payment_for_period fx (group_fee_apr r) t liabs = Ok (Some g)"
      "calc_interest_payment_for_period fx (protocol_fee_apr r) t liabs = Ok (Some p)"
    and s: "s = \<lparr>new_asset_share_value = a, new_liability_share_value = l,
      insurance_fees_collected = i, group_fees_collected = g, protocol_fees_collected = p\<rparr>"
    by (auto simp: calc_interest_rate_accrual_state_changes_def run_iff fixed_simps)
  have r: "rates_of (get_fees c) (curve_value c ?u) ?u r"
    by (rule calc_interest_rate_SomeD [OF assms(1) u(2) rates])
  note nonneg = rates_of_nonneg [OF r]
  show thesis
    by (rule that [OF r])
      (simp_all add: s calc_accrued_SomeD [OF nonneg(1) periods(1)]
        calc_accrued_SomeD [OF nonneg(2) periods(2)]
        calc_payment_SomeD [OF nonneg(3) assms(3) periods(3)]
        calc_payment_SomeD [OF nonneg(4) assms(3) periods(4)]
        calc_payment_SomeD [OF nonneg(5) assms(3) periods(5)])
qed

end

text \<open>A fee payment, against the exact product of the amount, the rate and the time.\<close>

lemma payment_le:
  assumes "0 \<le> t"
  shows "SCALE * ((v * f div SCALE) * t div year) * year \<le> v * f * t"
proof -
  have "SCALE * ((v * f div SCALE) * t div year) * year \<le> SCALE * ((v * f div SCALE) * t)"
    by (simp add: mult.assoc quot_mult_le)
  also have "\<dots> = (v * f div SCALE * SCALE) * t"
    by simp
  also have "\<dots> \<le> v * f * t"
    using assms by (intro mult_right_mono mul_floor_le)
  finally show ?thesis .
qed

text \<open>
  Over a period, the interest credited to depositors and the fees together exceed the
  interest charged to borrowers by less than one unit of the last place of the borrowing
  rate: the only rounding against the bank is that of the borrowers' period rate.
\<close>

lemma period_solvent:
  assumes "0 \<le> b" and "0 \<le> liabs" and "0 < assets" and "0 \<le> t"
    and r: "rates_of f b (liabs * SCALE div assets) r"
  shows "assets * (lending_rate_apr r * t div year)
      + SCALE * ((liabs * insurance_fee_apr r div SCALE) * t div year
               + (liabs * group_fee_apr r div SCALE) * t div year
               + (liabs * protocol_fee_apr r div SCALE) * t div year)
     \<le> liabs * (borrowing_rate_apr r * t div year + 1)" (is "?lhs \<le> ?rhs")
proof -
  have "assets * (lending_rate_apr r * t div year) * year \<le> assets * (lending_rate_apr r * t)"
    using assms(3) by (simp add: mult.assoc quot_mult_le)
  then have "?lhs * year \<le> assets * (lending_rate_apr r * t)
      + (liabs * insurance_fee_apr r * t + liabs * group_fee_apr r * t + liabs * protocol_fee_apr r * t)"
    using payment_le [OF assms(4), of liabs "insurance_fee_apr r"]
      payment_le [OF assms(4), of liabs "group_fee_apr r"]
      payment_le [OF assms(4), of liabs "protocol_fee_apr r"]
    by (simp add: distrib_left distrib_right)
  also have "\<dots> = (lending_rate_apr r * assets
      + (group_fee_apr r + insurance_fee_apr r + protocol_fee_apr r) * liabs) * t"
    by (simp add: algebra_simps)
  also have "\<dots> \<le> borrowing_rate_apr r * liabs * t"
    using rates_of_solvent [OF assms(1-3) r] assms(4) by (rule mult_right_mono)
  also have "\<dots> = liabs * (borrowing_rate_apr r * t)"
    by simp
  also have "\<dots> \<le> liabs * ((borrowing_rate_apr r * t div year + 1) * year)"
    using assms(2) by (intro mult_left_mono le_quot_mult) simp_all
  finally have "?lhs * year \<le> ?rhs * year"
    by (simp add: mult.assoc)
  then show ?thesis by simp
qed

text \<open>Fees small enough that the rates cannot overflow: no rate above 65536, that is 6.5 million percent.\<close>

definition rates_bounded :: "interest_rate_calc \<Rightarrow> bool" where
  "rates_bounded c \<longleftrightarrow> calc_max_interest_rate c \<le> 2 ^ 64 \<and>
     (let f = get_fees c in
        insurance_fee_rate f \<le> 2 ^ 64 \<and> insurance_fee_fixed f \<le> 2 ^ 64 \<and>
        group_fee_rate f \<le> 2 ^ 64 \<and> group_fee_fixed f \<le> 2 ^ 64 \<and>
        protocol_fee_rate f \<le> 2 ^ 64 \<and> protocol_fee_fixed f \<le> 2 ^ 64)"

lemma mul_floor_upper:
  assumes "0 \<le> a" "a \<le> x" "0 \<le> b" "b \<le> y" and "x * y \<le> z * SCALE"
  shows "a * b div SCALE \<le> z"
  using zdiv_mono1 [of "a * b" "z * SCALE" SCALE] mult_mono [of a x b y] assms by simp

lemma fits_small: "0 \<le> x \<Longrightarrow> x \<le> 2 ^ 126 \<Longrightarrow> fits x"
  by (simp add: fits_def)

lemma small_sum: "0 \<le> x \<Longrightarrow> x \<le> 2 ^ 84 \<Longrightarrow> 0 \<le> y \<Longrightarrow> y \<le> 2 ^ 84 \<Longrightarrow> fits (x + y)"
  by (simp add: fits_def)

context fixed_point
begin

lemma calc_fee_rate_bounded:
  assumes "0 \<le> b" "b \<le> 2 ^ 64" "0 \<le> rate" "rate \<le> 2 ^ 64" "0 \<le> fixed" "fixed \<le> 2 ^ 64"
  shows "\<exists>x. calc_fee_rate fx b rate fixed = Some x \<and> 0 \<le> x"
proof -
  have "b * rate div SCALE \<le> 2 ^ 80"
    using assms by (intro mul_floor_upper [of _ "2 ^ 64" _ "2 ^ 64"]) (simp_all add: SCALE_def)
  then have "fits (b * rate div SCALE)" "fits (b * rate div SCALE + fixed)"
    using assms by (auto intro!: fits_small)
  then show ?thesis
    using assms by (simp add: calc_fee_rate_def fixed_simps)
qed

lemma calc_interest_rate_total:
  assumes ok: "curve_ok c" "fees_ok (get_fees c)" "rates_bounded c" and "0 \<le> ur"
    and reach: "ur \<le> SCALE \<or> ur \<le> 2 ^ 64 \<and> curve_value c ur \<le> 2 ^ 64"
  shows "\<exists>r. calc_interest_rate fx c ur = Ok (Some r)"
proof -
  let ?b = "curve_value c ur" and ?f = "get_fees c"
  have max: "fits (calc_max_interest_rate c)" "calc_max_interest_rate c \<le> 2 ^ 64"
    using ok by (auto simp: rates_bounded_def curve_ok_def fits_def)
  have ur: "0 \<le> ur" "ur \<le> 2 ^ 64"
    using assms(4) reach by (auto simp: SCALE_def)
  have b: "0 \<le> ?b" "?b \<le> 2 ^ 64"
    using curve_value_nonneg [OF ok(1) ur(1)] curve_value_mono [OF ok(1) ur(1), of SCALE] curve_value_corners(3) [OF ok(1)] max reach
    by auto
  have curve: "interest_rate_curve fx c ur = Ok (Some ?b)"
    using interest_rate_curve_total [OF ok(1) ur(1) _ max(1)] interest_rate_curve_beyond [OF ok(1) _ ur(2) max(2) b(2)] ok(1)
    by (cases "ur \<le> SCALE") (auto simp: curve_ok_def)
  have f: "0 \<le> insurance_fee_rate ?f" "insurance_fee_rate ?f \<le> 2 ^ 64"
      "0 \<le> insurance_fee_fixed ?f" "insurance_fee_fixed ?f \<le> 2 ^ 64"
      "0 \<le> group_fee_rate ?f" "group_fee_rate ?f \<le> 2 ^ 64"
      "0 \<le> group_fee_fixed ?f" "group_fee_fixed ?f \<le> 2 ^ 64"
      "0 \<le> protocol_fee_rate ?f" "protocol_fee_rate ?f \<le> 2 ^ 64"
      "0 \<le> protocol_fee_fixed ?f" "protocol_fee_fixed ?f \<le> 2 ^ 64"
    using ok(2,3) by (simp_all add: fees_ok_def rates_bounded_def Let_def)
  define t where "t = insurance_fee_rate ?f + group_fee_rate ?f + protocol_fee_rate ?f"
  define u where "u = insurance_fee_fixed ?f + group_fee_fixed ?f + protocol_fee_fixed ?f"
  have t: "0 \<le> t" "t \<le> 3 * 2 ^ 64" "0 \<le> u" "u \<le> 3 * 2 ^ 64"
    using f by (simp_all add: t_def u_def)
  have lend: "0 \<le> ?b * ur div SCALE" "?b * ur div SCALE \<le> 2 ^ 80"
    using b ur mul_floor_upper [OF b ur, of "2 ^ 80"] by (simp_all add: mul_floor_nonneg, simp add: SCALE_def)
  have scaled: "0 \<le> ?b * (SCALE + t) div SCALE" "?b * (SCALE + t) div SCALE \<le> 2 ^ 84"
  proof -
    have "SCALE + t \<le> 4 * 2 ^ 64"
      using t by (simp add: SCALE_def)
    then show "?b * (SCALE + t) div SCALE \<le> 2 ^ 84"
      by (rule mul_floor_upper [OF b, rotated]) (use t in \<open>simp_all add: SCALE_def\<close>)
  qed (use b t in simp)
  obtain g i p where fees: "calc_fee_rate fx ?b (group_fee_rate ?f) (group_fee_fixed ?f) = Some g" "0 \<le> g"
    "calc_fee_rate fx ?b (insurance_fee_rate ?f) (insurance_fee_fixed ?f) = Some i" "0 \<le> i"
    "calc_fee_rate fx ?b (protocol_fee_rate ?f) (protocol_fee_fixed ?f) = Some p" "0 \<le> p"
    using calc_fee_rate_bounded [OF b f(5-8)] calc_fee_rate_bounded [OF b f(1-4)]
      calc_fee_rate_bounded [OF b f(9-12)] by blast
  have fit1: "fits (insurance_fee_rate ?f + group_fee_rate ?f)" "fits t" "fits u"
      "fits (insurance_fee_fixed ?f + group_fee_fixed ?f)" "fits (SCALE + t)"
    using f t by (auto intro!: fits_small simp: SCALE_def)
  have fit2: "fits (?b * ur div SCALE)" "fits (?b * (SCALE + t) div SCALE)"
      "fits (?b * (SCALE + t) div SCALE + u)"
    using small_sum [OF lend(1) _ order_refl, simplified] small_sum [OF scaled order_refl, simplified] small_sum [OF scaled t(3)] lend t
    by simp_all
  show ?thesis
    using fees fit1 fit2 lend(1) scaled(1) t(3) curve
    by (simp add: calc_interest_rate_def Let_def fixed_simps ONE_SCALE ZERO_def
        flip: t_def u_def)
qed

end

section \<open>Properties\<close>

text \<open>
  A configuration for the examples: optimal utilization one half, plateau 10 percent, maximum
  300 percent, with an insurance and a group fee.
\<close>

definition example_ir_config :: interest_rate_config where
  "example_ir_config = \<lparr>optimal_utilization_rate = SCALE div 2, plateau_interest_rate = SCALE div 10,
     max_interest_rate = 3 * SCALE, insurance_fee_fixed_apr = SCALE div 100, insurance_ir_fee = SCALE div 10,
     protocol_fixed_fee_apr = SCALE div 100, protocol_ir_fee = SCALE div 8, protocol_origination_fee = 0\<rparr>"

definition example_group :: marginfi_group where
  "example_group = \<lparr>grp_admin = 3, group_flags = PROGRAM_FEES_ENABLED, grp_fee_state_cache =
     \<lparr>fsc_global_fee_wallet = 4, fsc_program_fee_fixed = SCALE div 100, fsc_program_fee_rate = SCALE div 16\<rparr>\<rparr>"

text \<open>
  C14. The interest rate curve of a validated configuration. At any utilization between 0 and 1
  it returns a rate, the rate lies between 0 and the configured maximum, below the plateau rate
  up to the optimal utilization and above it from there on, and it never falls when the
  utilization rises.
\<close>

theorem interest_rate_curve_shape:
  assumes "fixed_point fx" and "ir_config_validate cfg = Ok ()" and "fits (max_interest_rate cfg)"
    and "0 \<le> u" and "u \<le> v" and "v \<le> ONE"
  shows "\<exists>r s. interest_rate_curve fx (create_interest_rate_calculator cfg g) u = Ok (Some r) \<and>
     interest_rate_curve fx (create_interest_rate_calculator cfg g) v = Ok (Some s) \<and>
     0 \<le> r \<and> r \<le> s \<and> s \<le> max_interest_rate cfg \<and>
     (v \<le> optimal_utilization_rate cfg \<longrightarrow> s \<le> plateau_interest_rate cfg) \<and>
     (optimal_utilization_rate cfg \<le> u \<longrightarrow> plateau_interest_rate cfg \<le> r)"
proof -
  let ?c = "create_interest_rate_calculator cfg g"
  have ok: "curve_ok ?c"
    by (rule curve_ok_create [OF assms(2)])
  have top: "fits (calc_max_interest_rate ?c)"
    using assms(3) by (simp add: create_interest_rate_calculator_def)
  have v: "0 \<le> v" "v \<le> SCALE" and u: "u \<le> SCALE"
    using assms(4-6) by (simp_all add: ONE_SCALE)
  have "curve_value ?c v \<le> calc_max_interest_rate ?c"
    using curve_value_mono [OF ok v] curve_value_corners(3) [OF ok] by simp
  moreover have "v \<le> calc_optimal_utilization_rate ?c \<longrightarrow> curve_value ?c v \<le> calc_plateau_interest_rate ?c"
    using curve_value_low(2) [OF ok v(1)] by simp
  moreover have "calc_optimal_utilization_rate ?c \<le> u \<longrightarrow> calc_plateau_interest_rate ?c \<le> curve_value ?c u"
    using curve_value_high(1) [OF ok] curve_value_corners(2) [OF ok] by force
  ultimately show ?thesis
    using fixed_point.interest_rate_curve_total [OF assms(1) ok assms(4) u top]
      fixed_point.interest_rate_curve_total [OF assms(1) ok v top]
      curve_value_nonneg [OF ok assms(4)] curve_value_mono [OF ok assms(4,5)]
    by (simp add: create_interest_rate_calculator_def)
qed

theorem interest_rate_curve_shape_witness:
  "\<exists>r s. interest_rate_curve i80f48_ref (create_interest_rate_calculator example_ir_config example_group) (SCALE div 4) = Ok (Some r) \<and>
     interest_rate_curve i80f48_ref (create_interest_rate_calculator example_ir_config example_group) (SCALE div 3) = Ok (Some s) \<and>
     0 \<le> r \<and> r \<le> s \<and> s \<le> max_interest_rate example_ir_config \<and>
     (SCALE div 3 \<le> optimal_utilization_rate example_ir_config \<longrightarrow> s \<le> plateau_interest_rate example_ir_config) \<and>
     (optimal_utilization_rate example_ir_config \<le> SCALE div 4 \<longrightarrow> plateau_interest_rate example_ir_config \<le> r)"
  by (rule interest_rate_curve_shape [OF reference.fixed_point_axioms]) code_simp+

text \<open>
  C13. Computing the rates returns: on a validated curve, with fees that are not negative, and with rates
  and fees of at most 65536 (\<open>2 ^ 64\<close> in the representation, 6.5 million percent), no assertion
  fires and nothing overflows for any utilization between 0 and 1, nor for any above 1, up to 65536, at
  which the rate that the curve extends to is still at most 65536. The lending rate, the borrowing rate
  and the fee rates are then those of the formulas, rounded down, and none is negative.
\<close>

theorem calc_interest_rate_returns:
  assumes "fixed_point fx" and "ir_config_validate cfg = Ok ()"
    and "fees_ok (get_fees (create_interest_rate_calculator cfg g))"
    and "rates_bounded (create_interest_rate_calculator cfg g)" and "0 \<le> ur"
    and "ur \<le> ONE \<or> ur \<le> 2 ^ 64 \<and> curve_value (create_interest_rate_calculator cfg g) ur \<le> 2 ^ 64"
  shows "\<exists>r. calc_interest_rate fx (create_interest_rate_calculator cfg g) ur = Ok (Some r) \<and>
    rates_of (get_fees (create_interest_rate_calculator cfg g)) (curve_value (create_interest_rate_calculator cfg g) ur) ur r"
proof -
  let ?c = "create_interest_rate_calculator cfg g"
  obtain r where r: "calc_interest_rate fx ?c ur = Ok (Some r)"
    using fixed_point.calc_interest_rate_total [OF assms(1) curve_ok_create [OF assms(2)] assms(3-5)] assms(6)
    by (auto simp: ONE_SCALE)
  have "rates_of (get_fees ?c) (curve_value ?c ur) ur r"
    by (rule fixed_point.calc_interest_rate_SomeD [OF assms(1) curve_ok_create [OF assms(2)] assms(5) r])
  with r show ?thesis by blast
qed

theorem calc_interest_rate_returns_witness:
  "(\<exists>r. calc_interest_rate i80f48_ref (create_interest_rate_calculator example_ir_config example_group) (SCALE div 3) = Ok (Some r)) \<and>
   (\<exists>r. calc_interest_rate i80f48_ref (create_interest_rate_calculator example_ir_config example_group) (3 * SCALE) = Ok (Some r))"
proof -
  have cfg: "ir_config_validate example_ir_config = Ok ()" "fees_ok (get_fees (create_interest_rate_calculator example_ir_config example_group))"
      "rates_bounded (create_interest_rate_calculator example_ir_config example_group)"
    by code_simp+
  have "0 \<le> SCALE div 3" "SCALE div 3 \<le> ONE" "0 \<le> 3 * SCALE" "3 * SCALE \<le> 2 ^ 64"
      "curve_value (create_interest_rate_calculator example_ir_config example_group) (3 * SCALE) \<le> 2 ^ 64"
    by code_simp+
  then show ?thesis
    using calc_interest_rate_returns [OF reference.fixed_point_axioms cfg] by blast
qed

text \<open>
  The rates are solvent: at the utilization of a bank, the yearly interest of the depositors
  and the yearly fees of the insurance fund, the group and the program together are at most the
  yearly interest of the borrowers.
\<close>

theorem calc_interest_rate_solvent:
  assumes "fixed_point fx" and "ir_config_validate cfg = Ok ()" and "0 < assets" and "0 \<le> liabs"
    and "checked_div fx liabs assets = Some ur"
    and "calc_interest_rate fx (create_interest_rate_calculator cfg g) ur = Ok (Some r)"
  shows "lending_rate_apr r * assets
      + (group_fee_apr r + insurance_fee_apr r + protocol_fee_apr r) * liabs \<le> borrowing_rate_apr r * liabs"
proof -
  let ?c = "create_interest_rate_calculator cfg g"
  have ur: "ur = liabs * SCALE div assets" "0 \<le> ur"
    using assms(3-5) by (auto simp: fixed_point.div_law [OF assms(1)] run_iff trunc_div_nonneg
        pos_imp_zdiv_nonneg_iff split: if_splits)
  have "rates_of (get_fees ?c) (curve_value ?c ur) ur r"
    by (rule fixed_point.calc_interest_rate_SomeD [OF assms(1) curve_ok_create [OF assms(2)] ur(2) assms(6)])
  then show ?thesis
    using rates_of_solvent [OF curve_value_nonneg [OF curve_ok_create [OF assms(2)] ur(2)] assms(4,3)] ur(1)
    by simp
qed

theorem calc_interest_rate_solvent_witness:
  "\<exists>r. calc_interest_rate i80f48_ref (create_interest_rate_calculator example_ir_config example_group) (SCALE div 4) = Ok (Some r) \<and>
    lending_rate_apr r * 400 + (group_fee_apr r + insurance_fee_apr r + protocol_fee_apr r) * 100 \<le> borrowing_rate_apr r * 100"
proof -
  obtain r where r: "calc_interest_rate i80f48_ref (create_interest_rate_calculator example_ir_config example_group) (SCALE div 4) = Ok (Some r)"
    using reference.calc_interest_rate_total [of "create_interest_rate_calculator example_ir_config example_group" "SCALE div 4"]
    by (force simp: curve_ok_def fees_ok_def rates_bounded_def get_fees_def create_interest_rate_calculator_def
        example_ir_config_def example_group_def SCALE_def get_group_bank_config_def PROGRAM_FEES_ENABLED_def)
  moreover have "lending_rate_apr r * 400 + (group_fee_apr r + insurance_fee_apr r + protocol_fee_apr r) * 100 \<le> borrowing_rate_apr r * 100"
    by (rule calc_interest_rate_solvent [OF reference.fixed_point_axioms _ _ _ _ r]) code_simp+
  ultimately show ?thesis by blast
qed

text \<open>
  One accrual is solvent up to rounding. The value credited to the depositors and the fees
  collected exceed the value charged to the borrowers by less than the debt times one unit of
  the last place of the period rate; every other rounding favours the bank.
\<close>

theorem accrual_solvent:
  assumes "fixed_point fx" and "ir_config_validate cfg = Ok ()" and "0 < assets" and "0 \<le> liabs"
    and "0 \<le> av" and "0 \<le> lv"
    and "calc_interest_rate_accrual_state_changes fx t assets liabs
           (create_interest_rate_calculator cfg g) av lv = Ok (Some s)"
  shows "\<exists>lend borrow. 0 \<le> lend \<and> 0 \<le> borrow \<and>
     new_asset_share_value s = av + av * lend div SCALE \<and>
     new_liability_share_value s = lv + lv * borrow div SCALE \<and>
     0 \<le> insurance_fees_collected s \<and> 0 \<le> group_fees_collected s \<and> 0 \<le> protocol_fees_collected s \<and>
     assets * lend + SCALE * (insurance_fees_collected s + group_fees_collected s + protocol_fees_collected s)
       \<le> liabs * (borrow + 1)"
proof -
  let ?c = "create_interest_rate_calculator cfg g" and ?u = "liabs * SCALE div assets"
  have ok: "curve_ok ?c" by (rule curve_ok_create [OF assms(2)])
  have u: "0 \<le> ?u" using assms(3,4) by (simp add: pos_imp_zdiv_nonneg_iff)
  obtain r where r: "rates_of (get_fees ?c) (curve_value ?c ?u) ?u r"
    and s: "new_asset_share_value s = av + av * (lending_rate_apr r * uint t div year) div SCALE"
      "new_liability_share_value s = lv + lv * (borrowing_rate_apr r * uint t div year) div SCALE"
      "insurance_fees_collected s = (liabs * insurance_fee_apr r div SCALE) * uint t div year"
      "group_fees_collected s = (liabs * group_fee_apr r div SCALE) * uint t div year"
      "protocol_fees_collected s = (liabs * protocol_fee_apr r div SCALE) * uint t div year"
    by (rule fixed_point.accrual_SomeD [OF assms(1) ok assms(3,4,7)])
  have "0 \<le> lending_rate_apr r * uint t div year" "0 \<le> borrowing_rate_apr r * uint t div year"
    "0 \<le> insurance_fees_collected s" "0 \<le> group_fees_collected s" "0 \<le> protocol_fees_collected s"
    using rates_of_nonneg [OF r] assms(4) by (simp_all add: s pos_imp_zdiv_nonneg_iff)
  moreover note period_solvent [OF curve_value_nonneg [OF ok u] assms(4,3) uint_nonnegative r, of t]
  ultimately show ?thesis
    unfolding s by blast
qed

theorem accrual_solvent_witness:
  "\<exists>s lend borrow. calc_interest_rate_accrual_state_changes i80f48_ref 86400 (1000 * SCALE) (500 * SCALE)
       (create_interest_rate_calculator example_ir_config example_group) SCALE SCALE = Ok (Some s) \<and>
     0 \<le> lend \<and> 0 \<le> borrow \<and>
     new_asset_share_value s = SCALE + SCALE * lend div SCALE \<and>
     new_liability_share_value s = SCALE + SCALE * borrow div SCALE \<and>
     0 \<le> insurance_fees_collected s \<and> 0 \<le> group_fees_collected s \<and> 0 \<le> protocol_fees_collected s \<and>
     1000 * SCALE * lend + SCALE * (insurance_fees_collected s + group_fees_collected s + protocol_fees_collected s)
       \<le> 500 * SCALE * (borrow + 1)"
proof -
  let ?run = "calc_interest_rate_accrual_state_changes i80f48_ref 86400 (1000 * SCALE) (500 * SCALE)
       (create_interest_rate_calculator example_ir_config example_group) SCALE SCALE"
  define s where "s = the (projr ?run)"
  have s: "?run = Ok (Some s)"
    unfolding s_def by code_simp
  have "ir_config_validate example_ir_config = Ok ()"
    by code_simp
  from accrual_solvent [OF reference.fixed_point_axioms this _ _ _ _ s] s
  show ?thesis by simp
qed

end
