(* ===== verification/Bank_Config.thy ===== *)
theory Bank_Config
  imports Interest_Rate
begin

text \<open>
  \<^verbatim>\<open>BankConfig\<close> of \<^verbatim>\<open>state/marginfi_group.rs\<close> with its compact and optional forms, the
  enumerations it uses, its validation, weights and limits.
\<close>

section \<open>Enumerations\<close>

datatype bank_operational_state = Paused | Operational | ReduceOnly

datatype risk_tier = Collateral | Isolated

datatype oracle_setup = NoOracle | PythLegacy | SwitchboardV2 | PythPushOracle | SwitchboardPull

datatype requirement_type = Initial | Maintenance | Equity

datatype balance_side = Assets | Liabilities

datatype bank_vault_type = LiquidityVault | InsuranceVault | FeeVault

definition get_seed :: "bank_vault_type \<Rightarrow> string" where
  "get_seed v = (case v of LiquidityVault \<Rightarrow> ''liquidity_vault''
     | InsuranceVault \<Rightarrow> ''insurance_vault'' | FeeVault \<Rightarrow> ''fee_vault'')"

definition get_authority_seed :: "bank_vault_type \<Rightarrow> string" where
  "get_authority_seed v = (case v of LiquidityVault \<Rightarrow> ''liquidity_vault_auth''
     | InsuranceVault \<Rightarrow> ''insurance_vault_auth'' | FeeVault \<Rightarrow> ''fee_vault_auth'')"

section \<open>State\<close>

record bank_config =
  asset_weight_init :: i80f48
  asset_weight_maint :: i80f48
  liability_weight_init :: i80f48
  liability_weight_maint :: i80f48
  deposit_limit :: u64
  bc_interest_rate_config :: interest_rate_config
  operational_state :: bank_operational_state
  bc_oracle_setup :: oracle_setup
  oracle_keys :: "pubkey list"
  borrow_limit :: u64
  bc_risk_tier :: risk_tier
  total_asset_value_init_limit :: u64
  oracle_max_age :: u16

record bank_config_compact =
  bcc_asset_weight_init :: i80f48
  bcc_asset_weight_maint :: i80f48
  bcc_liability_weight_init :: i80f48
  bcc_liability_weight_maint :: i80f48
  bcc_deposit_limit :: u64
  bcc_interest_rate_config :: interest_rate_config_compact
  bcc_operational_state :: bank_operational_state
  bcc_oracle_setup :: oracle_setup
  bcc_oracle_key :: pubkey
  bcc_borrow_limit :: u64
  bcc_risk_tier :: risk_tier
  bcc_total_asset_value_init_limit :: u64
  bcc_oracle_max_age :: u16

record oracle_config =
  ocfg_setup :: oracle_setup
  ocfg_keys :: "pubkey list"

record bank_config_opt =
  bco_asset_weight_init :: "i80f48 option"
  bco_asset_weight_maint :: "i80f48 option"
  bco_liability_weight_init :: "i80f48 option"
  bco_liability_weight_maint :: "i80f48 option"
  bco_deposit_limit :: "u64 option"
  bco_borrow_limit :: "u64 option"
  bco_operational_state :: "bank_operational_state option"
  bco_oracle :: "oracle_config option"
  bco_interest_rate_config :: "interest_rate_config_opt option"
  bco_risk_tier :: "risk_tier option"
  bco_total_asset_value_init_limit :: "u64 option"
  bco_oracle_max_age :: "u16 option"
  bco_permissionless_bad_debt_settlement :: "bool option"

definition MAX_ORACLE_KEYS :: nat where
  "MAX_ORACLE_KEYS = 5"

definition TOTAL_ASSET_VALUE_INIT_LIMIT_INACTIVE :: u64 where
  "TOTAL_ASSET_VALUE_INIT_LIMIT_INACTIVE = 0"

definition bank_config_from_compact :: "bank_config_compact \<Rightarrow> bank_config" where
  "bank_config_from_compact c = \<lparr>
     asset_weight_init = bcc_asset_weight_init c,
     asset_weight_maint = bcc_asset_weight_maint c,
     liability_weight_init = bcc_liability_weight_init c,
     liability_weight_maint = bcc_liability_weight_maint c,
     deposit_limit = bcc_deposit_limit c,
     bc_interest_rate_config = ir_config_from_compact (bcc_interest_rate_config c),
     operational_state = bcc_operational_state c,
     bc_oracle_setup = bcc_oracle_setup c,
     oracle_keys = [bcc_oracle_key c, default_pubkey, default_pubkey, default_pubkey, default_pubkey],
     borrow_limit = bcc_borrow_limit c,
     bc_risk_tier = bcc_risk_tier c,
     total_asset_value_init_limit = bcc_total_asset_value_init_limit c,
     oracle_max_age = bcc_oracle_max_age c\<rparr>"

definition bank_config_to_compact :: "bank_config \<Rightarrow> bank_config_compact result" where
  "bank_config_to_compact c = bind (index_at (oracle_keys c) 0) (\<lambda>key. Ok \<lparr>
     bcc_asset_weight_init = asset_weight_init c,
     bcc_asset_weight_maint = asset_weight_maint c,
     bcc_liability_weight_init = liability_weight_init c,
     bcc_liability_weight_maint = liability_weight_maint c,
     bcc_deposit_limit = deposit_limit c,
     bcc_interest_rate_config = ir_config_to_compact (bc_interest_rate_config c),
     bcc_operational_state = operational_state c,
     bcc_oracle_setup = bc_oracle_setup c,
     bcc_oracle_key = key,
     bcc_borrow_limit = borrow_limit c,
     bcc_risk_tier = bc_risk_tier c,
     bcc_total_asset_value_init_limit = total_asset_value_init_limit c,
     bcc_oracle_max_age = oracle_max_age c\<rparr>)"

definition ir_config_default :: interest_rate_config where
  "ir_config_default = \<lparr>optimal_utilization_rate = 0, plateau_interest_rate = 0,
     max_interest_rate = 0, insurance_fee_fixed_apr = 0, insurance_ir_fee = 0,
     protocol_fixed_fee_apr = 0, protocol_ir_fee = 0, protocol_origination_fee = 0\<rparr>"

definition bank_config_default :: bank_config where
  "bank_config_default = \<lparr>
     asset_weight_init = ZERO, asset_weight_maint = ZERO,
     liability_weight_init = ONE, liability_weight_maint = ONE,
     deposit_limit = 0, bc_interest_rate_config = ir_config_default,
     operational_state = Paused, bc_oracle_setup = NoOracle,
     oracle_keys = replicate MAX_ORACLE_KEYS default_pubkey, borrow_limit = 0,
     bc_risk_tier = Isolated,
     total_asset_value_init_limit = TOTAL_ASSET_VALUE_INIT_LIMIT_INACTIVE,
     oracle_max_age = 0\<rparr>"

section \<open>Operations\<close>

definition get_weights :: "bank_config \<Rightarrow> requirement_type \<Rightarrow> i80f48 \<times> i80f48" where
  "get_weights c req = (case req of
     Initial \<Rightarrow> (asset_weight_init c, liability_weight_init c)
   | Maintenance \<Rightarrow> (asset_weight_maint c, liability_weight_maint c)
   | Equity \<Rightarrow> (ONE, ONE))"

fun get_weight :: "bank_config \<Rightarrow> requirement_type \<Rightarrow> balance_side \<Rightarrow> i80f48" where
  "get_weight c Initial Assets = asset_weight_init c"
| "get_weight c Initial Liabilities = liability_weight_init c"
| "get_weight c Maintenance Assets = asset_weight_maint c"
| "get_weight c Maintenance Liabilities = liability_weight_maint c"
| "get_weight c Equity _ = ONE"

definition bank_config_validate :: "bank_config \<Rightarrow> unit result" where
  "bank_config_validate c =
     (let asset_init_w = asset_weight_init c; asset_maint_w = asset_weight_maint c;
          liab_init_w = liability_weight_init c; liab_maint_w = liability_weight_maint c in
      bind (check (ZERO \<le> asset_init_w \<and> asset_init_w \<le> ONE) InvalidConfig) (\<lambda>_.
      bind (check (asset_init_w \<le> asset_maint_w) InvalidConfig) (\<lambda>_.
      bind (check (ONE \<le> liab_init_w) InvalidConfig) (\<lambda>_.
      bind (check (liab_maint_w \<le> liab_init_w \<and> ONE \<le> liab_maint_w) InvalidConfig) (\<lambda>_.
      bind (ir_config_validate (bc_interest_rate_config c)) (\<lambda>_.
      if bc_risk_tier c = Isolated
      then bind (check (asset_init_w = ZERO) InvalidConfig) (\<lambda>_.
                 check (asset_maint_w = ZERO) InvalidConfig)
      else Ok ()))))))"

definition U64_MAX :: u64 where
  "U64_MAX = - 1"

definition is_deposit_limit_active :: "bank_config \<Rightarrow> bool" where
  "is_deposit_limit_active c \<longleftrightarrow> deposit_limit c \<noteq> U64_MAX"

definition is_borrow_limit_active :: "bank_config \<Rightarrow> bool" where
  "is_borrow_limit_active c \<longleftrightarrow> borrow_limit c \<noteq> U64_MAX"

definition usd_init_limit_active :: "bank_config \<Rightarrow> bool" where
  "usd_init_limit_active c \<longleftrightarrow> total_asset_value_init_limit c \<noteq> TOTAL_ASSET_VALUE_INIT_LIMIT_INACTIVE"

definition get_oracle_max_age :: "bank_config \<Rightarrow> u64" where
  "get_oracle_max_age c =
     (if oracle_max_age c = 0 \<and> bc_oracle_setup c = SwitchboardV2 then MAX_SWB_ORACLE_AGE
      else if oracle_max_age c = 0 \<and> (bc_oracle_setup c = PythLegacy \<or> bc_oracle_setup c = PythPushOracle)
      then MAX_PYTH_ORACLE_AGE
      else ucast (oracle_max_age c))"

definition get_pyth_push_oracle_feed_id :: "bank_config \<Rightarrow> pubkey option result" where
  "get_pyth_push_oracle_feed_id c =
     (if bc_oracle_setup c = PythPushOracle
      then bind (index_at (oracle_keys c) 0) (\<lambda>k. Ok (Some k))
      else Ok None)"

section \<open>Valid configurations\<close>

definition config_ok :: "bank_config \<Rightarrow> bool" where
  "config_ok c \<longleftrightarrow>
     0 \<le> asset_weight_init c \<and> asset_weight_init c \<le> SCALE
   \<and> asset_weight_init c \<le> asset_weight_maint c
   \<and> SCALE \<le> liability_weight_maint c \<and> liability_weight_maint c \<le> liability_weight_init c
   \<and> ir_config_validate (bc_interest_rate_config c) = Ok ()
   \<and> (bc_risk_tier c = Isolated \<longrightarrow> asset_weight_init c = 0 \<and> asset_weight_maint c = 0)"

lemma bank_config_validate_Ok_iff [run_iff]: "bank_config_validate c = Ok () \<longleftrightarrow> config_ok c"
  by (auto simp: bank_config_validate_def config_ok_def Let_def run_iff ZERO_def ONE_SCALE
      split: if_splits)

lemma get_weights_get_weight:
  "get_weights c req = (get_weight c req Assets, get_weight c req Liabilities)"
  by (cases req) (simp_all add: get_weights_def)

end
