(* ===== verification/Oracle_Price.thy ===== *)
theory Oracle_Price
  imports Bank_Config
begin

text \<open>
  Oracle prices, \<^verbatim>\<open>state/price.rs\<close>: the four price feeds, loading with the owner, key, feed id
  and staleness checks, the confidence interval and its cap, and the biased prices of the
  \<^verbatim>\<open>PriceAdapter\<close> trait.

  The Pyth and Switchboard SDKs are not part of the repository. Their entry points and the
  constants they export are the fields of \<open>oracle_sdk\<close>; the records before it are the data those
  entry points return, with the fields the program reads.
\<close>

section \<open>Data\<close>

record clock =
  unix_timestamp :: i64
  epoch :: u64

record account_info =
  ai_key :: pubkey
  ai_owner :: pubkey
  ai_data :: "u8 list"

datatype price_bias = Low | High

datatype oracle_price_type = TimeWeighted | RealTime

record pyth_price =
  pp_price :: i64
  pp_conf :: u64
  pp_expo :: i32
  pp_publish_time :: i64

record pyth_feed =
  pf_price :: pyth_price
  pf_ema_price :: pyth_price

record price_update_v2 =
  pu_feed_id :: pubkey
  pu_exponent :: i32
  pu_publish_time :: i64
  pu_ema_price :: i64
  pu_ema_conf :: u64

datatype get_price_error = PriceTooOld | OtherPriceError

record pull_feed_account =
  pull_value :: int
  pull_std_dev :: int
  pull_last_update_timestamp :: i64

datatype aggregator_resolution_mode = ModeRoundResolution | ModeSlidingResolution

record switchboard_decimal =
  sd_mantissa :: int
  sd_scale :: u32

record aggregator_account =
  agg_resolution_mode :: aggregator_resolution_mode
  agg_latest_confirmed_round_result :: switchboard_decimal
  agg_latest_confirmed_round_num_success :: u32
  agg_latest_confirmed_round_std_deviation :: switchboard_decimal
  agg_min_oracle_results :: u32

record oracle_sdk =
  pyth_receiver_id :: pubkey
  switchboard_program_id :: pubkey
  price_update_discriminator :: "u8 list"
  switchboard_precision :: nat
  account_info_to_feed :: "account_info \<Rightarrow> pyth_feed option"
  get_price_no_older_than :: "pyth_feed \<Rightarrow> i64 \<Rightarrow> u64 \<Rightarrow> pyth_price option"
  get_ema_price_no_older_than :: "pyth_feed \<Rightarrow> i64 \<Rightarrow> u64 \<Rightarrow> pyth_price option"
  price_update_deserialize :: "u8 list \<Rightarrow> price_update_v2 option"
  get_price_no_older_than_full :: "price_update_v2 \<Rightarrow> clock \<Rightarrow> u64 \<Rightarrow> pubkey \<Rightarrow> get_price_error + pyth_price"
  pull_feed_parse :: "u8 list \<Rightarrow> pull_feed_account option"
  aggregator_from_bytes :: "u8 list \<Rightarrow> aggregator_account option"
  aggregator_check_staleness :: "aggregator_account \<Rightarrow> i64 \<Rightarrow> i64 \<Rightarrow> bool"

text \<open>The program ids of \<^verbatim>\<open>constants.rs\<close> for the default build, \<^verbatim>\<open>mainnet-beta\<close>.\<close>

definition PYTH_ID :: pubkey where
  "PYTH_ID = 99915062666607824330984430131171503143837068274821695359103379372312418225122"

definition SWITCHBOARD_PULL_ID :: pubkey where
  "SWITCHBOARD_PULL_ID = 2918370846784493494016269115316351842256402507831220791117320217718181094771"

section \<open>Price components\<close>

definition pyth_price_components_to_i80f48 :: "fixed_ops \<Rightarrow> i80f48 \<Rightarrow> i32 \<Rightarrow> i80f48 result" where
  "pyth_price_components_to_i80f48 fx price exponent =
     (bind (index_at EXP_10_I80F48 (nat \<bar>sint exponent\<bar>)) (\<lambda>scaling_factor.
      if sint exponent = 0 then Ok price
      else if sint exponent < 0 then ok_or_math_error (checked_div fx price scaling_factor)
      else ok_or_math_error (checked_mul fx price scaling_factor)))"

text \<open>
  The cap both confidence computations end with: five percent of the price, after asserting
  that neither quantity is negative.
\<close>

definition cap_confidence_interval :: "fixed_ops \<Rightarrow> i80f48 \<Rightarrow> i80f48 \<Rightarrow> i80f48 result" where
  "cap_confidence_interval fx conf_interval price =
     (bind (ok_or_math_error (checked_mul fx price MAX_CONF_INTERVAL)) (\<lambda>max_conf_interval.
      bind (assert_that (ZERO \<le> max_conf_interval)) (\<lambda>_.
      bind (assert_that (ZERO \<le> conf_interval)) (\<lambda>_.
      Ok (min conf_interval max_conf_interval)))))"

definition biased_price ::
    "fixed_ops \<Rightarrow> i80f48 \<Rightarrow> i80f48 result \<Rightarrow> price_bias option \<Rightarrow> i80f48 result" where
  "biased_price fx price confidence bias = (case bias of
     None \<Rightarrow> Ok price
   | Some Low \<Rightarrow> bind confidence (\<lambda>c. ok_or_math_error (checked_sub fx price c))
   | Some High \<Rightarrow> bind confidence (\<lambda>c. ok_or_math_error (checked_add fx price c)))"

section \<open>Pyth legacy feed\<close>

definition load_pyth_price_feed :: "oracle_sdk \<Rightarrow> account_info \<Rightarrow> pyth_feed result" where
  "load_pyth_price_feed sdk ai =
     (bind (check (ai_owner ai = PYTH_ID) InvalidOracleAccount) (\<lambda>_.
      ok_or (account_info_to_feed sdk ai) (Mfi InvalidOracleAccount)))"

definition pyth_legacy_load_checked ::
    "oracle_sdk \<Rightarrow> account_info \<Rightarrow> i64 \<Rightarrow> u64 \<Rightarrow> pyth_feed result" where
  "pyth_legacy_load_checked sdk ai current_time max_age =
     (bind (load_pyth_price_feed sdk ai) (\<lambda>feed.
      bind (ok_or (get_ema_price_no_older_than sdk feed current_time max_age) (Mfi StaleOracle)) (\<lambda>ema.
      bind (ok_or (get_price_no_older_than sdk feed current_time max_age) (Mfi StaleOracle)) (\<lambda>price.
      Ok \<lparr>pf_price = price, pf_ema_price = ema\<rparr>))))"

definition pyth_legacy_check_ais :: "oracle_sdk \<Rightarrow> account_info \<Rightarrow> unit result" where
  "pyth_legacy_check_ais sdk ai = bind (load_pyth_price_feed sdk ai) (\<lambda>_. Ok ())"

definition pyth_get_confidence_interval :: "fixed_ops \<Rightarrow> pyth_feed \<Rightarrow> bool \<Rightarrow> i80f48 result" where
  "pyth_get_confidence_interval fx feed use_ema =
     (let price = (if use_ema then pf_ema_price feed else pf_price feed) in
      bind (from_u64 fx (pp_conf price)) (\<lambda>conf.
      bind (pyth_price_components_to_i80f48 fx conf (pp_expo price)) (\<lambda>c.
      bind (ok_or_math_error (checked_mul fx c CONF_INTERVAL_MULTIPLE)) (\<lambda>conf_interval.
      bind (from_num fx (sint (pp_price price))) (\<lambda>p.
      bind (pyth_price_components_to_i80f48 fx p (pp_expo price)) (\<lambda>price_value.
      cap_confidence_interval fx conf_interval price_value))))))"

definition pyth_get_ema_price :: "fixed_ops \<Rightarrow> pyth_feed \<Rightarrow> i80f48 result" where
  "pyth_get_ema_price fx feed =
     (bind (from_num fx (sint (pp_price (pf_ema_price feed)))) (\<lambda>p.
      pyth_price_components_to_i80f48 fx p (pp_expo (pf_ema_price feed))))"

definition pyth_get_unweighted_price :: "fixed_ops \<Rightarrow> pyth_feed \<Rightarrow> i80f48 result" where
  "pyth_get_unweighted_price fx feed =
     (bind (from_num fx (sint (pp_price (pf_price feed)))) (\<lambda>p.
      pyth_price_components_to_i80f48 fx p (pp_expo (pf_price feed))))"

definition pyth_get_price_of_type ::
    "fixed_ops \<Rightarrow> pyth_feed \<Rightarrow> oracle_price_type \<Rightarrow> price_bias option \<Rightarrow> i80f48 result" where
  "pyth_get_price_of_type fx feed price_type bias =
     (bind (case price_type of TimeWeighted \<Rightarrow> pyth_get_ema_price fx feed
                             | RealTime \<Rightarrow> pyth_get_unweighted_price fx feed) (\<lambda>price.
      biased_price fx price (pyth_get_confidence_interval fx feed (price_type = TimeWeighted)) bias))"

section \<open>Switchboard pull feed\<close>

definition saturating_sub_i64 :: "i64 \<Rightarrow> i64 \<Rightarrow> int" where
  "saturating_sub_i64 a b = max (- (2 ^ 63)) (min (2 ^ 63 - 1) (sint a - sint b))"

definition switchboard_pull_load_checked ::
    "oracle_sdk \<Rightarrow> account_info \<Rightarrow> i64 \<Rightarrow> u64 \<Rightarrow> pull_feed_account result" where
  "switchboard_pull_load_checked sdk ai current_timestamp max_age =
     (bind (check (ai_owner ai = SWITCHBOARD_PULL_ID) InvalidOracleAccount) (\<lambda>_.
      bind (ok_or (pull_feed_parse sdk (ai_data ai)) (Mfi InvalidOracleAccount)) (\<lambda>feed.
      if sint max_age < saturating_sub_i64 current_timestamp (pull_last_update_timestamp feed)
      then Err (Mfi StaleOracle)
      else Ok feed)))"

definition switchboard_pull_check_ais :: "oracle_sdk \<Rightarrow> account_info \<Rightarrow> unit result" where
  "switchboard_pull_check_ais sdk ai =
     (bind (check (ai_owner ai = SWITCHBOARD_PULL_ID) InvalidOracleAccount) (\<lambda>_.
      bind (ok_or (pull_feed_parse sdk (ai_data ai)) (Mfi InvalidOracleAccount)) (\<lambda>_. Ok ())))"

definition switchboard_pull_get_price :: "fixed_ops \<Rightarrow> oracle_sdk \<Rightarrow> pull_feed_account \<Rightarrow> i80f48 result" where
  "switchboard_pull_get_price fx sdk feed =
     (bind (from_num fx (pull_value feed)) (\<lambda>v.
      bind (index_at EXP_10_I80F48 (switchboard_precision sdk)) (\<lambda>e.
      ok_or_math_error (checked_div fx v e))))"

definition switchboard_pull_get_confidence_interval ::
    "fixed_ops \<Rightarrow> oracle_sdk \<Rightarrow> pull_feed_account \<Rightarrow> i80f48 result" where
  "switchboard_pull_get_confidence_interval fx sdk feed =
     (bind (from_num fx (pull_std_dev feed)) (\<lambda>std_div.
      bind (ok_or_math_error (checked_mul fx std_div STD_DEV_MULTIPLE)) (\<lambda>conf_interval.
      bind (switchboard_pull_get_price fx sdk feed) (\<lambda>price.
      cap_confidence_interval fx conf_interval price))))"

definition switchboard_pull_get_price_of_type ::
    "fixed_ops \<Rightarrow> oracle_sdk \<Rightarrow> pull_feed_account \<Rightarrow> oracle_price_type \<Rightarrow> price_bias option \<Rightarrow> i80f48 result" where
  "switchboard_pull_get_price_of_type fx sdk feed price_type bias =
     (bind (switchboard_pull_get_price fx sdk feed) (\<lambda>price.
      biased_price fx price (switchboard_pull_get_confidence_interval fx sdk feed) bias))"

section \<open>Switchboard V2 feed\<close>

definition MAX_SCALE :: u32 where
  "MAX_SCALE = 20"

definition fit_scale_switchboard_decimal ::
    "switchboard_decimal \<Rightarrow> u32 \<Rightarrow> switchboard_decimal option result" where
  "fit_scale_switchboard_decimal decimal scale =
     (if sd_scale decimal \<le> scale then Ok (Some decimal)
      else bind (index_at EXP_10 (unat (sd_scale decimal - scale))) (\<lambda>e.
           if e = 0 then Ok None
           else Ok (Some \<lparr>sd_mantissa = trunc_div (sd_mantissa decimal) e, sd_scale = scale\<rparr>)))"

definition switchboard_decimal_to_i80f48 ::
    "fixed_ops \<Rightarrow> switchboard_decimal \<Rightarrow> i80f48 option result" where
  "switchboard_decimal_to_i80f48 fx decimal =
     (obind (fit_scale_switchboard_decimal decimal MAX_SCALE) (\<lambda>d.
      bind (from_num fx (sd_mantissa d)) (\<lambda>m.
      bind (index_at EXP_10_I80F48 (unat (sd_scale d))) (\<lambda>e.
      Ok (checked_div fx m e)))))"

text \<open>The fields of \<^verbatim>\<open>LiteAggregatorAccountData\<close> are those \<open>aggregator_account\<close> keeps.\<close>

definition aggregator_get_result :: "aggregator_account \<Rightarrow> switchboard_decimal result" where
  "aggregator_get_result agg =
     (if agg_resolution_mode agg = ModeSlidingResolution
      then Ok (agg_latest_confirmed_round_result agg)
      else if agg_latest_confirmed_round_num_success agg < agg_min_oracle_results agg
      then Err (Mfi InvalidOracleAccount)
      else Ok (agg_latest_confirmed_round_result agg))"

definition switchboard_v2_load_checked ::
    "oracle_sdk \<Rightarrow> account_info \<Rightarrow> i64 \<Rightarrow> u64 \<Rightarrow> aggregator_account result" where
  "switchboard_v2_load_checked sdk ai current_timestamp max_age =
     (bind (check (ai_owner ai = switchboard_program_id sdk) InvalidOracleAccount) (\<lambda>_.
      bind (ok_or (aggregator_from_bytes sdk (ai_data ai)) (Mfi InvalidOracleAccount)) (\<lambda>agg.
      bind (check (aggregator_check_staleness sdk agg current_timestamp max_age) StaleOracle) (\<lambda>_.
      Ok agg))))"

definition switchboard_v2_check_ais :: "oracle_sdk \<Rightarrow> account_info \<Rightarrow> unit result" where
  "switchboard_v2_check_ais sdk ai =
     (bind (check (ai_owner ai = switchboard_program_id sdk) InvalidOracleAccount) (\<lambda>_.
      bind (ok_or (aggregator_from_bytes sdk (ai_data ai)) (Mfi InvalidOracleAccount)) (\<lambda>_. Ok ())))"

definition switchboard_v2_get_price :: "fixed_ops \<Rightarrow> aggregator_account \<Rightarrow> i80f48 result" where
  "switchboard_v2_get_price fx agg =
     (bind (map_err (aggregator_get_result agg) InvalidPrice) (\<lambda>sw_decimal.
      bind (switchboard_decimal_to_i80f48 fx sw_decimal) (\<lambda>p.
      ok_or p (Mfi InvalidSwitchboardDecimalConversion))))"

definition switchboard_v2_get_confidence_interval :: "fixed_ops \<Rightarrow> aggregator_account \<Rightarrow> i80f48 result" where
  "switchboard_v2_get_confidence_interval fx agg =
     (bind (switchboard_decimal_to_i80f48 fx (agg_latest_confirmed_round_std_deviation agg)) (\<lambda>s.
      bind (ok_or s (Mfi InvalidSwitchboardDecimalConversion)) (\<lambda>std_div.
      bind (ok_or_math_error (checked_mul fx std_div STD_DEV_MULTIPLE)) (\<lambda>conf_interval.
      bind (switchboard_v2_get_price fx agg) (\<lambda>price.
      cap_confidence_interval fx conf_interval price)))))"

definition switchboard_v2_get_price_of_type ::
    "fixed_ops \<Rightarrow> aggregator_account \<Rightarrow> oracle_price_type \<Rightarrow> price_bias option \<Rightarrow> i80f48 result" where
  "switchboard_v2_get_price_of_type fx agg price_type bias =
     (bind (switchboard_v2_get_price fx agg) (\<lambda>price.
      biased_price fx price (switchboard_v2_get_confidence_interval fx agg) bias))"

section \<open>Pyth push feed\<close>

definition load_price_update_v2_checked :: "oracle_sdk \<Rightarrow> account_info \<Rightarrow> price_update_v2 result" where
  "load_price_update_v2_checked sdk ai =
     (bind (check (ai_owner ai = pyth_receiver_id sdk) InvalidOracleAccount) (\<lambda>_.
      bind (assert_that (8 \<le> length (ai_data ai))) (\<lambda>_.
      bind (check (take 8 (ai_data ai) = price_update_discriminator sdk) InvalidOracleAccount) (\<lambda>_.
      ok_or (price_update_deserialize sdk (drop 8 (ai_data ai))) (Anchor CallFailed)))))"

definition map_get_price_error :: "get_price_error + pyth_price \<Rightarrow> pyth_price result" where
  "map_get_price_error r = (case r of
     Inr p \<Rightarrow> Ok p
   | Inl PriceTooOld \<Rightarrow> Err (Mfi StaleOracle)
   | Inl OtherPriceError \<Rightarrow> Err (Mfi InvalidOracleAccount))"

lemma map_get_price_error_Ok_iff [run_iff]: "map_get_price_error r = Ok p \<longleftrightarrow> r = Inr p"
  by (simp add: map_get_price_error_def split: sum.splits get_price_error.splits)

definition pyth_push_load_checked ::
    "oracle_sdk \<Rightarrow> account_info \<Rightarrow> pubkey \<Rightarrow> clock \<Rightarrow> u64 \<Rightarrow> pyth_feed result" where
  "pyth_push_load_checked sdk ai feed_id clk max_age =
     (bind (load_price_update_v2_checked sdk ai) (\<lambda>acc.
      bind (map_get_price_error (get_price_no_older_than_full sdk acc clk max_age feed_id)) (\<lambda>price.
      Ok \<lparr>pf_price = price,
          pf_ema_price = \<lparr>pp_price = pu_ema_price acc, pp_conf = pu_ema_conf acc,
                           pp_expo = pu_exponent acc, pp_publish_time = pu_publish_time acc\<rparr>\<rparr>)))"

definition pyth_push_check_ai_and_feed_id :: "oracle_sdk \<Rightarrow> account_info \<Rightarrow> pubkey \<Rightarrow> unit result" where
  "pyth_push_check_ai_and_feed_id sdk ai feed_id =
     (bind (load_price_update_v2_checked sdk ai) (\<lambda>acc.
      check (pu_feed_id acc = feed_id) InvalidOracleAccount))"

definition pyth_push_get_confidence_interval :: "fixed_ops \<Rightarrow> pyth_feed \<Rightarrow> bool \<Rightarrow> i80f48 result" where
  "pyth_push_get_confidence_interval fx feed use_ema =
     (let price = (if use_ema then pf_ema_price feed else pf_price feed) in
      bind (from_u64 fx (pp_conf price)) (\<lambda>conf.
      bind (pyth_price_components_to_i80f48 fx conf (pp_expo price)) (\<lambda>c.
      bind (ok_or_math_error (checked_mul fx c CONF_INTERVAL_MULTIPLE)) (\<lambda>conf_interval.
      bind (from_num fx (sint (pp_price price))) (\<lambda>p.
      bind (pyth_price_components_to_i80f48 fx p (pp_expo price)) (\<lambda>price_value.
      cap_confidence_interval fx conf_interval price_value))))))"

definition pyth_push_get_ema_price :: "fixed_ops \<Rightarrow> pyth_feed \<Rightarrow> i80f48 result" where
  "pyth_push_get_ema_price fx feed =
     (bind (from_num fx (sint (pp_price (pf_ema_price feed)))) (\<lambda>p.
      pyth_price_components_to_i80f48 fx p (pp_expo (pf_ema_price feed))))"

definition pyth_push_get_unweighted_price :: "fixed_ops \<Rightarrow> pyth_feed \<Rightarrow> i80f48 result" where
  "pyth_push_get_unweighted_price fx feed =
     (bind (from_num fx (sint (pp_price (pf_price feed)))) (\<lambda>p.
      pyth_price_components_to_i80f48 fx p (pp_expo (pf_price feed))))"

definition pyth_push_get_price_of_type ::
    "fixed_ops \<Rightarrow> pyth_feed \<Rightarrow> oracle_price_type \<Rightarrow> price_bias option \<Rightarrow> i80f48 result" where
  "pyth_push_get_price_of_type fx feed price_type bias =
     (bind (case price_type of TimeWeighted \<Rightarrow> pyth_push_get_ema_price fx feed
                             | RealTime \<Rightarrow> pyth_push_get_unweighted_price fx feed) (\<lambda>price.
      biased_price fx price (pyth_push_get_confidence_interval fx feed (price_type = TimeWeighted)) bias))"

section \<open>The adapter\<close>

datatype oracle_price_feed_adapter =
    PythLegacyFeed pyth_feed
  | SwitchboardV2Feed aggregator_account
  | PythPushOracleFeed pyth_feed
  | SwitchboardPullFeed pull_feed_account

text \<open>The account checks that three of the four cases of the adapter begin with.\<close>

definition single_account :: "account_info list \<Rightarrow> account_info result" where
  "single_account ais =
     (bind (check (length ais = 1) InvalidOracleAccount) (\<lambda>_. index_at ais 0))"

definition single_keyed_account :: "bank_config \<Rightarrow> account_info list \<Rightarrow> account_info result" where
  "single_keyed_account cfg ais =
     (bind (single_account ais) (\<lambda>ai.
      bind (index_at (oracle_keys cfg) 0) (\<lambda>key.
      bind (check (ai_key ai = key) InvalidOracleAccount) (\<lambda>_. Ok ai))))"

lemma single_account_Ok_iff [run_iff]: "single_account ais = Ok ai \<longleftrightarrow> ais = [ai]"
  by (auto simp: single_account_def run_iff length_Suc_conv)

lemma single_keyed_account_Ok_iff [run_iff]:
  "single_keyed_account cfg ais = Ok ai \<longleftrightarrow>
   ais = [ai] \<and> oracle_keys cfg \<noteq> [] \<and> ai_key ai = oracle_keys cfg ! 0"
  by (auto simp: single_keyed_account_def run_iff)

definition try_from_bank_config_with_max_age ::
    "oracle_sdk \<Rightarrow> bank_config \<Rightarrow> account_info list \<Rightarrow> clock \<Rightarrow> u64 \<Rightarrow> oracle_price_feed_adapter result" where
  "try_from_bank_config_with_max_age sdk cfg ais clk max_age = (case bc_oracle_setup cfg of
     NoOracle \<Rightarrow> Err (Mfi OracleNotSetup)
   | PythLegacy \<Rightarrow>
       bind (single_keyed_account cfg ais) (\<lambda>ai.
       bind (pyth_legacy_load_checked sdk ai (unix_timestamp clk) max_age) (\<lambda>f.
       Ok (PythLegacyFeed f)))
   | SwitchboardV2 \<Rightarrow>
       bind (single_keyed_account cfg ais) (\<lambda>ai.
       bind (switchboard_v2_load_checked sdk ai (unix_timestamp clk) max_age) (\<lambda>f.
       Ok (SwitchboardV2Feed f)))
   | PythPushOracle \<Rightarrow>
       bind (single_account ais) (\<lambda>ai.
       bind (check (ai_owner ai = pyth_receiver_id sdk) InvalidOracleAccount) (\<lambda>_.
       bind (get_pyth_push_oracle_feed_id cfg) (\<lambda>k.
       bind (unwrap k) (\<lambda>feed_id.
       bind (pyth_push_load_checked sdk ai feed_id clk max_age) (\<lambda>f.
       Ok (PythPushOracleFeed f))))))
   | SwitchboardPull \<Rightarrow>
       bind (single_keyed_account cfg ais) (\<lambda>ai.
       bind (switchboard_pull_load_checked sdk ai (unix_timestamp clk) max_age) (\<lambda>f.
       Ok (SwitchboardPullFeed f))))"

definition try_from_bank_config ::
    "oracle_sdk \<Rightarrow> bank_config \<Rightarrow> account_info list \<Rightarrow> clock \<Rightarrow> oracle_price_feed_adapter result" where
  "try_from_bank_config sdk cfg ais clk =
     try_from_bank_config_with_max_age sdk cfg ais clk (get_oracle_max_age cfg)"

definition validate_bank_config :: "oracle_sdk \<Rightarrow> bank_config \<Rightarrow> account_info list \<Rightarrow> unit result" where
  "validate_bank_config sdk cfg oracle_ais = (case bc_oracle_setup cfg of
     NoOracle \<Rightarrow> Err (Mfi OracleNotSetup)
   | PythLegacy \<Rightarrow> bind (single_keyed_account cfg oracle_ais) (pyth_legacy_check_ais sdk)
   | SwitchboardV2 \<Rightarrow> bind (single_keyed_account cfg oracle_ais) (switchboard_v2_check_ais sdk)
   | PythPushOracle \<Rightarrow>
       bind (single_account oracle_ais) (\<lambda>ai.
       bind (get_pyth_push_oracle_feed_id cfg) (\<lambda>k.
       bind (unwrap k) (\<lambda>feed_id.
       pyth_push_check_ai_and_feed_id sdk ai feed_id)))
   | SwitchboardPull \<Rightarrow> bind (single_keyed_account cfg oracle_ais) (switchboard_pull_check_ais sdk))"

definition get_price_of_type ::
    "fixed_ops \<Rightarrow> oracle_sdk \<Rightarrow> oracle_price_feed_adapter \<Rightarrow> oracle_price_type \<Rightarrow> price_bias option \<Rightarrow>
     i80f48 result" where
  "get_price_of_type fx sdk adapter price_type bias = (case adapter of
     PythLegacyFeed f \<Rightarrow> pyth_get_price_of_type fx f price_type bias
   | SwitchboardV2Feed f \<Rightarrow> switchboard_v2_get_price_of_type fx f price_type bias
   | PythPushOracleFeed f \<Rightarrow> pyth_push_get_price_of_type fx f price_type bias
   | SwitchboardPullFeed f \<Rightarrow> switchboard_pull_get_price_of_type fx sdk f price_type bias)"

section \<open>The contract of the adapters\<close>

text \<open>
  What a client of the \<^verbatim>\<open>PriceAdapter\<close> trait relies on: the three prices of a feed are one
  price and that price moved by one confidence interval, and the interval is capped.
\<close>

locale price_adapter = fixed_point +
  fixes base_price :: "'f \<Rightarrow> oracle_price_type \<Rightarrow> i80f48 result"
    and confidence :: "'f \<Rightarrow> oracle_price_type \<Rightarrow> i80f48 result"
    and price_of :: "'f \<Rightarrow> oracle_price_type \<Rightarrow> price_bias option \<Rightarrow> i80f48 result"
  assumes price_of_law: "price_of f t b = bind (base_price f t) (\<lambda>p. biased_price fx p (confidence f t) b)"
    and confidence_law: "confidence f t = Ok c \<Longrightarrow>
      \<exists>p. base_price f t = Ok p \<and> 0 \<le> c \<and> c \<le> p * MAX_CONF_INTERVAL div SCALE"
begin

lemma price_of_None: "price_of f t None = base_price f t"
  by (cases "base_price f t") (simp_all add: price_of_law biased_price_def)

lemma biased_within:
  assumes "price_of f t (Some b) = Ok q"
  obtains p c where "price_of f t None = Ok p" and "0 \<le> c"
    and "c \<le> p * MAX_CONF_INTERVAL div SCALE"
    and "q = (case b of Low \<Rightarrow> p - c | High \<Rightarrow> p + c)"
proof -
  obtain p c where "base_price f t = Ok p" "confidence f t = Ok c"
    "q = (case b of Low \<Rightarrow> p - c | High \<Rightarrow> p + c)"
    using assms by (cases b) (auto simp: price_of_law biased_price_def run_iff fixed_simps)
  with that show thesis
    using confidence_law [of f t c] by (auto simp: price_of_None)
qed

end

lemma max_conf_nonneg_imp:
  assumes "0 \<le> p * MAX_CONF_INTERVAL div SCALE"
  shows "0 \<le> p" and "p * MAX_CONF_INTERVAL div SCALE \<le> p"
proof -
  show p: "0 \<le> p"
    using assms by (simp add: pos_imp_zdiv_nonneg_iff MAX_CONF_INTERVAL_def zero_le_mult_iff)
  show "p * MAX_CONF_INTERVAL div SCALE \<le> p"
    using mul_floor_le_factor [OF p, of MAX_CONF_INTERVAL]
    by (simp add: MAX_CONF_INTERVAL_def SCALE_def mult.commute)
qed

context fixed_point
begin

lemma cap_confidence_interval_OkD:
  "cap_confidence_interval fx ci p = Ok c \<Longrightarrow>
   0 \<le> c \<and> c \<le> p * MAX_CONF_INTERVAL div SCALE \<and> c = min ci (p * MAX_CONF_INTERVAL div SCALE)"
  by (auto simp: cap_confidence_interval_def run_iff fixed_simps ZERO_def)

end

sublocale fixed_point \<subseteq> pyth_legacy: price_adapter fx
  "\<lambda>f t. case t of TimeWeighted \<Rightarrow> pyth_get_ema_price fx f | RealTime \<Rightarrow> pyth_get_unweighted_price fx f"
  "\<lambda>f t. pyth_get_confidence_interval fx f (t = TimeWeighted)"
  "pyth_get_price_of_type fx"
  by unfold_locales
    (auto simp: pyth_get_price_of_type_def pyth_get_confidence_interval_def pyth_get_ema_price_def
       pyth_get_unweighted_price_def Let_def run_iff
       dest!: cap_confidence_interval_OkD split: oracle_price_type.splits)

sublocale fixed_point \<subseteq> pyth_push: price_adapter fx
  "\<lambda>f t. case t of TimeWeighted \<Rightarrow> pyth_push_get_ema_price fx f
                 | RealTime \<Rightarrow> pyth_push_get_unweighted_price fx f"
  "\<lambda>f t. pyth_push_get_confidence_interval fx f (t = TimeWeighted)"
  "pyth_push_get_price_of_type fx"
  by unfold_locales
    (auto simp: pyth_push_get_price_of_type_def pyth_push_get_confidence_interval_def
       pyth_push_get_ema_price_def pyth_push_get_unweighted_price_def Let_def run_iff
       dest!: cap_confidence_interval_OkD split: oracle_price_type.splits)

sublocale fixed_point \<subseteq> switchboard_v2: price_adapter fx
  "\<lambda>f t. switchboard_v2_get_price fx f" "\<lambda>f t. switchboard_v2_get_confidence_interval fx f"
  "switchboard_v2_get_price_of_type fx"
  by unfold_locales
    (auto simp: switchboard_v2_get_price_of_type_def switchboard_v2_get_confidence_interval_def run_iff
       dest!: cap_confidence_interval_OkD)

sublocale fixed_point \<subseteq> switchboard_pull: price_adapter fx
  "\<lambda>f t. switchboard_pull_get_price fx sdk f"
  "\<lambda>f t. switchboard_pull_get_confidence_interval fx sdk f"
  "switchboard_pull_get_price_of_type fx sdk" for sdk
  by unfold_locales
    (auto simp: switchboard_pull_get_price_of_type_def switchboard_pull_get_confidence_interval_def run_iff
       dest!: cap_confidence_interval_OkD)

text \<open>The enum dispatches to its four variants, so it keeps the contract they keep.\<close>

definition adapter_base_price :: "fixed_ops \<Rightarrow> oracle_sdk \<Rightarrow> oracle_price_feed_adapter \<Rightarrow> oracle_price_type \<Rightarrow> i80f48 result" where
  "adapter_base_price fx sdk adapter t = (case adapter of
     PythLegacyFeed f \<Rightarrow> (case t of TimeWeighted \<Rightarrow> pyth_get_ema_price fx f | RealTime \<Rightarrow> pyth_get_unweighted_price fx f)
   | SwitchboardV2Feed f \<Rightarrow> switchboard_v2_get_price fx f
   | PythPushOracleFeed f \<Rightarrow> (case t of TimeWeighted \<Rightarrow> pyth_push_get_ema_price fx f
                                      | RealTime \<Rightarrow> pyth_push_get_unweighted_price fx f)
   | SwitchboardPullFeed f \<Rightarrow> switchboard_pull_get_price fx sdk f)"

definition adapter_confidence :: "fixed_ops \<Rightarrow> oracle_sdk \<Rightarrow> oracle_price_feed_adapter \<Rightarrow> oracle_price_type \<Rightarrow> i80f48 result" where
  "adapter_confidence fx sdk adapter t = (case adapter of
     PythLegacyFeed f \<Rightarrow> pyth_get_confidence_interval fx f (t = TimeWeighted)
   | SwitchboardV2Feed f \<Rightarrow> switchboard_v2_get_confidence_interval fx f
   | PythPushOracleFeed f \<Rightarrow> pyth_push_get_confidence_interval fx f (t = TimeWeighted)
   | SwitchboardPullFeed f \<Rightarrow> switchboard_pull_get_confidence_interval fx sdk f)"

sublocale fixed_point \<subseteq> adapter: price_adapter fx
  "adapter_base_price fx sdk" "adapter_confidence fx sdk" "get_price_of_type fx sdk" for sdk
proof unfold_locales
  fix f t b
  show "get_price_of_type fx sdk f t b =
    bind (adapter_base_price fx sdk f t) (\<lambda>p. biased_price fx p (adapter_confidence fx sdk f t) b)"
    by (cases f)
      (simp_all add: get_price_of_type_def adapter_base_price_def adapter_confidence_def
         pyth_legacy.price_of_law pyth_push.price_of_law switchboard_v2.price_of_law
         switchboard_pull.price_of_law)
next
  fix f t c
  assume "adapter_confidence fx sdk f t = Ok c"
  then show "\<exists>p. adapter_base_price fx sdk f t = Ok p \<and> 0 \<le> c \<and> c \<le> p * MAX_CONF_INTERVAL div SCALE"
    using pyth_legacy.confidence_law pyth_push.confidence_law switchboard_v2.confidence_law
      switchboard_pull.confidence_law
    by (cases f) (simp_all add: adapter_base_price_def adapter_confidence_def)
qed

context fixed_point
begin

lemmas adapter_biased_within = adapter.biased_within

end

lemma saturating_age_le:
  assumes "saturating_sub_i64 now upd \<le> sint (ucast (age :: u16) :: u64)"
  shows "sint now - sint upd \<le> uint age"
proof -
  have "sint (ucast age :: u64) = uint age"
    using uint_bounded [of age] by (simp add: sint_uint unsigned_ucast_eq take_bit_int_eq_self
        signed_take_bit_int_eq_self order_trans [OF _ uint_nonnegative])
  then show ?thesis
    using assms uint_bounded [of age] by (auto simp: saturating_sub_i64_def)
qed

lemma decimal_quot_fits:
  assumes "0 \<le> m" and "fits (m * SCALE)"
  shows "fits (trunc_div (m * SCALE * SCALE) (10 ^ n * SCALE))"
  using assms by (auto intro!: fits_nonneg_le [OF _ _ assms(2)] quot_le_self
      simp: pos_imp_zdiv_nonneg_iff trunc_div_nonneg)

section \<open>Properties\<close>

text \<open>
  C31. The low and the high price of any feed lie on the two sides of its unbiased price, at the
  same distance; the distance is at most five percent of the price and the low price is never
  negative. So collateral valued at the low price is never valued above the market, a debt
  valued at the high price never below it.
\<close>

theorem biased_prices_bracket:
  assumes "fixed_point fx"
    and "get_price_of_type fx sdk f t (Some Low) = Ok lo"
    and "get_price_of_type fx sdk f t (Some High) = Ok hi"
  shows "\<exists>p. get_price_of_type fx sdk f t None = Ok p \<and> 0 \<le> lo \<and> lo \<le> p \<and> p \<le> hi \<and>
    p - lo \<le> p * MAX_CONF_INTERVAL div SCALE \<and> hi - p \<le> p * MAX_CONF_INTERVAL div SCALE"
proof -
  obtain p c where p: "get_price_of_type fx sdk f t None = Ok p" "0 \<le> c"
      "c \<le> p * MAX_CONF_INTERVAL div SCALE" "lo = p - c"
    by (rule fixed_point.adapter_biased_within [OF assms(1,2)]) (rule that, simp_all)
  obtain q d where q: "get_price_of_type fx sdk f t None = Ok q" "0 \<le> d"
      "d \<le> q * MAX_CONF_INTERVAL div SCALE" "hi = q + d"
    by (rule fixed_point.adapter_biased_within [OF assms(1,3)]) (rule that, simp_all)
  have "p = q" using p(1) q(1) by simp
  moreover have "p * MAX_CONF_INTERVAL div SCALE \<le> p"
    by (rule max_conf_nonneg_imp [OF order_trans [OF p(2,3)]])
  ultimately show ?thesis
    using p q(2-4) by (intro exI [of _ p] conjI) (linarith | simp)+
qed

text \<open>
  A concrete SDK for the examples: a Pyth account is two bytes, price and confidence, published
  at time 0; a Switchboard pull feed is three bytes, value, raw deviation and time.
\<close>

definition example_feed :: "u8 list \<Rightarrow> pyth_feed option" where
  "example_feed bytes = (case bytes of
     [p, c] \<Rightarrow> (let price = \<lparr>pp_price = ucast p, pp_conf = ucast c, pp_expo = 0, pp_publish_time = 0\<rparr>
        in Some \<lparr>pf_price = price, pf_ema_price = price\<rparr>)
   | _ \<Rightarrow> None)"

definition example_sdk :: oracle_sdk where
  "example_sdk = \<lparr>
     pyth_receiver_id = 11, switchboard_program_id = 12,
     price_update_discriminator = [1, 2, 3, 4, 5, 6, 7, 8], switchboard_precision = 18,
     account_info_to_feed = (\<lambda>ai. example_feed (ai_data ai)),
     get_price_no_older_than = (\<lambda>f now age. if sint now \<le> sint (pp_publish_time (pf_price f)) + uint age
       then Some (pf_price f) else None),
     get_ema_price_no_older_than = (\<lambda>f now age. if sint now \<le> sint (pp_publish_time (pf_ema_price f)) + uint age
       then Some (pf_ema_price f) else None),
     price_update_deserialize = (\<lambda>_. None),
     get_price_no_older_than_full = (\<lambda>_ _ _ _. Inl OtherPriceError),
     pull_feed_parse = (\<lambda>bytes. case bytes of [v, d, t] \<Rightarrow>
       Some \<lparr>pull_value = uint v * 10 ^ 18, pull_std_dev = uint d, pull_last_update_timestamp = ucast t\<rparr> | _ \<Rightarrow> None),
     aggregator_from_bytes = (\<lambda>_. None),
     aggregator_check_staleness = (\<lambda>_ _ _. False) \<rparr>"

definition example_pyth_price :: pyth_price where
  "example_pyth_price = \<lparr>pp_price = 10000, pp_conf = 100, pp_expo = word_of_int (- 2), pp_publish_time = 0\<rparr>"

theorem biased_prices_bracket_witness:
  "\<exists>p. get_price_of_type i80f48_ref example_sdk
        (PythLegacyFeed \<lparr>pf_price = example_pyth_price, pf_ema_price = example_pyth_price\<rparr>) RealTime None = Ok p \<and>
    0 \<le> (27550770720439009 :: int) \<and> 27550770720439009 \<le> p \<and> p \<le> 28744224621692191 \<and>
    p - 27550770720439009 \<le> p * MAX_CONF_INTERVAL div SCALE \<and>
    28744224621692191 - p \<le> p * MAX_CONF_INTERVAL div SCALE"
  by (rule biased_prices_bracket [OF reference.fixed_point_axioms]) code_simp+

text \<open>
  C32. Loading a price feed succeeds only on the account the bank is configured with: exactly one
  account, owned by the oracle program of the configured kind, and either the configured address
  or, for a Pyth push feed, an account whose feed id the receiver SDK accepted against the
  configured one. A Switchboard pull price is at most the configured age old.
\<close>

theorem try_from_bank_config_authentic:
  assumes "try_from_bank_config sdk cfg ais clk = Ok f"
  shows "\<exists>ai. ais = [ai] \<and> (case bc_oracle_setup cfg of
      NoOracle \<Rightarrow> False
    | PythLegacy \<Rightarrow> ai_key ai = oracle_keys cfg ! 0 \<and> ai_owner ai = PYTH_ID
    | SwitchboardV2 \<Rightarrow> ai_key ai = oracle_keys cfg ! 0 \<and> ai_owner ai = switchboard_program_id sdk
    | PythPushOracle \<Rightarrow> ai_owner ai = pyth_receiver_id sdk \<and>
        (\<exists>acc p. price_update_deserialize sdk (drop 8 (ai_data ai)) = Some acc \<and>
           get_price_no_older_than_full sdk acc clk (get_oracle_max_age cfg) (oracle_keys cfg ! 0) = Inr p)
    | SwitchboardPull \<Rightarrow> ai_key ai = oracle_keys cfg ! 0 \<and> ai_owner ai = SWITCHBOARD_PULL_ID \<and>
        (\<exists>feed. f = SwitchboardPullFeed feed \<and>
           sint (unix_timestamp clk) - sint (pull_last_update_timestamp feed) \<le> uint (oracle_max_age cfg)))"
proof (cases "bc_oracle_setup cfg")
  case SwitchboardPull
  then show ?thesis
    using assms saturating_age_le [of "unix_timestamp clk" _ "oracle_max_age cfg"]
    by (auto simp: try_from_bank_config_def try_from_bank_config_with_max_age_def run_iff
        switchboard_pull_load_checked_def get_oracle_max_age_def split: if_splits)
qed (use assms in \<open>auto simp: try_from_bank_config_def try_from_bank_config_with_max_age_def run_iff
      pyth_legacy_load_checked_def load_pyth_price_feed_def switchboard_v2_load_checked_def
      pyth_push_load_checked_def load_price_update_v2_checked_def get_pyth_push_oracle_feed_id_def\<close>)

theorem try_from_bank_config_authentic_witness:
  "let cfg = bank_config_default \<lparr>bc_oracle_setup := SwitchboardPull, oracle_keys := [5], oracle_max_age := 30\<rparr>;
       ai = \<lparr>ai_key = 5, ai_owner = SWITCHBOARD_PULL_ID, ai_data = [100, 2, 80]\<rparr>
   in \<exists>feed. Ok (SwitchboardPullFeed feed) =
        try_from_bank_config example_sdk cfg [ai] \<lparr>unix_timestamp = 100, epoch = 7\<rparr> \<and>
      100 - sint (pull_last_update_timestamp feed) \<le> 30"
proof -
  define cfg where "cfg = bank_config_default \<lparr>bc_oracle_setup := SwitchboardPull, oracle_keys := [5], oracle_max_age := 30\<rparr>"
  define ai where "ai = \<lparr>ai_key = 5, ai_owner = SWITCHBOARD_PULL_ID, ai_data = [100, 2, 80 :: u8]\<rparr>"
  define clk :: clock where "clk = \<lparr>unix_timestamp = 100, epoch = 7\<rparr>"
  have "try_from_bank_config example_sdk cfg [ai] clk =
    Ok (SwitchboardPullFeed \<lparr>pull_value = 100 * 10 ^ 18, pull_std_dev = 2, pull_last_update_timestamp = 80\<rparr>)"
    unfolding cfg_def ai_def clk_def by code_simp
  from try_from_bank_config_authentic [OF this] this show ?thesis
    by (auto simp: cfg_def ai_def clk_def)
qed

text \<open>
  C33. The confidence interval of a Switchboard pull feed ignores the feed's scale: the price is
  divided by the SDK's precision and the deviation is not. So for any price up to 39 dollars
  every non-zero deviation, down to one unit of the last of the feed's decimals, gives the
  maximal interval of five percent.
\<close>

theorem switchboard_pull_interval_unscaled:
  assumes "fixed_point fx"
    and "switchboard_pull_get_price fx sdk feed = Ok price" and "price \<le> 39 * SCALE"
    and "0 < pull_std_dev feed" and "fits (pull_std_dev feed * SCALE)"
    and "switchboard_pull_get_confidence_interval fx sdk feed = Ok c"
  shows "c = price * MAX_CONF_INTERVAL div SCALE"
proof -
  have "price * MAX_CONF_INTERVAL div SCALE \<le> (39 * SCALE) * MAX_CONF_INTERVAL div SCALE"
    using assms(3) by (intro mul_floor_mono mult_right_mono) (simp_all add: MAX_CONF_INTERVAL_def)
  also have "\<dots> \<le> pull_std_dev feed * STD_DEV_MULTIPLE"
    using assms(4) by (simp add: MAX_CONF_INTERVAL_def STD_DEV_MULTIPLE_def SCALE_def)
  also have "\<dots> = pull_std_dev feed * SCALE * STD_DEV_MULTIPLE div SCALE"
    by (simp add: ac_simps)
  finally show ?thesis
    using assms(1,2,5,6)
    by (auto simp: switchboard_pull_get_confidence_interval_def run_iff fixed_point.from_num_fits
        fixed_point.mul_law dest!: fixed_point.cap_confidence_interval_OkD [OF assms(1)])
qed

theorem switchboard_pull_interval_unscaled_witness:
  "(14073748835533 :: int) = 281474976710656 * MAX_CONF_INTERVAL div SCALE"
  by (rule switchboard_pull_interval_unscaled [OF reference.fixed_point_axioms,
        where sdk = example_sdk and
          feed = "\<lparr>pull_value = 1000000000000000000, pull_std_dev = 1, pull_last_update_timestamp = 0\<rparr>"])
    code_simp+

text \<open>
  C34. The conversion of a Switchboard decimal. For a mantissa that is not negative and at most 40
  decimals, if the mantissa, cut to 20 decimals where it has more, is below \<open>2 ^ 79\<close>, which the
  integer part of an \<^verbatim>\<open>I80F48\<close> holds, the conversion never fails, never exceeds the exact value and is at most
  one representable step below its rounding. With 18 decimals, the bound is a price of 604462 dollars.
\<close>

theorem switchboard_decimal_to_i80f48_precise:
  assumes "fixed_point fx" and "0 \<le> sd_mantissa d"
    and "sd_mantissa d div 10 ^ (unat (sd_scale d) - 20) < 2 ^ 79"
    and "unat (sd_scale d) \<le> 40"
  shows "\<exists>v. switchboard_decimal_to_i80f48 fx d = Ok (Some v) \<and>
    v \<le> sd_mantissa d * SCALE div 10 ^ unat (sd_scale d) \<and>
    sd_mantissa d * SCALE div 10 ^ unat (sd_scale d) \<le> v + 1"
proof (cases "sd_scale d \<le> MAX_SCALE")
  case True
  then have s: "unat (sd_scale d) \<le> 20"
    by (simp add: MAX_SCALE_def word_le_nat_alt)
  then have m: "fits (sd_mantissa d * SCALE)"
    using assms(2,3) by (simp add: fits_def SCALE_def)
  then show ?thesis
    using decimal_quot_fits [OF assms(2) m, of "unat (sd_scale d)"] assms True s
    by (simp add: switchboard_decimal_to_i80f48_def fit_scale_switchboard_decimal_def
        fixed_point.from_num_fits fixed_point.div_law index_at_def EXP_10_I80F48_def trunc_div_nonneg)
next
  case False
  define k where "k = unat (sd_scale d) - 20"
  have scale: "unat (sd_scale d - MAX_SCALE) = k" "unat (sd_scale d) = k + 20" "k \<le> 20"
    using False assms(4) by (simp_all add: MAX_SCALE_def k_def word_le_nat_alt unat_sub)
  let ?m = "sd_mantissa d div 10 ^ k"
  have "0 \<le> ?m" "?m < 2 ^ 79"
    using assms(2,3) by (simp_all add: pos_imp_zdiv_nonneg_iff k_def)
  then have m: "0 \<le> ?m" "fits (?m * SCALE)"
    by (simp_all add: fits_def SCALE_def)
  then have "switchboard_decimal_to_i80f48 fx d = Ok (Some (?m * SCALE div 10 ^ 20))"
    using decimal_quot_fits [OF m, of 20] assms False scale
    by (simp add: switchboard_decimal_to_i80f48_def fit_scale_switchboard_decimal_def EXP_10_def
        fixed_point.from_num_fits fixed_point.div_law index_at_def EXP_10_I80F48_def
        trunc_div_nonneg MAX_SCALE_def)
  then show ?thesis
    using two_step_quot [of "10 ^ k" "10 ^ 20" SCALE "sd_mantissa d"] assms(2)
    by (simp add: scale power_add SCALE_def)
qed

theorem switchboard_decimal_to_i80f48_precise_witness:
  "\<exists>v. switchboard_decimal_to_i80f48 i80f48_ref \<lparr>sd_mantissa = 13942937500000000000000000, sd_scale = 28\<rparr> = Ok (Some v) \<and>
    v \<le> 392459 * 10 ^ 6 \<and> 392458 * 10 ^ 6 \<le> v"
proof -
  let ?d = "\<lparr>sd_mantissa = 13942937500000000000000000, sd_scale = 28\<rparr>"
  have "sd_mantissa ?d div 10 ^ (unat (sd_scale ?d) - 20) < 2 ^ 79"
    by code_simp
  from switchboard_decimal_to_i80f48_precise [OF reference.fixed_point_axioms _ this]
  show ?thesis by (auto simp: SCALE_def)
qed

end
