(* ===== verification/Bank.thy ===== *)
theory Bank
  imports Oracle_Price
begin

text \<open>
  \<^verbatim>\<open>Bank\<close> of \<^verbatim>\<open>state/marginfi_group.rs\<close>: its state, the conversion between shares and amounts,
  the totals with the deposit and borrow limits, interest accrual, configuration, the
  socialized loss, the flags, and the two valuation functions of \<^verbatim>\<open>state/marginfi_account.rs\<close>.

  Token transfers are calls to the token program. The program is the parameter \<open>token_ops\<close>, a
  partial function on the ledger that maps a token account to its amount.
\<close>

section \<open>State\<close>

record bank =
  mint :: pubkey
  mint_decimals :: u8
  bk_group :: pubkey
  asset_share_value :: i80f48
  liability_share_value :: i80f48
  liquidity_vault :: pubkey
  liquidity_vault_bump :: u8
  liquidity_vault_authority_bump :: u8
  insurance_vault :: pubkey
  insurance_vault_bump :: u8
  insurance_vault_authority_bump :: u8
  collected_insurance_fees_outstanding :: i80f48
  fee_vault :: pubkey
  fee_vault_bump :: u8
  fee_vault_authority_bump :: u8
  collected_group_fees_outstanding :: i80f48
  total_liability_shares :: i80f48
  total_asset_shares :: i80f48
  last_update :: i64
  bk_config :: bank_config
  bk_flags :: u64
  emissions_rate :: u64
  emissions_remaining :: i80f48
  emissions_mint :: pubkey
  collected_program_fees_outstanding :: i80f48

definition EMISSIONS_FLAG_BORROW_ACTIVE :: u64 where
  "EMISSIONS_FLAG_BORROW_ACTIVE = 1"

definition EMISSIONS_FLAG_LENDING_ACTIVE :: u64 where
  "EMISSIONS_FLAG_LENDING_ACTIVE = 2"

definition PERMISSIONLESS_BAD_DEBT_SETTLEMENT_FLAG :: u64 where
  "PERMISSIONLESS_BAD_DEBT_SETTLEMENT_FLAG = 4"

definition EMISSION_FLAGS :: u64 where
  "EMISSION_FLAGS = EMISSIONS_FLAG_BORROW_ACTIVE OR EMISSIONS_FLAG_LENDING_ACTIVE"

definition GROUP_FLAGS :: u64 where
  "GROUP_FLAGS = PERMISSIONLESS_BAD_DEBT_SETTLEMENT_FLAG"

definition bank_new ::
    "pubkey \<Rightarrow> bank_config \<Rightarrow> pubkey \<Rightarrow> u8 \<Rightarrow> pubkey \<Rightarrow> pubkey \<Rightarrow> pubkey \<Rightarrow> i64 \<Rightarrow>
     u8 \<Rightarrow> u8 \<Rightarrow> u8 \<Rightarrow> u8 \<Rightarrow> u8 \<Rightarrow> u8 \<Rightarrow> bank" where
  "bank_new group_pk cfg mint_pk decimals liquidity insurance fee now
       liquidity_bump liquidity_auth_bump insurance_bump insurance_auth_bump fee_bump fee_auth_bump = \<lparr>
     mint = mint_pk, mint_decimals = decimals, bk_group = group_pk,
     asset_share_value = ONE, liability_share_value = ONE,
     liquidity_vault = liquidity, liquidity_vault_bump = liquidity_bump,
     liquidity_vault_authority_bump = liquidity_auth_bump,
     insurance_vault = insurance, insurance_vault_bump = insurance_bump,
     insurance_vault_authority_bump = insurance_auth_bump,
     collected_insurance_fees_outstanding = ZERO,
     fee_vault = fee, fee_vault_bump = fee_bump, fee_vault_authority_bump = fee_auth_bump,
     collected_group_fees_outstanding = ZERO,
     total_liability_shares = ZERO, total_asset_shares = ZERO,
     last_update = now, bk_config = cfg, bk_flags = 0, emissions_rate = 0,
     emissions_remaining = ZERO, emissions_mint = default_pubkey,
     collected_program_fees_outstanding = ZERO\<rparr>"

section \<open>Shares and amounts\<close>

definition get_liability_amount :: "fixed_ops \<Rightarrow> bank \<Rightarrow> i80f48 \<Rightarrow> i80f48 result" where
  "get_liability_amount fx b shares = ok_or_math_error (checked_mul fx shares (liability_share_value b))"

definition get_asset_amount :: "fixed_ops \<Rightarrow> bank \<Rightarrow> i80f48 \<Rightarrow> i80f48 result" where
  "get_asset_amount fx b shares = ok_or_math_error (checked_mul fx shares (asset_share_value b))"

definition get_liability_shares :: "fixed_ops \<Rightarrow> bank \<Rightarrow> i80f48 \<Rightarrow> i80f48 result" where
  "get_liability_shares fx b value = ok_or_math_error (checked_div fx value (liability_share_value b))"

definition get_asset_shares :: "fixed_ops \<Rightarrow> bank \<Rightarrow> i80f48 \<Rightarrow> i80f48 result" where
  "get_asset_shares fx b value = ok_or_math_error (checked_div fx value (asset_share_value b))"

section \<open>Values\<close>

definition calc_value :: "fixed_ops \<Rightarrow> i80f48 \<Rightarrow> i80f48 \<Rightarrow> u8 \<Rightarrow> i80f48 option \<Rightarrow> i80f48 result" where
  "calc_value fx amount price decimals weight =
     (if amount = ZERO then Ok ZERO
      else bind (index_at EXP_10_I80F48 (unat decimals)) (\<lambda>scaling_factor.
           bind (case weight of Some w \<Rightarrow> unwrap (checked_mul fx amount w) | None \<Rightarrow> Ok amount) (\<lambda>weighted.
           bind (ok_or_math_error (checked_mul fx weighted price)) (\<lambda>v.
           ok_or_math_error (checked_div fx v scaling_factor)))))"

definition calc_amount :: "fixed_ops \<Rightarrow> i80f48 \<Rightarrow> i80f48 \<Rightarrow> u8 \<Rightarrow> i80f48 result" where
  "calc_amount fx value price decimals =
     (bind (index_at EXP_10_I80F48 (unat decimals)) (\<lambda>scaling_factor.
      bind (ok_or_math_error (checked_mul fx value scaling_factor)) (\<lambda>v.
      ok_or_math_error (checked_div fx v price))))"

definition maybe_get_asset_weight_init_discount ::
    "fixed_ops \<Rightarrow> bank \<Rightarrow> i80f48 \<Rightarrow> i80f48 option result" where
  "maybe_get_asset_weight_init_discount fx b price =
     (if usd_init_limit_active (bk_config b)
      then bind (get_asset_amount fx b (total_asset_shares b)) (\<lambda>amount.
           bind (calc_value fx amount price (mint_decimals b) None) (\<lambda>bank_total_assets_value.
           bind (from_u64 fx (total_asset_value_init_limit (bk_config b))) (\<lambda>limit.
           if limit < bank_total_assets_value
           then bind (ok_or_math_error (checked_div fx limit bank_total_assets_value)) (\<lambda>discount.
                Ok (Some discount))
           else Ok None)))
      else Ok None)"

section \<open>Totals and limits\<close>

definition bank_change_asset_shares :: "fixed_ops \<Rightarrow> bank \<Rightarrow> i80f48 \<Rightarrow> bool \<Rightarrow> bank result" where
  "bank_change_asset_shares fx b shares bypass_deposit_limit =
     (bind (ok_or_math_error (checked_add fx (total_asset_shares b) shares)) (\<lambda>total.
      let b' = b\<lparr>total_asset_shares := total\<rparr> in
      if 0 < shares \<and> is_deposit_limit_active (bk_config b) \<and> \<not> bypass_deposit_limit
      then bind (get_asset_amount fx b' total) (\<lambda>total_deposits_amount.
           bind (from_u64 fx (deposit_limit (bk_config b))) (\<lambda>limit.
           bind (check (total_deposits_amount < limit) BankAssetCapacityExceeded) (\<lambda>_.
           Ok b')))
      else Ok b'))"

definition bank_change_liability_shares :: "fixed_ops \<Rightarrow> bank \<Rightarrow> i80f48 \<Rightarrow> bool \<Rightarrow> bank result" where
  "bank_change_liability_shares fx b shares bypass_borrow_limit =
     (bind (ok_or_math_error (checked_add fx (total_liability_shares b) shares)) (\<lambda>total.
      let b' = b\<lparr>total_liability_shares := total\<rparr> in
      if \<not> bypass_borrow_limit \<and> 0 < shares \<and> is_borrow_limit_active (bk_config b)
      then bind (get_liability_amount fx b' total) (\<lambda>total_liability_amount.
           bind (from_u64 fx (borrow_limit (bk_config b))) (\<lambda>limit.
           bind (check (total_liability_amount < limit) BankLiabilityCapacityExceeded) (\<lambda>_.
           Ok b')))
      else Ok b'))"

definition check_utilization_ratio :: "fixed_ops \<Rightarrow> bank \<Rightarrow> unit result" where
  "check_utilization_ratio fx b =
     (bind (get_asset_amount fx b (total_asset_shares b)) (\<lambda>total_assets.
      bind (get_liability_amount fx b (total_liability_shares b)) (\<lambda>total_liabilities.
      check (total_liabilities \<le> total_assets) IllegalUtilizationRatio)))"

section \<open>Flags\<close>

definition bank_get_flag :: "bank \<Rightarrow> u64 \<Rightarrow> bool" where
  "bank_get_flag b flag \<longleftrightarrow> bk_flags b AND flag = flag"

definition verify_emissions_flags :: "u64 \<Rightarrow> bool" where
  "verify_emissions_flags flags \<longleftrightarrow> flags AND EMISSION_FLAGS = flags"

definition verify_group_flags :: "u64 \<Rightarrow> bool" where
  "verify_group_flags flags \<longleftrightarrow> flags AND GROUP_FLAGS = flags"

definition override_emissions_flag :: "bank \<Rightarrow> u64 \<Rightarrow> bank result" where
  "override_emissions_flag b flag =
     (bind (assert_that (verify_emissions_flags flag)) (\<lambda>_. Ok (b\<lparr>bk_flags := flag\<rparr>)))"

definition update_flag :: "bank \<Rightarrow> bool \<Rightarrow> u64 \<Rightarrow> bank result" where
  "update_flag b value flag =
     (bind (assert_that (verify_group_flags flag)) (\<lambda>_.
      Ok (b\<lparr>bk_flags := (if value then bk_flags b OR flag else bk_flags b AND NOT flag)\<rparr>)))"

section \<open>Configuration\<close>

definition config_updated :: "bank_config \<Rightarrow> bank_config_opt \<Rightarrow> bank_config" where
  "config_updated c o' = c\<lparr>
     asset_weight_init := set_if_some (asset_weight_init c) (bco_asset_weight_init o'),
     asset_weight_maint := set_if_some (asset_weight_maint c) (bco_asset_weight_maint o'),
     liability_weight_init := set_if_some (liability_weight_init c) (bco_liability_weight_init o'),
     liability_weight_maint := set_if_some (liability_weight_maint c) (bco_liability_weight_maint o'),
     deposit_limit := set_if_some (deposit_limit c) (bco_deposit_limit o'),
     borrow_limit := set_if_some (borrow_limit c) (bco_borrow_limit o'),
     operational_state := set_if_some (operational_state c) (bco_operational_state o'),
     bc_oracle_setup := set_if_some (bc_oracle_setup c) (map_option ocfg_setup (bco_oracle o')),
     oracle_keys := set_if_some (oracle_keys c) (map_option ocfg_keys (bco_oracle o')),
     bc_interest_rate_config := (case bco_interest_rate_config o' of
        Some ir \<Rightarrow> ir_config_update (bc_interest_rate_config c) ir
      | None \<Rightarrow> bc_interest_rate_config c),
     bc_risk_tier := set_if_some (bc_risk_tier c) (bco_risk_tier o'),
     total_asset_value_init_limit :=
       set_if_some (total_asset_value_init_limit c) (bco_total_asset_value_init_limit o'),
     oracle_max_age := set_if_some (oracle_max_age c) (bco_oracle_max_age o')\<rparr>"

definition bank_configure :: "bank \<Rightarrow> bank_config_opt \<Rightarrow> bank result" where
  "bank_configure b o' =
     (let b1 = b\<lparr>bk_config := config_updated (bk_config b) o'\<rparr> in
      bind (case bco_permissionless_bad_debt_settlement o' of
              Some flag \<Rightarrow> update_flag b1 flag PERMISSIONLESS_BAD_DEBT_SETTLEMENT_FLAG
            | None \<Rightarrow> Ok b1) (\<lambda>b2.
      bind (bank_config_validate (bk_config b2)) (\<lambda>_. Ok b2)))"

definition assert_operational_mode :: "bank \<Rightarrow> bool option \<Rightarrow> unit result" where
  "assert_operational_mode b increasing = (case operational_state (bk_config b) of
     Paused \<Rightarrow> Err (Mfi BankPaused)
   | Operational \<Rightarrow> Ok ()
   | ReduceOnly \<Rightarrow> (case increasing of Some inc \<Rightarrow> check (\<not> inc) BankReduceOnly | None \<Rightarrow> Ok ()))"

section \<open>Accrual and loss\<close>

text \<open>\<^verbatim>\<open>(current_timestamp - self.last_update).try_into().unwrap()\<close>.\<close>

definition elapsed :: "i64 \<Rightarrow> i64 \<Rightarrow> u64 result" where
  "elapsed now before =
     (let delta = sint now - sint before in
      bind (assert_that (- (2 ^ 63) \<le> delta \<and> delta < 2 ^ 63)) (\<lambda>_.
      bind (assert_that (0 \<le> delta)) (\<lambda>_. Ok (word_of_int delta))))"

text \<open>A fee is added to what is outstanding only when it is positive.\<close>

definition add_collected :: "fixed_ops \<Rightarrow> i80f48 \<Rightarrow> i80f48 \<Rightarrow> i80f48 result" where
  "add_collected fx collected outstanding =
     (if ZERO < collected then ok_or_math_error (checked_add fx collected outstanding) else Ok outstanding)"

definition accrue_interest :: "fixed_ops \<Rightarrow> bank \<Rightarrow> i64 \<Rightarrow> marginfi_group \<Rightarrow> bank result" where
  "accrue_interest fx b current_timestamp g =
     (bind (elapsed current_timestamp (last_update b)) (\<lambda>time_delta.
      if time_delta = 0 then Ok b
      else
      bind (get_asset_amount fx b (total_asset_shares b)) (\<lambda>total_assets.
      bind (get_liability_amount fx b (total_liability_shares b)) (\<lambda>total_liabilities.
      let b1 = b\<lparr>last_update := current_timestamp\<rparr> in
      if total_assets = ZERO \<or> total_liabilities = ZERO then Ok b1
      else
      bind (calc_interest_rate_accrual_state_changes fx time_delta total_assets total_liabilities
              (create_interest_rate_calculator (bc_interest_rate_config (bk_config b)) g)
              (asset_share_value b) (liability_share_value b)) (\<lambda>m.
      bind (ok_or_math_error m) (\<lambda>s.
      bind (add_collected fx (group_fees_collected s) (collected_group_fees_outstanding b)) (\<lambda>group_fees.
      bind (add_collected fx (insurance_fees_collected s) (collected_insurance_fees_outstanding b)) (\<lambda>insurance_fees.
      bind (add_collected fx (protocol_fees_collected s) (collected_program_fees_outstanding b)) (\<lambda>program_fees.
      Ok (b1\<lparr>asset_share_value := new_asset_share_value s,
             liability_share_value := new_liability_share_value s,
             collected_group_fees_outstanding := group_fees,
             collected_insurance_fees_outstanding := insurance_fees,
             collected_program_fees_outstanding := program_fees\<rparr>))))))))))"

definition socialize_loss :: "fixed_ops \<Rightarrow> bank \<Rightarrow> i80f48 \<Rightarrow> bank result" where
  "socialize_loss fx b loss_amount =
     (bind (ok_or_math_error (checked_mul fx (total_asset_shares b) (asset_share_value b))) (\<lambda>total.
      bind (ok_or_math_error (checked_sub fx total loss_amount)) (\<lambda>rest.
      bind (ok_or_math_error (checked_div fx rest (total_asset_shares b))) (\<lambda>new_share_value.
      Ok (b\<lparr>asset_share_value := new_share_value\<rparr>)))))"

section \<open>Token transfers\<close>

type_synonym ledger = "pubkey \<Rightarrow> u64"

text \<open>
  \<open>token_transfer\<close> is a transfer instruction of the token program: the ledger, source,
  destination, authority, the mint for \<^verbatim>\<open>transfer_checked\<close>, and the amount.
\<close>

record token_ops =
  token_transfer :: "ledger \<Rightarrow> pubkey \<Rightarrow> pubkey \<Rightarrow> pubkey \<Rightarrow> pubkey option \<Rightarrow> u64 \<Rightarrow> ledger option"

definition deposit_spl_transfer ::
    "token_ops \<Rightarrow> bank \<Rightarrow> ledger \<Rightarrow> u64 \<Rightarrow> pubkey \<Rightarrow> pubkey \<Rightarrow> pubkey \<Rightarrow> pubkey option \<Rightarrow> ledger result" where
  "deposit_spl_transfer tk b ledger amount src dst authority maybe_mint =
     (bind (check (dst = liquidity_vault b) InvalidTransfer) (\<lambda>_.
      ok_or (token_transfer tk ledger src dst authority maybe_mint amount) (Anchor CallFailed)))"

definition withdraw_spl_transfer ::
    "token_ops \<Rightarrow> bank \<Rightarrow> ledger \<Rightarrow> u64 \<Rightarrow> pubkey \<Rightarrow> pubkey \<Rightarrow> pubkey \<Rightarrow> pubkey option \<Rightarrow> ledger result" where
  "withdraw_spl_transfer tk b ledger amount src dst authority maybe_mint =
     ok_or (token_transfer tk ledger src dst authority maybe_mint amount) (Anchor CallFailed)"

section \<open>Invariant and totals\<close>

definition bank_ok :: "bank \<Rightarrow> bool" where
  "bank_ok b \<longleftrightarrow> 0 < asset_share_value b \<and> 0 < liability_share_value b
   \<and> 0 \<le> total_asset_shares b \<and> 0 \<le> total_liability_shares b
   \<and> 0 \<le> collected_insurance_fees_outstanding b \<and> 0 \<le> collected_group_fees_outstanding b
   \<and> 0 \<le> collected_program_fees_outstanding b \<and> 0 \<le> emissions_remaining b
   \<and> config_ok (bk_config b)"

text \<open>What depositors own, what borrowers owe, and the fees not yet withdrawn.\<close>

definition total_assets :: "bank \<Rightarrow> int" where
  "total_assets b = total_asset_shares b * asset_share_value b div SCALE"

definition total_liabilities :: "bank \<Rightarrow> int" where
  "total_liabilities b = total_liability_shares b * liability_share_value b div SCALE"

definition fees_outstanding :: "bank \<Rightarrow> int" where
  "fees_outstanding b = collected_insurance_fees_outstanding b
     + collected_group_fees_outstanding b + collected_program_fees_outstanding b"

lemma total_nonneg:
  assumes "bank_ok b"
  shows "0 \<le> total_assets b" and "0 \<le> total_liabilities b"
  using assms by (simp_all add: bank_ok_def total_assets_def total_liabilities_def)

lemma uint_u64_of_int: "0 \<le> d \<Longrightarrow> d < 2 ^ 64 \<Longrightarrow> uint (word_of_int d :: u64) = d"
  by (simp add: unsigned_of_int take_bit_int_eq_self)

lemma elapsed_OkD:
  assumes "elapsed now before = Ok t"
  shows "uint t = sint now - sint before"
proof -
  have t: "t = word_of_int (sint now - sint before)"
    and "0 \<le> sint now - sint before" and "sint now - sint before < 2 ^ 63"
    using assms by (auto simp: elapsed_def Let_def run_iff)
  then show ?thesis
    unfolding t by (intro uint_u64_of_int) simp_all
qed

lemma elapsed_0D: "elapsed now before = Ok 0 \<Longrightarrow> now = before"
  using elapsed_OkD [of now before 0] by (simp add: signed_word_eqI)

lemma config_ok_ir: "config_ok c \<Longrightarrow> ir_config_validate (bc_interest_rate_config c) = Ok ()"
  by (simp add: config_ok_def)

context fixed_point
begin

lemma get_asset_amount_iff [run_iff]:
  "get_asset_amount fx b s = Ok a \<longleftrightarrow> fits (s * asset_share_value b div SCALE) \<and> a = s * asset_share_value b div SCALE"
  by (simp add: get_asset_amount_def run_iff fixed_simps)

lemma get_liability_amount_iff [run_iff]:
  "get_liability_amount fx b s = Ok a \<longleftrightarrow>
   fits (s * liability_share_value b div SCALE) \<and> a = s * liability_share_value b div SCALE"
  by (simp add: get_liability_amount_def run_iff fixed_simps)

lemma get_asset_shares_iff [run_iff]:
  "0 < asset_share_value b \<Longrightarrow> 0 \<le> a \<Longrightarrow> get_asset_shares fx b a = Ok s \<longleftrightarrow>
   fits (a * SCALE div asset_share_value b) \<and> s = a * SCALE div asset_share_value b"
  by (auto simp: get_asset_shares_def run_iff fixed_simps trunc_div_nonneg)

lemma get_liability_shares_iff [run_iff]:
  "0 < liability_share_value b \<Longrightarrow> 0 \<le> a \<Longrightarrow> get_liability_shares fx b a = Ok s \<longleftrightarrow>
   fits (a * SCALE div liability_share_value b) \<and> s = a * SCALE div liability_share_value b"
  by (auto simp: get_liability_shares_def run_iff fixed_simps trunc_div_nonneg)

lemma add_collected_OkD: "0 \<le> c \<Longrightarrow> add_collected fx c x = Ok y \<Longrightarrow> y = x + c"
  by (auto simp: add_collected_def run_iff fixed_simps ZERO_def split: if_splits)

text \<open>The three outcomes of an accrual that succeeds.\<close>

lemma accrue_interest_cases:
  assumes "bank_ok b" and "accrue_interest fx b now g = Ok b'"
  obtains (same) "b' = b" and "last_update b = now"
  | (idle) "b' = b\<lparr>last_update := now\<rparr>"
  | (accrued) r t i gf p where
      "rates_of (get_fees (create_interest_rate_calculator (bc_interest_rate_config (bk_config b)) g))
        (curve_value (create_interest_rate_calculator (bc_interest_rate_config (bk_config b)) g)
          (total_liabilities b * SCALE div total_assets b))
        (total_liabilities b * SCALE div total_assets b) r"
      and "0 < total_assets b" and "0 \<le> total_liabilities b"
      and "i = (total_liabilities b * insurance_fee_apr r div SCALE) * uint (t :: u64) div year"
      and "gf = (total_liabilities b * group_fee_apr r div SCALE) * uint t div year"
      and "p = (total_liabilities b * protocol_fee_apr r div SCALE) * uint t div year"
      and "b' = b\<lparr>last_update := now,
        asset_share_value := asset_share_value b + asset_share_value b * (lending_rate_apr r * uint t div year) div SCALE,
        liability_share_value := liability_share_value b
          + liability_share_value b * (borrowing_rate_apr r * uint t div year) div SCALE,
        collected_group_fees_outstanding := collected_group_fees_outstanding b + gf,
        collected_insurance_fees_outstanding := collected_insurance_fees_outstanding b + i,
        collected_program_fees_outstanding := collected_program_fees_outstanding b + p\<rparr>"
proof -
  let ?c = "create_interest_rate_calculator (bc_interest_rate_config (bk_config b)) g"
  obtain t where t: "elapsed now (last_update b) = Ok t"
    using assms(2) by (auto simp: accrue_interest_def run_iff)
  consider (zero) "t = 0" | (empty) "t \<noteq> 0" "total_assets b = 0 \<or> total_liabilities b = 0"
    | (full) "t \<noteq> 0" "total_assets b \<noteq> 0" "total_liabilities b \<noteq> 0"
    by blast
  then show thesis
  proof cases
    case zero
    with t assms(2) show thesis
      by (intro same) (auto simp: accrue_interest_def dest: elapsed_0D)
  next
    case empty
    with t assms(2) show thesis
      by (intro idle) (auto simp: accrue_interest_def run_iff total_assets_def total_liabilities_def ZERO_def)
  next
    case full
    have pos: "0 < total_assets b" "0 \<le> total_liabilities b"
      using full(2) total_nonneg [OF assms(1)] by simp_all
    from full t assms(2) obtain s x y z where
      s: "calc_interest_rate_accrual_state_changes fx t (total_assets b) (total_liabilities b) ?c
            (asset_share_value b) (liability_share_value b) = Ok (Some s)"
      and xyz: "add_collected fx (group_fees_collected s) (collected_group_fees_outstanding b) = Ok x"
        "add_collected fx (insurance_fees_collected s) (collected_insurance_fees_outstanding b) = Ok y"
        "add_collected fx (protocol_fees_collected s) (collected_program_fees_outstanding b) = Ok z"
      and b': "b' = b\<lparr>last_update := now, asset_share_value := new_asset_share_value s,
        liability_share_value := new_liability_share_value s, collected_group_fees_outstanding := x,
        collected_insurance_fees_outstanding := y, collected_program_fees_outstanding := z\<rparr>"
      by (auto simp: accrue_interest_def run_iff total_assets_def total_liabilities_def ZERO_def)
    have ok: "curve_ok ?c"
      using assms(1) by (intro curve_ok_create config_ok_ir) (simp add: bank_ok_def)
    obtain r where r: "rates_of (get_fees ?c) (curve_value ?c (total_liabilities b * SCALE div total_assets b))
        (total_liabilities b * SCALE div total_assets b) r"
      and "new_asset_share_value s = asset_share_value b + asset_share_value b * (lending_rate_apr r * uint t div year) div SCALE"
        "new_liability_share_value s = liability_share_value b + liability_share_value b * (borrowing_rate_apr r * uint t div year) div SCALE"
      and fees: "insurance_fees_collected s = (total_liabilities b * insurance_fee_apr r div SCALE) * uint t div year"
        "group_fees_collected s = (total_liabilities b * group_fee_apr r div SCALE) * uint t div year"
        "protocol_fees_collected s = (total_liabilities b * protocol_fee_apr r div SCALE) * uint t div year"
      by (rule accrual_SomeD [OF ok pos s])
    moreover have "0 \<le> insurance_fees_collected s" "0 \<le> group_fees_collected s" "0 \<le> protocol_fees_collected s"
      unfolding fees using rates_of_nonneg [OF r] pos(2) by (simp_all add: pos_imp_zdiv_nonneg_iff)
    note nn = this
    ultimately show thesis
      using accrued [OF r pos refl refl refl, of t] b' xyz [THEN add_collected_OkD [rotated]] nn
      by simp
  qed
qed

end

text \<open>
  An accrual keeps the invariant, touches nothing but the share values, the outstanding fees
  and the time, and lowers none of them.
\<close>

lemma accrued_value_ge: "0 \<le> v \<Longrightarrow> 0 \<le> r \<Longrightarrow> v \<le> v + v * r div SCALE"
  by simp

context fixed_point
begin

lemma accrue_interest_frame:
  assumes "bank_ok b" and "accrue_interest fx b now g = Ok b'"
  shows "bank_ok b' \<and> last_update b' = now \<and>
    asset_share_value b \<le> asset_share_value b' \<and> liability_share_value b \<le> liability_share_value b' \<and>
    fees_outstanding b \<le> fees_outstanding b' \<and>
    b' = b\<lparr>last_update := now, asset_share_value := asset_share_value b',
          liability_share_value := liability_share_value b',
          collected_group_fees_outstanding := collected_group_fees_outstanding b',
          collected_insurance_fees_outstanding := collected_insurance_fees_outstanding b',
          collected_program_fees_outstanding := collected_program_fees_outstanding b'\<rparr>"
  using assms
proof (cases rule: accrue_interest_cases)
  case same
  then show ?thesis using assms(1) by simp
next
  case idle
  then show ?thesis using assms(1) by (simp add: bank_ok_def fees_outstanding_def)
next
  case (accrued r t i gf p)
  have "0 \<le> i" "0 \<le> gf" "0 \<le> p"
    using rates_of_nonneg [OF accrued(1)] accrued(3-6) by (simp_all add: pos_imp_zdiv_nonneg_iff)
  moreover have "0 \<le> asset_share_value b * (lending_rate_apr r * uint t div year) div SCALE"
    "0 \<le> liability_share_value b * (borrowing_rate_apr r * uint t div year) div SCALE"
    using rates_of_nonneg [OF accrued(1)] assms(1)
    by (auto simp: bank_ok_def pos_imp_zdiv_nonneg_iff intro!: mul_floor_nonneg)
  ultimately show ?thesis
    using assms(1) by (simp add: accrued(7) bank_ok_def fees_outstanding_def)
qed

end

text \<open>The rounding of an accrual, on representations.\<close>

lemma accrual_rounding:
  fixes n m av lv lend borrow f :: int
  defines "A \<equiv> n * av div SCALE" and "L \<equiv> m * lv div SCALE"
    and "A' \<equiv> n * (av + av * lend div SCALE) div SCALE"
    and "L' \<equiv> m * (lv + lv * borrow div SCALE) div SCALE"
  assumes "0 \<le> n" "0 \<le> m" "0 \<le> lend" "0 \<le> borrow"
    and budget: "A * lend + SCALE * f \<le> L * (borrow + 1)"
  shows "SCALE * (A' - A + f) \<le> SCALE * (L' - L) + m + L + lend + 2 * SCALE"
proof -
  have nav: "n * av \<le> (A + 1) * SCALE" "L * SCALE \<le> m * lv"
    using mul_floor_gt [of n av] mul_floor_le [of m lv] by (simp_all add: A_def L_def)
  have "n * (av * lend div SCALE) * SCALE \<le> n * (av * lend)"
    using assms(5) mul_floor_le [of av lend] by (metis mult.assoc mult_left_mono)
  also have "\<dots> \<le> (A + 1) * lend * SCALE"
    using mult_right_mono [OF nav(1) assms(7)] by (simp add: ac_simps)
  finally have "n * (av * lend div SCALE) \<le> (A + 1) * lend"
    by simp
  moreover have "A' * SCALE \<le> n * (av + av * lend div SCALE)"
    unfolding A'_def by (rule mul_floor_le)
  ultimately have up: "A' * SCALE \<le> (A + 1) * SCALE + (A + 1) * lend"
    using nav(1) by (simp add: distrib_left)
  have "L * borrow * SCALE \<le> m * (lv * borrow)"
    using mult_right_mono [OF nav(2) assms(8)] by (simp add: ac_simps)
  also have "\<dots> \<le> m * ((lv * borrow div SCALE + 1) * SCALE)"
    using assms(6) mul_floor_gt [of lv borrow] by (intro mult_left_mono) simp_all
  finally have "L * borrow * SCALE \<le> m * (lv * borrow div SCALE + 1) * SCALE"
    by (simp add: ac_simps)
  then have "L * borrow \<le> m * (lv * borrow div SCALE) + m"
    by (simp add: distrib_left)
  moreover have "m * (lv + lv * borrow div SCALE) \<le> (L' + 1) * SCALE"
    using mul_floor_gt [of m "lv + lv * borrow div SCALE"] by (simp add: L'_def)
  ultimately have "L * SCALE + L * borrow \<le> (L' + 1) * SCALE + m"
    using nav(2) by (simp add: distrib_left)
  with up budget show ?thesis
    by (simp add: algebra_simps)
qed

text \<open>A share value that at most doubles bounds the period rate.\<close>

lemma period_rate_bound:
  assumes "0 < v" and "v + v * r div SCALE \<le> 2 * v"
  shows "r \<le> 2 * SCALE"
proof (rule ccontr)
  assume "\<not> r \<le> 2 * SCALE"
  then have "v * (2 * SCALE) \<le> v * r"
    using assms(1) by simp
  also have "v * r < (v * r div SCALE + 1) * SCALE"
    by (rule mul_floor_gt)
  also have "\<dots> \<le> (v + 1) * SCALE"
    using assms(2) by (intro mult_right_mono) simp_all
  finally show False
    using assms(1) by (simp add: distrib_right)
qed

context fixed_point
begin

lemma accrue_interest_solvency:
  assumes "bank_ok b" and "accrue_interest fx b now g = Ok b'"
    and "asset_share_value b' \<le> 2 * asset_share_value b"
  shows "SCALE * (total_assets b' + fees_outstanding b' - (total_assets b + fees_outstanding b))
    \<le> SCALE * (total_liabilities b' - total_liabilities b)
      + total_liability_shares b + total_liabilities b + 4 * SCALE"
proof -
  have nonneg: "0 \<le> total_liability_shares b" "0 \<le> total_liabilities b"
    using assms(1) total_nonneg [OF assms(1)] by (simp_all add: bank_ok_def)
  show ?thesis
    using assms(1,2)
  proof (cases rule: accrue_interest_cases)
    case (accrued r t i gf p)
    let ?lend = "lending_rate_apr r * uint t div year" and ?borrow = "borrowing_rate_apr r * uint t div year"
    let ?u = "total_liabilities b * SCALE div total_assets b"
    have pos: "0 \<le> ?lend" "0 \<le> ?borrow" "0 \<le> ?u"
      using rates_of_nonneg [OF accrued(1)] accrued(2,3) by (simp_all add: pos_imp_zdiv_nonneg_iff)
    have ok: "curve_ok (create_interest_rate_calculator (bc_interest_rate_config (bk_config b)) g)"
      using assms(1) by (intro curve_ok_create config_ok_ir) (simp add: bank_ok_def)
    have "total_assets b * ?lend + SCALE * (i + gf + p) \<le> total_liabilities b * (?borrow + 1)"
      unfolding accrued(4-6)
      by (rule period_solvent [OF curve_value_nonneg [OF ok pos(3)] accrued(3,2) uint_nonnegative accrued(1)])
    then have "SCALE * (total_assets b' - total_assets b + (i + gf + p))
        \<le> SCALE * (total_liabilities b' - total_liabilities b)
          + total_liability_shares b + total_liabilities b + ?lend + 2 * SCALE"
      using accrual_rounding [of "total_asset_shares b" "total_liability_shares b" ?lend ?borrow
          "asset_share_value b" "i + gf + p" "liability_share_value b"] pos assms(1)
      by (simp add: accrued(7) total_assets_def total_liabilities_def bank_ok_def)
    moreover have "?lend \<le> 2 * SCALE"
      by (rule period_rate_bound [of "asset_share_value b"])
        (use assms(1,3) accrued(7) in \<open>simp_all add: bank_ok_def\<close>)
    ultimately show ?thesis
      by (simp add: accrued(7) fees_outstanding_def algebra_simps)
  qed (use nonneg in \<open>simp_all add: total_assets_def total_liabilities_def fees_outstanding_def\<close>)
qed

end

section \<open>The two sides of a bank\<close>

text \<open>
  Assets and liabilities are kept the same way: a total of shares, a share value, a limit that
  a caller may bypass. The contract is stated once and holds of both.
\<close>

locale share_side = fixed_point +
  fixes change :: "bank \<Rightarrow> i80f48 \<Rightarrow> bool \<Rightarrow> bank result"
    and total :: "bank \<Rightarrow> i80f48"
    and set_total :: "i80f48 \<Rightarrow> bank \<Rightarrow> bank"
    and share_value :: "bank \<Rightarrow> i80f48"
    and limit_active :: "bank_config \<Rightarrow> bool"
    and limit :: "bank_config \<Rightarrow> u64"
    and exceeded :: marginfi_error
  assumes change_code: "change b shares bypass =
      bind (ok_or_math_error (checked_add fx (total b) shares)) (\<lambda>t.
      if 0 < shares \<and> limit_active (bk_config b) \<and> \<not> bypass
      then bind (ok_or_math_error (checked_mul fx t (share_value b))) (\<lambda>amount.
           bind (from_u64 fx (limit (bk_config b))) (\<lambda>l.
           bind (check (amount < l) exceeded) (\<lambda>_. Ok (set_total t b))))
      else Ok (set_total t b))"
    and total_set: "total (set_total x b) = x"
begin

lemma change_law: "change b shares bypass = Ok b' \<longleftrightarrow>
    fits (total b + shares) \<and> b' = set_total (total b + shares) b \<and>
    (0 < shares \<and> limit_active (bk_config b) \<and> \<not> bypass \<longrightarrow>
      fits ((total b + shares) * share_value b div SCALE) \<and>
      (total b + shares) * share_value b div SCALE < uint (limit (bk_config b)) * SCALE)"
  unfolding change_code by (auto simp: run_iff fixed_simps)

lemma change_total: "change b shares bypass = Ok b' \<Longrightarrow> total b' = total b + shares"
  by (simp add: change_law total_set)

end

sublocale fixed_point \<subseteq> asset_side: share_side fx
  "bank_change_asset_shares fx" total_asset_shares "\<lambda>x. total_asset_shares_update (\<lambda>_. x)"
  asset_share_value is_deposit_limit_active deposit_limit BankAssetCapacityExceeded
  by unfold_locales (simp_all add: bank_change_asset_shares_def get_asset_amount_def Let_def cong: if_cong)

sublocale fixed_point \<subseteq> liability_side: share_side fx
  "bank_change_liability_shares fx" total_liability_shares "\<lambda>x. total_liability_shares_update (\<lambda>_. x)"
  liability_share_value is_borrow_limit_active borrow_limit BankLiabilityCapacityExceeded
  by unfold_locales (simp_all add: bank_change_liability_shares_def get_liability_amount_def Let_def conj_ac cong: if_cong)

context fixed_point
begin

lemmas change_asset_shares_iff [run_iff] = asset_side.change_law
lemmas change_liability_shares_iff [run_iff] = liability_side.change_law
lemmas change_asset_total = asset_side.change_total
lemmas change_liability_total = liability_side.change_total

lemma check_utilization_ratio_OkD:
  "check_utilization_ratio fx b = Ok () \<Longrightarrow> total_liabilities b \<le> total_assets b"
  by (auto simp: check_utilization_ratio_def run_iff total_assets_def total_liabilities_def)

end

section \<open>Flags and configuration\<close>

lemma update_flag_Ok:
  "update_flag b value PERMISSIONLESS_BAD_DEBT_SETTLEMENT_FLAG =
   Ok (b\<lparr>bk_flags := (if value then bk_flags b OR PERMISSIONLESS_BAD_DEBT_SETTLEMENT_FLAG
      else bk_flags b AND NOT PERMISSIONLESS_BAD_DEBT_SETTLEMENT_FLAG)\<rparr>)"
  by (simp add: update_flag_def verify_group_flags_def GROUP_FLAGS_def)

lemma bit_bad_debt_flag: "bit PERMISSIONLESS_BAD_DEBT_SETTLEMENT_FLAG n \<longleftrightarrow> n = 2"
proof -
  have eq: "PERMISSIONLESS_BAD_DEBT_SETTLEMENT_FLAG = push_bit 2 1"
    by (simp add: PERMISSIONLESS_BAD_DEBT_SETTLEMENT_FLAG_def push_bit_eq_mult)
  show ?thesis
    unfolding eq bit_push_bit_iff by (auto simp: bit_1_iff)
qed

lemma bad_debt_flag_bits:
  "bit (w OR PERMISSIONLESS_BAD_DEBT_SETTLEMENT_FLAG) n \<longleftrightarrow> bit w n \<or> n = 2"
  "bit (w AND NOT PERMISSIONLESS_BAD_DEBT_SETTLEMENT_FLAG) n \<longleftrightarrow> bit w n \<and> n \<noteq> 2"
  by (auto simp: bit_or_iff bit_and_iff bit_not_iff bit_bad_debt_flag dest: bit_imp_le_length)

lemma bad_debt_flag_set_iff:
  "w AND PERMISSIONLESS_BAD_DEBT_SETTLEMENT_FLAG = PERMISSIONLESS_BAD_DEBT_SETTLEMENT_FLAG \<longleftrightarrow> bit w 2"
proof
  assume "w AND PERMISSIONLESS_BAD_DEBT_SETTLEMENT_FLAG = PERMISSIONLESS_BAD_DEBT_SETTLEMENT_FLAG"
  then have "bit (w AND PERMISSIONLESS_BAD_DEBT_SETTLEMENT_FLAG) 2"
    by (simp add: bit_bad_debt_flag)
  then show "bit w 2"
    by (simp add: bit_and_iff)
next
  assume "bit w 2"
  then show "w AND PERMISSIONLESS_BAD_DEBT_SETTLEMENT_FLAG = PERMISSIONLESS_BAD_DEBT_SETTLEMENT_FLAG"
    by (intro bit_word_eqI) (auto simp: bit_and_iff bit_bad_debt_flag)
qed

lemma config_validate_Err: "bank_config_validate c = Inl e \<Longrightarrow> e = Mfi InvalidConfig"
  by (auto simp: bank_config_validate_def ir_config_validate_def Let_def check_def bind_Err_iff split: if_splits)

section \<open>Values\<close>

context fixed_point
begin

lemma calc_value_OkD:
  assumes "calc_value fx amount price d w = Ok v"
    and "0 \<le> amount" and "0 \<le> price" and "case w of Some w' \<Rightarrow> 0 \<le> w' | None \<Rightarrow> True"
  shows "v = (case w of Some w' \<Rightarrow> amount * w' div SCALE | None \<Rightarrow> amount) * price div SCALE div 10 ^ unat d"
proof (cases "amount = 0")
  case True
  with assms(1) show ?thesis
    by (cases w) (simp_all add: calc_value_def ZERO_def)
next
  case False
  with assms show ?thesis
    by (cases w) (auto simp: calc_value_def ZERO_def run_iff fixed_simps EXP_10_I80F48_def
        trunc_div_nonneg)
qed

lemma calc_value_nonneg:
  assumes "calc_value fx amount price d w = Ok v"
    and "0 \<le> amount" and "0 \<le> price" and "case w of Some w' \<Rightarrow> 0 \<le> w' | None \<Rightarrow> True"
  shows "0 \<le> v"
  using assms(2-4) by (cases w) (simp_all add: calc_value_OkD [OF assms] pos_imp_zdiv_nonneg_iff)

lemma calc_amount_OkD:
  assumes "calc_amount fx value price d = Ok a" and "0 \<le> value" and "0 < price"
  shows "a = value * 10 ^ unat d * SCALE div price"
  using assms by (auto simp: calc_amount_def run_iff fixed_simps EXP_10_I80F48_def trunc_div_nonneg
      mult.assoc [symmetric])

end

section \<open>Loss\<close>

lemma socialized_value:
  fixes n v loss :: int
  defines "A \<equiv> n * v div SCALE" and "v' \<equiv> (n * v div SCALE - loss) * SCALE div n"
  assumes "0 < n" and "0 \<le> loss" and "loss \<le> A"
  shows "0 \<le> v'" and "v' \<le> v" and "n * v' div SCALE \<le> A - loss" and "A - loss \<le> n * v' div SCALE + n div SCALE + 1"
proof -
  show "0 \<le> v'"
    using assms(3,5) by (simp add: v'_def A_def pos_imp_zdiv_nonneg_iff)
  have "(A - loss) * SCALE \<le> A * SCALE"
    using assms(4) by (intro mult_right_mono) simp_all
  also have "\<dots> \<le> n * v"
    unfolding A_def by (rule mul_floor_le)
  finally show "v' \<le> v"
    using zdiv_mono1 [of "(A - loss) * SCALE" "n * v" n] assms(3) by (simp add: v'_def A_def)
  have "v' * n \<le> (A - loss) * SCALE"
    using quot_mult_le [OF assms(3)] by (simp add: v'_def A_def)
  then show "n * v' div SCALE \<le> A - loss"
    using zdiv_mono1 [of "n * v'" "(A - loss) * SCALE" SCALE] by (simp add: mult.commute)
  have "(A - loss) * SCALE \<le> n * v' + n"
    using le_quot_mult [OF assms(3), of "(A - loss) * SCALE"] by (simp add: v'_def A_def algebra_simps)
  then have "A - loss \<le> (n * v' + n) div SCALE"
    using zdiv_mono1 [of "(A - loss) * SCALE" "n * v' + n" SCALE] by simp
  then show "A - loss \<le> n * v' div SCALE + n div SCALE + 1"
    using floor_sum(2) [of SCALE "n * v'" n] by simp
qed

section \<open>Properties\<close>

text \<open>A bank for the examples: 1000 tokens deposited and 500 borrowed, at share value one.\<close>

definition example_bank_config :: bank_config where
  "example_bank_config = bank_config_default \<lparr>
     asset_weight_init := SCALE div 2, asset_weight_maint := SCALE * 3 div 4,
     liability_weight_init := SCALE * 3 div 2, liability_weight_maint := SCALE * 5 div 4,
     deposit_limit := 2000000000, borrow_limit := 1000000000,
     bc_interest_rate_config := example_ir_config, operational_state := Operational,
     bc_oracle_setup := PythLegacy, oracle_keys := [21, 0, 0, 0, 0], bc_risk_tier := Collateral\<rparr>"

definition example_bank :: bank where
  "example_bank = (bank_new 2 example_bank_config 31 6 41 42 43 0 255 255 255 255 255 255)
     \<lparr>total_asset_shares := 1000000000 * SCALE, total_liability_shares := 500000000 * SCALE\<rparr>"

text \<open>
  C12. Accruing interest keeps a bank well formed: the share values and the fees outstanding
  never fall, no total of shares, limit, flag or other field changes, the time of the last
  update becomes the present, and accruing again at the same time changes nothing.
\<close>

theorem accrue_interest_keeps_bank:
  assumes "fixed_point fx" and "bank_ok b" and "accrue_interest fx b now g = Ok b'"
  shows "bank_ok b' \<and> asset_share_value b \<le> asset_share_value b' \<and>
    liability_share_value b \<le> liability_share_value b' \<and> fees_outstanding b \<le> fees_outstanding b' \<and>
    b' = b\<lparr>last_update := now, asset_share_value := asset_share_value b',
          liability_share_value := liability_share_value b',
          collected_group_fees_outstanding := collected_group_fees_outstanding b',
          collected_insurance_fees_outstanding := collected_insurance_fees_outstanding b',
          collected_program_fees_outstanding := collected_program_fees_outstanding b'\<rparr> \<and>
    accrue_interest fx b' now g = Ok b'"
proof -
  note frame = fixed_point.accrue_interest_frame [OF assms]
  have "accrue_interest fx b' now g = Ok b'"
    using frame by (simp add: accrue_interest_def elapsed_def)
  with frame show ?thesis by blast
qed

theorem accrue_interest_keeps_bank_witness:
  "\<exists>b'. accrue_interest i80f48_ref example_bank 86400 example_group = Ok b' \<and> bank_ok b' \<and>
     asset_share_value example_bank \<le> asset_share_value b' \<and> accrue_interest i80f48_ref b' 86400 example_group = Ok b'"
proof -
  define b' where "b' = projr (accrue_interest i80f48_ref example_bank 86400 example_group)"
  have run: "accrue_interest i80f48_ref example_bank 86400 example_group = Ok b'"
    unfolding b'_def by code_simp
  have "bank_ok example_bank" by code_simp
  from accrue_interest_keeps_bank [OF reference.fixed_point_axioms this run] run show ?thesis by blast
qed

text \<open>
  C10. Accruing interest is solvent. What depositors own and the fees outstanding together grow
  by no more than what borrowers owe, up to rounding: one unit of the last place for every unit
  of debt and of debt shares, and four more. The hypothesis excludes a single accrual that more
  than doubles the deposits.
\<close>

theorem accrue_interest_solvent:
  assumes "fixed_point fx" and "bank_ok b" and "accrue_interest fx b now g = Ok b'"
    and "asset_share_value b' \<le> 2 * asset_share_value b"
  shows "SCALE * (total_assets b' + fees_outstanding b' - (total_assets b + fees_outstanding b))
    \<le> SCALE * (total_liabilities b' - total_liabilities b)
      + total_liability_shares b + total_liabilities b + 4 * SCALE"
  by (rule fixed_point.accrue_interest_solvency [OF assms])

theorem accrue_interest_solvent_witness:
  "\<exists>b'. accrue_interest i80f48_ref example_bank 86400 example_group = Ok b' \<and>
    SCALE * (total_assets b' + fees_outstanding b' - (total_assets example_bank + fees_outstanding example_bank))
    \<le> SCALE * (total_liabilities b' - total_liabilities example_bank)
      + total_liability_shares example_bank + total_liabilities example_bank + 4 * SCALE"
proof -
  define b' where "b' = projr (accrue_interest i80f48_ref example_bank 86400 example_group)"
  have run: "accrue_interest i80f48_ref example_bank 86400 example_group = Ok b'"
    and le: "asset_share_value b' \<le> 2 * asset_share_value example_bank"
    unfolding b'_def by code_simp+
  have "bank_ok example_bank" by code_simp
  from accrue_interest_solvent [OF reference.fixed_point_axioms this run le] run show ?thesis by blast
qed

text \<open>
  C16. Configuring a bank either refuses with \<^verbatim>\<open>InvalidConfig\<close> and the requested configuration is
  not valid, or leaves a valid configuration: initial asset weight between 0 and 1 and not above
  the maintenance weight, liability weights at least 1 with the initial one the larger, a valid
  interest curve, zero asset weights for an isolated bank. Nothing but the configuration and
  bit 2 of the flags changes.
\<close>

theorem bank_configure_sound:
  "case bank_configure b o' of
     Inr b' \<Rightarrow> config_ok (bk_config b') \<and> bk_config b' = config_updated (bk_config b) o' \<and>
       b' = b\<lparr>bk_config := bk_config b', bk_flags := bk_flags b'\<rparr> \<and>
       (\<forall>n. n = 2 \<or> bit (bk_flags b') n = bit (bk_flags b) n) \<and>
       bco_permissionless_bad_debt_settlement o' \<in> {None, Some (bank_get_flag b' PERMISSIONLESS_BAD_DEBT_SETTLEMENT_FLAG)}
   | Inl e \<Rightarrow> e = Mfi InvalidConfig \<and> \<not> config_ok (config_updated (bk_config b) o')"
proof (cases "config_ok (config_updated (bk_config b) o')")
  case True
  then show ?thesis
    by (cases "bco_permissionless_bad_debt_settlement o'")
      (auto simp: bank_configure_def Let_def update_flag_Ok bank_config_validate_Ok_iff [THEN iffD2]
        bank_get_flag_def bad_debt_flag_bits bad_debt_flag_set_iff)
next
  case False
  then obtain e where "bank_config_validate (config_updated (bk_config b) o') = Inl e"
    using bank_config_validate_Ok_iff by (metis (full_types) old.unit.exhaust sum.exhaust)
  with False show ?thesis
    by (auto simp: bank_configure_def Let_def update_flag_Ok dest: config_validate_Err split: option.splits)
qed

text \<open>
  C17. The origination fee cannot be configured: whatever an accepted request asks for, the bank
  keeps the origination fee it had.
\<close>

theorem origination_fee_not_configurable:
  assumes "bank_configure b o' = Ok b'"
  shows "protocol_origination_fee (bc_interest_rate_config (bk_config b')) =
    protocol_origination_fee (bc_interest_rate_config (bk_config b))"
  using assms by (auto simp: bank_configure_def Let_def update_flag_Ok run_iff config_updated_def
      ir_config_update_def split: option.splits)

definition no_config_change :: bank_config_opt where
  "no_config_change = \<lparr>bco_asset_weight_init = None, bco_asset_weight_maint = None,
     bco_liability_weight_init = None, bco_liability_weight_maint = None, bco_deposit_limit = None,
     bco_borrow_limit = None, bco_operational_state = None, bco_oracle = None,
     bco_interest_rate_config = None, bco_risk_tier = None, bco_total_asset_value_init_limit = None,
     bco_oracle_max_age = None, bco_permissionless_bad_debt_settlement = None\<rparr>"

theorem origination_fee_not_configurable_witness:
  "\<exists>b'. bank_configure example_bank (no_config_change\<lparr>bco_interest_rate_config := Some
       \<lparr>opt_optimal_utilization_rate = None, opt_plateau_interest_rate = None, opt_max_interest_rate = None,
        opt_insurance_fee_fixed_apr = None, opt_insurance_ir_fee = None, opt_protocol_fixed_fee_apr = None,
        opt_protocol_ir_fee = None, opt_protocol_origination_fee = Some 1\<rparr>\<rparr>) = Ok b' \<and>
     protocol_origination_fee (bc_interest_rate_config (bk_config b')) = 0"
proof -
  let ?o = "no_config_change\<lparr>bco_interest_rate_config := Some
       \<lparr>opt_optimal_utilization_rate = None, opt_plateau_interest_rate = None, opt_max_interest_rate = None,
        opt_insurance_fee_fixed_apr = None, opt_insurance_ir_fee = None, opt_protocol_fixed_fee_apr = None,
        opt_protocol_ir_fee = None, opt_protocol_origination_fee = Some (1 :: i80f48)\<rparr>\<rparr>"
  have run: "bank_configure example_bank ?o = Ok (projr (bank_configure example_bank ?o))"
    by code_simp
  moreover have "protocol_origination_fee (bc_interest_rate_config (bk_config example_bank)) = 0"
    by code_simp
  ultimately show ?thesis
    using origination_fee_not_configurable [OF run] by auto
qed

text \<open>
  C18. Socializing a loss that the deposits can bear lowers the value of all deposits by the loss,
  rounded against the depositors by at most one unit of the last place per share: the share value
  stays non-negative and does not rise, no share changes hands.
\<close>

theorem socialize_loss_spreads:
  assumes "fixed_point fx" and "bank_ok b" and "0 \<le> loss" and "loss \<le> total_assets b"
    and "socialize_loss fx b loss = Ok b'"
  shows "b' = b\<lparr>asset_share_value := asset_share_value b'\<rparr> \<and>
    0 \<le> asset_share_value b' \<and> asset_share_value b' \<le> asset_share_value b \<and>
    total_assets b' \<le> total_assets b - loss \<and>
    total_assets b - loss \<le> total_assets b' + total_asset_shares b div SCALE + 1"
proof -
  have n: "0 < total_asset_shares b"
    using assms(2,5) by (auto simp: socialize_loss_def run_iff fixed_point.div_law [OF assms(1)]
        bank_ok_def order_le_less split: if_splits)
  have "b' = b\<lparr>asset_share_value :=
      (total_asset_shares b * asset_share_value b div SCALE - loss) * SCALE div total_asset_shares b\<rparr>"
    using assms(3-5) n
    by (auto simp: socialize_loss_def run_iff fixed_point.div_law [OF assms(1)] fixed_point.mul_law [OF assms(1)]
        fixed_point.sub_law [OF assms(1)] trunc_div_nonneg total_assets_def)
  then show ?thesis
    using socialized_value [OF n assms(3), of "asset_share_value b"] assms(4)
    by (simp add: total_assets_def)
qed

theorem socialize_loss_spreads_witness:
  "\<exists>b'. socialize_loss i80f48_ref example_bank (7 * SCALE) = Ok b' \<and>
     total_assets b' \<le> total_assets example_bank - 7 * SCALE"
proof -
  define b' where "b' = projr (socialize_loss i80f48_ref example_bank (7 * SCALE))"
  have run: "socialize_loss i80f48_ref example_bank (7 * SCALE) = Ok b'"
    unfolding b'_def by code_simp
  have "bank_ok example_bank" "0 \<le> 7 * SCALE" "7 * SCALE \<le> total_assets example_bank"
    by code_simp+
  from socialize_loss_spreads [OF reference.fixed_point_axioms this run] run show ?thesis by blast
qed

text \<open>
  C19. A loss above the value of all deposits is accepted: in a bank with at least one whole deposit
  share and a value of the deposits in range, every larger loss that the number type holds is spread, the share
  value of the deposits becomes negative or zero, and the bank is no longer well formed.
\<close>

theorem socialize_loss_above_assets:
  assumes "fixed_point fx" and "bank_ok b" and "SCALE \<le> total_asset_shares b" and "fits (total_assets b)"
    and "total_assets b < loss" and "fits loss"
  shows "\<exists>b'. socialize_loss fx b loss = Ok b' \<and> asset_share_value b' \<le> 0 \<and> \<not> bank_ok b' \<and>
    b' = b\<lparr>asset_share_value := asset_share_value b'\<rparr>"
proof -
  define n where "n = total_asset_shares b"
  define d where "d = loss - total_assets b"
  have n: "0 < n" "SCALE \<le> n" using assms(3) SCALE_pos(1) by (simp_all add: n_def del: SCALE_pos)
  have d: "0 < d" "d \<le> loss" using assms(5) total_nonneg(1) [OF assms(2)] by (simp_all add: d_def)
  have "d * SCALE div n \<le> d * SCALE div SCALE"
    using n d by (intro zdiv_mono2) simp_all
  then have v: "0 \<le> d * SCALE div n" "d * SCALE div n \<le> d"
    using n d by (simp_all add: pos_imp_zdiv_nonneg_iff)
  have "trunc_div ((total_assets b - loss) * SCALE) n = - (d * SCALE div n)"
    using n(1) d(1) by (simp add: trunc_div_def sgn_mult abs_mult d_def)
  moreover have "fits (total_assets b - loss)" "fits (- (d * SCALE div n))"
    using v d assms(6) by (auto simp: fits_def d_def)
  ultimately have "socialize_loss fx b loss = Ok (b\<lparr>asset_share_value := - (d * SCALE div n)\<rparr>)"
    using assms(4) n(1)
    by (simp add: socialize_loss_def fixed_point.div_law [OF assms(1)] fixed_point.mul_law [OF assms(1)]
        fixed_point.sub_law [OF assms(1)] total_assets_def flip: n_def)
  then show ?thesis
    using v(1) by (simp add: bank_ok_def)
qed

theorem socialize_loss_above_assets_witness:
  "\<exists>b'. socialize_loss i80f48_ref example_bank (1000000001 * SCALE) = Ok b' \<and> asset_share_value b' \<le> 0"
proof -
  have "bank_ok example_bank" "SCALE \<le> total_asset_shares example_bank" "fits (total_assets example_bank)"
      "total_assets example_bank < 1000000001 * SCALE" "fits (1000000001 * SCALE)"
    by code_simp+
  from socialize_loss_above_assets [OF reference.fixed_point_axioms this] show ?thesis by blast
qed

text \<open>
  C20. The init limit: the discount is below one, and the discounted value of all deposits of the
  bank is at most the limit; without a discount the limit is off or the value is within it.
\<close>

theorem init_discount_caps_value:
  assumes "fixed_point fx" and "bank_ok b" and "0 \<le> price"
    and "maybe_get_asset_weight_init_discount fx b price = Ok m"
    and "calc_value fx (total_assets b) price (mint_decimals b) None = Ok v"
  shows "case m of
      Some d \<Rightarrow> 0 \<le> d \<and> d < SCALE \<and> d * v div SCALE \<le> uint (total_asset_value_init_limit (bk_config b)) * SCALE
    | None \<Rightarrow> \<not> usd_init_limit_active (bk_config b) \<or> v \<le> uint (total_asset_value_init_limit (bk_config b)) * SCALE"
proof -
  let ?l = "uint (total_asset_value_init_limit (bk_config b)) * SCALE"
  have l: "0 \<le> ?l" by simp
  have amount: "get_asset_amount fx b (total_asset_shares b) = Ok a \<Longrightarrow> a = total_assets b" for a
    by (simp add: fixed_point.get_asset_amount_iff [OF assms(1)] total_assets_def)
  consider "m = None" "\<not> usd_init_limit_active (bk_config b) \<or> v \<le> ?l"
    | d where "m = Some d" "?l < v" "d = trunc_div (?l * SCALE) v"
    using assms(4,5)
    by (auto simp: maybe_get_asset_weight_init_discount_def run_iff fixed_point.from_u64_law [OF assms(1)]
        fixed_point.div_law [OF assms(1)] dest!: amount split: if_splits)
  then show ?thesis
  proof cases
    case 2
    then have v: "0 < v" using l by linarith
    then have d: "d = ?l * SCALE div v" using 2(3) by (simp add: trunc_div_nonneg)
    have "d * v div SCALE \<le> ?l * SCALE div SCALE"
      using quot_mult_le [OF v, of "?l * SCALE"] d by (intro zdiv_mono1) simp_all
    moreover have "d < SCALE"
      unfolding d by (rule div_less_by_bound [OF v]) (use 2(2) in \<open>simp add: mult.commute\<close>)
    ultimately show ?thesis
      using 2(1) v l d by (simp add: pos_imp_zdiv_nonneg_iff)
  qed simp
qed

theorem init_discount_caps_value_witness:
  "\<exists>d v. let b = example_bank\<lparr>bk_config := example_bank_config\<lparr>total_asset_value_init_limit := 400\<rparr>\<rparr> in
     maybe_get_asset_weight_init_discount i80f48_ref b SCALE = Ok (Some d) \<and>
     calc_value i80f48_ref (total_assets b) SCALE (mint_decimals b) None = Ok v \<and>
     d < SCALE \<and> d * v div SCALE \<le> 400 * SCALE"
proof -
  define b where "b = example_bank\<lparr>bk_config := example_bank_config\<lparr>total_asset_value_init_limit := 400\<rparr>\<rparr>"
  define d where "d = the (projr (maybe_get_asset_weight_init_discount i80f48_ref b SCALE))"
  define v where "v = projr (calc_value i80f48_ref (total_assets b) SCALE (mint_decimals b) None)"
  have run: "maybe_get_asset_weight_init_discount i80f48_ref b SCALE = Ok (Some d)"
    "calc_value i80f48_ref (total_assets b) SCALE (mint_decimals b) None = Ok v"
    unfolding d_def v_def b_def by code_simp+
  have "bank_ok b" unfolding b_def by code_simp
  from init_discount_caps_value [OF reference.fixed_point_axioms this _ run] run show ?thesis
    unfolding Let_def b_def [symmetric] by (auto simp: b_def)
qed

text \<open>
  C21. Turning a value into an amount and back loses and never gains: the value of the amount
  bought is at most the value paid, short of it by less than the price of one native unit and
  one unit of the last place.
\<close>

theorem calc_amount_value_round_trip:
  assumes "fixed_point fx" and "0 \<le> v" and "0 < price"
    and "calc_amount fx v price d = Ok a" and "calc_value fx a price d None = Ok v'"
  shows "v' \<le> v \<and> v \<le> v' + price div (SCALE * 10 ^ unat d) + 1"
proof -
  let ?k = "SCALE * 10 ^ unat d"
  have a: "a = v * ?k div price"
    using fixed_point.calc_amount_OkD [OF assms(1,4,2,3)] by (simp add: ac_simps)
  have a0: "0 \<le> a"
    using assms(2,3) by (simp add: a pos_imp_zdiv_nonneg_iff)
  have v': "v' = a * price div ?k"
    using fixed_point.calc_value_OkD [OF assms(1,5) a0] assms(3) by (simp add: zdiv_zmult2_eq)
  have k: "0 < ?k" by simp
  have "a * price \<le> v * ?k"
    unfolding a by (rule quot_mult_le [OF assms(3)])
  then have "v' \<le> v"
    using zdiv_mono1 [of "a * price" "v * ?k" ?k] by (simp add: v')
  moreover have "v * ?k \<le> a * price + price"
    using le_quot_mult [OF assms(3), of "v * ?k"] by (simp add: a distrib_right)
  then have "v \<le> (a * price + price) div ?k"
    using zdiv_mono1 [of "v * ?k" "a * price + price" ?k] by simp
  then have "v \<le> v' + price div ?k + 1"
    using floor_sum(2) [OF k, of "a * price" price] by (simp add: v')
  ultimately show ?thesis by simp
qed

theorem calc_amount_value_round_trip_witness:
  "\<exists>a v'. calc_amount i80f48_ref (50 * SCALE) (7 * SCALE) 6 = Ok a \<and>
     calc_value i80f48_ref a (7 * SCALE) 6 None = Ok v' \<and> v' \<le> 50 * SCALE"
proof -
  define a where "a = projr (calc_amount i80f48_ref (50 * SCALE) (7 * SCALE) 6)"
  define v' where "v' = projr (calc_value i80f48_ref a (7 * SCALE) 6 None)"
  have run: "calc_amount i80f48_ref (50 * SCALE) (7 * SCALE) 6 = Ok a"
    "calc_value i80f48_ref a (7 * SCALE) 6 None = Ok v'"
    unfolding v'_def a_def by code_simp+
  then show ?thesis
    using calc_amount_value_round_trip [OF reference.fixed_point_axioms _ _ run] by auto
qed

end
