(* ===== verification/Lending_Account.thy ===== *)
theory Lending_Account
  imports Bank
begin

text \<open>
  Lending accounts, \<^verbatim>\<open>state/marginfi_account.rs\<close>: the marginfi account with its flags, the sixteen
  balances, and the pair of a balance and its bank (\<^verbatim>\<open>BankAccountWrapper\<close>) on which deposits,
  withdrawals, borrows, repayments, closings and emissions work.

  The wrapper of the source borrows one balance of the account and the bank. Here an operation
  takes the pair and returns it changed; the handlers put the balance back at its index.
\<close>

section \<open>State\<close>

record balance =
  active :: bool
  bank_pk :: pubkey
  asset_shares :: i80f48
  liability_shares :: i80f48
  emissions_outstanding :: i80f48
  bal_last_update :: u64

type_synonym lending_account = "balance list"

record marginfi_account =
  ma_group :: pubkey
  ma_authority :: pubkey
  balances :: lending_account
  account_flags :: u64

record bank_account_wrapper =
  bw_balance :: balance
  bw_bank :: bank

datatype balance_increase_type = AnyIncrease | RepayOnly | DepositOnly | BypassDepositLimit

datatype balance_decrease_type = AnyDecrease | WithdrawOnly | BorrowOnly | BypassBorrowLimit

definition MAX_LENDING_ACCOUNT_BALANCES :: nat where
  "MAX_LENDING_ACCOUNT_BALANCES = 16"

definition DISABLED_FLAG :: u64 where "DISABLED_FLAG = 1"
definition IN_FLASHLOAN_FLAG :: u64 where "IN_FLASHLOAN_FLAG = 2"
definition FLASHLOAN_ENABLED_FLAG :: u64 where "FLASHLOAN_ENABLED_FLAG = 4"
definition TRANSFER_AUTHORITY_ALLOWED_FLAG :: u64 where "TRANSFER_AUTHORITY_ALLOWED_FLAG = 8"

section \<open>Balances\<close>

definition empty_deactivated :: balance where
  "empty_deactivated = \<lparr>active = False, bank_pk = default_pubkey, asset_shares = ZERO,
     liability_shares = ZERO, emissions_outstanding = ZERO, bal_last_update = 0\<rparr>"

definition balance_is_empty :: "balance \<Rightarrow> balance_side \<Rightarrow> bool" where
  "balance_is_empty bal side \<longleftrightarrow>
     (case side of Assets \<Rightarrow> asset_shares bal | Liabilities \<Rightarrow> liability_shares bal) < EMPTY_BALANCE_THRESHOLD"

definition balance_change_asset_shares :: "fixed_ops \<Rightarrow> balance \<Rightarrow> i80f48 \<Rightarrow> balance result" where
  "balance_change_asset_shares fx bal delta =
     bind (ok_or_math_error (checked_add fx (asset_shares bal) delta)) (\<lambda>x. Ok (bal\<lparr>asset_shares := x\<rparr>))"

definition balance_change_liability_shares :: "fixed_ops \<Rightarrow> balance \<Rightarrow> i80f48 \<Rightarrow> balance result" where
  "balance_change_liability_shares fx bal delta =
     bind (ok_or_math_error (checked_add fx (liability_shares bal) delta)) (\<lambda>x. Ok (bal\<lparr>liability_shares := x\<rparr>))"

definition balance_close :: "balance \<Rightarrow> balance result" where
  "balance_close bal =
     bind (check (emissions_outstanding bal < ONE) CannotCloseOutstandingEmissions) (\<lambda>_. Ok empty_deactivated)"

definition get_side :: "balance \<Rightarrow> balance_side option result" where
  "get_side bal =
     bind (assert_that (asset_shares bal < EMPTY_BALANCE_THRESHOLD \<or> liability_shares bal < EMPTY_BALANCE_THRESHOLD)) (\<lambda>_.
     Ok (if EMPTY_BALANCE_THRESHOLD \<le> liability_shares bal then Some Liabilities
         else if EMPTY_BALANCE_THRESHOLD \<le> asset_shares bal then Some Assets
         else None))"

section \<open>Accounts\<close>

text \<open>\<^verbatim>\<open>initialize\<close> runs on a zeroed account.\<close>

definition account_zeroed :: marginfi_account where
  "account_zeroed = \<lparr>ma_group = default_pubkey, ma_authority = default_pubkey,
     balances = replicate MAX_LENDING_ACCOUNT_BALANCES empty_deactivated, account_flags = 0\<rparr>"

definition account_initialize :: "marginfi_account \<Rightarrow> pubkey \<Rightarrow> pubkey \<Rightarrow> marginfi_account" where
  "account_initialize a group_pk authority_pk = a\<lparr>ma_authority := authority_pk, ma_group := group_pk\<rparr>"

definition get_remaining_accounts_len :: "marginfi_account \<Rightarrow> nat" where
  "get_remaining_accounts_len a = length (filter active (balances a)) * 2"

definition set_flag :: "marginfi_account \<Rightarrow> u64 \<Rightarrow> marginfi_account" where
  "set_flag a flag = a\<lparr>account_flags := account_flags a OR flag\<rparr>"

definition unset_flag :: "marginfi_account \<Rightarrow> u64 \<Rightarrow> marginfi_account" where
  "unset_flag a flag = a\<lparr>account_flags := account_flags a AND NOT flag\<rparr>"

definition get_flag :: "marginfi_account \<Rightarrow> u64 \<Rightarrow> bool" where
  "get_flag a flag \<longleftrightarrow> account_flags a AND flag \<noteq> 0"

definition set_new_account_authority_checked :: "marginfi_account \<Rightarrow> pubkey \<Rightarrow> marginfi_account result" where
  "set_new_account_authority_checked a new_authority =
     (if \<not> get_flag a TRANSFER_AUTHORITY_ALLOWED_FLAG \<or> get_flag a DISABLED_FLAG
      then Err (Mfi IllegalAccountAuthorityTransfer)
      else Ok (unset_flag (a\<lparr>ma_authority := new_authority\<rparr>) TRANSFER_AUTHORITY_ALLOWED_FLAG))"

text \<open>\<^verbatim>\<open>balances.iter().all(|b| b.get_side().is_none())\<close>: stops at the first balance with a side.\<close>

fun all_sides_none :: "lending_account \<Rightarrow> bool result" where
  "all_sides_none [] = Ok True"
| "all_sides_none (bal # rest) =
     bind (get_side bal) (\<lambda>s. if s = None then all_sides_none rest else Ok False)"

definition can_be_closed :: "marginfi_account \<Rightarrow> bool result" where
  "can_be_closed a =
     bind (all_sides_none (balances a)) (\<lambda>only_has_empty_balances.
     Ok (\<not> get_flag a DISABLED_FLAG \<and> only_has_empty_balances))"

definition get_first_empty_balance :: "lending_account \<Rightarrow> nat option" where
  "get_first_empty_balance la = position (\<lambda>b. \<not> active b) la"

definition get_balance :: "lending_account \<Rightarrow> pubkey \<Rightarrow> balance option" where
  "get_balance la pk = find (\<lambda>b. active b \<and> bank_pk b = pk) la"

text \<open>
  Finding the balance of a bank returns its index; creating one returns the account with the
  new balance in the first free slot.
\<close>

definition find_balance :: "pubkey \<Rightarrow> lending_account \<Rightarrow> nat result" where
  "find_balance pk la = ok_or (position (\<lambda>b. active b \<and> bank_pk b = pk) la) (Mfi BankAccountNotFound)"

definition find_or_create :: "pubkey \<Rightarrow> lending_account \<Rightarrow> i64 \<Rightarrow> (nat \<times> lending_account) result" where
  "find_or_create pk la now = (case position (\<lambda>b. active b \<and> bank_pk b = pk) la of
     Some i \<Rightarrow> Ok (i, la)
   | None \<Rightarrow> bind (ok_or (get_first_empty_balance la) (Mfi LendingAccountBalanceSlotsFull)) (\<lambda>i.
       Ok (i, la[i := \<lparr>active = True, bank_pk = pk, asset_shares = ZERO, liability_shares = ZERO,
                       emissions_outstanding = ZERO, bal_last_update = now\<rparr>])))"

section \<open>Emissions\<close>

definition calc_emissions :: "fixed_ops \<Rightarrow> i80f48 \<Rightarrow> i80f48 \<Rightarrow> nat \<Rightarrow> i80f48 \<Rightarrow> i80f48 result" where
  "calc_emissions fx period balance_amount decimals rate =
     (bind (index_at EXP_10_I80F48 decimals) (\<lambda>exponent.
      bind (ok_or_math_error (checked_div fx balance_amount exponent)) (\<lambda>balance_amount_ui.
      bind (ok_or_math_error (checked_mul fx period balance_amount_ui)) (\<lambda>x.
      bind (ok_or_math_error (checked_div fx x SECONDS_PER_YEAR)) (\<lambda>y.
      ok_or_math_error (checked_mul fx y rate))))))"

text \<open>The amount that earns emissions, if the balance's side is the one that does.\<close>

definition emissions_base :: "fixed_ops \<Rightarrow> bank_account_wrapper \<Rightarrow> i80f48 option result" where
  "emissions_base fx w =
     (bind (get_side (bw_balance w)) (\<lambda>side.
      if side = Some Assets \<and> bank_get_flag (bw_bank w) EMISSIONS_FLAG_LENDING_ACTIVE
      then bind (get_asset_amount fx (bw_bank w) (asset_shares (bw_balance w))) (\<lambda>a. Ok (Some a))
      else if side = Some Liabilities \<and> bank_get_flag (bw_bank w) EMISSIONS_FLAG_BORROW_ACTIVE
      then bind (get_liability_amount fx (bw_bank w) (liability_shares (bw_balance w))) (\<lambda>a. Ok (Some a))
      else Ok None))"

definition emissions_period :: "balance \<Rightarrow> u64 \<Rightarrow> u64 result" where
  "emissions_period bal current_timestamp =
     (let since = (if bal_last_update bal < MIN_EMISSIONS_START_TIME then current_timestamp
                   else bal_last_update bal) in
      if since \<le> current_timestamp then Ok (current_timestamp - since) else Err (Mfi MathError))"

definition claim_emissions :: "fixed_ops \<Rightarrow> bank_account_wrapper \<Rightarrow> u64 \<Rightarrow> bank_account_wrapper result" where
  "claim_emissions fx w current_timestamp =
     (let bal = bw_balance w; b = bw_bank w in
      bind (emissions_base fx w) (\<lambda>base.
      bind (case base of
         None \<Rightarrow> Ok w
       | Some balance_amount \<Rightarrow>
           bind (emissions_period bal current_timestamp) (\<lambda>delta.
           bind (from_u64 fx delta) (\<lambda>period.
           bind (from_u64 fx (emissions_rate b)) (\<lambda>rate.
           bind (calc_emissions fx period balance_amount (unat (mint_decimals b)) rate) (\<lambda>emissions.
           let emissions_real = min emissions (emissions_remaining b) in
           bind (ok_or_math_error (checked_add fx (emissions_outstanding bal) emissions_real)) (\<lambda>outstanding.
           bind (ok_or_math_error (checked_sub fx (emissions_remaining b) emissions_real)) (\<lambda>remaining.
           Ok \<lparr>bw_balance = bal\<lparr>emissions_outstanding := outstanding\<rparr>,
               bw_bank = b\<lparr>emissions_remaining := remaining\<rparr>\<rparr>))))))) (\<lambda>w'.
      Ok (w'\<lparr>bw_balance := (bw_balance w')\<lparr>bal_last_update := current_timestamp\<rparr>\<rparr>))))"

definition settle_emissions_and_get_transfer_amount ::
    "fixed_ops \<Rightarrow> bank_account_wrapper \<Rightarrow> i64 \<Rightarrow> (u64 \<times> bank_account_wrapper) result" where
  "settle_emissions_and_get_transfer_amount fx w now =
     (bind (claim_emissions fx w now) (\<lambda>w1.
      let bal = bw_balance w1 in
      bind (ok_or_math_error (checked_floor fx (emissions_outstanding bal))) (\<lambda>floored.
      bind (ok_or_math_error (checked_sub fx (emissions_outstanding bal) floored)) (\<lambda>new_outstanding.
      bind (ok_or_math_error (checked_to_u64 fx floored)) (\<lambda>amount.
      Ok (amount, w1\<lparr>bw_balance := bal\<lparr>emissions_outstanding := new_outstanding\<rparr>\<rparr>))))))"

section \<open>Increase and decrease\<close>

definition increase_balance_internal ::
    "fixed_ops \<Rightarrow> bank_account_wrapper \<Rightarrow> i80f48 \<Rightarrow> balance_increase_type \<Rightarrow> i64 \<Rightarrow> bank_account_wrapper result" where
  "increase_balance_internal fx w balance_delta operation_type now =
     (bind (claim_emissions fx w now) (\<lambda>w1.
      let bal = bw_balance w1; b = bw_bank w1 in
      bind (get_liability_amount fx b (liability_shares bal)) (\<lambda>current_liability_amount.
      let liability_amount_decrease = min current_liability_amount balance_delta in
      bind (ok_or_math_error (checked_sub fx balance_delta current_liability_amount)) (\<lambda>rest.
      let asset_amount_increase = max rest ZERO in
      bind (case operation_type of
         RepayOnly \<Rightarrow> bind (is_zero_with_tolerance fx asset_amount_increase ZERO_AMOUNT_THRESHOLD) (\<lambda>z.
           check z OperationRepayOnly)
       | DepositOnly \<Rightarrow> bind (is_zero_with_tolerance fx liability_amount_decrease ZERO_AMOUNT_THRESHOLD) (\<lambda>z.
           check z OperationDepositOnly)
       | _ \<Rightarrow> Ok ()) (\<lambda>_.
      bind (assert_operational_mode b (Some (is_positive_with_tolerance asset_amount_increase ZERO_AMOUNT_THRESHOLD))) (\<lambda>_.
      bind (get_asset_shares fx b asset_amount_increase) (\<lambda>asset_shares_increase.
      bind (balance_change_asset_shares fx bal asset_shares_increase) (\<lambda>bal1.
      bind (bank_change_asset_shares fx b asset_shares_increase (operation_type = BypassDepositLimit)) (\<lambda>b1.
      bind (get_liability_shares fx b1 liability_amount_decrease) (\<lambda>liability_shares_decrease.
      bind (op_neg fx liability_shares_decrease) (\<lambda>d.
      bind (balance_change_liability_shares fx bal1 d) (\<lambda>bal2.
      bind (bank_change_liability_shares fx b1 d True) (\<lambda>b2.
      Ok \<lparr>bw_balance = bal2, bw_bank = b2\<rparr>)))))))))))))"

definition decrease_balance_internal ::
    "fixed_ops \<Rightarrow> bank_account_wrapper \<Rightarrow> i80f48 \<Rightarrow> balance_decrease_type \<Rightarrow> i64 \<Rightarrow> bank_account_wrapper result" where
  "decrease_balance_internal fx w balance_delta operation_type now =
     (bind (claim_emissions fx w now) (\<lambda>w1.
      let bal = bw_balance w1; b = bw_bank w1 in
      bind (get_asset_amount fx b (asset_shares bal)) (\<lambda>current_asset_amount.
      let asset_amount_decrease = min current_asset_amount balance_delta in
      bind (ok_or_math_error (checked_sub fx balance_delta current_asset_amount)) (\<lambda>rest.
      let liability_amount_increase = max rest ZERO in
      bind (case operation_type of
         WithdrawOnly \<Rightarrow> bind (is_zero_with_tolerance fx liability_amount_increase ZERO_AMOUNT_THRESHOLD) (\<lambda>z.
           check z OperationWithdrawOnly)
       | BorrowOnly \<Rightarrow> bind (is_zero_with_tolerance fx asset_amount_decrease ZERO_AMOUNT_THRESHOLD) (\<lambda>z.
           check z OperationBorrowOnly)
       | _ \<Rightarrow> Ok ()) (\<lambda>_.
      bind (assert_operational_mode b (Some (is_positive_with_tolerance liability_amount_increase ZERO_AMOUNT_THRESHOLD))) (\<lambda>_.
      bind (get_asset_shares fx b asset_amount_decrease) (\<lambda>asset_shares_decrease.
      bind (op_neg fx asset_shares_decrease) (\<lambda>d.
      bind (balance_change_asset_shares fx bal d) (\<lambda>bal1.
      bind (bank_change_asset_shares fx b d False) (\<lambda>b1.
      bind (get_liability_shares fx b1 liability_amount_increase) (\<lambda>liability_shares_increase.
      bind (balance_change_liability_shares fx bal1 liability_shares_increase) (\<lambda>bal2.
      bind (bank_change_liability_shares fx b1 liability_shares_increase (operation_type = BypassBorrowLimit)) (\<lambda>b2.
      bind (check_utilization_ratio fx b2) (\<lambda>_.
      Ok \<lparr>bw_balance = bal2, bw_bank = b2\<rparr>))))))))))))))"

definition deposit :: "fixed_ops \<Rightarrow> bank_account_wrapper \<Rightarrow> i80f48 \<Rightarrow> i64 \<Rightarrow> bank_account_wrapper result" where
  "deposit fx w amount now = increase_balance_internal fx w amount AnyIncrease now"

definition repay :: "fixed_ops \<Rightarrow> bank_account_wrapper \<Rightarrow> i80f48 \<Rightarrow> i64 \<Rightarrow> bank_account_wrapper result" where
  "repay fx w amount now = increase_balance_internal fx w amount RepayOnly now"

definition withdraw :: "fixed_ops \<Rightarrow> bank_account_wrapper \<Rightarrow> i80f48 \<Rightarrow> i64 \<Rightarrow> bank_account_wrapper result" where
  "withdraw fx w amount now = decrease_balance_internal fx w amount WithdrawOnly now"

definition borrow :: "fixed_ops \<Rightarrow> bank_account_wrapper \<Rightarrow> i80f48 \<Rightarrow> i64 \<Rightarrow> bank_account_wrapper result" where
  "borrow fx w amount now = decrease_balance_internal fx w amount AnyDecrease now"

definition increase_balance :: "fixed_ops \<Rightarrow> bank_account_wrapper \<Rightarrow> i80f48 \<Rightarrow> i64 \<Rightarrow> bank_account_wrapper result" where
  "increase_balance fx w amount now = increase_balance_internal fx w amount AnyIncrease now"

definition increase_balance_in_liquidation :: "fixed_ops \<Rightarrow> bank_account_wrapper \<Rightarrow> i80f48 \<Rightarrow> i64 \<Rightarrow> bank_account_wrapper result" where
  "increase_balance_in_liquidation fx w amount now = increase_balance_internal fx w amount BypassDepositLimit now"

definition decrease_balance :: "fixed_ops \<Rightarrow> bank_account_wrapper \<Rightarrow> i80f48 \<Rightarrow> i64 \<Rightarrow> bank_account_wrapper result" where
  "decrease_balance fx w amount now = decrease_balance_internal fx w amount AnyDecrease now"

definition decrease_balance_in_liquidation :: "fixed_ops \<Rightarrow> bank_account_wrapper \<Rightarrow> i80f48 \<Rightarrow> i64 \<Rightarrow> bank_account_wrapper result" where
  "decrease_balance_in_liquidation fx w amount now = decrease_balance_internal fx w amount BypassBorrowLimit now"

section \<open>Closing\<close>

definition withdraw_all :: "fixed_ops \<Rightarrow> bank_account_wrapper \<Rightarrow> i64 \<Rightarrow> (u64 \<times> bank_account_wrapper) result" where
  "withdraw_all fx w now =
     (bind (claim_emissions fx w now) (\<lambda>w1.
      let bal = bw_balance w1; b = bw_bank w1 in
      bind (assert_operational_mode b None) (\<lambda>_.
      bind (get_asset_amount fx b (asset_shares bal)) (\<lambda>current_asset_amount.
      bind (get_liability_amount fx b (liability_shares bal)) (\<lambda>current_liability_amount.
      bind (check (is_positive_with_tolerance current_asset_amount ZERO_AMOUNT_THRESHOLD) NoAssetFound) (\<lambda>_.
      bind (is_zero_with_tolerance fx current_liability_amount ZERO_AMOUNT_THRESHOLD) (\<lambda>z.
      bind (check z NoAssetFound) (\<lambda>_.
      bind (balance_close bal) (\<lambda>bal1.
      bind (op_neg fx (asset_shares bal)) (\<lambda>d.
      bind (bank_change_asset_shares fx b d False) (\<lambda>b1.
      bind (check_utilization_ratio fx b1) (\<lambda>_.
      bind (ok_or_math_error (checked_floor fx current_asset_amount)) (\<lambda>spl_withdraw_amount.
      bind (ok_or_math_error (checked_sub fx current_asset_amount spl_withdraw_amount)) (\<lambda>dust.
      bind (ok_or_math_error (checked_add fx dust (collected_insurance_fees_outstanding b1))) (\<lambda>fees'.
      bind (ok_or_math_error (checked_to_u64 fx spl_withdraw_amount)) (\<lambda>amount.
      Ok (amount, \<lparr>bw_balance = bal1, bw_bank = b1\<lparr>collected_insurance_fees_outstanding := fees'\<rparr>\<rparr>)))))))))))))))))"

definition repay_all :: "fixed_ops \<Rightarrow> bank_account_wrapper \<Rightarrow> i64 \<Rightarrow> (u64 \<times> bank_account_wrapper) result" where
  "repay_all fx w now =
     (bind (claim_emissions fx w now) (\<lambda>w1.
      let bal = bw_balance w1; b = bw_bank w1 in
      bind (assert_operational_mode b None) (\<lambda>_.
      bind (get_liability_amount fx b (liability_shares bal)) (\<lambda>current_liability_amount.
      bind (get_asset_amount fx b (asset_shares bal)) (\<lambda>current_asset_amount.
      bind (check (is_positive_with_tolerance current_liability_amount ZERO_AMOUNT_THRESHOLD) NoLiabilityFound) (\<lambda>_.
      bind (is_zero_with_tolerance fx current_asset_amount ZERO_AMOUNT_THRESHOLD) (\<lambda>z.
      bind (check z NoLiabilityFound) (\<lambda>_.
      bind (balance_close bal) (\<lambda>bal1.
      bind (op_neg fx (liability_shares bal)) (\<lambda>d.
      bind (bank_change_liability_shares fx b d False) (\<lambda>b1.
      bind (ok_or_math_error (checked_ceil fx current_liability_amount)) (\<lambda>spl_deposit_amount.
      bind (ok_or_math_error (checked_sub fx spl_deposit_amount current_liability_amount)) (\<lambda>dust.
      bind (ok_or_math_error (checked_add fx dust (collected_insurance_fees_outstanding b1))) (\<lambda>fees'.
      bind (ok_or_math_error (checked_to_u64 fx spl_deposit_amount)) (\<lambda>amount.
      Ok (amount, \<lparr>bw_balance = bal1, bw_bank = b1\<lparr>collected_insurance_fees_outstanding := fees'\<rparr>\<rparr>))))))))))))))))"

definition close_balance :: "fixed_ops \<Rightarrow> bank_account_wrapper \<Rightarrow> i64 \<Rightarrow> bank_account_wrapper result" where
  "close_balance fx w now =
     (bind (claim_emissions fx w now) (\<lambda>w1.
      let bal = bw_balance w1; b = bw_bank w1 in
      bind (get_liability_amount fx b (liability_shares bal)) (\<lambda>current_liability_amount.
      bind (get_asset_amount fx b (asset_shares bal)) (\<lambda>current_asset_amount.
      bind (is_zero_with_tolerance fx current_liability_amount ZERO_AMOUNT_THRESHOLD) (\<lambda>z1.
      bind (check z1 IllegalBalanceState) (\<lambda>_.
      bind (is_zero_with_tolerance fx current_asset_amount ZERO_AMOUNT_THRESHOLD) (\<lambda>z2.
      bind (check z2 IllegalBalanceState) (\<lambda>_.
      bind (balance_close bal) (\<lambda>bal1.
      Ok (w1\<lparr>bw_balance := bal1\<rparr>))))))))))"

section \<open>Invariant\<close>

text \<open>
  A balance holds no negative quantity and is on one side only, which is what the assertion in
  \<^verbatim>\<open>get_side\<close> demands.
\<close>

definition balance_ok :: "balance \<Rightarrow> bool" where
  "balance_ok bal \<longleftrightarrow> 0 \<le> asset_shares bal \<and> 0 \<le> liability_shares bal \<and> 0 \<le> emissions_outstanding bal \<and>
     (asset_shares bal < EMPTY_BALANCE_THRESHOLD \<or> liability_shares bal < EMPTY_BALANCE_THRESHOLD)"

text \<open>
  A balance and its bank: both well formed, the balance part of the bank's totals, and no share
  value so small that a share is worth less than two units of the last place.
\<close>

definition wrapper_ok :: "bank_account_wrapper \<Rightarrow> bool" where
  "wrapper_ok w \<longleftrightarrow> balance_ok (bw_balance w) \<and> bank_ok (bw_bank w)
   \<and> 1 < asset_share_value (bw_bank w) \<and> 1 < liability_share_value (bw_bank w)
   \<and> asset_shares (bw_balance w) \<le> total_asset_shares (bw_bank w)
   \<and> liability_shares (bw_balance w) \<le> total_liability_shares (bw_bank w)"

lemma get_side_total: "balance_ok bal \<Longrightarrow> is_ok (get_side bal)"
  by (auto simp: balance_ok_def get_side_def is_ok_def)

section \<open>Effects\<close>

context fixed_point
begin

lemma calc_emissions_nonneg:
  assumes "calc_emissions fx period amount d rate = Ok e" and "0 \<le> period" and "0 \<le> amount" and "0 \<le> rate"
  shows "0 \<le> e"
  using assms
  by (auto simp: calc_emissions_def run_iff fixed_simps EXP_10_I80F48_def SECONDS_PER_YEAR_year
      trunc_div_nonneg pos_imp_zdiv_nonneg_iff intro!: mul_floor_nonneg)

lemma emissions_base_nonneg:
  "wrapper_ok w \<Longrightarrow> emissions_base fx w = Ok (Some a) \<Longrightarrow> 0 \<le> a"
  by (auto simp: emissions_base_def run_iff wrapper_ok_def balance_ok_def bank_ok_def split: if_splits)

text \<open>Claiming moves an amount from the bank's remaining emissions to the balance.\<close>

lemma claim_emissions_OkD:
  assumes "wrapper_ok w" and "claim_emissions fx w now = Ok w'"
  obtains e where "0 \<le> e" and "e \<le> emissions_remaining (bw_bank w)"
    and "w' = \<lparr>bw_balance = (bw_balance w)\<lparr>emissions_outstanding := emissions_outstanding (bw_balance w) + e,
             bal_last_update := now\<rparr>,
           bw_bank = (bw_bank w)\<lparr>emissions_remaining := emissions_remaining (bw_bank w) - e\<rparr>\<rparr>"
proof -
  obtain base where base: "emissions_base fx w = Ok base"
    using assms(2) by (auto simp: claim_emissions_def Let_def run_iff)
  show thesis
  proof (cases base)
    case None
    with assms base show thesis
      by (intro that [of 0]) (auto simp: claim_emissions_def Let_def wrapper_ok_def bank_ok_def)
  next
    case (Some a)
    with assms(2) base obtain d e where
      e: "calc_emissions fx (uint (d :: u64) * SCALE) a (unat (mint_decimals (bw_bank w)))
           (uint (emissions_rate (bw_bank w)) * SCALE) = Ok e"
      and w': "w' = \<lparr>bw_balance = (bw_balance w)\<lparr>emissions_outstanding := emissions_outstanding (bw_balance w)
               + min e (emissions_remaining (bw_bank w)), bal_last_update := now\<rparr>,
           bw_bank = (bw_bank w)\<lparr>emissions_remaining := emissions_remaining (bw_bank w)
               - min e (emissions_remaining (bw_bank w))\<rparr>\<rparr>"
      by (auto simp: claim_emissions_def Let_def run_iff fixed_simps split: if_splits)
    have "0 \<le> e"
      by (rule calc_emissions_nonneg [OF e]) (use emissions_base_nonneg [OF assms(1)] base Some in simp_all)
    then show thesis
      using assms(1) by (intro that [OF _ _ w']) (auto simp: wrapper_ok_def bank_ok_def)
  qed
qed

lemma is_zero_with_tolerance_iff [run_iff]:
  "is_zero_with_tolerance fx x t = Ok z \<longleftrightarrow> fits \<bar>x\<bar> \<and> z = (\<bar>x\<bar> < t)"
  by (auto simp: is_zero_with_tolerance_def run_iff fixed_simps)

lemma asset_shares_down_iff:
  "0 \<le> x \<Longrightarrow> bank_change_asset_shares fx b (- x) bypass = Ok b' \<longleftrightarrow>
   fits (total_asset_shares b - x) \<and> b' = b\<lparr>total_asset_shares := total_asset_shares b - x\<rparr>"
  by (auto simp: change_asset_shares_iff)

lemma liability_shares_down_iff:
  "0 \<le> x \<Longrightarrow> bank_change_liability_shares fx b (- x) bypass = Ok b' \<longleftrightarrow>
   fits (total_liability_shares b - x) \<and> b' = b\<lparr>total_liability_shares := total_liability_shares b - x\<rparr>"
  by (auto simp: change_liability_shares_iff)

text \<open>
  The effect of an increase: the debt is paid first, what is left becomes deposit shares, and
  the totals of the bank change by exactly what the balance changes by.
\<close>

lemma increase_balance_OkD:
  assumes "wrapper_ok w" and "0 \<le> delta" and "increase_balance_internal fx w delta op now = Ok w'"
  obtains e owed da dl where "0 \<le> e" and "e \<le> emissions_remaining (bw_bank w)"
    and "owed = liability_shares (bw_balance w) * liability_share_value (bw_bank w) div SCALE"
    and "da = max (delta - owed) 0 * SCALE div asset_share_value (bw_bank w)"
    and "dl = min owed delta * SCALE div liability_share_value (bw_bank w)"
    and "w' = \<lparr>bw_balance = (bw_balance w)\<lparr>emissions_outstanding := emissions_outstanding (bw_balance w) + e,
               bal_last_update := now, asset_shares := asset_shares (bw_balance w) + da,
               liability_shares := liability_shares (bw_balance w) - dl\<rparr>,
             bw_bank = (bw_bank w)\<lparr>emissions_remaining := emissions_remaining (bw_bank w) - e,
               total_asset_shares := total_asset_shares (bw_bank w) + da,
               total_liability_shares := total_liability_shares (bw_bank w) - dl\<rparr>\<rparr>"
    and "assert_operational_mode (bw_bank w) (Some (ZERO_AMOUNT_THRESHOLD < max (delta - owed) 0)) = Ok ()"
    and "op = RepayOnly \<longrightarrow> max (delta - owed) 0 < ZERO_AMOUNT_THRESHOLD"
    and "0 < da \<and> is_deposit_limit_active (bk_config (bw_bank w)) \<and> op \<noteq> BypassDepositLimit \<longrightarrow>
           total_assets (bw_bank w') < uint (deposit_limit (bk_config (bw_bank w))) * SCALE"
proof -
  obtain w1 where w1: "claim_emissions fx w now = Ok w1"
    using assms(3) by (auto simp: increase_balance_internal_def run_iff)
  obtain e where e: "0 \<le> e" "e \<le> emissions_remaining (bw_bank w)"
    and w1_eq: "w1 = \<lparr>bw_balance = (bw_balance w)\<lparr>emissions_outstanding := emissions_outstanding (bw_balance w) + e,
             bal_last_update := now\<rparr>,
           bw_bank = (bw_bank w)\<lparr>emissions_remaining := emissions_remaining (bw_bank w) - e\<rparr>\<rparr>"
    by (rule claim_emissions_OkD [OF assms(1) w1])
  define owed where "owed = liability_shares (bw_balance w) * liability_share_value (bw_bank w) div SCALE"
  define da where "da = max (delta - owed) 0 * SCALE div asset_share_value (bw_bank w)"
  define dl where "dl = min owed delta * SCALE div liability_share_value (bw_bank w)"
  have pos: "0 < asset_share_value (bw_bank w)" "0 < liability_share_value (bw_bank w)" "0 \<le> owed"
    using assms(1) by (auto simp: owed_def wrapper_ok_def balance_ok_def bank_ok_def)
  then have "0 \<le> dl"
    using assms(2) by (simp add: dl_def pos_imp_zdiv_nonneg_iff)
  note down = liability_shares_down_iff [OF this] and fold = owed_def [symmetric] da_def [symmetric] dl_def [symmetric]
  show thesis
    by (rule that [OF e owed_def da_def dl_def])
      (use assms(2,3) w1 pos in \<open>auto simp: increase_balance_internal_def Let_def run_iff fixed_simps ZERO_def w1_eq
        balance_change_asset_shares_def balance_change_liability_shares_def down fold
        is_positive_with_tolerance_def assert_operational_mode_def total_assets_def
        simp del: change_liability_shares_iff\<close>)
qed

text \<open>
  The effect of a decrease: the deposit is used first, the rest becomes debt shares, and the
  bank is left with at least as much deposited as borrowed.
\<close>

lemma decrease_balance_OkD:
  assumes "wrapper_ok w" and "0 \<le> delta" and "decrease_balance_internal fx w delta op now = Ok w'"
  obtains e owned da dl where "0 \<le> e" and "e \<le> emissions_remaining (bw_bank w)"
    and "owned = asset_shares (bw_balance w) * asset_share_value (bw_bank w) div SCALE"
    and "da = min owned delta * SCALE div asset_share_value (bw_bank w)"
    and "dl = max (delta - owned) 0 * SCALE div liability_share_value (bw_bank w)"
    and "w' = \<lparr>bw_balance = (bw_balance w)\<lparr>emissions_outstanding := emissions_outstanding (bw_balance w) + e,
               bal_last_update := now, asset_shares := asset_shares (bw_balance w) - da,
               liability_shares := liability_shares (bw_balance w) + dl\<rparr>,
             bw_bank = (bw_bank w)\<lparr>emissions_remaining := emissions_remaining (bw_bank w) - e,
               total_asset_shares := total_asset_shares (bw_bank w) - da,
               total_liability_shares := total_liability_shares (bw_bank w) + dl\<rparr>\<rparr>"
    and "assert_operational_mode (bw_bank w) (Some (ZERO_AMOUNT_THRESHOLD < max (delta - owned) 0)) = Ok ()"
    and "op = WithdrawOnly \<longrightarrow> max (delta - owned) 0 < ZERO_AMOUNT_THRESHOLD"
    and "0 < dl \<and> is_borrow_limit_active (bk_config (bw_bank w)) \<and> op \<noteq> BypassBorrowLimit \<longrightarrow>
           total_liabilities (bw_bank w') < uint (borrow_limit (bk_config (bw_bank w))) * SCALE"
    and "total_liabilities (bw_bank w') \<le> total_assets (bw_bank w')"
proof -
  obtain w1 where w1: "claim_emissions fx w now = Ok w1"
    using assms(3) by (auto simp: decrease_balance_internal_def run_iff)
  obtain e where e: "0 \<le> e" "e \<le> emissions_remaining (bw_bank w)"
    and w1_eq: "w1 = \<lparr>bw_balance = (bw_balance w)\<lparr>emissions_outstanding := emissions_outstanding (bw_balance w) + e,
             bal_last_update := now\<rparr>,
           bw_bank = (bw_bank w)\<lparr>emissions_remaining := emissions_remaining (bw_bank w) - e\<rparr>\<rparr>"
    by (rule claim_emissions_OkD [OF assms(1) w1])
  have util: "check_utilization_ratio fx (bw_bank w') = Ok ()"
    using assms(3) by (auto simp: decrease_balance_internal_def Let_def bind_Ok_iff)
  define owned where "owned = asset_shares (bw_balance w) * asset_share_value (bw_bank w) div SCALE"
  define da where "da = min owned delta * SCALE div asset_share_value (bw_bank w)"
  define dl where "dl = max (delta - owned) 0 * SCALE div liability_share_value (bw_bank w)"
  have pos: "0 < asset_share_value (bw_bank w)" "0 < liability_share_value (bw_bank w)" "0 \<le> owned"
    using assms(1) by (auto simp: owned_def wrapper_ok_def balance_ok_def bank_ok_def)
  then have "0 \<le> da"
    using assms(2) by (simp add: da_def pos_imp_zdiv_nonneg_iff)
  note down = asset_shares_down_iff [OF this] and fold = owned_def [symmetric] da_def [symmetric] dl_def [symmetric]
  show thesis
    by (rule that [OF e owned_def da_def dl_def _ _ _ _ check_utilization_ratio_OkD [OF util]])
      (use assms(2,3) w1 pos in \<open>auto simp: decrease_balance_internal_def Let_def run_iff fixed_simps ZERO_def w1_eq
        balance_change_asset_shares_def balance_change_liability_shares_def down fold
        is_positive_with_tolerance_def assert_operational_mode_def total_liabilities_def
        simp del: change_asset_shares_iff\<close>)
qed

end

section \<open>Sides\<close>

text \<open>
  The shares left after an amount is paid out in full are worth less than one unit of the last
  place, so they are far below the threshold of an empty balance.
\<close>

lemma shares_left:
  fixes n v :: int
  assumes "1 < v"
  shows "n - (n * v div SCALE) * SCALE div v < EMPTY_BALANCE_THRESHOLD"
proof -
  define q where "q = (n * v div SCALE) * SCALE div v"
  have v: "0 < v" using assms by simp
  have "n * v \<le> (n * v div SCALE) * SCALE + SCALE"
    using mul_floor_gt [of n v] by (simp add: distrib_right)
  also have "(n * v div SCALE) * SCALE \<le> (q + 1) * v"
    unfolding q_def by (rule le_quot_mult [OF v])
  finally have "(n - q - 1) * v \<le> SCALE"
    by (simp add: algebra_simps)
  moreover have "(n - q - 1) * 2 \<le> (n - q - 1) * v" if "0 \<le> n - q - 1"
    using that assms by (intro mult_left_mono) simp_all
  ultimately have "n - q < SCALE"
    by (cases "0 \<le> n - q - 1") (auto simp: SCALE_def)
  then show ?thesis
    by (simp add: q_def EMPTY_BALANCE_THRESHOLD_def SCALE_def)
qed

text \<open>Paying out at most the worth of some shares takes at most those shares.\<close>

lemma shares_for_le:
  assumes "0 \<le> n" and "0 < v" and "x \<le> n * v div SCALE"
  shows "x * SCALE div v \<le> n"
proof -
  have "x * SCALE div v \<le> (n * v div SCALE) * SCALE div v"
    using assms by (intro zdiv_mono1 mult_right_mono) simp_all
  then show ?thesis
    using shares_round_trip_le [OF assms(1,2)] by simp
qed

text \<open>
  Moving an amount across the two sides of a balance: \<open>n\<close> shares of value \<open>v\<close> are used up first.
  The other side grows only when these are used up to a rest below the threshold.
\<close>

lemma side_switch:
  fixes n m v u x t :: int
  defines "worth \<equiv> n * v div SCALE"
  assumes "0 \<le> n" and "0 \<le> m" and "1 < v" and "0 < u" and "0 \<le> x"
    and "n < EMPTY_BALANCE_THRESHOLD \<or> m < EMPTY_BALANCE_THRESHOLD"
  shows "0 \<le> min worth x * SCALE div v" and "min worth x * SCALE div v \<le> n"
    and "0 \<le> max (x - worth) 0 * SCALE div u"
    and "n - min worth x * SCALE div v < EMPTY_BALANCE_THRESHOLD \<or>
         m + max (x - worth) 0 * SCALE div u < EMPTY_BALANCE_THRESHOLD"
proof -
  have worth: "0 \<le> worth"
    using assms(2,4) by (simp add: worth_def)
  show used: "0 \<le> min worth x * SCALE div v" and "0 \<le> max (x - worth) 0 * SCALE div u"
    using assms worth by (simp_all add: pos_imp_zdiv_nonneg_iff)
  show le: "min worth x * SCALE div v \<le> n"
    using assms by (intro shares_for_le) (simp_all add: worth_def)
  show "n - min worth x * SCALE div v < EMPTY_BALANCE_THRESHOLD \<or>
      m + max (x - worth) 0 * SCALE div u < EMPTY_BALANCE_THRESHOLD"
  proof (cases "worth < x")
    case True
    then have "min worth x * SCALE div v = (n * v div SCALE) * SCALE div v"
      by (simp add: worth_def)
    then show ?thesis
      using shares_left [OF assms(4), of n] by simp
  next
    case False
    then have "max (x - worth) 0 * SCALE div u = 0"
      by simp
    then show ?thesis
      using assms(7) used by linarith
  qed
qed

text \<open>The shares for an amount are worth the amount up to one share.\<close>

lemma shares_worth:
  assumes "0 < (v :: int)"
  shows "x * SCALE div v * v \<le> x * SCALE" and "x * SCALE < (x * SCALE div v + 1) * v"
  using quot_mult_le [OF assms, of "x * SCALE"] pos_mod_bound [OF assms, of "x * SCALE"]
  by (simp_all add: distrib_right minus_mod_eq_div_mult [symmetric])

context fixed_point
begin

lemma increase_keeps_ok:
  assumes "wrapper_ok w" and "0 \<le> delta" and "increase_balance_internal fx w delta op now = Ok w'"
  shows "wrapper_ok w'"
proof -
  let ?bal = "bw_balance w" and ?b = "bw_bank w"
  have sides: "0 \<le> liability_shares ?bal" "0 \<le> asset_shares ?bal" "1 < liability_share_value ?b"
    "0 < asset_share_value ?b" "liability_shares ?bal < EMPTY_BALANCE_THRESHOLD \<or> asset_shares ?bal < EMPTY_BALANCE_THRESHOLD"
    using assms(1) by (auto simp: wrapper_ok_def balance_ok_def bank_ok_def)
  obtain e owed da dl where e: "0 \<le> e" "e \<le> emissions_remaining ?b"
    and owed: "owed = liability_shares ?bal * liability_share_value ?b div SCALE"
    and da: "da = max (delta - owed) 0 * SCALE div asset_share_value ?b"
    and dl: "dl = min owed delta * SCALE div liability_share_value ?b"
    and w': "w' = \<lparr>bw_balance = ?bal\<lparr>emissions_outstanding := emissions_outstanding ?bal + e,
               bal_last_update := now, asset_shares := asset_shares ?bal + da,
               liability_shares := liability_shares ?bal - dl\<rparr>,
             bw_bank = ?b\<lparr>emissions_remaining := emissions_remaining ?b - e,
               total_asset_shares := total_asset_shares ?b + da,
               total_liability_shares := total_liability_shares ?b - dl\<rparr>\<rparr>"
    by (rule increase_balance_OkD [OF assms])
  show ?thesis
    using side_switch [OF sides(1-4) assms(2) sides(5)] e assms(1)
    unfolding w' owed [symmetric] da [symmetric] dl [symmetric]
    by (auto simp: wrapper_ok_def balance_ok_def bank_ok_def)
qed

lemma decrease_keeps_ok:
  assumes "wrapper_ok w" and "0 \<le> delta" and "decrease_balance_internal fx w delta op now = Ok w'"
  shows "wrapper_ok w'"
proof -
  let ?bal = "bw_balance w" and ?b = "bw_bank w"
  have sides: "0 \<le> asset_shares ?bal" "0 \<le> liability_shares ?bal" "1 < asset_share_value ?b"
    "0 < liability_share_value ?b" "asset_shares ?bal < EMPTY_BALANCE_THRESHOLD \<or> liability_shares ?bal < EMPTY_BALANCE_THRESHOLD"
    using assms(1) by (auto simp: wrapper_ok_def balance_ok_def bank_ok_def)
  obtain e owned da dl where e: "0 \<le> e" "e \<le> emissions_remaining ?b"
    and owned: "owned = asset_shares ?bal * asset_share_value ?b div SCALE"
    and da: "da = min owned delta * SCALE div asset_share_value ?b"
    and dl: "dl = max (delta - owned) 0 * SCALE div liability_share_value ?b"
    and w': "w' = \<lparr>bw_balance = ?bal\<lparr>emissions_outstanding := emissions_outstanding ?bal + e,
               bal_last_update := now, asset_shares := asset_shares ?bal - da,
               liability_shares := liability_shares ?bal + dl\<rparr>,
             bw_bank = ?b\<lparr>emissions_remaining := emissions_remaining ?b - e,
               total_asset_shares := total_asset_shares ?b - da,
               total_liability_shares := total_liability_shares ?b + dl\<rparr>\<rparr>"
    by (rule decrease_balance_OkD [OF assms])
  show ?thesis
    using side_switch [OF sides(1-4) assms(2) sides(5)] e assms(1)
    unfolding w' owned [symmetric] da [symmetric] dl [symmetric]
    by (auto simp: wrapper_ok_def balance_ok_def bank_ok_def)
qed

end

section \<open>Effects of closing\<close>

lemma neg_scale_div: "- (k * SCALE) div SCALE = - k"
  using nonzero_mult_div_cancel_right [of SCALE "- k"] by simp

lemma assert_operational_mode_emissions [simp]:
  "assert_operational_mode (b\<lparr>emissions_remaining := x\<rparr>) m = assert_operational_mode b m"
  by (simp add: assert_operational_mode_def)

context fixed_point
begin

lemma withdraw_all_OkD:
  assumes "wrapper_ok w" and "withdraw_all fx w now = Ok (amount, w')"
  obtains e worth where "0 \<le> e" and "e \<le> emissions_remaining (bw_bank w)"
    and "worth = asset_shares (bw_balance w) * asset_share_value (bw_bank w) div SCALE"
    and "uint amount = worth div SCALE"
    and "w' = \<lparr>bw_balance = empty_deactivated,
           bw_bank = (bw_bank w)\<lparr>emissions_remaining := emissions_remaining (bw_bank w) - e,
             total_asset_shares := total_asset_shares (bw_bank w) - asset_shares (bw_balance w),
             collected_insurance_fees_outstanding :=
               collected_insurance_fees_outstanding (bw_bank w) + worth mod SCALE\<rparr>\<rparr>"
    and "emissions_outstanding (bw_balance w) + e < SCALE"
    and "ZERO_AMOUNT_THRESHOLD < worth"
    and "liability_shares (bw_balance w) * liability_share_value (bw_bank w) div SCALE < ZERO_AMOUNT_THRESHOLD"
    and "assert_operational_mode (bw_bank w) None = Ok ()"
    and "total_liabilities (bw_bank w') \<le> total_assets (bw_bank w')"
proof -
  let ?bal = "bw_balance w" and ?b = "bw_bank w"
  let ?worth = "asset_shares ?bal * asset_share_value ?b div SCALE"
  obtain w1 where w1: "claim_emissions fx w now = Ok w1"
    using assms(2) by (auto simp: withdraw_all_def run_iff)
  obtain e where e: "0 \<le> e" "e \<le> emissions_remaining ?b"
    and w1_eq: "w1 = \<lparr>bw_balance = ?bal\<lparr>emissions_outstanding := emissions_outstanding ?bal + e, bal_last_update := now\<rparr>,
           bw_bank = ?b\<lparr>emissions_remaining := emissions_remaining ?b - e\<rparr>\<rparr>"
    by (rule claim_emissions_OkD [OF assms(1) w1])
  obtain b1 fees' where b1: "check_utilization_ratio fx b1 = Ok ()" "bw_bank w' = b1\<lparr>collected_insurance_fees_outstanding := fees'\<rparr>"
    using assms(2) by (auto simp: withdraw_all_def Let_def bind_Ok_iff)
  have util: "total_liabilities (bw_bank w') \<le> total_assets (bw_bank w')"
    using check_utilization_ratio_OkD [OF b1(1)] b1(2) by (simp add: total_assets_def total_liabilities_def)
  have nonneg: "0 \<le> asset_shares ?bal" "0 \<le> ?worth"
    "0 \<le> liability_shares ?bal * liability_share_value ?b div SCALE"
    using assms(1) by (auto simp: wrapper_ok_def balance_ok_def bank_ok_def)
  note down = asset_shares_down_iff [OF nonneg(1)]
  have dust: "?worth - ?worth div SCALE * SCALE = ?worth mod SCALE"
    by (simp add: minus_div_mult_eq_mod)
  show thesis
    by (rule that [OF e refl _ _ _ _ _ _ util])
      (use assms(2) w1 nonneg in \<open>auto simp: withdraw_all_def Let_def run_iff fixed_simps w1_eq down dust
        balance_close_def is_positive_with_tolerance_def assert_operational_mode_def ONE_SCALE uint_u64_of_int
        simp del: change_asset_shares_iff split: if_splits\<close>)
qed

lemma repay_all_OkD:
  assumes "wrapper_ok w" and "repay_all fx w now = Ok (amount, w')"
  obtains e worth where "0 \<le> e" and "e \<le> emissions_remaining (bw_bank w)"
    and "worth = liability_shares (bw_balance w) * liability_share_value (bw_bank w) div SCALE"
    and "uint amount = - (- worth div SCALE)"
    and "w' = \<lparr>bw_balance = empty_deactivated,
           bw_bank = (bw_bank w)\<lparr>emissions_remaining := emissions_remaining (bw_bank w) - e,
             total_liability_shares := total_liability_shares (bw_bank w) - liability_shares (bw_balance w),
             collected_insurance_fees_outstanding :=
               collected_insurance_fees_outstanding (bw_bank w) + (uint amount * SCALE - worth)\<rparr>\<rparr>"
    and "emissions_outstanding (bw_balance w) + e < SCALE"
    and "ZERO_AMOUNT_THRESHOLD < worth"
    and "asset_shares (bw_balance w) * asset_share_value (bw_bank w) div SCALE < ZERO_AMOUNT_THRESHOLD"
    and "assert_operational_mode (bw_bank w) None = Ok ()"
proof -
  let ?bal = "bw_balance w" and ?b = "bw_bank w"
  let ?worth = "liability_shares ?bal * liability_share_value ?b div SCALE"
  obtain w1 where w1: "claim_emissions fx w now = Ok w1"
    using assms(2) by (auto simp: repay_all_def run_iff)
  obtain e where e: "0 \<le> e" "e \<le> emissions_remaining ?b"
    and w1_eq: "w1 = \<lparr>bw_balance = ?bal\<lparr>emissions_outstanding := emissions_outstanding ?bal + e, bal_last_update := now\<rparr>,
           bw_bank = ?b\<lparr>emissions_remaining := emissions_remaining ?b - e\<rparr>\<rparr>"
    by (rule claim_emissions_OkD [OF assms(1) w1])
  have nonneg: "0 \<le> liability_shares ?bal" "0 \<le> asset_shares ?bal * asset_share_value ?b div SCALE"
    using assms(1) by (auto simp: wrapper_ok_def balance_ok_def bank_ok_def)
  have "\<exists>worth b1 c d f. assert_operational_mode ?b None = Ok () \<and>
    get_liability_amount fx ?b (liability_shares ?bal) = Ok worth \<and> ZERO_AMOUNT_THRESHOLD < worth \<and>
    asset_shares ?bal * asset_share_value ?b div SCALE < ZERO_AMOUNT_THRESHOLD \<and>
    emissions_outstanding ?bal + e < SCALE \<and>
    bank_change_liability_shares fx (bw_bank w1) (- liability_shares ?bal) False = Ok b1 \<and>
    checked_ceil fx worth = Some c \<and> checked_sub fx c worth = Some d \<and>
    checked_add fx d (collected_insurance_fees_outstanding b1) = Some f \<and> checked_to_u64 fx c = Some amount \<and>
    w' = \<lparr>bw_balance = empty_deactivated, bw_bank = b1\<lparr>collected_insurance_fees_outstanding := f\<rparr>\<rparr>"
    using assms(2) w1 nonneg(2)
    by (simp add: repay_all_def Let_def run_iff w1_eq balance_close_def is_positive_with_tolerance_def ONE_SCALE
        op_laws get_liability_amount_def del: change_liability_shares_iff) blast
  then obtain worth b1 c d f where mode: "assert_operational_mode ?b None = Ok ()"
    and worth: "get_liability_amount fx ?b (liability_shares ?bal) = Ok worth" "ZERO_AMOUNT_THRESHOLD < worth"
    and assets: "asset_shares ?bal * asset_share_value ?b div SCALE < ZERO_AMOUNT_THRESHOLD"
    and em: "emissions_outstanding ?bal + e < SCALE"
    and b1: "bank_change_liability_shares fx (bw_bank w1) (- liability_shares ?bal) False = Ok b1"
    and c: "checked_ceil fx worth = Some c" "checked_sub fx c worth = Some d"
      "checked_add fx d (collected_insurance_fees_outstanding b1) = Some f" "checked_to_u64 fx c = Some amount"
    and w': "w' = \<lparr>bw_balance = empty_deactivated, bw_bank = b1\<lparr>collected_insurance_fees_outstanding := f\<rparr>\<rparr>"
    by blast
  have c_eq: "c = - (- worth div SCALE) * SCALE" and "c div SCALE = - (- worth div SCALE)"
    using c(1) neg_scale_div [of "- worth div SCALE"] by (simp_all add: fixed_simps run_iff)
  then have amount: "uint amount = - (- worth div SCALE)"
    using c(4) uint_u64_of_int [of "c div SCALE"] by (simp add: fixed_simps split: if_splits)
  show thesis
    by (rule that [OF e _ amount _ em worth(2) assets mode])
      (use worth(1) b1 c(2,3) in \<open>simp_all add: w' c_eq amount w1_eq liability_shares_down_iff [OF nonneg(1)]
        run_iff fixed_simps\<close>)
qed

lemma close_balance_OkD:
  assumes "wrapper_ok w" and "close_balance fx w now = Ok w'"
  obtains e where "0 \<le> e" and "e \<le> emissions_remaining (bw_bank w)"
    and "w' = \<lparr>bw_balance = empty_deactivated,
           bw_bank = (bw_bank w)\<lparr>emissions_remaining := emissions_remaining (bw_bank w) - e\<rparr>\<rparr>"
    and "emissions_outstanding (bw_balance w) + e < SCALE"
    and "liability_shares (bw_balance w) * liability_share_value (bw_bank w) div SCALE < ZERO_AMOUNT_THRESHOLD"
    and "asset_shares (bw_balance w) * asset_share_value (bw_bank w) div SCALE < ZERO_AMOUNT_THRESHOLD"
proof -
  let ?bal = "bw_balance w" and ?b = "bw_bank w"
  obtain w1 where w1: "claim_emissions fx w now = Ok w1"
    using assms(2) by (auto simp: close_balance_def run_iff)
  obtain e where e: "0 \<le> e" "e \<le> emissions_remaining ?b"
    and w1_eq: "w1 = \<lparr>bw_balance = ?bal\<lparr>emissions_outstanding := emissions_outstanding ?bal + e, bal_last_update := now\<rparr>,
           bw_bank = ?b\<lparr>emissions_remaining := emissions_remaining ?b - e\<rparr>\<rparr>"
    by (rule claim_emissions_OkD [OF assms(1) w1])
  have nonneg: "0 \<le> liability_shares ?bal * liability_share_value ?b div SCALE"
    "0 \<le> asset_shares ?bal * asset_share_value ?b div SCALE"
    using assms(1) by (auto simp: wrapper_ok_def balance_ok_def bank_ok_def)
  show thesis
    by (rule that [OF e])
      (use assms(2) w1 nonneg in \<open>auto simp: close_balance_def Let_def run_iff w1_eq balance_close_def ONE_SCALE\<close>)
qed

lemma settle_emissions_OkD:
  assumes "wrapper_ok w" and "settle_emissions_and_get_transfer_amount fx w now = Ok (amount, w')"
  obtains e owed where "0 \<le> e" and "e \<le> emissions_remaining (bw_bank w)"
    and "owed = emissions_outstanding (bw_balance w) + e" and "uint amount = owed div SCALE"
    and "w' = \<lparr>bw_balance = (bw_balance w)\<lparr>emissions_outstanding := owed mod SCALE, bal_last_update := now\<rparr>,
           bw_bank = (bw_bank w)\<lparr>emissions_remaining := emissions_remaining (bw_bank w) - e\<rparr>\<rparr>"
proof -
  let ?bal = "bw_balance w" and ?b = "bw_bank w"
  obtain w1 where w1: "claim_emissions fx w now = Ok w1"
    using assms(2) by (auto simp: settle_emissions_and_get_transfer_amount_def run_iff)
  obtain e where e: "0 \<le> e" "e \<le> emissions_remaining ?b"
    and w1_eq: "w1 = \<lparr>bw_balance = ?bal\<lparr>emissions_outstanding := emissions_outstanding ?bal + e, bal_last_update := now\<rparr>,
           bw_bank = ?b\<lparr>emissions_remaining := emissions_remaining ?b - e\<rparr>\<rparr>"
    by (rule claim_emissions_OkD [OF assms(1) w1])
  show thesis
    by (rule that [OF e refl])
      (use assms(2) w1 in \<open>auto simp: settle_emissions_and_get_transfer_amount_def Let_def run_iff fixed_simps w1_eq
        uint_u64_of_int minus_div_mult_eq_mod split: if_splits\<close>)
qed

end

lemma empty_deactivated_ok: "balance_ok empty_deactivated"
  by (simp add: balance_ok_def empty_deactivated_def ZERO_def EMPTY_BALANCE_THRESHOLD_def)

text \<open>An amount split over two sides: the shares of both sides are worth it up to one share each.\<close>

lemma split_amount_worth:
  fixes amount first v u k :: int
  assumes v: "0 < v" and u: "0 < u"
  shows "min first amount * SCALE div v * v + max (amount - first) 0 * SCALE div u * u \<le> amount * SCALE"
    and "amount * SCALE < min first amount * SCALE div v * v + max (amount - first) 0 * SCALE div u * u + v + u"
    and "max (amount - first) 0 < k \<Longrightarrow> max (amount - first) 0 * SCALE div u * u < k * SCALE"
proof -
  let ?x = "min first amount" and ?y = "max (amount - first) 0"
  have "amount * SCALE = ?x * SCALE + ?y * SCALE"
    by (simp add: max_def min_def left_diff_distrib)
  with shares_worth [OF v, of ?x] shares_worth [OF u, of ?y]
  show "?x * SCALE div v * v + ?y * SCALE div u * u \<le> amount * SCALE"
    "amount * SCALE < ?x * SCALE div v * v + ?y * SCALE div u * u + v + u"
    by (simp_all add: distrib_right)
  assume "?y < k"
  from mult_strict_right_mono [OF this SCALE_pos(1)] shares_worth(1) [OF u, of ?y]
  show "?y * SCALE div u * u < k * SCALE"
    by linarith
qed

section \<open>Accounts\<close>

text \<open>Sixteen slots, well-formed balances, one active balance per bank at most.\<close>

definition account_ok :: "lending_account \<Rightarrow> bool" where
  "account_ok la \<longleftrightarrow> length la = MAX_LENDING_ACCOUNT_BALANCES \<and> (\<forall>bal \<in> set la. balance_ok bal) \<and>
     distinct (map bank_pk (filter active la))"

lemma distinct_active_update:
  assumes "distinct (map bank_pk (filter active la))" and "i < length la" and "\<not> active (la ! i)"
    and "bank_pk bal \<notin> bank_pk ` set (filter active la)"
  shows "distinct (map bank_pk (filter active (la[i := bal])))"
proof -
  have split: "la = take i la @ la ! i # drop (Suc i) la" "la[i := bal] = take i la @ bal # drop (Suc i) la"
    using assms(2) by (simp_all add: id_take_nth_drop upd_conv_take_nth_drop)
  have "filter active la = filter active (take i la) @ filter active (drop (Suc i) la)"
    by (subst split(1)) (simp add: assms(3))
  with assms(1,4) show ?thesis
    by (subst split(2)) auto
qed

text \<open>Replacing a balance by one of the same bank, or by the empty one, keeps banks distinct.\<close>

lemma distinct_active_replace:
  assumes "distinct (map bank_pk (filter active la))" and "i < length la"
    and "active bal \<Longrightarrow> active (la ! i) \<and> bank_pk bal = bank_pk (la ! i)"
  shows "distinct (map bank_pk (filter active (la[i := bal])))"
proof -
  have split: "la = take i la @ la ! i # drop (Suc i) la" "la[i := bal] = take i la @ bal # drop (Suc i) la"
    using assms(2) by (simp_all add: id_take_nth_drop upd_conv_take_nth_drop)
  have "map bank_pk (filter active la) = map bank_pk (filter active (take i la)) @
      (if active (la ! i) then [bank_pk (la ! i)] else []) @ map bank_pk (filter active (drop (Suc i) la))"
    by (subst split(1)) simp
  with assms(1,3) show ?thesis
    by (subst split(2)) (auto split: if_splits)
qed

lemma account_ok_replace:
  assumes "account_ok la" and "i < length la" and "balance_ok bal"
    and "active bal \<Longrightarrow> active (la ! i) \<and> bank_pk bal = bank_pk (la ! i)"
  shows "account_ok (la[i := bal])"
  using assms distinct_active_replace [of la i bal] set_update_subset_insert [of la i bal]
  by (auto simp: account_ok_def)

lemma account_zeroed_ok: "account_ok (balances account_zeroed)"
  using empty_deactivated_ok
  by (simp add: account_ok_def account_zeroed_def MAX_LENDING_ACCOUNT_BALANCES_def empty_deactivated_def)

end
