(* ===== verification/Lending_Properties.thy ===== *)
theory Lending_Properties
  imports Lending_Account
begin

text \<open>
  The properties of lending accounts: conservation of shares and emissions, rounding, the
  invariant of a balance with its bank, closing, operational states, and the account slots,
  authority and closing.
\<close>

section \<open>Properties\<close>

text \<open>A balance for the examples: 100 tokens deposited in \<open>example_bank\<close>.\<close>

definition example_balance :: balance where
  "example_balance = \<lparr>active = True, bank_pk = 51, asset_shares = 100000000 * SCALE, liability_shares = 0,
     emissions_outstanding = 0, bal_last_update = 0\<rparr>"

definition example_wrapper :: bank_account_wrapper where
  "example_wrapper = \<lparr>bw_balance = example_balance, bw_bank = example_bank\<rparr>"

lemma ceiling_ge: "x \<le> - (- x div SCALE) * SCALE"
  using mul_floor_le [of "- x" 1] by simp

lemma ceiling_less: "- (- x div SCALE) * SCALE < x + SCALE"
  using mul_floor_gt [of "- x" 1] by (simp add: distrib_right)

context fixed_point
begin

lemma close_out_keeps_ok:
  assumes "wrapper_ok w"
  shows "withdraw_all fx w now = Ok (n, w') \<Longrightarrow> wrapper_ok w'"
    and "repay_all fx w now = Ok (n, w') \<Longrightarrow> wrapper_ok w'"
    and "close_balance fx w now = Ok w' \<Longrightarrow> wrapper_ok w'"
proof -
  have empty: "balance_ok empty_deactivated" "asset_shares empty_deactivated = 0" "liability_shares empty_deactivated = 0"
    using empty_deactivated_ok by (simp_all add: empty_deactivated_def ZERO_def)
  have ok: "wrapper_ok w'" if "bw_balance w' = empty_deactivated" "bank_ok (bw_bank w')"
      "asset_share_value (bw_bank w') = asset_share_value (bw_bank w)" "liability_share_value (bw_bank w') = liability_share_value (bw_bank w)" for w'
    using assms that empty by (simp add: wrapper_ok_def bank_ok_def)
  show "withdraw_all fx w now = Ok (n, w') \<Longrightarrow> wrapper_ok w'"
    by (erule withdraw_all_OkD [OF assms], rule ok) (use assms in \<open>simp_all add: wrapper_ok_def bank_ok_def\<close>)
  show "repay_all fx w now = Ok (n, w') \<Longrightarrow> wrapper_ok w'"
    by (erule repay_all_OkD [OF assms], rule ok) (use assms ceiling_ge in \<open>simp_all add: wrapper_ok_def bank_ok_def\<close>)
  show "close_balance fx w now = Ok w' \<Longrightarrow> wrapper_ok w'"
    by (erule close_balance_OkD [OF assms], rule ok) (use assms in \<open>simp_all add: wrapper_ok_def bank_ok_def\<close>)
qed

lemma emissions_keep_ok:
  assumes "wrapper_ok w"
  shows "claim_emissions fx w now = Ok w' \<Longrightarrow> wrapper_ok w'"
    and "settle_emissions_and_get_transfer_amount fx w now = Ok (n, w') \<Longrightarrow> wrapper_ok w'"
proof -
  have claim: "wrapper_ok w'" if "claim_emissions fx w now = Ok w'" for w'
    by (rule claim_emissions_OkD [OF assms that])
      (use assms in \<open>simp add: wrapper_ok_def balance_ok_def bank_ok_def\<close>)
  then show "claim_emissions fx w now = Ok w' \<Longrightarrow> wrapper_ok w'" .
  assume "settle_emissions_and_get_transfer_amount fx w now = Ok (n, w')"
  then obtain w1 where w1: "claim_emissions fx w now = Ok w1"
      "w' = w1\<lparr>bw_balance := (bw_balance w1)\<lparr>emissions_outstanding := emissions_outstanding (bw_balance w1) mod SCALE\<rparr>\<rparr>"
    by (auto simp: settle_emissions_and_get_transfer_amount_def run_iff Let_def fixed_simps minus_div_mult_eq_mod)
  with claim [OF w1(1)] show "wrapper_ok w'"
    by (simp add: wrapper_ok_def balance_ok_def)
qed

end

text \<open>
  C22. Every operation on a balance and its bank keeps both well formed: an increase or a decrease by an
  amount that is not negative, withdrawing or repaying everything, closing, and claiming or settling
  emissions. Nothing becomes negative, the balance stays within the bank's totals, and it stays on
  one side, so the assertion of \<^verbatim>\<open>get_side\<close> cannot fail on a balance that only these operations changed.
\<close>

theorem balance_changes_keep_ok:
  assumes "fixed_point fx" and "wrapper_ok w" and "0 \<le> delta"
    and "increase_balance_internal fx w delta inc now = Ok w' \<or> decrease_balance_internal fx w delta dec now = Ok w' \<or>
      withdraw_all fx w now = Ok (n, w') \<or> repay_all fx w now = Ok (n, w') \<or> close_balance fx w now = Ok w' \<or>
      claim_emissions fx w now = Ok w' \<or> settle_emissions_and_get_transfer_amount fx w now = Ok (n, w')"
  shows "wrapper_ok w' \<and> is_ok (get_side (bw_balance w'))"
proof -
  have "wrapper_ok w'"
    using assms(4) fixed_point.increase_keeps_ok [OF assms(1-3)] fixed_point.decrease_keeps_ok [OF assms(1-3)]
      fixed_point.close_out_keeps_ok [OF assms(1,2)] fixed_point.emissions_keep_ok [OF assms(1,2)]
    by blast
  then show ?thesis
    by (simp add: get_side_total wrapper_ok_def)
qed

theorem balance_changes_keep_ok_witness:
  "\<exists>w'. decrease_balance_internal i80f48_ref example_wrapper (150000000 * SCALE) AnyDecrease 9 = Ok w' \<and>
     wrapper_ok w' \<and> is_ok (get_side (bw_balance w'))"
proof -
  define w' where "w' = projr (decrease_balance_internal i80f48_ref example_wrapper (150000000 * SCALE) AnyDecrease 9)"
  have run: "decrease_balance_internal i80f48_ref example_wrapper (150000000 * SCALE) AnyDecrease 9 = Ok w'"
    unfolding w'_def by code_simp
  have "wrapper_ok example_wrapper" "0 \<le> 150000000 * SCALE"
    by code_simp+
  from balance_changes_keep_ok [OF reference.fixed_point_axioms this] run
  show ?thesis by blast
qed

context fixed_point
begin

lemma change_effect:
  assumes "wrapper_ok w" and "0 \<le> delta"
    and "increase_balance_internal fx w delta inc now = Ok w' \<or> decrease_balance_internal fx w delta dec now = Ok w'"
  obtains e da dl where "w' = \<lparr>bw_balance = (bw_balance w)\<lparr>emissions_outstanding := emissions_outstanding (bw_balance w) + e,
               bal_last_update := now, asset_shares := asset_shares (bw_balance w) + da,
               liability_shares := liability_shares (bw_balance w) + dl\<rparr>,
             bw_bank = (bw_bank w)\<lparr>emissions_remaining := emissions_remaining (bw_bank w) - e,
               total_asset_shares := total_asset_shares (bw_bank w) + da,
               total_liability_shares := total_liability_shares (bw_bank w) + dl\<rparr>\<rparr>"
  using assms(3)
proof
  assume run: "increase_balance_internal fx w delta inc now = Ok w'"
  show thesis
  proof (rule increase_balance_OkD [OF assms(1,2) run])
    fix e da dl
    assume "w' = \<lparr>bw_balance = (bw_balance w)\<lparr>emissions_outstanding := emissions_outstanding (bw_balance w) + e,
               bal_last_update := now, asset_shares := asset_shares (bw_balance w) + da,
               liability_shares := liability_shares (bw_balance w) - dl\<rparr>,
             bw_bank = (bw_bank w)\<lparr>emissions_remaining := emissions_remaining (bw_bank w) - e,
               total_asset_shares := total_asset_shares (bw_bank w) + da,
               total_liability_shares := total_liability_shares (bw_bank w) - dl\<rparr>\<rparr>"
    then show thesis by (intro that [of "- dl" da e]) simp
  qed
next
  assume run: "decrease_balance_internal fx w delta dec now = Ok w'"
  show thesis
  proof (rule decrease_balance_OkD [OF assms(1,2) run])
    fix e da dl
    assume "w' = \<lparr>bw_balance = (bw_balance w)\<lparr>emissions_outstanding := emissions_outstanding (bw_balance w) + e,
               bal_last_update := now, asset_shares := asset_shares (bw_balance w) - da,
               liability_shares := liability_shares (bw_balance w) + dl\<rparr>,
             bw_bank = (bw_bank w)\<lparr>emissions_remaining := emissions_remaining (bw_bank w) - e,
               total_asset_shares := total_asset_shares (bw_bank w) - da,
               total_liability_shares := total_liability_shares (bw_bank w) + dl\<rparr>\<rparr>"
    then show thesis by (intro that [of dl "- da" e]) simp
  qed
qed

lemma close_out_effect:
  assumes "wrapper_ok w"
  shows "withdraw_all fx w now = Ok (n, w') \<Longrightarrow>
      bw_bank w' = (bw_bank w)\<lparr>emissions_remaining := emissions_remaining (bw_bank w'),
          total_asset_shares := total_asset_shares (bw_bank w) - asset_shares (bw_balance w),
          collected_insurance_fees_outstanding := collected_insurance_fees_outstanding (bw_bank w')\<rparr>"
    and "repay_all fx w now = Ok (n, w') \<Longrightarrow>
      bw_bank w' = (bw_bank w)\<lparr>emissions_remaining := emissions_remaining (bw_bank w'),
          total_liability_shares := total_liability_shares (bw_bank w) - liability_shares (bw_balance w),
          collected_insurance_fees_outstanding := collected_insurance_fees_outstanding (bw_bank w')\<rparr>"
    and "close_balance fx w now = Ok w' \<Longrightarrow>
      bw_bank w' = (bw_bank w)\<lparr>emissions_remaining := emissions_remaining (bw_bank w')\<rparr>"
  by (erule withdraw_all_OkD [OF assms], simp, erule repay_all_OkD [OF assms], simp, erule close_balance_OkD [OF assms], simp)

end

text \<open>
  C23. Share conservation. An increase or a decrease changes the totals of the bank by exactly
  what it changes the balance by, and moves emissions from the bank to the balance without
  creating any; no other field of the bank changes. Withdrawing everything takes the deposit shares
  of the balance out of the total, repaying everything its debt shares, and closing nothing; the
  dust of the other side stays in the totals, so they still cover the other balances.
\<close>

theorem balance_changes_conserve:
  assumes "fixed_point fx" and "wrapper_ok w" and "0 \<le> delta"
  shows "(increase_balance_internal fx w delta inc now = Ok w' \<or> decrease_balance_internal fx w delta dec now = Ok w' \<longrightarrow>
      total_asset_shares (bw_bank w') - total_asset_shares (bw_bank w)
        = asset_shares (bw_balance w') - asset_shares (bw_balance w) \<and>
      total_liability_shares (bw_bank w') - total_liability_shares (bw_bank w)
        = liability_shares (bw_balance w') - liability_shares (bw_balance w) \<and>
      emissions_remaining (bw_bank w') + emissions_outstanding (bw_balance w')
        = emissions_remaining (bw_bank w) + emissions_outstanding (bw_balance w) \<and>
      bw_bank w' = (bw_bank w)\<lparr>emissions_remaining := emissions_remaining (bw_bank w'),
          total_asset_shares := total_asset_shares (bw_bank w'),
          total_liability_shares := total_liability_shares (bw_bank w')\<rparr> \<and>
      bank_pk (bw_balance w') = bank_pk (bw_balance w) \<and> active (bw_balance w') = active (bw_balance w)) \<and>
    (withdraw_all fx w now = Ok (n, w') \<longrightarrow>
      bw_bank w' = (bw_bank w)\<lparr>emissions_remaining := emissions_remaining (bw_bank w'),
          total_asset_shares := total_asset_shares (bw_bank w) - asset_shares (bw_balance w),
          collected_insurance_fees_outstanding := collected_insurance_fees_outstanding (bw_bank w')\<rparr>) \<and>
    (repay_all fx w now = Ok (n, w') \<longrightarrow>
      bw_bank w' = (bw_bank w)\<lparr>emissions_remaining := emissions_remaining (bw_bank w'),
          total_liability_shares := total_liability_shares (bw_bank w) - liability_shares (bw_balance w),
          collected_insurance_fees_outstanding := collected_insurance_fees_outstanding (bw_bank w')\<rparr>) \<and>
    (close_balance fx w now = Ok w' \<longrightarrow>
      bw_bank w' = (bw_bank w)\<lparr>emissions_remaining := emissions_remaining (bw_bank w')\<rparr>)"
proof (intro conjI [of "_ \<or> _ \<longrightarrow> _"] conjI [of "_ \<longrightarrow> _"] impI)
  assume "increase_balance_internal fx w delta inc now = Ok w' \<or> decrease_balance_internal fx w delta dec now = Ok w'"
  then obtain e da dl where "w' = \<lparr>bw_balance = (bw_balance w)\<lparr>emissions_outstanding := emissions_outstanding (bw_balance w) + e,
               bal_last_update := now, asset_shares := asset_shares (bw_balance w) + da,
               liability_shares := liability_shares (bw_balance w) + dl\<rparr>,
             bw_bank = (bw_bank w)\<lparr>emissions_remaining := emissions_remaining (bw_bank w) - e,
               total_asset_shares := total_asset_shares (bw_bank w) + da,
               total_liability_shares := total_liability_shares (bw_bank w) + dl\<rparr>\<rparr>"
    by (rule fixed_point.change_effect [OF assms])
  then show "total_asset_shares (bw_bank w') - total_asset_shares (bw_bank w)
        = asset_shares (bw_balance w') - asset_shares (bw_balance w) \<and>
      total_liability_shares (bw_bank w') - total_liability_shares (bw_bank w)
        = liability_shares (bw_balance w') - liability_shares (bw_balance w) \<and>
      emissions_remaining (bw_bank w') + emissions_outstanding (bw_balance w')
        = emissions_remaining (bw_bank w) + emissions_outstanding (bw_balance w) \<and>
      bw_bank w' = (bw_bank w)\<lparr>emissions_remaining := emissions_remaining (bw_bank w'),
          total_asset_shares := total_asset_shares (bw_bank w'),
          total_liability_shares := total_liability_shares (bw_bank w')\<rparr> \<and>
      bank_pk (bw_balance w') = bank_pk (bw_balance w) \<and> active (bw_balance w') = active (bw_balance w)"
    by simp
qed (rule fixed_point.close_out_effect [OF assms(1,2)], assumption)+

theorem balance_changes_conserve_witness:
  "\<exists>w'. increase_balance_internal i80f48_ref example_wrapper (7 * SCALE) AnyIncrease 9 = Ok w' \<and>
     total_asset_shares (bw_bank w') - total_asset_shares example_bank
        = asset_shares (bw_balance w') - asset_shares example_balance"
proof -
  define w' where "w' = projr (increase_balance_internal i80f48_ref example_wrapper (7 * SCALE) AnyIncrease 9)"
  have run: "increase_balance_internal i80f48_ref example_wrapper (7 * SCALE) AnyIncrease 9 = Ok w'"
    unfolding w'_def by code_simp
  have "wrapper_ok example_wrapper" "0 \<le> 7 * SCALE"
    by code_simp+
  from conjunct1 [OF balance_changes_conserve [OF reference.fixed_point_axioms this, of AnyIncrease 9 w']] run
  show ?thesis by (auto simp: example_wrapper_def)
qed

text \<open>
  C24. An increase pays the debt first and deposits the rest. With \<open>owed\<close> the worth of the debt, it burns debt
  shares for the smaller of the amount and \<open>owed\<close>, mints deposit shares for what the amount exceeds
  \<open>owed\<close>, both rounded down, and so mints none while the amount does not cover the debt. What it credits
  is worth at most the amount, and short of it by less than one debt share and one deposit share.
  A repayment mints deposit shares worth less than the zero threshold.
\<close>

theorem increase_credits_amount:
  assumes "fixed_point fx" and "wrapper_ok w" and "0 \<le> delta"
    and "increase_balance_internal fx w delta op now = Ok w'"
  defines "owed \<equiv> liability_shares (bw_balance w) * liability_share_value (bw_bank w) div SCALE"
    and "minted \<equiv> asset_shares (bw_balance w') - asset_shares (bw_balance w)"
    and "burnt \<equiv> liability_shares (bw_balance w) - liability_shares (bw_balance w')"
  defines "credit \<equiv> minted * asset_share_value (bw_bank w) + burnt * liability_share_value (bw_bank w)"
  shows "burnt = min owed delta * SCALE div liability_share_value (bw_bank w) \<and>
    minted = max (delta - owed) 0 * SCALE div asset_share_value (bw_bank w) \<and>
    (0 < minted \<longrightarrow> owed < delta) \<and>
    credit \<le> delta * SCALE \<and>
    delta * SCALE < credit + asset_share_value (bw_bank w) + liability_share_value (bw_bank w) \<and>
    (op = RepayOnly \<longrightarrow> minted * asset_share_value (bw_bank w) < ZERO_AMOUNT_THRESHOLD * SCALE)"
proof -
  have pos: "0 < asset_share_value (bw_bank w)" "0 < liability_share_value (bw_bank w)"
    using assms(2) by (auto simp: wrapper_ok_def)
  show ?thesis
  proof (rule fixed_point.increase_balance_OkD [OF assms(1-4)])
    fix e x da dl
    assume x: "x = liability_shares (bw_balance w) * liability_share_value (bw_bank w) div SCALE"
      and da: "da = max (delta - x) 0 * SCALE div asset_share_value (bw_bank w)"
      and dl: "dl = min x delta * SCALE div liability_share_value (bw_bank w)"
      and w': "w' = \<lparr>bw_balance = (bw_balance w)\<lparr>emissions_outstanding := emissions_outstanding (bw_balance w) + e,
               bal_last_update := now, asset_shares := asset_shares (bw_balance w) + da,
               liability_shares := liability_shares (bw_balance w) - dl\<rparr>,
             bw_bank = (bw_bank w)\<lparr>emissions_remaining := emissions_remaining (bw_bank w) - e,
               total_asset_shares := total_asset_shares (bw_bank w) + da,
               total_liability_shares := total_liability_shares (bw_bank w) - dl\<rparr>\<rparr>"
      and repay: "op = RepayOnly \<longrightarrow> max (delta - x) 0 < ZERO_AMOUNT_THRESHOLD"
    have eqs: "owed = x" "minted = da" "burnt = dl" by (simp_all add: owed_def minted_def burnt_def x w')
    have "0 < da \<longrightarrow> x < delta" by (auto simp: da max_def)
    then show ?thesis
      using split_amount_worth(1,2) [OF pos(2) pos(1), where first = x and amount = delta, folded da dl]
        split_amount_worth(3) [OF pos(2) pos(1), where first = x and amount = delta and k = ZERO_AMOUNT_THRESHOLD, folded da dl] repay
      unfolding credit_def eqs by (simp add: da [symmetric] dl [symmetric] add.commute add.left_commute)
  qed
qed

text \<open>
  C25. A decrease withdraws the deposit first and borrows the rest. With \<open>owned\<close> the worth of the deposit, it
  burns deposit shares for the smaller of the amount and \<open>owned\<close> and mints debt shares for what the
  amount exceeds \<open>owned\<close>, both rounded down, and so mints none while the deposit covers the amount. What
  it charges is worth the amount up to less than one share of each kind. A withdrawal mints debt shares worth
  less than the zero threshold. Afterwards the debts of the bank do not exceed its deposits.
\<close>

theorem decrease_charges_amount:
  assumes "fixed_point fx" and "wrapper_ok w" and "0 \<le> delta"
    and "decrease_balance_internal fx w delta op now = Ok w'"
  defines "owned \<equiv> asset_shares (bw_balance w) * asset_share_value (bw_bank w) div SCALE"
    and "burnt \<equiv> asset_shares (bw_balance w) - asset_shares (bw_balance w')"
    and "minted \<equiv> liability_shares (bw_balance w') - liability_shares (bw_balance w)"
  defines "charge \<equiv> burnt * asset_share_value (bw_bank w) + minted * liability_share_value (bw_bank w)"
  shows "burnt = min owned delta * SCALE div asset_share_value (bw_bank w) \<and>
    minted = max (delta - owned) 0 * SCALE div liability_share_value (bw_bank w) \<and>
    (0 < minted \<longrightarrow> owned < delta) \<and>
    charge \<le> delta * SCALE \<and>
    delta * SCALE < charge + asset_share_value (bw_bank w) + liability_share_value (bw_bank w) \<and>
    (op = WithdrawOnly \<longrightarrow> minted * liability_share_value (bw_bank w) < ZERO_AMOUNT_THRESHOLD * SCALE) \<and>
    total_liabilities (bw_bank w') \<le> total_assets (bw_bank w')"
proof -
  have pos: "0 < asset_share_value (bw_bank w)" "0 < liability_share_value (bw_bank w)"
    using assms(2) by (auto simp: wrapper_ok_def)
  show ?thesis
  proof (rule fixed_point.decrease_balance_OkD [OF assms(1-4)])
    fix e x da dl
    assume x: "x = asset_shares (bw_balance w) * asset_share_value (bw_bank w) div SCALE"
      and da: "da = min x delta * SCALE div asset_share_value (bw_bank w)"
      and dl: "dl = max (delta - x) 0 * SCALE div liability_share_value (bw_bank w)"
      and w': "w' = \<lparr>bw_balance = (bw_balance w)\<lparr>emissions_outstanding := emissions_outstanding (bw_balance w) + e,
               bal_last_update := now, asset_shares := asset_shares (bw_balance w) - da,
               liability_shares := liability_shares (bw_balance w) + dl\<rparr>,
             bw_bank = (bw_bank w)\<lparr>emissions_remaining := emissions_remaining (bw_bank w) - e,
               total_asset_shares := total_asset_shares (bw_bank w) - da,
               total_liability_shares := total_liability_shares (bw_bank w) + dl\<rparr>\<rparr>"
      and withdraw: "op = WithdrawOnly \<longrightarrow> max (delta - x) 0 < ZERO_AMOUNT_THRESHOLD"
      and util: "total_liabilities (bw_bank w') \<le> total_assets (bw_bank w')"
    have eqs: "owned = x" "minted = dl" "burnt = da" by (simp_all add: owned_def minted_def burnt_def x w')
    have "0 < dl \<longrightarrow> x < delta" by (auto simp: dl max_def)
    then show ?thesis
      using split_amount_worth(1,2) [OF pos(1) pos(2), where first = x and amount = delta, folded da dl]
        split_amount_worth(3) [OF pos(1) pos(2), where first = x and amount = delta and k = ZERO_AMOUNT_THRESHOLD, folded da dl] withdraw util
      unfolding charge_def eqs by (simp add: da [symmetric] dl [symmetric])
  qed
qed

theorem increase_credits_amount_witness:
  "\<exists>w'. increase_balance_internal i80f48_ref example_wrapper (7 * SCALE) AnyIncrease 9 = Ok w' \<and>
     (asset_shares (bw_balance w') - asset_shares example_balance) * asset_share_value example_bank
      + (liability_shares example_balance - liability_shares (bw_balance w')) * liability_share_value example_bank
      \<le> 7 * SCALE * SCALE"
proof -
  define w' where "w' = projr (increase_balance_internal i80f48_ref example_wrapper (7 * SCALE) AnyIncrease 9)"
  have run: "increase_balance_internal i80f48_ref example_wrapper (7 * SCALE) AnyIncrease 9 = Ok w'"
    unfolding w'_def by code_simp
  have "wrapper_ok example_wrapper" "0 \<le> 7 * SCALE"
    by code_simp+
  from increase_credits_amount [OF reference.fixed_point_axioms this run] run
  show ?thesis unfolding example_wrapper_def bank_account_wrapper.simps by blast
qed

theorem decrease_charges_amount_witness:
  "\<exists>w'. decrease_balance_internal i80f48_ref example_wrapper (7 * SCALE) WithdrawOnly 9 = Ok w' \<and>
     (liability_shares (bw_balance w') - liability_shares example_balance) * liability_share_value example_bank
      < ZERO_AMOUNT_THRESHOLD * SCALE"
proof -
  define w' where "w' = projr (decrease_balance_internal i80f48_ref example_wrapper (7 * SCALE) WithdrawOnly 9)"
  have run: "decrease_balance_internal i80f48_ref example_wrapper (7 * SCALE) WithdrawOnly 9 = Ok w'"
    unfolding w'_def by code_simp
  have "wrapper_ok example_wrapper" "0 \<le> 7 * SCALE"
    by code_simp+
  from decrease_charges_amount [OF reference.fixed_point_axioms this run] run
  show ?thesis unfolding example_wrapper_def bank_account_wrapper.simps by blast
qed

text \<open>
  C26. Withdrawing or repaying everything rounds for the bank, by less than one token. A full withdrawal
  pays the worth of the deposit rounded down to whole tokens, a full repayment takes the worth of
  the debt rounded up, the difference, less than one token, goes to the insurance fees, the shares leave the
  bank's total and the balance is empty. The bank stays well formed, and after a withdrawal its
  debts do not exceed its deposits.
\<close>

theorem close_out_rounds_for_bank:
  assumes "fixed_point fx" and "wrapper_ok w"
  defines "deposit_worth \<equiv> asset_shares (bw_balance w) * asset_share_value (bw_bank w) div SCALE"
    and "debt_worth \<equiv> liability_shares (bw_balance w) * liability_share_value (bw_bank w) div SCALE"
    and "kept \<equiv> \<lambda>w'. collected_insurance_fees_outstanding (bw_bank w') - collected_insurance_fees_outstanding (bw_bank w)"
  shows "(withdraw_all fx w now = Ok (amount, w1) \<longrightarrow>
      uint amount = deposit_worth div SCALE \<and> kept w1 = deposit_worth - uint amount * SCALE \<and> 0 \<le> kept w1 \<and> kept w1 < SCALE \<and>
      total_asset_shares (bw_bank w1) = total_asset_shares (bw_bank w) - asset_shares (bw_balance w) \<and>
      bw_balance w1 = empty_deactivated \<and> bank_ok (bw_bank w1) \<and> total_liabilities (bw_bank w1) \<le> total_assets (bw_bank w1)) \<and>
    (repay_all fx w now = Ok (paid, w2) \<longrightarrow>
      uint paid = - (- debt_worth div SCALE) \<and> kept w2 = uint paid * SCALE - debt_worth \<and> 0 \<le> kept w2 \<and> kept w2 < SCALE \<and>
      total_liability_shares (bw_bank w2) = total_liability_shares (bw_bank w) - liability_shares (bw_balance w) \<and>
      bw_balance w2 = empty_deactivated \<and> bank_ok (bw_bank w2))"
proof (rule conjI; rule impI)
  assume run: "withdraw_all fx w now = Ok (amount, w1)"
  note ok = fixed_point.close_out_keeps_ok(1) [OF assms(1,2) run]
  show "uint amount = deposit_worth div SCALE \<and> kept w1 = deposit_worth - uint amount * SCALE \<and> 0 \<le> kept w1 \<and> kept w1 < SCALE \<and>
      total_asset_shares (bw_bank w1) = total_asset_shares (bw_bank w) - asset_shares (bw_balance w) \<and>
      bw_balance w1 = empty_deactivated \<and> bank_ok (bw_bank w1) \<and> total_liabilities (bw_bank w1) \<le> total_assets (bw_bank w1)"
    by (rule fixed_point.withdraw_all_OkD [OF assms(1,2) run])
      (use ok in \<open>simp add: wrapper_ok_def deposit_worth_def kept_def minus_div_mult_eq_mod\<close>)
next
  assume run: "repay_all fx w now = Ok (paid, w2)"
  note ok = fixed_point.close_out_keeps_ok(2) [OF assms(1,2) run]
  show "uint paid = - (- debt_worth div SCALE) \<and> kept w2 = uint paid * SCALE - debt_worth \<and> 0 \<le> kept w2 \<and> kept w2 < SCALE \<and>
      total_liability_shares (bw_bank w2) = total_liability_shares (bw_bank w) - liability_shares (bw_balance w) \<and>
      bw_balance w2 = empty_deactivated \<and> bank_ok (bw_bank w2)"
    by (rule fixed_point.repay_all_OkD [OF assms(1,2) run])
      (use ok ceiling_ge [of debt_worth] ceiling_less [of debt_worth] in \<open>simp add: wrapper_ok_def debt_worth_def kept_def\<close>)
qed

theorem close_out_rounds_for_bank_witness:
  "\<exists>amount w1. withdraw_all i80f48_ref example_wrapper 9 = Ok (amount, w1) \<and>
     bw_balance w1 = empty_deactivated \<and> uint amount = 100000000"
proof -
  define r where "r = projr (withdraw_all i80f48_ref example_wrapper 9)"
  have run: "withdraw_all i80f48_ref example_wrapper 9 = Ok (fst r, snd r)"
    unfolding r_def by code_simp
  have ok: "wrapper_ok example_wrapper" by code_simp
  have worth: "asset_shares (bw_balance example_wrapper) * asset_share_value (bw_bank example_wrapper) div SCALE div SCALE = 100000000"
    by code_simp
  from conjunct1 [OF close_out_rounds_for_bank [OF reference.fixed_point_axioms ok]] run
  show ?thesis unfolding worth by blast
qed

text \<open>
  C27. A balance can be closed only when both sides are worth less than the zero threshold and less
  than one emission token is owed to it. Closing leaves the totals of the bank, so they still
  cover what the other balances hold.
\<close>

theorem close_balance_only_dust:
  assumes "fixed_point fx" and "wrapper_ok w" and "close_balance fx w now = Ok w'"
  shows "asset_shares (bw_balance w) * asset_share_value (bw_bank w) div SCALE < ZERO_AMOUNT_THRESHOLD \<and>
    liability_shares (bw_balance w) * liability_share_value (bw_bank w) div SCALE < ZERO_AMOUNT_THRESHOLD \<and>
    emissions_outstanding (bw_balance w) < ONE \<and> bw_balance w' = empty_deactivated \<and>
    bw_bank w' = (bw_bank w)\<lparr>emissions_remaining := emissions_remaining (bw_bank w')\<rparr> \<and> wrapper_ok w'"
proof (rule fixed_point.close_balance_OkD [OF assms])
  fix e
  assume "0 \<le> e" "e \<le> emissions_remaining (bw_bank w)"
    and w': "w' = \<lparr>bw_balance = empty_deactivated,
           bw_bank = (bw_bank w)\<lparr>emissions_remaining := emissions_remaining (bw_bank w) - e\<rparr>\<rparr>"
    and "emissions_outstanding (bw_balance w) + e < SCALE"
    and "liability_shares (bw_balance w) * liability_share_value (bw_bank w) div SCALE < ZERO_AMOUNT_THRESHOLD"
    and "asset_shares (bw_balance w) * asset_share_value (bw_bank w) div SCALE < ZERO_AMOUNT_THRESHOLD"
  moreover have "wrapper_ok w'"
    using calculation(1,2) assms(2) empty_deactivated_ok
    by (simp add: w' wrapper_ok_def bank_ok_def) (simp add: empty_deactivated_def ZERO_def)
  ultimately show ?thesis by (simp add: ONE_SCALE)
qed

theorem close_balance_only_dust_witness:
  "\<exists>w'. close_balance i80f48_ref \<lparr>bw_balance = example_balance\<lparr>asset_shares := 5\<rparr>, bw_bank = example_bank\<rparr> 9 = Ok w' \<and>
     bw_balance w' = empty_deactivated \<and> wrapper_ok w'"
proof -
  let ?w = "\<lparr>bw_balance = example_balance\<lparr>asset_shares := 5\<rparr>, bw_bank = example_bank\<rparr>"
  have run: "close_balance i80f48_ref ?w 9 = Ok (projr (close_balance i80f48_ref ?w 9))"
    by code_simp
  have "wrapper_ok ?w" by code_simp
  from close_balance_only_dust [OF reference.fixed_point_axioms this run] run show ?thesis by blast
qed

lemma operational_Some_iff:
  "assert_operational_mode b (Some inc) = Ok () \<longleftrightarrow>
   operational_state (bk_config b) \<noteq> Paused \<and> (operational_state (bk_config b) = ReduceOnly \<longrightarrow> \<not> inc)"
  by (cases "operational_state (bk_config b)") (simp_all add: assert_operational_mode_def run_iff)

lemma operational_None_iff:
  "assert_operational_mode b None = Ok () \<longleftrightarrow> operational_state (bk_config b) \<noteq> Paused"
  by (cases "operational_state (bk_config b)") (simp_all add: assert_operational_mode_def)

context fixed_point
begin

lemma increase_mode:
  assumes "wrapper_ok w" and "0 \<le> delta" and "increase_balance_internal fx w delta op now = Ok w'"
  shows "assert_operational_mode (bw_bank w) (Some (ZERO_AMOUNT_THRESHOLD <
    max (delta - liability_shares (bw_balance w) * liability_share_value (bw_bank w) div SCALE) 0)) = Ok ()"
  by (rule increase_balance_OkD [OF assms]) (hypsubst_thin, assumption)

lemma decrease_mode:
  assumes "wrapper_ok w" and "0 \<le> delta" and "decrease_balance_internal fx w delta op now = Ok w'"
  shows "assert_operational_mode (bw_bank w) (Some (ZERO_AMOUNT_THRESHOLD <
    max (delta - asset_shares (bw_balance w) * asset_share_value (bw_bank w) div SCALE) 0)) = Ok ()"
  by (rule decrease_balance_OkD [OF assms]) (hypsubst_thin, assumption)

lemma close_out_mode:
  assumes "wrapper_ok w" and "withdraw_all fx w now = Ok r \<or> repay_all fx w now = Ok r"
  shows "assert_operational_mode (bw_bank w) None = Ok ()"
  using assms(2) withdraw_all_OkD [OF assms(1), of now "fst r" "snd r"] repay_all_OkD [OF assms(1), of now "fst r" "snd r"]
  by (metis prod.collapse)

end

text \<open>
  C28. Operational states. A paused bank refuses every deposit, repayment, withdrawal, borrow and
  full close-out. A bank in reduce-only state accepts an increase only if it adds at most the
  zero threshold to the deposit, and a decrease only if it adds at most that to the debt.
\<close>

theorem operational_state_respected:
  assumes "fixed_point fx" and "wrapper_ok w" and "0 \<le> delta"
  defines "st \<equiv> operational_state (bk_config (bw_bank w))"
  shows "(st = Paused \<longrightarrow>
      \<not> is_ok (increase_balance_internal fx w delta inc now) \<and> \<not> is_ok (decrease_balance_internal fx w delta dec now) \<and>
      \<not> is_ok (withdraw_all fx w now) \<and> \<not> is_ok (repay_all fx w now)) \<and>
    (st = ReduceOnly \<longrightarrow>
      (is_ok (increase_balance_internal fx w delta inc now) \<longrightarrow>
        delta - liability_shares (bw_balance w) * liability_share_value (bw_bank w) div SCALE \<le> ZERO_AMOUNT_THRESHOLD) \<and>
      (is_ok (decrease_balance_internal fx w delta dec now) \<longrightarrow>
        delta - asset_shares (bw_balance w) * asset_share_value (bw_bank w) div SCALE \<le> ZERO_AMOUNT_THRESHOLD))"
proof -
  have inc: "st \<noteq> Paused \<and> (st = ReduceOnly \<longrightarrow>
      delta - liability_shares (bw_balance w) * liability_share_value (bw_bank w) div SCALE \<le> ZERO_AMOUNT_THRESHOLD)"
    if "increase_balance_internal fx w delta inc now = Ok w'" for w'
    using fixed_point.increase_mode [OF assms(1-3) that] by (auto simp: st_def operational_Some_iff)
  have dec: "st \<noteq> Paused \<and> (st = ReduceOnly \<longrightarrow>
      delta - asset_shares (bw_balance w) * asset_share_value (bw_bank w) div SCALE \<le> ZERO_AMOUNT_THRESHOLD)"
    if "decrease_balance_internal fx w delta dec now = Ok w'" for w'
    using fixed_point.decrease_mode [OF assms(1-3) that] by (auto simp: st_def operational_Some_iff)
  have close: "withdraw_all fx w now = Ok r \<Longrightarrow> st \<noteq> Paused" "repay_all fx w now = Ok r \<Longrightarrow> st \<noteq> Paused" for r
    using fixed_point.close_out_mode [OF assms(1,2), of now r] by (auto simp: st_def operational_None_iff)
  show ?thesis
    using inc dec close by (auto simp: is_ok_iff)
qed

definition paused_wrapper :: bank_account_wrapper where
  "paused_wrapper = \<lparr>bw_balance = example_balance,
     bw_bank = example_bank\<lparr>bk_config := example_bank_config\<lparr>operational_state := Paused\<rparr>\<rparr>\<rparr>"

theorem operational_state_respected_witness:
  "\<not> is_ok (increase_balance_internal i80f48_ref paused_wrapper SCALE AnyIncrease 9) \<and>
   \<not> is_ok (withdraw_all i80f48_ref paused_wrapper 9)"
proof -
  have "wrapper_ok paused_wrapper" "0 \<le> SCALE" "operational_state (bk_config (bw_bank paused_wrapper)) = Paused"
    by code_simp+
  then show ?thesis
    using operational_state_respected [OF reference.fixed_point_axioms, of paused_wrapper SCALE] by blast
qed

section \<open>Accounts\<close>

text \<open>
  C29. Finding or creating the balance of a bank. An account that has an active balance of the bank is left
  as it is, and its index is the result. Otherwise a slot that was not in use gets a new, empty balance
  of the bank, dated now, and every other slot is as before. In both cases the account is well formed:
  sixteen slots and one active balance per bank. It fails exactly when the bank has no balance and
  all sixteen slots are in use.
\<close>

theorem find_or_create_correct:
  assumes "account_ok la"
  shows "case find_or_create pk la now of
      Inr (i, la') \<Rightarrow> account_ok la' \<and> i < length la \<and> find_balance pk la' = Ok i \<and> active (la' ! i) \<and> bank_pk (la' ! i) = pk \<and>
        (if \<exists>bal \<in> set la. active bal \<and> bank_pk bal = pk then la' = la
         else \<not> active (la ! i) \<and>
           la' = la[i := \<lparr>active = True, bank_pk = pk, asset_shares = 0, liability_shares = 0,
                          emissions_outstanding = 0, bal_last_update = now\<rparr>])
    | Inl e \<Rightarrow> e = Mfi LendingAccountBalanceSlotsFull \<and> (\<forall>bal \<in> set la. active bal \<and> bank_pk bal \<noteq> pk)"
proof (cases "position (\<lambda>b. active b \<and> bank_pk b = pk) la")
  case (Some i)
  with assms position_SomeD [OF this] nth_mem [of i la] show ?thesis
    by (auto simp: find_or_create_def find_balance_def)
next
  case None
  note pos = this
  then have none: "\<forall>bal \<in> set la. \<not> (active bal \<and> bank_pk bal = pk)"
    by (simp add: position_None_iff)
  show ?thesis
  proof (cases "get_first_empty_balance la")
    case None
    then have "\<forall>bal \<in> set la. active bal"
      by (simp add: get_first_empty_balance_def position_None_iff)
    with none show ?thesis
      by (simp add: find_or_create_def pos None)
  next
    case (Some i)
    let ?bal = "\<lparr>active = True, bank_pk = pk, asset_shares = ZERO, liability_shares = ZERO,
                   emissions_outstanding = ZERO, bal_last_update = now\<rparr>"
    have i: "i < length la" "\<not> active (la ! i)"
      using position_SomeD [OF Some [unfolded get_first_empty_balance_def]] by simp_all
    have "position (\<lambda>b. active b \<and> bank_pk b = pk) (la[i := ?bal]) = Some i"
      by (rule position_update; use none i(1) nth_mem [of _ la] in force)
    moreover have "account_ok (la[i := ?bal])"
      using assms none i distinct_active_update [of la i ?bal] set_update_subset_insert [of la i ?bal]
      by (auto simp: account_ok_def balance_ok_def ZERO_def EMPTY_BALANCE_THRESHOLD_def)
    moreover have "\<not> (\<exists>bal \<in> set la. active bal \<and> bank_pk bal = pk)" using none by blast
    ultimately show ?thesis
      using Some i pos by (auto simp: find_or_create_def find_balance_def ZERO_def)
  qed
qed

definition example_account :: lending_account where
  "example_account = (balances account_zeroed)[0 := example_balance]"

theorem find_or_create_correct_witness:
  "\<exists>i la'. find_or_create 52 example_account 9 = Ok (i, la') \<and> find_balance 52 la' = Ok i \<and> la' ! 0 = example_balance"
proof -
  define r where "r = projr (find_or_create 52 example_account 9)"
  have run: "find_or_create 52 example_account 9 = Ok (fst r, snd r)" "snd r ! 0 = example_balance"
    unfolding r_def by code_simp+
  have "account_ok example_account" by code_simp
  from find_or_create_correct [OF this, of 52 9] run show ?thesis by auto
qed

text \<open>
  C30. Transferring the authority of an account is a one-time permission: it succeeds exactly when
  the transfer flag is set and the account is not disabled, changes only the authority and
  clears the flag, so a second transfer fails.
\<close>

theorem authority_transfer_once:
  "case set_new_account_authority_checked a new of
     Inr a' \<Rightarrow> get_flag a TRANSFER_AUTHORITY_ALLOWED_FLAG \<and> \<not> get_flag a DISABLED_FLAG \<and>
       ma_authority a' = new \<and> balances a' = balances a \<and> ma_group a' = ma_group a \<and>
       (\<forall>n. n = 3 \<or> bit (account_flags a') n = bit (account_flags a) n) \<and>
       set_new_account_authority_checked a' other = Err (Mfi IllegalAccountAuthorityTransfer)
   | Inl e \<Rightarrow> e = Mfi IllegalAccountAuthorityTransfer \<and>
       \<not> (get_flag a TRANSFER_AUTHORITY_ALLOWED_FLAG \<and> \<not> get_flag a DISABLED_FLAG)"
proof -
  have flag: "bit TRANSFER_AUTHORITY_ALLOWED_FLAG n \<longleftrightarrow> n = 3" for n
  proof -
    have eq: "TRANSFER_AUTHORITY_ALLOWED_FLAG = push_bit 3 1"
      by (simp add: TRANSFER_AUTHORITY_ALLOWED_FLAG_def push_bit_eq_mult)
    show ?thesis
      unfolding eq bit_push_bit_iff by (auto simp: bit_1_iff)
  qed
  have "(x AND NOT TRANSFER_AUTHORITY_ALLOWED_FLAG) AND TRANSFER_AUTHORITY_ALLOWED_FLAG = 0" for x
    by (rule bit_word_eqI) (auto simp: bit_and_iff bit_not_iff)
  moreover have "n = 3 \<or> bit (x AND NOT TRANSFER_AUTHORITY_ALLOWED_FLAG) n = bit x n" for x :: u64 and n
    by (auto simp: bit_and_iff bit_not_iff flag dest: bit_imp_le_length)
  ultimately show ?thesis
    by (simp add: set_new_account_authority_checked_def unset_flag_def get_flag_def)
qed

text \<open>
  An account that is well formed can be closed exactly when it is not disabled and every
  balance holds less than one share on each side, and the check itself cannot fail.
\<close>

theorem can_be_closed_iff:
  assumes "account_ok (balances a)"
  shows "can_be_closed a = Ok (\<not> get_flag a DISABLED_FLAG \<and>
    (\<forall>bal \<in> set (balances a). balance_is_empty bal Assets \<and> balance_is_empty bal Liabilities))"
proof -
  have "all_sides_none la = Ok (\<forall>bal \<in> set la. balance_is_empty bal Assets \<and> balance_is_empty bal Liabilities)"
    if "\<forall>bal \<in> set la. balance_ok bal" for la
    using that by (induction la) (auto simp: get_side_def balance_ok_def balance_is_empty_def split: if_splits)
  then show ?thesis
    using assms by (simp add: can_be_closed_def account_ok_def)
qed

theorem can_be_closed_iff_witness:
  "can_be_closed account_zeroed = Ok (\<not> get_flag account_zeroed DISABLED_FLAG \<and>
    (\<forall>bal \<in> set (balances account_zeroed). balance_is_empty bal Assets \<and> balance_is_empty bal Liabilities))"
  by (rule can_be_closed_iff [OF account_zeroed_ok])

end
