(* ===== verification/Risk_Engine.thy ===== *)
theory Risk_Engine
  imports Lending_Account
begin

text \<open>
  The risk engine of \<^verbatim>\<open>state/marginfi_account.rs\<close>: \<^verbatim>\<open>BankAccountWithPriceFeed\<close> pairs every active
  balance with its bank and its price feed, and \<^verbatim>\<open>RiskEngine\<close> values an account for the initial,
  the maintenance and the equity requirement.

  The bank accounts passed to an instruction are read from the store of all banks, a map from
  keys; an account that is not a bank of the program is not in the store and does not load.
\<close>

section \<open>Types\<close>

type_synonym bank_store = "pubkey \<Rightarrow> bank option"

record bank_account_with_price_feed =
  bp_bank :: account_info
  bp_price_feed :: "oracle_price_feed_adapter result"
  bp_balance :: balance

datatype price_feed_error = StaleOracleError

datatype risk_requirement_type = InitialRequirement | MaintenanceRequirement | EquityRequirement

record risk_engine =
  re_marginfi_account :: marginfi_account
  re_bank_accounts_with_price :: "bank_account_with_price_feed list"

definition get_oracle_price_type :: "requirement_type \<Rightarrow> oracle_price_type" where
  "get_oracle_price_type req = (case req of
     Initial \<Rightarrow> TimeWeighted | Equity \<Rightarrow> TimeWeighted | Maintenance \<Rightarrow> RealTime)"

definition to_weight_type :: "risk_requirement_type \<Rightarrow> requirement_type" where
  "to_weight_type r = (case r of
     InitialRequirement \<Rightarrow> Initial | MaintenanceRequirement \<Rightarrow> Maintenance | EquityRequirement \<Rightarrow> Equity)"

section \<open>Loading\<close>

text \<open>\<^verbatim>\<open>AccountLoader::<Bank>::try_from(ai)?.load()?\<close>, \<^verbatim>\<open>&ais[lo..hi]\<close>, and a result kept as a value.\<close>

definition load_bank :: "bank_store \<Rightarrow> account_info \<Rightarrow> bank result" where
  "load_bank banks ai = ok_or (banks (ai_key ai)) (Anchor AccountNotLoadable)"

definition slice :: "'a list \<Rightarrow> nat \<Rightarrow> nat \<Rightarrow> 'a list result" where
  "slice xs lo hi = (if lo \<le> hi \<and> hi \<le> length xs then Ok (take (hi - lo) (drop lo xs)) else Err Panic)"

definition keep_result :: "'a result \<Rightarrow> 'a result result" where
  "keep_result r = (if r = Err Panic then Err Panic else Ok r)"

definition load_with_price_feed ::
    "oracle_sdk \<Rightarrow> bank_store \<Rightarrow> clock \<Rightarrow> account_info list \<Rightarrow> nat \<Rightarrow> balance \<Rightarrow>
     bank_account_with_price_feed result" where
  "load_with_price_feed sdk banks clk remaining_ais i bal =
     (let bank_index = i * 2; oracle_ai_idx = bank_index + 1 in
      bind (index_at remaining_ais bank_index) (\<lambda>bank_ai.
      bind (check (bank_pk bal = ai_key bank_ai) InvalidBankAccount) (\<lambda>_.
      bind (slice remaining_ais oracle_ai_idx (oracle_ai_idx + 1)) (\<lambda>oracle_ais.
      bind (load_bank banks bank_ai) (\<lambda>b.
      bind (keep_result (try_from_bank_config sdk (bk_config b) oracle_ais clk)) (\<lambda>price_adapter.
      Ok \<lparr>bp_bank = bank_ai, bp_price_feed = price_adapter, bp_balance = bal\<rparr>))))))"

fun load_each ::
    "oracle_sdk \<Rightarrow> bank_store \<Rightarrow> clock \<Rightarrow> account_info list \<Rightarrow> nat \<Rightarrow> balance list \<Rightarrow>
     bank_account_with_price_feed list result" where
  "load_each sdk banks clk remaining_ais i [] = Ok []"
| "load_each sdk banks clk remaining_ais i (bal # rest) =
     bind (load_with_price_feed sdk banks clk remaining_ais i bal) (\<lambda>x.
     bind (load_each sdk banks clk remaining_ais (Suc i) rest) (\<lambda>xs.
     Ok (x # xs)))"

definition load_bank_accounts ::
    "oracle_sdk \<Rightarrow> bank_store \<Rightarrow> clock \<Rightarrow> lending_account \<Rightarrow> account_info list \<Rightarrow>
     bank_account_with_price_feed list result" where
  "load_bank_accounts sdk banks clk la remaining_ais =
     (let active_balances = filter active la in
      bind (check (length active_balances * 2 \<le> length remaining_ais) MissingPythOrBankAccount) (\<lambda>_.
      load_each sdk banks clk remaining_ais 0 active_balances))"

section \<open>Weighted values\<close>

definition try_get_price_feed :: "bank_account_with_price_feed \<Rightarrow> price_feed_error + oracle_price_feed_adapter" where
  "try_get_price_feed bp = (case bp_price_feed bp of Inr a \<Rightarrow> Inr a | Inl _ \<Rightarrow> Inl StaleOracleError)"

definition from_price_feed_error :: "price_feed_error + 'a \<Rightarrow> 'a result" where
  "from_price_feed_error r = (case r of Inr a \<Rightarrow> Ok a | Inl StaleOracleError \<Rightarrow> Err (Mfi StaleOracle))"

text \<open>The asset weight, discounted for the initial requirement when the bank is above its init limit.\<close>

definition discounted_asset_weight :: "fixed_ops \<Rightarrow> requirement_type \<Rightarrow> bank \<Rightarrow> i80f48 \<Rightarrow> i80f48 result" where
  "discounted_asset_weight fx req b lower_price =
     (let asset_weight = get_weight (bk_config b) req Assets in
      if req = Initial
      then bind (maybe_get_asset_weight_init_discount fx b lower_price) (\<lambda>m. case m of
             Some discount \<Rightarrow> ok_or_math_error (checked_mul fx asset_weight discount)
           | None \<Rightarrow> Ok asset_weight)
      else Ok asset_weight)"

definition calc_weighted_assets ::
    "fixed_ops \<Rightarrow> oracle_sdk \<Rightarrow> bank_account_with_price_feed \<Rightarrow> requirement_type \<Rightarrow> bank \<Rightarrow> i80f48 result" where
  "calc_weighted_assets fx sdk bp req b = (case bc_risk_tier (bk_config b) of
     Collateral \<Rightarrow>
       (let price_feed = try_get_price_feed bp in
        if price_feed = Inl StaleOracleError \<and> req = Initial then Ok ZERO
        else
        bind (from_price_feed_error price_feed) (\<lambda>feed.
        bind (get_price_of_type fx sdk feed (get_oracle_price_type req) (Some Low)) (\<lambda>lower_price.
        bind (discounted_asset_weight fx req b lower_price) (\<lambda>asset_weight.
        bind (get_asset_amount fx b (asset_shares (bp_balance bp))) (\<lambda>amount.
        calc_value fx amount lower_price (mint_decimals b) (Some asset_weight))))))
   | Isolated \<Rightarrow> Ok ZERO)"

definition calc_weighted_liabs ::
    "fixed_ops \<Rightarrow> oracle_sdk \<Rightarrow> bank_account_with_price_feed \<Rightarrow> requirement_type \<Rightarrow> bank \<Rightarrow> i80f48 result" where
  "calc_weighted_liabs fx sdk bp req b =
     (bind (from_price_feed_error (try_get_price_feed bp)) (\<lambda>feed.
      bind (get_price_of_type fx sdk feed (get_oracle_price_type req) (Some High)) (\<lambda>higher_price.
      bind (get_liability_amount fx b (liability_shares (bp_balance bp))) (\<lambda>amount.
      calc_value fx amount higher_price (mint_decimals b) (Some (get_weight (bk_config b) req Liabilities))))))"

definition calc_weighted_assets_and_liabilities_values ::
    "fixed_ops \<Rightarrow> oracle_sdk \<Rightarrow> bank_store \<Rightarrow> bank_account_with_price_feed \<Rightarrow> requirement_type \<Rightarrow>
     (i80f48 \<times> i80f48) result" where
  "calc_weighted_assets_and_liabilities_values fx sdk banks bp req =
     (bind (get_side (bp_balance bp)) (\<lambda>m. case m of
        Some side \<Rightarrow>
          bind (load_bank banks (bp_bank bp)) (\<lambda>b. case side of
            Assets \<Rightarrow> bind (calc_weighted_assets fx sdk bp req b) (\<lambda>a. Ok (a, ZERO))
          | Liabilities \<Rightarrow> bind (calc_weighted_liabs fx sdk bp req b) (\<lambda>l. Ok (ZERO, l)))
      | None \<Rightarrow> Ok (ZERO, ZERO)))"

definition bp_is_empty :: "bank_account_with_price_feed \<Rightarrow> balance_side \<Rightarrow> bool" where
  "bp_is_empty bp side = balance_is_empty (bp_balance bp) side"

section \<open>The engine\<close>

definition new_no_flashloan_check ::
    "oracle_sdk \<Rightarrow> bank_store \<Rightarrow> clock \<Rightarrow> marginfi_account \<Rightarrow> account_info list \<Rightarrow> risk_engine result" where
  "new_no_flashloan_check sdk banks clk a remaining_ais =
     (bind (load_bank_accounts sdk banks clk (balances a) remaining_ais) (\<lambda>bps.
      Ok \<lparr>re_marginfi_account = a, re_bank_accounts_with_price = bps\<rparr>))"

definition risk_engine_new ::
    "oracle_sdk \<Rightarrow> bank_store \<Rightarrow> clock \<Rightarrow> marginfi_account \<Rightarrow> account_info list \<Rightarrow> risk_engine result" where
  "risk_engine_new sdk banks clk a remaining_ais =
     (bind (check (\<not> get_flag a IN_FLASHLOAN_FLAG) AccountInFlashloan) (\<lambda>_.
      new_no_flashloan_check sdk banks clk a remaining_ais))"

fun sum_health_components ::
    "fixed_ops \<Rightarrow> oracle_sdk \<Rightarrow> bank_store \<Rightarrow> requirement_type \<Rightarrow> bank_account_with_price_feed list \<Rightarrow>
     i80f48 \<Rightarrow> i80f48 \<Rightarrow> (i80f48 \<times> i80f48) result" where
  "sum_health_components fx sdk banks req [] assets_sum liabs_sum = Ok (assets_sum, liabs_sum)"
| "sum_health_components fx sdk banks req (bp # rest) assets_sum liabs_sum =
     bind (calc_weighted_assets_and_liabilities_values fx sdk banks bp req) (\<lambda>(assets, liabilities).
     bind (ok_or_math_error (checked_add fx assets_sum assets)) (\<lambda>assets_sum'.
     bind (ok_or_math_error (checked_add fx liabs_sum liabilities)) (\<lambda>liabs_sum'.
     sum_health_components fx sdk banks req rest assets_sum' liabs_sum')))"

definition get_account_health_components ::
    "fixed_ops \<Rightarrow> oracle_sdk \<Rightarrow> bank_store \<Rightarrow> risk_engine \<Rightarrow> risk_requirement_type \<Rightarrow> (i80f48 \<times> i80f48) result" where
  "get_account_health_components fx sdk banks re req =
     sum_health_components fx sdk banks (to_weight_type req) (re_bank_accounts_with_price re) ZERO ZERO"

definition get_account_health ::
    "fixed_ops \<Rightarrow> oracle_sdk \<Rightarrow> bank_store \<Rightarrow> risk_engine \<Rightarrow> risk_requirement_type \<Rightarrow> i80f48 result" where
  "get_account_health fx sdk banks re req =
     (bind (get_account_health_components fx sdk banks re req) (\<lambda>(assets, liabs).
      ok_or_math_error (checked_sub fx assets liabs)))"

text \<open>\<^verbatim>\<open>any\<close> over the balances with liabilities: it stops at the first isolated bank.\<close>

fun any_isolated :: "bank_store \<Rightarrow> bank_account_with_price_feed list \<Rightarrow> bool result" where
  "any_isolated banks [] = Ok False"
| "any_isolated banks (bp # rest) =
     bind (unwrap (banks (ai_key (bp_bank bp)))) (\<lambda>b.
     if bc_risk_tier (bk_config b) = Isolated then Ok True else any_isolated banks rest)"

definition check_account_risk_tiers :: "bank_store \<Rightarrow> risk_engine \<Rightarrow> unit result" where
  "check_account_risk_tiers banks re =
     (let balances_with_liabilities =
        filter (\<lambda>bp. \<not> bp_is_empty bp Liabilities) (re_bank_accounts_with_price re) in
      bind (any_isolated banks balances_with_liabilities) (\<lambda>is_in_isolated_risk_tier.
      check (\<not> is_in_isolated_risk_tier \<or> length balances_with_liabilities = 1) IsolatedAccountIllegalState))"

definition check_account_health ::
    "fixed_ops \<Rightarrow> oracle_sdk \<Rightarrow> bank_store \<Rightarrow> risk_engine \<Rightarrow> risk_requirement_type \<Rightarrow> unit result" where
  "check_account_health fx sdk banks re req =
     (bind (get_account_health_components fx sdk banks re req) (\<lambda>(assets, liabs).
      bind (check (liabs \<le> assets) RiskEngineInitRejected) (\<lambda>_.
      check_account_risk_tiers banks re)))"

definition check_account_init_health ::
    "fixed_ops \<Rightarrow> oracle_sdk \<Rightarrow> bank_store \<Rightarrow> clock \<Rightarrow> marginfi_account \<Rightarrow> account_info list \<Rightarrow> unit result" where
  "check_account_init_health fx sdk banks clk a remaining_ais =
     (if get_flag a IN_FLASHLOAN_FLAG then Ok ()
      else bind (new_no_flashloan_check sdk banks clk a remaining_ais) (\<lambda>re.
           check_account_health fx sdk banks re InitialRequirement))"

definition check_pre_liquidation_condition_and_get_account_health ::
    "fixed_ops \<Rightarrow> oracle_sdk \<Rightarrow> bank_store \<Rightarrow> risk_engine \<Rightarrow> pubkey \<Rightarrow> i80f48 result" where
  "check_pre_liquidation_condition_and_get_account_health fx sdk banks re pk =
     (bind (check (\<not> get_flag (re_marginfi_account re) IN_FLASHLOAN_FLAG) AccountInFlashloan) (\<lambda>_.
      bind (ok_or (find (\<lambda>bp. bank_pk (bp_balance bp) = pk) (re_bank_accounts_with_price re))
              (Mfi LendingAccountBalanceNotFound)) (\<lambda>liability_bank_balance.
      bind (check (\<not> bp_is_empty liability_bank_balance Liabilities) IllegalLiquidation) (\<lambda>_.
      bind (check (bp_is_empty liability_bank_balance Assets) IllegalLiquidation) (\<lambda>_.
      bind (get_account_health_components fx sdk banks re MaintenanceRequirement) (\<lambda>(assets, liabs).
      bind (ok_or_math_error (checked_sub fx assets liabs)) (\<lambda>account_health.
      bind (check (account_health \<le> ZERO) IllegalLiquidation) (\<lambda>_.
      Ok account_health))))))))"

definition check_post_liquidation_condition_and_get_account_health ::
    "fixed_ops \<Rightarrow> oracle_sdk \<Rightarrow> bank_store \<Rightarrow> risk_engine \<Rightarrow> pubkey \<Rightarrow> i80f48 \<Rightarrow> i80f48 result" where
  "check_post_liquidation_condition_and_get_account_health fx sdk banks re pk pre_liquidation_health =
     (bind (check (\<not> get_flag (re_marginfi_account re) IN_FLASHLOAN_FLAG) AccountInFlashloan) (\<lambda>_.
      bind (unwrap (find (\<lambda>bp. bank_pk (bp_balance bp) = pk) (re_bank_accounts_with_price re))) (\<lambda>liability_bank_balance.
      bind (check (\<not> bp_is_empty liability_bank_balance Liabilities) IllegalLiquidation) (\<lambda>_.
      bind (check (bp_is_empty liability_bank_balance Assets) IllegalLiquidation) (\<lambda>_.
      bind (get_account_health_components fx sdk banks re MaintenanceRequirement) (\<lambda>(assets, liabs).
      bind (ok_or_math_error (checked_sub fx assets liabs)) (\<lambda>account_health.
      bind (check (account_health \<le> ZERO) IllegalLiquidation) (\<lambda>_.
      bind (check (pre_liquidation_health < account_health) IllegalLiquidation) (\<lambda>_.
      Ok account_health)))))))))"

definition check_account_bankrupt :: "fixed_ops \<Rightarrow> oracle_sdk \<Rightarrow> bank_store \<Rightarrow> risk_engine \<Rightarrow> unit result" where
  "check_account_bankrupt fx sdk banks re =
     (bind (get_account_health_components fx sdk banks re EquityRequirement) (\<lambda>(assets, liabs).
      bind (check (\<not> get_flag (re_marginfi_account re) IN_FLASHLOAN_FLAG) AccountInFlashloan) (\<lambda>_.
      bind (check (assets < liabs) AccountNotBankrupt) (\<lambda>_.
      check (assets < BANKRUPT_THRESHOLD \<and> ZERO_AMOUNT_THRESHOLD < liabs) AccountNotBankrupt))))"

section \<open>What is loaded\<close>

lemma slice_one: "slice xs k (k + 1) = Ok ys \<longleftrightarrow> k < length xs \<and> ys = [xs ! k]"
  by (auto simp: slice_def take_Suc hd_drop_conv_nth)

lemma keep_result_Ok_iff [run_iff]: "keep_result r = Ok r' \<longleftrightarrow> r \<noteq> Err Panic \<and> r' = r"
  by (auto simp: keep_result_def)

lemma load_with_price_feed_Ok_iff:
  "load_with_price_feed sdk banks clk ais i bal = Ok bp \<longleftrightarrow>
   i * 2 + 1 < length ais \<and> bank_pk bal = ai_key (ais ! (i * 2)) \<and>
   (\<exists>b. banks (bank_pk bal) = Some b \<and> try_from_bank_config sdk (bk_config b) [ais ! (i * 2 + 1)] clk \<noteq> Err Panic \<and>
     bp = \<lparr>bp_bank = ais ! (i * 2),
       bp_price_feed = try_from_bank_config sdk (bk_config b) [ais ! (i * 2 + 1)] clk, bp_balance = bal\<rparr>)"
  unfolding load_with_price_feed_def Let_def bind_Ok_iff slice_one
  by (auto simp: index_at_Ok_iff check_Ok_iff keep_result_Ok_iff load_bank_def ok_or_Ok_iff)

lemma load_each_OkD:
  "load_each sdk banks clk ais i bals = Ok bps \<Longrightarrow>
   length bps = length bals \<and>
   (\<forall>k < length bals. load_with_price_feed sdk banks clk ais (i + k) (bals ! k) = Ok (bps ! k))"
proof (induction bals arbitrary: i bps)
  case (Cons bal bals)
  then obtain x xs where x: "load_with_price_feed sdk banks clk ais i bal = Ok x"
    and xs: "load_each sdk banks clk ais (Suc i) bals = Ok xs" "bps = x # xs"
    by (auto simp: bind_Ok_iff)
  show ?case
  proof (intro conjI allI impI)
    fix k assume "k < length (bal # bals)"
    then show "load_with_price_feed sdk banks clk ais (i + k) ((bal # bals) ! k) = Ok (bps ! k)"
      using x xs Cons.IH [OF xs(1)] by (cases k) auto
  qed (use Cons.IH [OF xs(1)] xs in simp)
qed simp

lemma load_bank_accounts_OkD:
  assumes "load_bank_accounts sdk banks clk la ais = Ok bps"
  shows "length bps = length (filter active la)"
    and "k < length (filter active la) \<Longrightarrow> load_with_price_feed sdk banks clk ais k (filter active la ! k) = Ok (bps ! k)"
proof -
  have "load_each sdk banks clk ais 0 (filter active la) = Ok bps"
    using assms by (simp add: load_bank_accounts_def Let_def bind_Ok_iff check_Ok_iff)
  from load_each_OkD [OF this] show "length bps = length (filter active la)"
    "k < length (filter active la) \<Longrightarrow> load_with_price_feed sdk banks clk ais k (filter active la ! k) = Ok (bps ! k)"
    by simp_all
qed

section \<open>Values of a position\<close>

text \<open>The value of an amount, in the unit of the prices, with the roundings of \<^verbatim>\<open>calc_value\<close>.\<close>

definition value_at :: "int \<Rightarrow> int \<Rightarrow> int \<Rightarrow> u8 \<Rightarrow> int" where
  "value_at amount weight price d = amount * weight div SCALE * price div SCALE div 10 ^ unat d"

lemma value_at_mono:
  assumes "0 \<le> amount" and "0 \<le> w" and "w \<le> w'" and "0 \<le> p" and "p \<le> p'"
  shows "value_at amount w p d \<le> value_at amount w' p' d"
proof -
  have "amount * w div SCALE \<le> amount * w' div SCALE"
    using assms by (intro mul_floor_mono mult_left_mono) simp_all
  then have "amount * w div SCALE * p \<le> amount * w' div SCALE * p'"
    using assms by (intro mult_mono) simp_all
  then show ?thesis
    unfolding value_at_def by (intro zdiv_mono1) simp_all
qed

lemma value_at_nonneg: "0 \<le> amount \<Longrightarrow> 0 \<le> w \<Longrightarrow> 0 \<le> p \<Longrightarrow> 0 \<le> value_at amount w p d"
  by (simp add: value_at_def pos_imp_zdiv_nonneg_iff)

lemma from_price_feed_error_Ok_iff [run_iff]:
  "from_price_feed_error (try_get_price_feed bp) = Ok feed \<longleftrightarrow> bp_price_feed bp = Ok feed"
  by (auto simp: from_price_feed_error_def try_get_price_feed_def split: sum.splits price_feed_error.splits)

context fixed_point
begin

lemma high_price:
  assumes "get_price_of_type fx sdk feed t (Some High) = Ok q"
  obtains p where "get_price_of_type fx sdk feed t None = Ok p" and "0 \<le> p" and "p \<le> q"
proof (rule adapter_biased_within [OF assms])
  fix p c
  assume p: "get_price_of_type fx sdk feed t None = Ok p" "0 \<le> c" "c \<le> p * MAX_CONF_INTERVAL div SCALE"
    "q = (case High of Low \<Rightarrow> p - c | High \<Rightarrow> p + c)"
  show thesis
    using that [OF p(1)] p(2-4) max_conf_nonneg_imp(1) [OF order_trans [OF p(2,3)]] by simp
qed

lemma low_price:
  assumes "get_price_of_type fx sdk feed t (Some Low) = Ok q"
  obtains p where "get_price_of_type fx sdk feed t None = Ok p" and "0 \<le> q" and "q \<le> p"
proof (rule adapter_biased_within [OF assms])
  fix p c
  assume p: "get_price_of_type fx sdk feed t None = Ok p" "0 \<le> c" "c \<le> p * MAX_CONF_INTERVAL div SCALE"
    "q = (case Low of Low \<Rightarrow> p - c | High \<Rightarrow> p + c)"
  show thesis
    using that [OF p(1)] p(2-4) max_conf_nonneg_imp(2) [OF order_trans [OF p(2,3)]] by simp
qed

lemma init_discount_bounds:
  assumes "maybe_get_asset_weight_init_discount fx b price = Ok (Some discount)"
  shows "0 \<le> discount" and "discount \<le> SCALE"
proof -
  define limit where "limit = uint (total_asset_value_init_limit (bk_config b)) * SCALE"
  have "0 \<le> limit"
    by (simp add: limit_def)
  obtain v where v: "limit < v" and d: "discount = trunc_div (limit * SCALE) v"
    using assms by (auto simp: maybe_get_asset_weight_init_discount_def run_iff fixed_simps limit_def split: if_splits)
  from \<open>0 \<le> limit\<close> v have "discount = limit * SCALE div v"
    unfolding d by (intro trunc_div_nonneg) simp_all
  then show "0 \<le> discount" and "discount \<le> SCALE"
    using \<open>0 \<le> limit\<close> v quot_le_scale [of limit v] by (simp_all add: pos_imp_zdiv_nonneg_iff)
qed

lemma calc_weighted_liabs_OkD:
  assumes "bank_ok b" and "0 \<le> liability_shares (bp_balance bp)" and "calc_weighted_liabs fx sdk bp req b = Ok l"
  obtains feed p q where "bp_price_feed bp = Ok feed"
    and "get_price_of_type fx sdk feed (get_oracle_price_type req) None = Ok p"
    and "get_price_of_type fx sdk feed (get_oracle_price_type req) (Some High) = Ok q"
    and "0 \<le> p" and "p \<le> q"
    and "l = value_at (liability_shares (bp_balance bp) * liability_share_value b div SCALE)
           (get_weight (bk_config b) req Liabilities) q (mint_decimals b)"
proof -
  obtain feed q amount where feed: "bp_price_feed bp = Ok feed"
    and q: "get_price_of_type fx sdk feed (get_oracle_price_type req) (Some High) = Ok q"
    and amount: "amount = liability_shares (bp_balance bp) * liability_share_value b div SCALE"
    and l: "calc_value fx amount q (mint_decimals b) (Some (get_weight (bk_config b) req Liabilities)) = Ok l"
    using assms(3) by (auto simp: calc_weighted_liabs_def run_iff)
  obtain p where p: "get_price_of_type fx sdk feed (get_oracle_price_type req) None = Ok p" "0 \<le> p" "p \<le> q"
    by (rule high_price [OF q])
  have "0 \<le> amount" "0 \<le> get_weight (bk_config b) req Liabilities"
    using assms(1,2) SCALE_pos(2) by (cases req; force simp: amount bank_ok_def config_ok_def ONE_SCALE)+
  then have "l = value_at amount (get_weight (bk_config b) req Liabilities) q (mint_decimals b)"
    using calc_value_OkD [OF l] p by (simp add: value_at_def)
  from that [OF feed p(1) q p(2,3) this [unfolded amount]] show thesis .
qed

lemma discounted_weight_bounds:
  assumes "discounted_asset_weight fx req b price = Ok w" and "0 \<le> get_weight (bk_config b) req Assets"
  shows "0 \<le> w" and "w \<le> get_weight (bk_config b) req Assets"
    and "req \<noteq> Initial \<Longrightarrow> w = get_weight (bk_config b) req Assets"
proof -
  have "w = get_weight (bk_config b) req Assets \<or>
      (\<exists>discount. 0 \<le> discount \<and> discount \<le> SCALE \<and> req = Initial \<and>
         w = discount * get_weight (bk_config b) req Assets div SCALE)"
    using assms(1) init_discount_bounds [of b price]
    by (auto simp: discounted_asset_weight_def Let_def bind_Ok_iff ok_or_Ok_iff fixed_simps fit_Some_iff mult.commute
        split: if_splits option.splits)
  then show "0 \<le> w" and "w \<le> get_weight (bk_config b) req Assets"
    and "req \<noteq> Initial \<Longrightarrow> w = get_weight (bk_config b) req Assets"
    using assms(2) mul_floor_le_factor [OF assms(2)] by auto
qed

lemma calc_weighted_assets_OkD:
  assumes "bank_ok b" and "0 \<le> asset_shares (bp_balance bp)" and "calc_weighted_assets fx sdk bp req b = Ok a"
  obtains (nothing) "a = 0" and "bc_risk_tier (bk_config b) = Isolated \<or> req = Initial \<and> \<not> is_ok (bp_price_feed bp)"
  | (priced) feed p q w where "bp_price_feed bp = Ok feed"
    and "get_price_of_type fx sdk feed (get_oracle_price_type req) None = Ok p"
    and "get_price_of_type fx sdk feed (get_oracle_price_type req) (Some Low) = Ok q"
    and "0 \<le> q" and "q \<le> p" and "0 \<le> w" and "w \<le> get_weight (bk_config b) req Assets"
    and "req \<noteq> Initial \<longrightarrow> w = get_weight (bk_config b) req Assets"
    and "bc_risk_tier (bk_config b) = Collateral"
    and "a = value_at (asset_shares (bp_balance bp) * asset_share_value b div SCALE) w q (mint_decimals b)"
proof (cases "bc_risk_tier (bk_config b) = Collateral \<and> (is_ok (bp_price_feed bp) \<or> req \<noteq> Initial)")
  case False
  then have "a = 0" "bc_risk_tier (bk_config b) = Isolated \<or> req = Initial \<and> \<not> is_ok (bp_price_feed bp)"
    using assms(3)
    by (auto simp: calc_weighted_assets_def try_get_price_feed_def is_ok_def ZERO_def split: risk_tier.splits sum.splits)
  then show thesis by (rule nothing)
next
  case True
  define weight where "weight = get_weight (bk_config b) req Assets"
  define amount where "amount = asset_shares (bp_balance bp) * asset_share_value b div SCALE"
  have nonneg: "0 \<le> amount" "0 \<le> weight"
    using assms(1,2) by (cases req; force simp: amount_def weight_def bank_ok_def config_ok_def ONE_SCALE)+
  have "\<not> (try_get_price_feed bp = Inl StaleOracleError \<and> req = Initial)"
    using True by (auto simp: try_get_price_feed_def is_ok_def split: sum.splits)
  then obtain feed q w where feed: "bp_price_feed bp = Ok feed"
    and q: "get_price_of_type fx sdk feed (get_oracle_price_type req) (Some Low) = Ok q"
    and w: "discounted_asset_weight fx req b q = Ok w"
    and a: "calc_value fx amount q (mint_decimals b) (Some w) = Ok a"
    using assms(3) True
    by (auto simp: calc_weighted_assets_def Let_def bind_Ok_iff from_price_feed_error_Ok_iff get_asset_amount_iff amount_def)
  obtain p where p: "get_price_of_type fx sdk feed (get_oracle_price_type req) None = Ok p" "0 \<le> q" "q \<le> p"
    by (rule low_price [OF q])
  have w_bounds: "0 \<le> w" "w \<le> weight" "req \<noteq> Initial \<longrightarrow> w = weight"
    using discounted_weight_bounds [OF w] nonneg by (simp_all add: weight_def)
  then have "a = value_at amount w q (mint_decimals b)"
    using calc_value_OkD [OF a] p nonneg by (simp add: value_at_def)
  from priced [OF feed p(1) q p(2,3) w_bounds(1) w_bounds(2,3) [unfolded weight_def] _ this [unfolded amount_def]] True
  show thesis by blast
qed

end

section \<open>Positions at market prices\<close>

definition store_ok :: "bank_store \<Rightarrow> bool" where
  "store_ok banks \<longleftrightarrow> (\<forall>k b. banks k = Some b \<longrightarrow> bank_ok b)"

text \<open>
  The value of the deposit and of the debt of a balance at one price of its bank, without weights.
  A side below the threshold of an empty balance counts nothing.
\<close>

definition collateral_at :: "bank_store \<Rightarrow> balance \<Rightarrow> int \<Rightarrow> int" where
  "collateral_at banks bal p = (case banks (bank_pk bal) of
     Some b \<Rightarrow> if balance_is_empty bal Assets then 0
               else value_at (asset_shares bal * asset_share_value b div SCALE) SCALE p (mint_decimals b)
   | None \<Rightarrow> 0)"

definition debt_at :: "bank_store \<Rightarrow> balance \<Rightarrow> int \<Rightarrow> int" where
  "debt_at banks bal p = (case banks (bank_pk bal) of
     Some b \<Rightarrow> if balance_is_empty bal Liabilities then 0
               else value_at (liability_shares bal * liability_share_value b div SCALE) SCALE p (mint_decimals b)
   | None \<Rightarrow> 0)"

text \<open>A price of the feed the bank of a balance is configured with, unbiased.\<close>

definition quoted ::
    "fixed_ops \<Rightarrow> oracle_sdk \<Rightarrow> bank_store \<Rightarrow> clock \<Rightarrow> oracle_price_type \<Rightarrow> account_info \<Rightarrow> balance \<Rightarrow> int \<Rightarrow> bool" where
  "quoted fx sdk banks clk t oracle_ai bal p \<longleftrightarrow>
     (\<exists>b feed. banks (bank_pk bal) = Some b \<and> try_from_bank_config sdk (bk_config b) [oracle_ai] clk = Ok feed \<and>
        get_price_of_type fx sdk feed t None = Ok p)"

lemma get_side_cases:
  assumes "balance_ok bal"
  obtains "get_side bal = Ok (Some Assets)" and "\<not> balance_is_empty bal Assets" and "balance_is_empty bal Liabilities"
  | "get_side bal = Ok (Some Liabilities)" and "balance_is_empty bal Assets" and "\<not> balance_is_empty bal Liabilities"
  | "get_side bal = Ok None" and "balance_is_empty bal Assets" and "balance_is_empty bal Liabilities"
  using assms
  by (cases "asset_shares bal < EMPTY_BALANCE_THRESHOLD"; cases "liability_shares bal < EMPTY_BALANCE_THRESHOLD")
    (simp_all add: balance_ok_def get_side_def balance_is_empty_def)

lemma config_weights:
  assumes "bank_ok b"
  shows "0 \<le> get_weight (bk_config b) Initial Assets" and "get_weight (bk_config b) Initial Assets \<le> SCALE"
    and "SCALE \<le> get_weight (bk_config b) Initial Liabilities"
  using assms by (auto simp: bank_ok_def config_ok_def)

context fixed_point
begin

lemma loaded_position:
  assumes "load_with_price_feed sdk banks clk ais i bal = Ok bp" and "store_ok banks"
  obtains b where "banks (bank_pk bal) = Some b" and "load_bank banks (bp_bank bp) = Ok b" and "bank_ok b"
    and "bp_balance bp = bal" and "bp_price_feed bp = try_from_bank_config sdk (bk_config b) [ais ! (i * 2 + 1)] clk"
    and "0 < asset_share_value b" and "0 < liability_share_value b"
proof -
  obtain b where b: "banks (bank_pk bal) = Some b" and bp: "bp = \<lparr>bp_bank = ais ! (i * 2),
      bp_price_feed = try_from_bank_config sdk (bk_config b) [ais ! (i * 2 + 1)] clk, bp_balance = bal\<rparr>"
    and key: "bank_pk bal = ai_key (ais ! (i * 2))"
    using assms(1) by (auto simp: load_with_price_feed_Ok_iff)
  then have "bank_ok b" "load_bank banks (bp_bank bp) = Ok b"
    using assms(2) by (auto simp: store_ok_def load_bank_def)
  moreover from this(1) have "0 < asset_share_value b" "0 < liability_share_value b"
    unfolding bank_ok_def by blast+
  ultimately show thesis
    using b by (intro that) (simp_all add: bp)
qed

text \<open>
  For the initial requirement a deposit counts at most its market value and a debt at least its
  market value, and a debt counts only at the quote of a live feed.
\<close>

lemma position_init_market:
  assumes "balance_ok bal" and "store_ok banks" and "load_with_price_feed sdk banks clk ais i bal = Ok bp"
    and "calc_weighted_assets_and_liabilities_values fx sdk banks bp Initial = Ok (a, l)"
  shows "\<exists>p. a \<le> collateral_at banks bal p \<and> debt_at banks bal p \<le> l \<and>
    (balance_is_empty bal Liabilities \<or> quoted fx sdk banks clk TimeWeighted (ais ! (i * 2 + 1)) bal p) \<and>
    (collateral_at banks bal p = 0 \<or> quoted fx sdk banks clk TimeWeighted (ais ! (i * 2 + 1)) bal p)"
proof (rule loaded_position [OF assms(3,2)])
  fix b
  assume b: "banks (bank_pk bal) = Some b" "load_bank banks (bp_bank bp) = Ok b" "bank_ok b"
    and bp: "bp_balance bp = bal" "bp_price_feed bp = try_from_bank_config sdk (bk_config b) [ais ! (i * 2 + 1)] clk"
    and vals: "0 < asset_share_value b" "0 < liability_share_value b"
  have shares: "0 \<le> asset_shares (bp_balance bp)" "0 \<le> liability_shares (bp_balance bp)"
    using assms(1) bp(1) by (simp_all add: balance_ok_def)
  note w = config_weights [OF b(3)]
  note defs = calc_weighted_assets_and_liabilities_values_def collateral_at_def debt_at_def quoted_def
    get_oracle_price_type_def
  show ?thesis
  proof (rule get_side_cases [OF assms(1)])
    assume side: "get_side bal = Ok (Some Assets)" "\<not> balance_is_empty bal Assets" "balance_is_empty bal Liabilities"
    have l: "l = 0" and a: "calc_weighted_assets fx sdk bp Initial b = Ok a"
      using assms(4) side b(2) by (auto simp: defs bp(1) bind_Ok_iff ZERO_def)
    show ?thesis
    proof (rule calc_weighted_assets_OkD [OF b(3) shares(1) a])
      assume "a = 0"
      then show ?thesis
        using side l b by (intro exI [of _ 0]) (simp add: defs value_at_def)
    next
      fix feed p q w'
      assume f: "bp_price_feed bp = Ok feed" "get_price_of_type fx sdk feed (get_oracle_price_type Initial) None = Ok p"
        and le: "0 \<le> q" "q \<le> p" "0 \<le> w'" "w' \<le> get_weight (bk_config b) Initial Assets"
        and a_eq: "a = value_at (asset_shares (bp_balance bp) * asset_share_value b div SCALE) w' q (mint_decimals b)"
      have "a \<le> value_at (asset_shares (bp_balance bp) * asset_share_value b div SCALE) SCALE p (mint_decimals b)"
        using le w shares vals unfolding a_eq by (intro value_at_mono) simp_all
      then show ?thesis
        using side l b f bp by (intro exI [of _ p]) (auto simp: defs)
    qed
  next
    assume side: "get_side bal = Ok (Some Liabilities)" "balance_is_empty bal Assets" "\<not> balance_is_empty bal Liabilities"
    have a: "a = 0" and l: "calc_weighted_liabs fx sdk bp Initial b = Ok l"
      using assms(4) side b(2) by (auto simp: defs bp(1) bind_Ok_iff ZERO_def)
    show ?thesis
    proof (rule calc_weighted_liabs_OkD [OF b(3) shares(2) l])
      fix feed p q
      assume f: "bp_price_feed bp = Ok feed" "get_price_of_type fx sdk feed (get_oracle_price_type Initial) None = Ok p"
        and le: "0 \<le> p" "p \<le> q"
        and l_eq: "l = value_at (liability_shares (bp_balance bp) * liability_share_value b div SCALE)
           (get_weight (bk_config b) Initial Liabilities) q (mint_decimals b)"
      have "value_at (liability_shares (bp_balance bp) * liability_share_value b div SCALE) SCALE p (mint_decimals b) \<le> l"
        using le w shares vals unfolding l_eq by (intro value_at_mono) simp_all
      then show ?thesis
        using side a b f bp by (intro exI [of _ p]) (auto simp: defs)
    qed
  next
    assume "get_side bal = Ok None" "balance_is_empty bal Assets" "balance_is_empty bal Liabilities"
    then show ?thesis
      using assms(4) b by (auto simp: defs bp(1) ZERO_def)
  qed
qed

text \<open>
  For the initial requirement a deposit counts at most what it counts for equity, a debt at least:
  both use the time-weighted price, and equity has no weights.
\<close>

lemma assets_init_le_equity:
  assumes "bank_ok b" and "0 \<le> asset_shares (bp_balance bp)"
    and "calc_weighted_assets fx sdk bp Initial b = Ok a" and "calc_weighted_assets fx sdk bp Equity b = Ok a'"
  shows "a \<le> a'"
proof -
  define amount where "amount = asset_shares (bp_balance bp) * asset_share_value b div SCALE"
  have amount: "0 \<le> amount"
    using assms(1,2) by (simp add: amount_def bank_ok_def)
  show ?thesis
  proof (rule calc_weighted_assets_OkD [OF assms(1,2,4)])
    assume "a' = 0" "bc_risk_tier (bk_config b) = Isolated \<or> Equity = Initial \<and> \<not> is_ok (bp_price_feed bp)"
    with assms(3) show ?thesis
      by (simp add: calc_weighted_assets_def ZERO_def)
  next
    fix feed p q w
    assume eq: "bp_price_feed bp = Ok feed" "get_price_of_type fx sdk feed (get_oracle_price_type Equity) (Some Low) = Ok q"
      and q: "0 \<le> q" and w: "Equity \<noteq> Initial \<longrightarrow> w = get_weight (bk_config b) Equity Assets"
      and a': "a' = value_at (asset_shares (bp_balance bp) * asset_share_value b div SCALE) w q (mint_decimals b)"
    have a'_eq: "a' = value_at amount SCALE q (mint_decimals b)"
      using a' w by (simp add: amount_def ONE_SCALE)
    show ?thesis
    proof (rule calc_weighted_assets_OkD [OF assms(1-3)])
      assume "a = 0"
      then show ?thesis
        using value_at_nonneg [OF amount _ q] by (simp add: a'_eq)
    next
      fix feed' p' q' w'
      assume "bp_price_feed bp = Ok feed'" "get_price_of_type fx sdk feed' (get_oracle_price_type Initial) (Some Low) = Ok q'"
        and w': "0 \<le> w'" "w' \<le> get_weight (bk_config b) Initial Assets"
        and a: "a = value_at (asset_shares (bp_balance bp) * asset_share_value b div SCALE) w' q' (mint_decimals b)"
      with eq have "q' = q"
        by (simp add: get_oracle_price_type_def)
      then show ?thesis
        using config_weights [OF assms(1)] w' q amount unfolding a a'_eq amount_def [symmetric]
        by (intro value_at_mono) simp_all
    qed
  qed
qed

lemma liabs_equity_le_init:
  assumes "bank_ok b" and "0 \<le> liability_shares (bp_balance bp)"
    and "calc_weighted_liabs fx sdk bp Initial b = Ok l" and "calc_weighted_liabs fx sdk bp Equity b = Ok l'"
  shows "l' \<le> l"
proof (rule calc_weighted_liabs_OkD [OF assms(1-3)], rule calc_weighted_liabs_OkD [OF assms(1,2,4)])
  fix feed p q feed' p' q'
  assume *: "bp_price_feed bp = Ok feed" "get_price_of_type fx sdk feed (get_oracle_price_type Initial) (Some High) = Ok q"
      "bp_price_feed bp = Ok feed'" "get_price_of_type fx sdk feed' (get_oracle_price_type Equity) (Some High) = Ok q'"
    and q: "0 \<le> p'" "p' \<le> q'"
    and l: "l = value_at (liability_shares (bp_balance bp) * liability_share_value b div SCALE)
         (get_weight (bk_config b) Initial Liabilities) q (mint_decimals b)"
      "l' = value_at (liability_shares (bp_balance bp) * liability_share_value b div SCALE)
         (get_weight (bk_config b) Equity Liabilities) q' (mint_decimals b)"
  from * have "q' = q"
    by (simp add: get_oracle_price_type_def)
  moreover have "0 \<le> liability_shares (bp_balance bp) * liability_share_value b div SCALE"
    using assms(1,2) by (simp add: bank_ok_def)
  ultimately show ?thesis
    using config_weights(3) [OF assms(1)] q unfolding l
    by (intro value_at_mono) (simp_all add: ONE_SCALE)
qed

lemma position_init_equity:
  assumes "balance_ok (bp_balance bp)" and "store_ok banks"
    and "calc_weighted_assets_and_liabilities_values fx sdk banks bp Initial = Ok (a, l)"
    and "calc_weighted_assets_and_liabilities_values fx sdk banks bp Equity = Ok (a', l')"
  shows "a \<le> a' \<and> l' \<le> l"
proof -
  have shares: "0 \<le> asset_shares (bp_balance bp)" "0 \<le> liability_shares (bp_balance bp)"
    using assms(1) by (simp_all add: balance_ok_def)
  have ok: "bank_ok b" if "banks k = Some b" for k b
    using assms(2) that by (simp add: store_ok_def)
  show ?thesis
    using assms(3,4)
    by (auto simp: calc_weighted_assets_and_liabilities_values_def bind_Ok_iff load_bank_def ok_or_Ok_iff
        split: option.splits balance_side.splits
        intro: assets_init_le_equity [OF ok shares(1)] liabs_equity_le_init [OF ok shares(2)])
qed

text \<open>Two requirements summed over the same positions.\<close>

lemma sum_health_components_mono:
  assumes "\<And>bp a l a' l'. bp \<in> set bps \<Longrightarrow>
      calc_weighted_assets_and_liabilities_values fx sdk banks bp req = Ok (a, l) \<Longrightarrow>
      calc_weighted_assets_and_liabilities_values fx sdk banks bp req' = Ok (a', l') \<Longrightarrow> a \<le> a' \<and> l' \<le> l"
    and "sum_health_components fx sdk banks req bps A L = Ok (X, Y)"
    and "sum_health_components fx sdk banks req' bps A' L' = Ok (X', Y')"
    and "A \<le> A'" and "L' \<le> L"
  shows "X \<le> X' \<and> Y' \<le> Y"
  using assms
proof (induction bps arbitrary: A L A' L')
  case (Cons bp bps)
  obtain a l where c: "calc_weighted_assets_and_liabilities_values fx sdk banks bp req = Ok (a, l)"
    "sum_health_components fx sdk banks req bps (A + a) (L + l) = Ok (X, Y)"
    using Cons.prems(2) by (auto simp: run_iff fixed_simps)
  obtain a' l' where c': "calc_weighted_assets_and_liabilities_values fx sdk banks bp req' = Ok (a', l')"
    "sum_health_components fx sdk banks req' bps (A' + a') (L' + l') = Ok (X', Y')"
    using Cons.prems(3) by (auto simp: run_iff fixed_simps)
  have "a \<le> a' \<and> l' \<le> l"
    by (rule Cons.prems(1) [OF _ c(1) c'(1)]) simp
  with Cons.prems(4,5) show ?case
    by (intro Cons.IH [OF _ c(2) c'(2)] Cons.prems(1)) simp_all
qed simp

text \<open>The components are the sums of the values of the positions.\<close>

lemma sum_health_components_OkD:
  assumes "sum_health_components fx sdk banks req bps A L = Ok (X, Y)"
  obtains vs where "list_all2 (\<lambda>bp v. calc_weighted_assets_and_liabilities_values fx sdk banks bp req = Ok v) bps vs"
    and "X = A + sum_list (map fst vs)" and "Y = L + sum_list (map snd vs)"
  using assms
proof (induction bps arbitrary: A L thesis)
  case Nil
  then show ?case by simp
next
  case (Cons bp bps)
  obtain a l where c: "calc_weighted_assets_and_liabilities_values fx sdk banks bp req = Ok (a, l)"
    "sum_health_components fx sdk banks req bps (A + a) (L + l) = Ok (X, Y)"
    using Cons.prems(2) by (auto simp: run_iff fixed_simps)
  show ?case
  proof (rule Cons.IH [OF _ c(2)])
    fix vs
    assume "list_all2 (\<lambda>bp v. calc_weighted_assets_and_liabilities_values fx sdk banks bp req = Ok v) bps vs"
      "X = A + a + sum_list (map fst vs)" "Y = L + l + sum_list (map snd vs)"
    with c(1) show ?thesis
      by (intro Cons.prems(1) [of "(a, l) # vs"]) simp_all
  qed
qed

end

lemma loaded_balances:
  assumes "load_bank_accounts sdk banks clk la ais = Ok bps"
  shows "map bp_balance bps = filter active la" and "bp \<in> set bps \<Longrightarrow> ai_key (bp_bank bp) = bank_pk (bp_balance bp)"
proof -
  note ld = load_bank_accounts_OkD [OF assms]
  have nth: "bp_balance (bps ! k) = filter active la ! k \<and> ai_key (bp_bank (bps ! k)) = bank_pk (bp_balance (bps ! k))"
    if "k < length bps" for k
    using ld(2) [of k] that ld(1) by (auto simp: load_with_price_feed_Ok_iff)
  then show "map bp_balance bps = filter active la"
    using ld(1) by (intro nth_equalityI) auto
  show "ai_key (bp_bank bp) = bank_pk (bp_balance bp)" if "bp \<in> set bps"
    using nth that by (auto simp: in_set_conv_nth)
qed

definition in_isolated_bank :: "bank_store \<Rightarrow> balance \<Rightarrow> bool" where
  "in_isolated_bank banks bal \<longleftrightarrow> (case banks (bank_pk bal) of
     Some b \<Rightarrow> bc_risk_tier (bk_config b) = Isolated | None \<Rightarrow> False)"

lemma any_isolated_OkD:
  assumes "any_isolated banks bps = Ok r" and "\<And>bp. bp \<in> set bps \<Longrightarrow> ai_key (bp_bank bp) = bank_pk (bp_balance bp)"
  shows "r \<longleftrightarrow> (\<exists>bp \<in> set bps. in_isolated_bank banks (bp_balance bp))"
  using assms
  by (induction bps) (auto simp: bind_Ok_iff ok_or_Ok_iff in_isolated_bank_def split: if_splits)

text \<open>A check that passes outside a flash loan, taken apart.\<close>

lemma init_health_OkD:
  assumes "check_account_init_health fx sdk banks clk a ais = Ok ()" and "\<not> get_flag a IN_FLASHLOAN_FLAG"
  obtains bps A L where "load_bank_accounts sdk banks clk (balances a) ais = Ok bps"
    and "sum_health_components fx sdk banks Initial bps 0 0 = Ok (A, L)" and "L \<le> A"
    and "check_account_risk_tiers banks \<lparr>re_marginfi_account = a, re_bank_accounts_with_price = bps\<rparr> = Ok ()"
  using assms
  by (auto simp: check_account_init_health_def new_no_flashloan_check_def check_account_health_def bind_Ok_iff
      check_Ok_iff get_account_health_components_def to_weight_type_def ZERO_def)

lemma singleton_list: "length xs = 1 \<Longrightarrow> x \<in> set xs \<Longrightarrow> xs = [x]"
  by (auto simp: length_Suc_conv)

lemma risk_tiers_OkD:
  assumes "load_bank_accounts sdk banks clk la ais = Ok bps"
    and "check_account_risk_tiers banks \<lparr>re_marginfi_account = a, re_bank_accounts_with_price = bps\<rparr> = Ok ()"
    and "bal \<in> set (filter active la)" and "\<not> balance_is_empty bal Liabilities" and "in_isolated_bank banks bal"
  shows "filter (\<lambda>bal. \<not> balance_is_empty bal Liabilities) (filter active la) = [bal]"
proof -
  let ?P = "\<lambda>bal. \<not> balance_is_empty bal Liabilities"
  note ld = loaded_balances [OF assms(1)]
  obtain r where r: "any_isolated banks (filter (?P \<circ> bp_balance) bps) = Ok r"
    "\<not> r \<or> length (filter (?P \<circ> bp_balance) bps) = 1"
    using assms(2) by (auto simp: check_account_risk_tiers_def Let_def bind_Ok_iff check_Ok_iff bp_is_empty_def comp_def)
  obtain bp where "bp \<in> set bps" "bp_balance bp = bal"
    using assms(3) ld(1) by (metis image_iff list.set_map)
  with any_isolated_OkD [OF r(1)] assms(4,5) ld(2) have "r"
    by auto
  with r(2) have "length (filter ?P (map bp_balance bps)) = 1"
    by (simp add: filter_map)
  moreover have "bal \<in> set (filter ?P (map bp_balance bps))"
    using assms(3,4) ld(1) by simp
  ultimately show ?thesis
    unfolding ld(1) by (rule singleton_list)
qed

section \<open>Properties\<close>

text \<open>
  C36. An account that passes the initial health check outside a flash loan is covered at market
  prices. There is a price for every active balance such that the debts, valued at these prices
  without weights, are at most the deposits valued at the same prices. Every debt is valued at
  the unbiased time-weighted quote of the feed its bank is configured with, and so is every
  deposit that counts; no debt is left out because its feed does not load. A debt in an isolated
  bank is the only debt of the account.
\<close>

theorem init_health_covers_debts:
  fixes a banks
  defines "bals \<equiv> filter active (balances a)"
  assumes "fixed_point fx" and "account_ok (balances a)" and "store_ok banks"
    and "check_account_init_health fx sdk banks clk a ais = Ok ()" and "\<not> get_flag a IN_FLASHLOAN_FLAG"
  shows "\<exists>ps. (\<Sum>i < length bals. debt_at banks (bals ! i) (ps i)) \<le> (\<Sum>i < length bals. collateral_at banks (bals ! i) (ps i)) \<and>
    (\<forall>i < length bals.
      (balance_is_empty (bals ! i) Liabilities \<or>
         quoted fx sdk banks clk TimeWeighted (ais ! (i * 2 + 1)) (bals ! i) (ps i)) \<and>
      (collateral_at banks (bals ! i) (ps i) = 0 \<or>
         quoted fx sdk banks clk TimeWeighted (ais ! (i * 2 + 1)) (bals ! i) (ps i)) \<and>
      (in_isolated_bank banks (bals ! i) \<and> \<not> balance_is_empty (bals ! i) Liabilities \<longrightarrow>
         filter (\<lambda>bal. \<not> balance_is_empty bal Liabilities) bals = [bals ! i]))"
proof -
  obtain bps A L where ld: "load_bank_accounts sdk banks clk (balances a) ais = Ok bps"
    and sums: "sum_health_components fx sdk banks Initial bps 0 0 = Ok (A, L)" "L \<le> A"
    and tiers: "check_account_risk_tiers banks \<lparr>re_marginfi_account = a, re_bank_accounts_with_price = bps\<rparr> = Ok ()"
    by (rule init_health_OkD [OF assms(5,6)])
  obtain vs where vs: "list_all2 (\<lambda>bp v. calc_weighted_assets_and_liabilities_values fx sdk banks bp Initial = Ok v) bps vs"
    and AL: "A = 0 + sum_list (map fst vs)" "L = 0 + sum_list (map snd vs)"
    by (rule fixed_point.sum_health_components_OkD [OF assms(2) sums(1)])
  have len: "length bps = length bals" "length vs = length bals"
    using load_bank_accounts_OkD(1) [OF ld] list_all2_lengthD [OF vs] by (simp_all add: bals_def)
  have "\<exists>p. fst (vs ! i) \<le> collateral_at banks (bals ! i) p \<and> debt_at banks (bals ! i) p \<le> snd (vs ! i) \<and>
      (balance_is_empty (bals ! i) Liabilities \<or> quoted fx sdk banks clk TimeWeighted (ais ! (i * 2 + 1)) (bals ! i) p) \<and>
      (collateral_at banks (bals ! i) p = 0 \<or> quoted fx sdk banks clk TimeWeighted (ais ! (i * 2 + 1)) (bals ! i) p)"
    if i: "i < length bals" for i
  proof (rule fixed_point.position_init_market [OF assms(2) _ assms(4)])
    show "balance_ok (bals ! i)"
      using assms(3) nth_mem [OF i] by (simp add: bals_def account_ok_def)
    show "load_with_price_feed sdk banks clk ais i (bals ! i) = Ok (bps ! i)"
      using load_bank_accounts_OkD(2) [OF ld] i by (simp add: bals_def)
    show "calc_weighted_assets_and_liabilities_values fx sdk banks (bps ! i) Initial = Ok (fst (vs ! i), snd (vs ! i))"
      using list_all2_nthD [OF vs] i len by simp
  qed
  then obtain ps where ps: "\<forall>i < length bals. fst (vs ! i) \<le> collateral_at banks (bals ! i) (ps i) \<and>
      debt_at banks (bals ! i) (ps i) \<le> snd (vs ! i) \<and>
      (balance_is_empty (bals ! i) Liabilities \<or> quoted fx sdk banks clk TimeWeighted (ais ! (i * 2 + 1)) (bals ! i) (ps i)) \<and>
      (collateral_at banks (bals ! i) (ps i) = 0 \<or> quoted fx sdk banks clk TimeWeighted (ais ! (i * 2 + 1)) (bals ! i) (ps i))"
    by metis
  have "(\<Sum>i < length bals. debt_at banks (bals ! i) (ps i)) \<le> (\<Sum>i < length bals. snd (vs ! i))"
    using ps by (intro sum_mono) simp
  also have "\<dots> \<le> (\<Sum>i < length bals. fst (vs ! i))"
    using AL sums(2) len by (simp add: sum_list_sum_nth atLeast0LessThan)
  also have "\<dots> \<le> (\<Sum>i < length bals. collateral_at banks (bals ! i) (ps i))"
    using ps by (intro sum_mono) simp
  finally show ?thesis
    using ps risk_tiers_OkD [OF ld tiers] nth_mem [of _ bals] unfolding bals_def by blast
qed

text \<open>
  C37. An account that passes the initial health check outside a flash loan cannot be declared
  bankrupt in the same state: the equity requirement uses the same time-weighted prices without
  weights, so its assets still cover its liabilities, and the bankruptcy check fails.
\<close>

theorem init_healthy_not_bankrupt:
  assumes "fixed_point fx" and "account_ok (balances a)" and "store_ok banks"
    and "check_account_init_health fx sdk banks clk a ais = Ok ()" and "\<not> get_flag a IN_FLASHLOAN_FLAG"
  shows "\<not> is_ok (bind (risk_engine_new sdk banks clk a ais) (check_account_bankrupt fx sdk banks))"
proof
  assume "is_ok (bind (risk_engine_new sdk banks clk a ais) (check_account_bankrupt fx sdk banks))"
  then obtain re where re: "risk_engine_new sdk banks clk a ais = Ok re" "check_account_bankrupt fx sdk banks re = Ok ()"
    by (auto simp: is_ok_iff bind_Ok_iff)
  obtain bps A L where ld: "load_bank_accounts sdk banks clk (balances a) ais = Ok bps"
    and sums: "sum_health_components fx sdk banks Initial bps 0 0 = Ok (A, L)" "L \<le> A"
    by (rule init_health_OkD [OF assms(4,5)])
  have "re = \<lparr>re_marginfi_account = a, re_bank_accounts_with_price = bps\<rparr>"
    using re(1) ld by (simp add: risk_engine_new_def new_no_flashloan_check_def bind_Ok_iff)
  with re(2) obtain A' L' where eq: "sum_health_components fx sdk banks Equity bps 0 0 = Ok (A', L')" "A' < L'"
    by (auto simp: check_account_bankrupt_def get_account_health_components_def to_weight_type_def bind_Ok_iff
        check_Ok_iff ZERO_def)
  have ok: "balance_ok (bp_balance bp)" if "bp \<in> set bps" for bp
    using that loaded_balances(1) [OF ld] assms(2)
    by (metis account_ok_def filter_is_subset image_eqI list.set_map subsetD)
  have "A \<le> A' \<and> L' \<le> L"
    by (rule fixed_point.sum_health_components_mono [OF assms(1) _ sums(1) eq(1)])
      (use fixed_point.position_init_equity [OF assms(1) ok assms(3)] in auto)
  with eq(2) sums(2) show False by simp
qed

text \<open>
  An account for the examples: 100 tokens deposited in one bank and 10 borrowed from another, at
  the same price; and the accounts the engine reads, bank and oracle for each.
\<close>

definition example_margin_account :: marginfi_account where
  "example_margin_account = \<lparr>ma_group = 3, ma_authority = 4, balances =
     \<lparr>active = True, bank_pk = 51, asset_shares = 100000000 * SCALE, liability_shares = 0,
      emissions_outstanding = 0, bal_last_update = 0\<rparr> #
     \<lparr>active = True, bank_pk = 52, asset_shares = 0, liability_shares = 10000000 * SCALE,
      emissions_outstanding = 0, bal_last_update = 0\<rparr> # replicate 14 empty_deactivated,
     account_flags = 0\<rparr>"

definition example_banks :: bank_store where
  "example_banks k = (if k = 51 \<or> k = 52 then Some example_bank else None)"

definition example_clock :: clock where
  "example_clock = \<lparr>unix_timestamp = 0, epoch = 7\<rparr>"

definition example_bank_ai :: "pubkey \<Rightarrow> account_info" where
  "example_bank_ai k = \<lparr>ai_key = k, ai_owner = 99, ai_data = []\<rparr>"

definition example_oracle_ai :: account_info where
  "example_oracle_ai = \<lparr>ai_key = 21, ai_owner = PYTH_ID, ai_data = [100, 1]\<rparr>"

definition example_ais :: "account_info list" where
  "example_ais = [example_bank_ai 51, example_oracle_ai, example_bank_ai 52, example_oracle_ai]"

lemma example_account_healthy:
  "account_ok (balances example_margin_account)" "store_ok example_banks"
  "check_account_init_health i80f48_ref example_sdk example_banks example_clock example_margin_account example_ais = Ok ()"
  "\<not> get_flag example_margin_account IN_FLASHLOAN_FLAG"
proof -
  have "bank_ok example_bank" by code_simp
  then show "store_ok example_banks"
    by (simp add: store_ok_def example_banks_def)
qed code_simp+

theorem init_health_covers_debts_witness:
  "\<exists>ps. (\<Sum>i < length (filter active (balances example_margin_account)).
      debt_at example_banks (filter active (balances example_margin_account) ! i) (ps i))
    \<le> (\<Sum>i < length (filter active (balances example_margin_account)).
      collateral_at example_banks (filter active (balances example_margin_account) ! i) (ps i))"
  using init_health_covers_debts [OF reference.fixed_point_axioms example_account_healthy] by blast

theorem init_healthy_not_bankrupt_witness:
  "\<not> is_ok (bind (risk_engine_new example_sdk example_banks example_clock example_margin_account example_ais)
       (check_account_bankrupt i80f48_ref example_sdk example_banks))"
  by (rule init_healthy_not_bankrupt [OF reference.fixed_point_axioms example_account_healthy])

end
