(* ===== verification/Token_Fee.thy ===== *)
theory Token_Fee
  imports Bank
begin

text \<open>
  Transfer fees of Token-2022 mints, \<^verbatim>\<open>utils.rs\<close>: the amount to send so that a given amount
  arrives, the amount that arrives, and the mint account at the head of the remaining accounts.

  The token programs are parameters. \<open>mint_ops\<close> holds their two addresses and what the code reads
  from a mint: whether the account parses as a mint, the fee of an epoch (\<^verbatim>\<open>get_extension\<close> and
  \<^verbatim>\<open>get_epoch_fee\<close>), and the fee the token program takes (\<^verbatim>\<open>calculate_epoch_fee\<close>).
\<close>

section \<open>Token programs\<close>

record transfer_fee =
  tf_maximum_fee :: u64
  tf_basis_points :: u16

text \<open>
  \<open>mint_epoch_fee\<close> is \<open>None\<close> when the data does not unpack as a mint, and \<open>Some None\<close> when the mint
  has no transfer fee extension.
\<close>

record mint_ops =
  token_id :: pubkey
  token_2022_id :: pubkey
  mint_parses :: "account_info \<Rightarrow> bool"
  mint_decimals_of :: "account_info \<Rightarrow> u8"
  mint_epoch_fee :: "account_info \<Rightarrow> u64 \<Rightarrow> transfer_fee option option"
  mint_calculate_epoch_fee :: "account_info \<Rightarrow> u64 \<Rightarrow> u64 \<Rightarrow> u64 option"

section \<open>Checked integers\<close>

definition checked_u128 :: "int \<Rightarrow> int option" where
  "checked_u128 n = (if 0 \<le> n \<and> n < 2 ^ 128 then Some n else None)"

definition checked_u64 :: "int \<Rightarrow> u64 option" where
  "checked_u64 n = (if 0 \<le> n \<and> n < 2 ^ 64 then Some (word_of_int n) else None)"

section \<open>Fee computations\<close>

definition ONE_IN_BASIS_POINTS :: int where
  "ONE_IN_BASIS_POINTS = 10000"

definition ceil_div :: "int \<Rightarrow> int \<Rightarrow> int option" where
  "ceil_div numerator denominator =
     Option.bind (checked_u128 (numerator + denominator)) (\<lambda>s.
     Option.bind (checked_u128 (s - 1)) (\<lambda>r.
     if denominator = 0 then None else Some (r div denominator)))"

definition calculate_pre_fee_amount :: "transfer_fee \<Rightarrow> u64 \<Rightarrow> u64 option" where
  "calculate_pre_fee_amount fee post_fee_amount =
     (let maximum_fee = uint (tf_maximum_fee fee);
          basis_points = uint (tf_basis_points fee);
          post = uint post_fee_amount in
      if basis_points = 0 then Some post_fee_amount
      else if post = 0 then Some 0
      else if basis_points = ONE_IN_BASIS_POINTS then checked_u64 (maximum_fee + post)
      else Option.bind (checked_u128 (post * ONE_IN_BASIS_POINTS)) (\<lambda>numerator.
           Option.bind (checked_u128 (ONE_IN_BASIS_POINTS - basis_points)) (\<lambda>denominator.
           Option.bind (ceil_div numerator denominator) (\<lambda>raw_pre_fee_amount.
           Option.bind (checked_u128 (raw_pre_fee_amount - post)) (\<lambda>raw_fee.
           if maximum_fee \<le> raw_fee then checked_u64 (post + maximum_fee)
           else checked_u64 raw_pre_fee_amount)))))"

definition calculate_pre_fee_spl_deposit_amount :: "mint_ops \<Rightarrow> account_info \<Rightarrow> u64 \<Rightarrow> u64 \<Rightarrow> u64 result" where
  "calculate_pre_fee_spl_deposit_amount mo mint_ai post_fee_amount ep =
     (if ai_owner mint_ai = token_id mo then Ok post_fee_amount
      else bind (ok_or (mint_epoch_fee mo mint_ai ep) (Anchor CallFailed)) (\<lambda>ext.
           case ext of
             Some epoch_fee \<Rightarrow> unwrap (calculate_pre_fee_amount epoch_fee post_fee_amount)
           | None \<Rightarrow> Ok post_fee_amount))"

definition calculate_post_fee_spl_deposit_amount :: "mint_ops \<Rightarrow> account_info \<Rightarrow> u64 \<Rightarrow> u64 \<Rightarrow> u64 result" where
  "calculate_post_fee_spl_deposit_amount mo mint_ai input_amount ep =
     (if ai_owner mint_ai = token_id mo then Ok input_amount
      else bind (ok_or (mint_epoch_fee mo mint_ai ep) (Anchor CallFailed)) (\<lambda>ext.
           bind (if ext \<noteq> None then unwrap (mint_calculate_epoch_fee mo mint_ai ep input_amount) else Ok 0) (\<lambda>fee.
           if fee \<le> input_amount then Ok (input_amount - fee) else Err (Mfi MathError))))"

definition nonzero_fee :: "mint_ops \<Rightarrow> account_info \<Rightarrow> u64 \<Rightarrow> bool result" where
  "nonzero_fee mo mint_ai ep =
     (if ai_owner mint_ai = token_id mo then Ok False
      else bind (ok_or (mint_epoch_fee mo mint_ai ep) (Anchor CallFailed)) (\<lambda>ext.
           case ext of
             Some epoch_fee \<Rightarrow> Ok (tf_basis_points epoch_fee \<noteq> 0)
           | None \<Rightarrow> Ok False))"

text \<open>The mint, if the token program is Token-2022, and the accounts that remain after it.\<close>

definition maybe_take_bank_mint ::
    "mint_ops \<Rightarrow> account_info list \<Rightarrow> bank \<Rightarrow> pubkey \<Rightarrow> (account_info option \<times> account_info list) result" where
  "maybe_take_bank_mint mo remaining_accounts b token_program =
     (if token_program = token_id mo then Ok (None, remaining_accounts)
      else if token_program = token_2022_id mo
      then (case remaining_accounts of
              [] \<Rightarrow> Err (Mfi T22MintRequired)
            | maybe_mint # remaining \<Rightarrow>
                if mint b \<noteq> ai_key maybe_mint then Err (Mfi T22MintRequired)
                else if mint_parses mo maybe_mint then Ok (Some maybe_mint, remaining)
                else Err (Mfi T22MintRequired))
      else Err Panic)"

text \<open>
  \<^verbatim>\<open>maybe_bank_mint.map(|mint| calculate_pre_fee_spl_deposit_amount(..)).transpose()?.unwrap_or(amount)\<close>,
  as the handlers write it.
\<close>

definition pre_fee_of :: "mint_ops \<Rightarrow> account_info option \<Rightarrow> u64 \<Rightarrow> u64 \<Rightarrow> u64 result" where
  "pre_fee_of mo maybe_mint amount ep = (case maybe_mint of
     Some m \<Rightarrow> calculate_pre_fee_spl_deposit_amount mo m amount ep
   | None \<Rightarrow> Ok amount)"

section \<open>What the token program takes\<close>

text \<open>
  The fee of a transfer: the basis points of the amount, rounded up, and at most the maximum.
\<close>

definition fee_taken :: "transfer_fee \<Rightarrow> int \<Rightarrow> int" where
  "fee_taken fee amount =
     min (- (- (amount * uint (tf_basis_points fee)) div ONE_IN_BASIS_POINTS)) (uint (tf_maximum_fee fee))"

definition delivered :: "transfer_fee \<Rightarrow> int \<Rightarrow> int" where
  "delivered fee amount = amount - fee_taken fee amount"

text \<open>
  The documented behaviour of the token program: a fee is at most one hundred percent, and
  \<^verbatim>\<open>calculate_epoch_fee\<close> is the fee taken.
\<close>

locale token_2022 =
  fixes mo :: mint_ops
  assumes basis_points_le: "mint_epoch_fee mo m ep = Some (Some fee) \<Longrightarrow> uint (tf_basis_points fee) \<le> ONE_IN_BASIS_POINTS"
    and calculate_epoch_fee_law: "mint_epoch_fee mo m ep = Some (Some fee) \<Longrightarrow>
      mint_calculate_epoch_fee mo m ep amount = Some (word_of_int (fee_taken fee (uint amount)))"

lemma delivered_alt:
  "delivered fee x = max (x * (ONE_IN_BASIS_POINTS - uint (tf_basis_points fee)) div ONE_IN_BASIS_POINTS)
     (x - uint (tf_maximum_fee fee))"
proof -
  have "x + - (x * p) div (10000 :: int) = x * (10000 - p) div 10000" for p
    using div_mult_self3 [of 10000 x "- (x * p)"] by (simp add: right_diff_distrib algebra_simps)
  from this [of "uint (tf_basis_points fee)"] show ?thesis
    by (simp add: delivered_def fee_taken_def ONE_IN_BASIS_POINTS_def min_def max_def)
qed

text \<open>
  What arrives is monotone in what is sent, and a sent amount that delivers at least \<open>post\<close> is
  minimal when one unit less does not.
\<close>

lemma delivered_mono:
  assumes "uint (tf_basis_points fee) \<le> ONE_IN_BASIS_POINTS" and "x \<le> y"
  shows "delivered fee x \<le> delivered fee y"
  unfolding delivered_alt
  using assms by (intro max.mono zdiv_mono1 mult_right_mono) (simp_all add: ONE_IN_BASIS_POINTS_def)

lemma ceil_div_Some_iff:
  assumes "0 \<le> n" and "0 < d" and "n + d < 2 ^ 128"
  shows "ceil_div n d = Some q \<longleftrightarrow> q = (n + d - 1) div d"
  using assms by (auto simp: ceil_div_def checked_u128_def)

text \<open>The least amount whose share after the fee, rounded down, reaches \<open>post\<close>.\<close>

lemma ceil_share:
  fixes post d :: int
  assumes "0 < post" and "0 < d" and "d \<le> 10000"
  defines "q \<equiv> (post * 10000 + d - 1) div d"
  shows "q * d div 10000 = post" and "(q - 1) * d div 10000 < post" and "post \<le> q"
proof -
  have "q * d + (post * 10000 + d - 1) mod d = post * 10000 + d - 1"
    unfolding q_def by simp
  moreover have "0 \<le> (post * 10000 + d - 1) mod d" "(post * 10000 + d - 1) mod d < d"
    using assms(2) by simp_all
  ultimately have b: "post * 10000 \<le> q * d" "q * d < post * 10000 + d"
    by linarith+
  show "q * d div 10000 = post"
    using b assms(3) by (intro int_div_pos_eq [of _ 10000 post "q * d - post * 10000"]) simp_all
  show "(q - 1) * d div 10000 < post"
    using b by (simp add: left_diff_distrib div_less_iff_less_mult)
  show "post \<le> q"
  proof (rule ccontr)
    assume "\<not> post \<le> q"
    then have "q * d < post * 10000"
      using assms(1-3) mult_right_mono [of q "post - 1" d] mult_left_mono [of d 10000 "post - 1"]
      by (simp add: left_diff_distrib)
    with b show False by simp
  qed
qed

lemma checked_u64_uint [simp]: "checked_u64 (uint (x :: u64)) = Some x"
  using uint_bounded [of x] by (simp add: checked_u64_def)

lemma checked_u64_Some_iff: "checked_u64 n = Some x \<longleftrightarrow> n = uint x"
  using uint_bounded [of x] by (auto simp: checked_u64_def uint_u64_of_int)

text \<open>The computation yields the least amount that delivers \<open>post\<close>, if it is a 64-bit integer.\<close>

lemma pre_fee_least:
  assumes "uint (tf_basis_points fee) \<le> ONE_IN_BASIS_POINTS"
  obtains n where "0 \<le> n" and "calculate_pre_fee_amount fee post = checked_u64 n"
    and "delivered fee n = uint post" and "0 < n \<longrightarrow> delivered fee (n - 1) < uint post"
proof -
  define p where "p = uint (tf_basis_points fee)"
  define cap where "cap = uint (tf_maximum_fee fee)"
  define x where "x = uint post"
  note fold = p_def [symmetric] cap_def [symmetric] x_def [symmetric]
  have dv: "delivered fee n = max (n * (10000 - p) div 10000) (n - cap)" for n
    by (simp add: delivered_alt ONE_IN_BASIS_POINTS_def fold)
  have ranges: "0 \<le> p" "p \<le> 10000" "0 \<le> cap" "0 \<le> x" "x < 2 ^ 64"
    using assms uint_bounded [of post] by (simp_all add: p_def cap_def x_def ONE_IN_BASIS_POINTS_def)
  have post: "checked_u64 x = Some post" "x = 0 \<Longrightarrow> post = 0"
    by (simp_all add: x_def uint_0_iff)
  consider "p = 0 \<or> x = 0" | "p = 10000" "0 < x" | "0 < p" "p < 10000" "0 < x"
    using ranges by linarith
  then show thesis
  proof cases
    case 1
    then show thesis
      using ranges that [of x]
      by (auto simp: dv fold post calculate_pre_fee_amount_def)
  next
    case 2
    then show thesis
      using ranges that [of "cap + x"]
      by (simp add: dv fold calculate_pre_fee_amount_def ONE_IN_BASIS_POINTS_def)
  next
    case 3
    define q where "q = (x * 10000 + (10000 - p) - 1) div (10000 - p)"
    have d: "0 < 10000 - p" "10000 - p \<le> 10000"
      using 3 by simp_all
    note q = ceil_share [OF 3(3) d, folded q_def]
    have "q \<le> x * 10000 + 10000"
      using 3 ranges quot_le_self [of "x * 10000 + (10000 - p) - 1" "10000 - p"] by (simp add: q_def)
    moreover have "ceil_div (x * 10000) (10000 - p) = Some q"
      using 3 ranges by (subst ceil_div_Some_iff) (simp_all add: q_def)
    ultimately have run: "calculate_pre_fee_amount fee post = checked_u64 (if cap \<le> q - x then x + cap else q)"
      using 3 ranges q(3)
      by (simp add: calculate_pre_fee_amount_def fold Let_def ONE_IN_BASIS_POINTS_def checked_u128_def)
    show thesis
    proof (rule that [OF _ run])
      show "0 \<le> (if cap \<le> q - x then x + cap else q)"
        using q(3) ranges by simp
      have "(x + cap) * (10000 - p) div 10000 \<le> q * (10000 - p) div 10000" if "cap \<le> q - x"
        using that 3 by (intro zdiv_mono1 mult_right_mono) simp_all
      then show "delivered fee (if cap \<le> q - x then x + cap else q) = uint post"
        using q by (auto simp: dv fold)
      have "(x + cap - 1) * (10000 - p) div 10000 \<le> (q - 1) * (10000 - p) div 10000" if "cap \<le> q - x"
        using that 3 by (intro zdiv_mono1 mult_right_mono) simp_all
      then show "0 < (if cap \<le> q - x then x + cap else q) \<longrightarrow>
          delivered fee ((if cap \<le> q - x then x + cap else q) - 1) < uint post"
        using q by (auto simp: dv fold)
    qed
  qed
qed

lemma fee_taken_bounds:
  assumes "uint (tf_basis_points fee) \<le> ONE_IN_BASIS_POINTS" and "0 \<le> x"
  shows "0 \<le> fee_taken fee x" and "fee_taken fee x \<le> x"
proof -
  have "0 \<le> x * (10000 - uint (tf_basis_points fee)) div 10000"
    using assms by (simp add: ONE_IN_BASIS_POINTS_def pos_imp_zdiv_nonneg_iff)
  then show "fee_taken fee x \<le> x"
    using delivered_alt [of fee x] by (simp add: delivered_def ONE_IN_BASIS_POINTS_def)
  have "- (x * uint (tf_basis_points fee)) div 10000 \<le> 0"
    using assms(2) zdiv_mono1 [of "- (x * uint (tf_basis_points fee))" 0 10000] by simp
  then show "0 \<le> fee_taken fee x"
    by (simp add: fee_taken_def ONE_IN_BASIS_POINTS_def)
qed

context token_2022
begin

lemma post_fee_delivered:
  assumes "ai_owner m \<noteq> token_id mo" and "mint_epoch_fee mo m ep = Some (Some fee)"
  shows "calculate_post_fee_spl_deposit_amount mo m x ep = Ok y \<longleftrightarrow> uint y = delivered fee (uint x)"
proof -
  define t where "t = fee_taken fee (uint x)"
  have t: "0 \<le> t" "t \<le> uint x"
    unfolding t_def using fee_taken_bounds [OF basis_points_le [OF assms(2)], of "uint x"] by simp_all
  have u: "uint (word_of_int t :: u64) = t"
    using t uint_bounded [of x] by (intro uint_u64_of_int) simp_all
  have "uint (x - word_of_int t) = uint x - t"
    using t u by (simp add: uint_sub_if')
  then show ?thesis
    using t u assms calculate_epoch_fee_law [OF assms(2)]
    by (auto simp: calculate_post_fee_spl_deposit_amount_def word_le_def delivered_def t_def [symmetric]
        word_uint_eq_iff)
qed

text \<open>Whatever \<open>x\<close> delivers at least can be delivered by sending no more than \<open>x\<close>.\<close>

lemma pre_fee_within:
  assumes "calculate_post_fee_spl_deposit_amount mo m x ep = Ok y" and "z \<le> y"
    and "calculate_pre_fee_spl_deposit_amount mo m z ep = Ok pre"
  shows "pre \<le> x"
proof (cases "\<exists>fee. ai_owner m \<noteq> token_id mo \<and> mint_epoch_fee mo m ep = Some (Some fee)")
  case True
  then obtain fee where fee: "ai_owner m \<noteq> token_id mo" "mint_epoch_fee mo m ep = Some (Some fee)"
    by blast
  note le = basis_points_le [OF fee(2)]
  obtain n where n: "calculate_pre_fee_amount fee z = checked_u64 n" "0 < n \<longrightarrow> delivered fee (n - 1) < uint z"
    using pre_fee_least [OF le] by blast
  have pre: "n = uint pre"
    using assms(3) fee n(1)
    by (simp add: calculate_pre_fee_spl_deposit_amount_def ok_or_Ok_iff checked_u64_Some_iff)
  have "uint z \<le> delivered fee (uint x)"
    using assms(1,2) post_fee_delivered [OF fee] by (simp add: word_le_def)
  show ?thesis
  proof (rule ccontr)
    assume "\<not> pre \<le> x"
    then have x: "uint x \<le> n - 1" and "0 < n"
      using uint_nonnegative [of x] unfolding pre word_le_def by linarith+
    with n(2) delivered_mono [OF le x] \<open>uint z \<le> delivered fee (uint x)\<close> show False by simp
  qed
next
  case False
  with assms show ?thesis
    by (auto simp: calculate_post_fee_spl_deposit_amount_def calculate_pre_fee_spl_deposit_amount_def bind_Ok_iff ok_or_Ok_iff
        split: if_splits option.splits)
qed

end

section \<open>Properties\<close>

text \<open>
  C38. Sending the amount computed from a wanted amount delivers exactly the wanted amount, and no
  smaller amount does; the computation gives up only if no 64-bit amount delivers it, or if the
  mint does not unpack.
\<close>

theorem pre_fee_round_trip:
  assumes "token_2022 mo"
  shows "case calculate_pre_fee_spl_deposit_amount mo m post ep of
      Inr pre \<Rightarrow> calculate_post_fee_spl_deposit_amount mo m pre ep = Ok post \<and>
        (\<forall>x. x < pre \<longrightarrow> calculate_post_fee_spl_deposit_amount mo m x ep \<noteq> Ok post)
    | Inl e \<Rightarrow> (if e = Panic then \<forall>x. calculate_post_fee_spl_deposit_amount mo m x ep \<noteq> Ok post
        else e = Anchor CallFailed \<and> mint_epoch_fee mo m ep = None)"
proof (cases "\<exists>fee. ai_owner m \<noteq> token_id mo \<and> mint_epoch_fee mo m ep = Some (Some fee)")
  case True
  then obtain fee where fee: "ai_owner m \<noteq> token_id mo" "mint_epoch_fee mo m ep = Some (Some fee)"
    by blast
  note bp = token_2022.basis_points_le [OF assms fee(2)]
  note post = token_2022.post_fee_delivered [OF assms fee]
  obtain n where "0 \<le> n"
    and n: "calculate_pre_fee_amount fee post = checked_u64 n" "delivered fee n = uint post"
      "0 < n \<longrightarrow> delivered fee (n - 1) < uint post"
    by (rule pre_fee_least [OF bp, where post = post])
  have less: "delivered fee (uint x) < uint post" if "uint x < n" for x :: u64
  proof -
    have "0 < n"
      using that uint_nonnegative [of x] by linarith
    with n(3) that delivered_mono [OF bp, of "uint x" "n - 1"] show ?thesis
      by simp
  qed
  show ?thesis
  proof (cases "checked_u64 n")
    case None
    with \<open>0 \<le> n\<close> have "uint x < n" for x :: u64
      using uint_bounded [of x] by (simp add: checked_u64_def split: if_splits)
    with less None n fee show ?thesis
      by (fastforce simp: calculate_pre_fee_spl_deposit_amount_def post)
  next
    case (Some pre)
    with less n fee show ?thesis
      by (fastforce simp: calculate_pre_fee_spl_deposit_amount_def post checked_u64_Some_iff word_less_def)
  qed
next
  case False
  then show ?thesis
    by (cases "ai_owner m = token_id mo"; cases "mint_epoch_fee mo m ep")
      (auto simp: calculate_pre_fee_spl_deposit_amount_def calculate_post_fee_spl_deposit_amount_def)
qed

text \<open>
  A concrete Token-2022 for the examples: a mint is two bytes, percent and maximum fee, or no
  bytes for a mint without the extension.
\<close>

definition example_epoch_fee :: "account_info \<Rightarrow> u64 \<Rightarrow> transfer_fee option option" where
  "example_epoch_fee m ep = (case ai_data m of
     [] \<Rightarrow> Some None
   | [p, cap] \<Rightarrow> if p \<le> 100 then Some (Some \<lparr>tf_maximum_fee = ucast cap, tf_basis_points = 100 * ucast p\<rparr>) else None
   | _ \<Rightarrow> None)"

definition example_mint_ops :: mint_ops where
  "example_mint_ops = \<lparr>token_id = 1, token_2022_id = 2, mint_parses = (\<lambda>m. example_epoch_fee m 0 \<noteq> None),
     mint_decimals_of = (\<lambda>_. 6),
     mint_epoch_fee = example_epoch_fee,
     mint_calculate_epoch_fee = (\<lambda>m ep amount. case example_epoch_fee m ep of
        Some (Some fee) \<Rightarrow> Some (word_of_int (fee_taken fee (uint amount))) | _ \<Rightarrow> None)\<rparr>"

definition example_mint :: account_info where
  "example_mint = \<lparr>ai_key = 40, ai_owner = 2, ai_data = [3, 50]\<rparr>"

interpretation reference_mints: token_2022 example_mint_ops
proof unfold_locales
  fix m ep fee
  assume "mint_epoch_fee example_mint_ops m ep = Some (Some fee)"
  then obtain p where p: "p \<le> 100" "tf_basis_points fee = 100 * ucast (p :: u8)"
    by (auto simp: example_mint_ops_def example_epoch_fee_def split: list.splits if_splits)
  then have "0 \<le> uint p" "uint p \<le> 100"
    by (simp_all add: word_le_def)
  with p(2) show "uint (tf_basis_points fee) \<le> ONE_IN_BASIS_POINTS"
    by (simp add: ONE_IN_BASIS_POINTS_def uint_word_ariths unsigned_ucast_eq take_bit_int_eq_self)
qed (simp add: example_mint_ops_def)

theorem pre_fee_round_trip_witness:
  "calculate_pre_fee_spl_deposit_amount example_mint_ops example_mint 1000 7 = Ok 1031 \<and>
   calculate_post_fee_spl_deposit_amount example_mint_ops example_mint 1031 7 = Ok 1000 \<and>
   calculate_post_fee_spl_deposit_amount example_mint_ops example_mint 1030 7 \<noteq> Ok 1000"
proof -
  have run: "calculate_pre_fee_spl_deposit_amount example_mint_ops example_mint 1000 7 = Ok 1031"
    by code_simp
  have "(1030 :: u64) < 1031" by simp
  with pre_fee_round_trip [OF reference_mints.token_2022_axioms, of example_mint 7 1000] show ?thesis
    unfolding run sum.case by blast
qed

end
