(* ===== verification/World.thy ===== *)
theory World
  imports Risk_Engine Token_Fee
begin

text \<open>
  The accounts the program works on and what the runtime provides.

  The state of the program is the record \<open>world\<close>: the accounts owned by the program, by key, one
  map per account type, the fee state, and the balances of token accounts and of native tokens.
  Loading an account that is not of the expected type fails.

  \<open>runtime\<close> collects the parameters: the arithmetic, the oracle SDKs, the token programs, the
  clock, program-derived addresses (\<open>create_address\<close> for a seed, keys and a given bump,
  \<open>find_address\<close> for the canonical one, \<open>find_bank_address\<close> for the bank of a group, a mint and a
  number), associated token accounts, and the system transfer.

  An instruction is a function from the world to a result: the new world, or the error, in which
  case the transaction is undone. The \<^verbatim>\<open>#[derive(Accounts)]\<close> struct of an instruction is a record of
  the keys passed in; the functions named \<open>_constraints\<close> are its attributes, checked before the
  handler. A key in a signer field stands for an account that signed.
\<close>

record runtime =
  rt_fx :: fixed_ops
  rt_sdk :: oracle_sdk
  rt_tk :: token_ops
  rt_mints :: mint_ops
  rt_clock :: clock
  rt_create_address :: "string \<Rightarrow> pubkey list \<Rightarrow> u8 \<Rightarrow> pubkey option"
  rt_find_address :: "string \<Rightarrow> pubkey list \<Rightarrow> pubkey \<times> u8"
  rt_find_bank_address :: "pubkey \<Rightarrow> pubkey \<Rightarrow> u64 \<Rightarrow> pubkey \<times> u8"
  rt_associated_token_address :: "pubkey \<Rightarrow> pubkey \<Rightarrow> pubkey \<Rightarrow> pubkey"
  rt_system_transfer :: "ledger \<Rightarrow> pubkey \<Rightarrow> pubkey \<Rightarrow> u64 \<Rightarrow> ledger option"

record world =
  w_groups :: "pubkey \<Rightarrow> marginfi_group option"
  w_banks :: bank_store
  w_accounts :: "pubkey \<Rightarrow> marginfi_account option"
  w_fee_state :: "fee_state option"
  w_ledger :: ledger
  w_lamports :: ledger

abbreviation now :: "runtime \<Rightarrow> i64" where
  "now rt \<equiv> unix_timestamp (rt_clock rt)"

section \<open>Loading and storing\<close>

definition load_group :: "world \<Rightarrow> pubkey \<Rightarrow> marginfi_group result" where
  "load_group w pk = ok_or (w_groups w pk) (Anchor AccountNotLoadable)"

definition load_account :: "world \<Rightarrow> pubkey \<Rightarrow> marginfi_account result" where
  "load_account w pk = ok_or (w_accounts w pk) (Anchor AccountNotLoadable)"

definition load_bank_at :: "world \<Rightarrow> pubkey \<Rightarrow> bank result" where
  "load_bank_at w pk = ok_or (w_banks w pk) (Anchor AccountNotLoadable)"

definition load_fee_state :: "world \<Rightarrow> fee_state result" where
  "load_fee_state w = ok_or (w_fee_state w) (Anchor AccountNotLoadable)"

definition store_bank :: "pubkey \<Rightarrow> bank \<Rightarrow> world \<Rightarrow> world" where
  "store_bank pk b w = w\<lparr>w_banks := (w_banks w)(pk \<mapsto> b)\<rparr>"

definition store_account :: "pubkey \<Rightarrow> marginfi_account \<Rightarrow> world \<Rightarrow> world" where
  "store_account pk a w = w\<lparr>w_accounts := (w_accounts w)(pk \<mapsto> a)\<rparr>"

definition store_group :: "pubkey \<Rightarrow> marginfi_group \<Rightarrow> world \<Rightarrow> world" where
  "store_group pk g w = w\<lparr>w_groups := (w_groups w)(pk \<mapsto> g)\<rparr>"

lemma store_simps [simp]:
  "w_accounts (store_bank bk b w) = w_accounts w" "w_banks (store_bank bk b w) = (w_banks w)(bk \<mapsto> b)"
  "w_accounts (store_account ak a w) = (w_accounts w)(ak \<mapsto> a)" "w_banks (store_account ak a w) = w_banks w"
  "w_groups (store_bank bk b w) = w_groups w" "w_groups (store_account ak a w) = w_groups w"
  "w_ledger (store_bank bk b w) = w_ledger w" "w_ledger (store_account ak a w) = w_ledger w"
  by (simp_all add: store_bank_def store_account_def)

definition unused :: "world \<Rightarrow> pubkey \<Rightarrow> bool" where
  "unused w pk \<longleftrightarrow> w_groups w pk = None \<and> w_banks w pk = None \<and> w_accounts w pk = None \<and>
     (case w_fee_state w of Some fs \<Rightarrow> fst_key fs \<noteq> pk | None \<Rightarrow> True)"

text \<open>
  The balance at index \<open>i\<close> and the bank, put back after an operation of \<^verbatim>\<open>BankAccountWrapper\<close>.
\<close>

definition with_balance :: "marginfi_account \<Rightarrow> lending_account \<Rightarrow> nat \<Rightarrow> balance \<Rightarrow> marginfi_account" where
  "with_balance a la i bal = a\<lparr>balances := la[i := bal]\<rparr>"

section \<open>Addresses\<close>

definition FEE_STATE_SEED :: string where "FEE_STATE_SEED = ''feestate''"
definition EMISSIONS_AUTH_SEED :: string where "EMISSIONS_AUTH_SEED = ''emissions_auth_seed''"
definition EMISSIONS_TOKEN_ACCOUNT_SEED :: string where
  "EMISSIONS_TOKEN_ACCOUNT_SEED = ''emissions_token_account_seed''"

text \<open>\<^verbatim>\<open>seeds = [SEED, bank], bump = bank.bump\<close> and \<^verbatim>\<open>seeds = [SEED, keys..], bump\<close>.\<close>

definition require_address :: "runtime \<Rightarrow> string \<Rightarrow> pubkey list \<Rightarrow> u8 \<Rightarrow> pubkey \<Rightarrow> unit result" where
  "require_address rt seed keys bump pk = require (rt_create_address rt seed keys bump = Some pk) ConstraintSeeds"

definition require_found_address :: "runtime \<Rightarrow> string \<Rightarrow> pubkey list \<Rightarrow> pubkey \<Rightarrow> unit result" where
  "require_found_address rt seed keys pk = require (fst (rt_find_address rt seed keys) = pk) ConstraintSeeds"

definition find_bank_vault_pda :: "runtime \<Rightarrow> pubkey \<Rightarrow> bank_vault_type \<Rightarrow> pubkey \<times> u8" where
  "find_bank_vault_pda rt bk vault_type = rt_find_address rt (get_seed vault_type) [bk]"

definition find_bank_vault_authority_pda :: "runtime \<Rightarrow> pubkey \<Rightarrow> bank_vault_type \<Rightarrow> pubkey \<times> u8" where
  "find_bank_vault_authority_pda rt bk vault_type = rt_find_address rt (get_authority_seed vault_type) [bk]"

text \<open>\<^verbatim>\<open>Interface<'info, TokenInterface>\<close>: one of the two token programs.\<close>

definition require_token_program :: "runtime \<Rightarrow> pubkey \<Rightarrow> unit result" where
  "require_token_program rt pk =
     require (pk = token_id (rt_mints rt) \<or> pk = token_2022_id (rt_mints rt)) AccountNotLoadable"

section \<open>Shares held by accounts\<close>

text \<open>The shares of one bank that an account holds, and that all accounts hold together.\<close>

definition held :: "(balance \<Rightarrow> int) \<Rightarrow> pubkey \<Rightarrow> lending_account \<Rightarrow> int" where
  "held f bk la = sum_list (map f (filter (\<lambda>bal. active bal \<and> bank_pk bal = bk) la))"

definition held_by_all :: "(balance \<Rightarrow> int) \<Rightarrow> pubkey \<Rightarrow> (pubkey \<Rightarrow> marginfi_account option) \<Rightarrow> int" where
  "held_by_all f bk accounts = (\<Sum>ak \<in> dom accounts. held f bk (balances (the (accounts ak))))"

text \<open>
  A bank backs the accounts: it is well formed and its totals are at least the shares they hold.
\<close>

definition backs :: "(pubkey \<Rightarrow> marginfi_account option) \<Rightarrow> pubkey \<Rightarrow> bank \<Rightarrow> bool" where
  "backs accounts bk b \<longleftrightarrow> bank_ok b \<and> 1 < asset_share_value b \<and> 1 < liability_share_value b \<and>
     held_by_all asset_shares bk accounts \<le> total_asset_shares b \<and>
     held_by_all liability_shares bk accounts \<le> total_liability_shares b"

text \<open>
  The program takes between none and all of a fee. Nothing in the code checks this rate, which the
  fee admin sets.
\<close>

definition fee_rate_ok :: "i80f48 \<Rightarrow> bool" where
  "fee_rate_ok rate \<longleftrightarrow> 0 \<le> rate \<and> rate \<le> SCALE"

definition world_ok :: "world \<Rightarrow> bool" where
  "world_ok w \<longleftrightarrow> finite (dom (w_accounts w)) \<and>
     (\<forall>ak a. w_accounts w ak = Some a \<longrightarrow> account_ok (balances a)) \<and>
     (\<forall>bk b. w_banks w bk = Some b \<longrightarrow> backs (w_accounts w) bk b) \<and>
     (\<forall>bk. w_banks w bk = None \<longrightarrow> held_by_all asset_shares bk (w_accounts w) \<le> 0 \<and>
        held_by_all liability_shares bk (w_accounts w) \<le> 0) \<and>
     (\<forall>gk g. w_groups w gk = Some g \<longrightarrow> fee_rate_ok (fsc_program_fee_rate (grp_fee_state_cache g))) \<and>
     (\<forall>fs. w_fee_state w = Some fs \<longrightarrow> fee_rate_ok (program_fee_rate fs))"

text \<open>What an operation on a balance and its bank guarantees to the rest of the world.\<close>

definition position_step :: "bank_account_wrapper \<Rightarrow> bank_account_wrapper \<Rightarrow> bool" where
  "position_step w w' \<longleftrightarrow> wrapper_ok w' \<and>
     asset_shares (bw_balance w') - asset_shares (bw_balance w)
       \<le> total_asset_shares (bw_bank w') - total_asset_shares (bw_bank w) \<and>
     liability_shares (bw_balance w') - liability_shares (bw_balance w)
       \<le> total_liability_shares (bw_bank w') - total_liability_shares (bw_bank w) \<and>
     (active (bw_balance w') \<longrightarrow> active (bw_balance w) \<and> bank_pk (bw_balance w') = bank_pk (bw_balance w))"

text \<open>An operation that takes nothing from the holder of the balance.\<close>

definition favours :: "bank_account_wrapper \<Rightarrow> bank_account_wrapper \<Rightarrow> bool" where
  "favours w w' \<longleftrightarrow> active (bw_balance w') = active (bw_balance w) \<and> bank_pk (bw_balance w') = bank_pk (bw_balance w) \<and>
     asset_shares (bw_balance w) \<le> asset_shares (bw_balance w') \<and> liability_shares (bw_balance w') \<le> liability_shares (bw_balance w)"

lemma amount_nonneg: "0 \<le> uint (x :: u64) * SCALE"
  by simp

section \<open>Sums of shares\<close>

definition share_of :: "(balance \<Rightarrow> int) \<Rightarrow> pubkey \<Rightarrow> balance \<Rightarrow> int" where
  "share_of f bk bal = (if active bal \<and> bank_pk bal = bk then f bal else 0)"

lemma held_alt: "held f bk la = sum_list (map (share_of f bk) la)"
  unfolding held_def by (induction la) (simp_all add: share_of_def)

lemma sum_list_map_update:
  fixes g :: "'a \<Rightarrow> int"
  shows "i < length xs \<Longrightarrow> sum_list (map g (xs[i := x])) = sum_list (map g xs) - g (xs ! i) + g x"
  by (induction xs arbitrary: i) (auto split: nat.splits)

lemma held_update:
  "i < length la \<Longrightarrow> held f bk (la[i := bal]) = held f bk la - share_of f bk (la ! i) + share_of f bk bal"
  by (simp add: held_alt sum_list_map_update)

lemma held_nonneg: "(\<And>bal. bal \<in> set la \<Longrightarrow> 0 \<le> f bal) \<Longrightarrow> 0 \<le> held f bk la"
  by (auto simp: held_def intro!: sum_list_nonneg)

lemma member_le_held:
  assumes "\<And>bal. bal \<in> set la \<Longrightarrow> 0 \<le> f bal" and "i < length la" and "active (la ! i)" and "bank_pk (la ! i) = bk"
  shows "f (la ! i) \<le> held f bk la"
proof -
  let ?xs = "filter (\<lambda>bal. active bal \<and> bank_pk bal = bk) la"
  have "f (la ! i) \<in> set (map f ?xs)"
    using assms(2-4) by auto
  then show ?thesis
    unfolding held_def using assms(1) by (intro member_le_sum_list) auto
qed

lemma held_by_all_update:
  assumes "finite (dom accounts)" and "accounts ak = Some a"
  shows "held_by_all f bk (accounts(ak \<mapsto> a')) = held_by_all f bk accounts - held f bk (balances a) + held f bk (balances a')"
proof -
  have ak: "ak \<in> dom accounts" using assms(2) by blast
  have "(\<Sum>k \<in> dom accounts - {ak}. held f bk (balances (the ((accounts(ak \<mapsto> a')) k))))
      = (\<Sum>k \<in> dom accounts - {ak}. held f bk (balances (the (accounts k))))"
    by (intro sum.cong) auto
  then show ?thesis
    using sum.remove [OF assms(1) ak, of "\<lambda>k. held f bk (balances (the (accounts k)))"]
      sum.remove [OF assms(1) ak, of "\<lambda>k. held f bk (balances (the ((accounts(ak \<mapsto> a')) k)))"] assms(2) ak
    by (simp add: held_by_all_def insert_absorb)
qed

lemma held_by_all_insert:
  assumes "finite (dom accounts)" and "accounts ak = None"
  shows "held_by_all f bk (accounts(ak \<mapsto> a)) = held_by_all f bk accounts + held f bk (balances a)"
proof -
  have "(\<Sum>k \<in> dom accounts. held f bk (balances (the ((accounts(ak \<mapsto> a)) k))))
      = (\<Sum>k \<in> dom accounts. held f bk (balances (the (accounts k))))"
    using assms(2) by (intro sum.cong) auto
  with assms show ?thesis
    by (simp add: held_by_all_def domIff)
qed

lemma held_by_all_remove:
  assumes "finite (dom accounts)" and "accounts ak = Some a"
  shows "held_by_all f bk (accounts(ak := None)) = held_by_all f bk accounts - held f bk (balances a)"
proof -
  have "ak \<in> dom accounts" using assms(2) by blast
  moreover have "(\<Sum>k \<in> dom accounts - {ak}. held f bk (balances (the ((accounts(ak := None)) k))))
      = (\<Sum>k \<in> dom accounts - {ak}. held f bk (balances (the (accounts k))))"
    by (intro sum.cong) auto
  ultimately show ?thesis
    using sum.remove [OF assms(1), of ak "\<lambda>k. held f bk (balances (the (accounts k)))"] assms(2)
    by (simp add: held_by_all_def)
qed

lemma account_ok_nonneg:
  assumes "account_ok la" and "bal \<in> set la"
  shows "0 \<le> asset_shares bal" and "0 \<le> liability_shares bal"
  using assms by (auto simp: account_ok_def balance_ok_def)

lemma held_le_held_by_all:
  assumes "finite (dom accounts)" and "\<And>k a bal. accounts k = Some a \<Longrightarrow> bal \<in> set (balances a) \<Longrightarrow> 0 \<le> f bal"
    and "accounts ak = Some a"
  shows "held f bk (balances a) \<le> held_by_all f bk accounts"
proof -
  have "held f bk (balances (the (accounts ak))) \<le> held_by_all f bk accounts"
    unfolding held_by_all_def using assms by (intro member_le_sum) (auto intro!: held_nonneg)
  with assms(3) show ?thesis by simp
qed

section \<open>Keeping the world well formed\<close>

lemma world_okD:
  assumes "world_ok w"
  shows "finite (dom (w_accounts w))" and "w_accounts w ak = Some a \<Longrightarrow> account_ok (balances a)"
    and "w_banks w bk = Some b \<Longrightarrow> backs (w_accounts w) bk b"
    and "w_groups w gk = Some g \<Longrightarrow> fee_rate_ok (fsc_program_fee_rate (grp_fee_state_cache g))"
    and "w_fee_state w = Some fs \<Longrightarrow> fee_rate_ok (program_fee_rate fs)"
    and "w_banks w bk = None \<Longrightarrow> held_by_all asset_shares bk (w_accounts w) \<le> 0 \<and>
      held_by_all liability_shares bk (w_accounts w) \<le> 0"
  using assms by (auto simp: world_ok_def)

text \<open>
  The lending account an operation works on: the balances of an account, possibly with a new
  empty balance, and the index of the active balance of the bank.
\<close>

definition position_in :: "marginfi_account \<Rightarrow> pubkey \<Rightarrow> lending_account \<Rightarrow> nat \<Rightarrow> bool" where
  "position_in a bk la i \<longleftrightarrow> account_ok la \<and> i < length la \<and> active (la ! i) \<and> bank_pk (la ! i) = bk \<and>
     (\<forall>k. held asset_shares k la = held asset_shares k (balances a) \<and>
          held liability_shares k la = held liability_shares k (balances a)) \<and>
     (\<forall>bal. active bal \<and> bank_pk bal \<noteq> bk \<longrightarrow> (bal \<in> set la \<longleftrightarrow> bal \<in> set (balances a)))"

lemma find_balance_position:
  assumes "account_ok (balances a)" and "find_balance bk (balances a) = Ok i"
  shows "position_in a bk (balances a) i"
  using assms position_SomeD [of "\<lambda>b. active b \<and> bank_pk b = bk" "balances a" i]
  by (auto simp: position_in_def find_balance_def ok_or_Ok_iff)

lemma find_or_create_position:
  assumes "account_ok (balances a)" and "find_or_create bk (balances a) t = Ok (i, la)"
  shows "position_in a bk la i"
proof (cases "position (\<lambda>b. active b \<and> bank_pk b = bk) (balances a)")
  case (Some j)
  with assms show ?thesis
    by (auto simp: find_or_create_def intro!: find_balance_position simp: find_balance_def)
next
  case None
  define new where "new = \<lparr>active = True, bank_pk = bk, asset_shares = ZERO, liability_shares = ZERO,
    emissions_outstanding = ZERO, bal_last_update = t\<rparr>"
  have i: "i < length (balances a)" "\<not> active (balances a ! i)" and la: "la = (balances a)[i := new]"
    using assms(2) None position_SomeD [of "\<lambda>b. \<not> active b" "balances a" i]
    by (auto simp: find_or_create_def get_first_empty_balance_def bind_Ok_iff ok_or_Ok_iff new_def)
  have "bk \<notin> bank_pk ` set (filter active (balances a))"
    using None by (auto simp: position_None_iff)
  then have "distinct (map bank_pk (filter active la))"
    using assms(1) i unfolding la by (intro distinct_active_update) (auto simp: account_ok_def new_def)
  moreover have "balance_ok new"
    by (simp add: new_def balance_ok_def ZERO_def EMPTY_BALANCE_THRESHOLD_def)
  ultimately have "account_ok la"
    using assms(1) set_update_subset_insert [of "balances a" i new] by (auto simp: account_ok_def la)
  moreover have "bal \<in> set la \<longleftrightarrow> bal \<in> set (balances a)" if "active bal" "bank_pk bal \<noteq> bk" for bal
    unfolding la using that i by (intro mem_update_iff) (auto simp: new_def)
  ultimately show ?thesis
    using i by (auto simp: position_in_def la held_update share_of_def new_def ZERO_def)
qed

lemma position_wrapper_ok:
  assumes "world_ok w" and "w_accounts w ak = Some a" and "position_in a bk la i" and "backs (w_accounts w) bk b"
  shows "wrapper_ok \<lparr>bw_balance = la ! i, bw_bank = b\<rparr>"
proof -
  have la: "account_ok la" "i < length la" "active (la ! i)" "bank_pk (la ! i) = bk"
    using assms(3) by (simp_all add: position_in_def)
  have "asset_shares (la ! i) \<le> held asset_shares bk (balances a)"
    using member_le_held [of la asset_shares i bk] la account_ok_nonneg(1) [OF la(1)] assms(3)
    by (simp add: position_in_def)
  also have "\<dots> \<le> held_by_all asset_shares bk (w_accounts w)"
    using world_okD [OF assms(1)] account_ok_nonneg(1) assms(2) by (intro held_le_held_by_all) blast+
  finally have assets: "asset_shares (la ! i) \<le> total_asset_shares b"
    using assms(4) by (simp add: backs_def)
  have "liability_shares (la ! i) \<le> held liability_shares bk (balances a)"
    using member_le_held [of la liability_shares i bk] la account_ok_nonneg(2) [OF la(1)] assms(3)
    by (simp add: position_in_def)
  also have "\<dots> \<le> held_by_all liability_shares bk (w_accounts w)"
    using world_okD [OF assms(1)] account_ok_nonneg(2) assms(2) by (intro held_le_held_by_all) blast+
  finally have "liability_shares (la ! i) \<le> total_liability_shares b"
    using assms(4) by (simp add: backs_def)
  with assets la assms(4) show ?thesis
    by (auto simp: wrapper_ok_def backs_def account_ok_def)
qed

lemma backs_cong:
  assumes "backs accounts bk b"
    and "held_by_all asset_shares bk accounts' \<le> held_by_all asset_shares bk accounts"
    and "held_by_all liability_shares bk accounts' \<le> held_by_all liability_shares bk accounts"
  shows "backs accounts' bk b"
  using assms by (auto simp: backs_def)

text \<open>Storing an account that holds no more shares of any bank than before.\<close>

lemma world_ok_store_account:
  assumes "world_ok w" and "w_accounts w ak = Some a" and "account_ok (balances a')"
    and "\<And>k. held asset_shares k (balances a') \<le> held asset_shares k (balances a) \<and>
             held liability_shares k (balances a') \<le> held liability_shares k (balances a)"
  shows "world_ok (store_account ak a' w)"
proof -
  note w = world_okD [OF assms(1)]
  have "backs ((w_accounts w)(ak \<mapsto> a')) bk b" if "w_banks w bk = Some b" for bk b
    using assms(4) [of bk] by (intro backs_cong [OF w(3) [OF that]]) (simp_all add: held_by_all_update [OF w(1) assms(2)])
  moreover have "held_by_all asset_shares bk ((w_accounts w)(ak \<mapsto> a')) \<le> 0 \<and> held_by_all liability_shares bk ((w_accounts w)(ak \<mapsto> a')) \<le> 0"
    if "w_banks w bk = None" for bk
    using assms(4) [of bk] w(6) [OF that] by (simp add: held_by_all_update [OF w(1) assms(2)])
  ultimately show ?thesis
    using w assms(3) by (auto simp: world_ok_def store_account_def)
qed

text \<open>Storing a bank that backs the accounts.\<close>

lemma world_ok_store_bank:
  assumes "world_ok w" and "backs (w_accounts w) bk b"
  shows "world_ok (store_bank bk b w)"
  using assms by (auto simp: world_ok_def store_bank_def)

lemma store_bank_again: "store_bank bk b' (store_bank bk b w) = store_bank bk b' w"
  by (simp add: store_bank_def)

lemma world_ok_ledger [simp]:
  "world_ok (w\<lparr>w_ledger := l\<rparr>) = world_ok w" "world_ok (w\<lparr>w_lamports := l\<rparr>) = world_ok w"
  by (simp_all add: world_ok_def)

text \<open>What an account holds when the balance of a position is replaced.\<close>

lemma held_position:
  assumes "position_in a bk la i" and "active bal \<longrightarrow> bank_pk bal = bk"
  shows "k \<noteq> bk \<Longrightarrow> held f k (la[i := bal]) = held f k la"
    and "held f bk (la[i := bal]) = held f bk la - f (la ! i) + share_of f bk bal"
proof -
  have la: "i < length la" "active (la ! i)" "bank_pk (la ! i) = bk"
    using assms(1) by (simp_all add: position_in_def)
  then show "held f bk (la[i := bal]) = held f bk la - f (la ! i) + share_of f bk bal"
    by (simp add: held_update) (simp add: share_of_def)
  show "held f k (la[i := bal]) = held f k la" if "k \<noteq> bk"
    using that assms(2) la by (auto simp: held_update share_of_def)
qed

text \<open>Storing the balance and the bank an operation has changed.\<close>

lemma world_ok_position_step:
  assumes "world_ok w" and "w_accounts w ak = Some a" and "position_in a bk la i" and "backs (w_accounts w) bk b"
    and "position_step \<lparr>bw_balance = la ! i, bw_bank = b\<rparr> wr" and "balances a' = la[i := bw_balance wr]"
  shows "world_ok (store_bank bk (bw_bank wr) (store_account ak a' w))"
    and "backs ((w_accounts w)(ak \<mapsto> a')) bk (bw_bank wr)" and "account_ok (balances a')"
proof -
  note w = world_okD [OF assms(1)]
  have la: "account_ok la" "i < length la" "active (la ! i)" "bank_pk (la ! i) = bk"
    and same: "held asset_shares k la = held asset_shares k (balances a)"
      "held liability_shares k la = held liability_shares k (balances a)" for k
    using assms(3) by (simp_all add: position_in_def)
  have st: "wrapper_ok wr" "active (bw_balance wr) \<Longrightarrow> bank_pk (bw_balance wr) = bk"
    and da: "share_of asset_shares bk (bw_balance wr) - asset_shares (la ! i) \<le> total_asset_shares (bw_bank wr) - total_asset_shares b"
    and dl: "share_of liability_shares bk (bw_balance wr) - liability_shares (la ! i)
        \<le> total_liability_shares (bw_bank wr) - total_liability_shares b"
    using assms(5) la by (auto simp: position_step_def share_of_def wrapper_ok_def balance_ok_def)
  show ok: "account_ok (balances a')"
    using account_ok_replace [OF la(1,2)] st la by (auto simp: assms(6) wrapper_ok_def)
  have "active (bw_balance wr) \<longrightarrow> bank_pk (bw_balance wr) = bk" using st(2) by blast
  note other = held_position(1) [OF assms(3) this, folded assms(6)] and own = held_position(2) [OF assms(3) this, folded assms(6)]
  show backs: "backs ((w_accounts w)(ak \<mapsto> a')) bk (bw_bank wr)"
    using assms(4) st(1) da dl own [of asset_shares] own [of liability_shares] same [of bk]
    by (simp add: backs_def wrapper_ok_def held_by_all_update [OF w(1) assms(2)])
  have "backs ((w_accounts w)(ak \<mapsto> a')) k c" if "w_banks w k = Some c" "k \<noteq> bk" for k c
    using other [OF that(2)] same [of k]
    by (intro backs_cong [OF w(3) [OF that(1)]]) (simp_all add: held_by_all_update [OF w(1) assms(2)])
  moreover have "held_by_all asset_shares k ((w_accounts w)(ak \<mapsto> a')) \<le> 0 \<and> held_by_all liability_shares k ((w_accounts w)(ak \<mapsto> a')) \<le> 0"
    if "w_banks w k = None" "k \<noteq> bk" for k
    using other [OF that(2)] same [of k] w(6) [OF that(1)] by (simp add: held_by_all_update [OF w(1) assms(2)])
  ultimately show "world_ok (store_bank bk (bw_bank wr) (store_account ak a' w))"
    using w ok backs by (auto simp: world_ok_def store_bank_def store_account_def)
qed

section \<open>Frames\<close>

text \<open>
  What an instruction leaves alone: everything of an account but its balances in some banks, and
  every account and bank not named.
\<close>

definition only_positions :: "pubkey set \<Rightarrow> marginfi_account \<Rightarrow> marginfi_account \<Rightarrow> bool" where
  "only_positions bks a a' \<longleftrightarrow> ma_group a' = ma_group a \<and> ma_authority a' = ma_authority a \<and>
     account_flags a' = account_flags a \<and>
     (\<forall>bal. active bal \<and> bank_pk bal \<notin> bks \<longrightarrow> (bal \<in> set (balances a') \<longleftrightarrow> bal \<in> set (balances a)))"

definition only_changes :: "pubkey set \<Rightarrow> pubkey set \<Rightarrow> world \<Rightarrow> world \<Rightarrow> bool" where
  "only_changes aks bks w w' \<longleftrightarrow> w_groups w' = w_groups w \<and> w_fee_state w' = w_fee_state w \<and>
     w_lamports w' = w_lamports w \<and> (\<forall>ak. ak \<notin> aks \<longrightarrow> w_accounts w' ak = w_accounts w ak) \<and>
     (\<forall>bk. bk \<notin> bks \<longrightarrow> w_banks w' bk = w_banks w bk) \<and>
     (\<forall>ak a. w_accounts w ak = Some a \<longrightarrow> (\<exists>a'. w_accounts w' ak = Some a' \<and> only_positions bks a a'))"

lemma only_positions_refl [simp]: "only_positions bks a a"
  by (simp add: only_positions_def)

lemma only_positions_trans: "only_positions bks a b \<Longrightarrow> only_positions bks b c \<Longrightarrow> only_positions bks a c"
  by (simp add: only_positions_def)

lemma only_changes_refl [simp]: "only_changes aks bks w w"
  by (simp add: only_changes_def)

lemma only_changes_trans [trans]:
  assumes "only_changes aks bks u v" and "only_changes aks bks v w"
  shows "only_changes aks bks u w"
proof -
  have "\<exists>a'. w_accounts w ak = Some a' \<and> only_positions bks a a'" if a: "w_accounts u ak = Some a" for ak a
  proof -
    obtain b where b: "w_accounts v ak = Some b" "only_positions bks a b"
      using assms(1) a unfolding only_changes_def by blast
    obtain c where "w_accounts w ak = Some c" "only_positions bks b c"
      using assms(2) b(1) unfolding only_changes_def by blast
    with b(2) show ?thesis by (auto intro: only_positions_trans)
  qed
  with assms show ?thesis
    by (simp add: only_changes_def)
qed

lemma only_changes_ledger [simp]: "only_changes aks bks w (w'\<lparr>w_ledger := l\<rparr>) = only_changes aks bks w w'"
  by (simp add: only_changes_def)

lemma only_changes_store_bank:
  assumes "only_changes aks bks w w'" and "bk \<in> bks"
  shows "only_changes aks bks w (store_bank bk b w')"
  using assms by (auto simp: only_changes_def store_bank_def)

lemma only_changes_position_step:
  assumes "w_accounts w ak = Some a" and "position_in a bk la i" and "ak \<in> aks" and "bk \<in> bks"
    and "position_step \<lparr>bw_balance = la ! i, bw_bank = b\<rparr> wr"
  shows "only_changes aks bks w (store_bank bk b' (store_account ak (with_balance a la i (bw_balance wr)) w))"
proof -
  have la: "i < length la" "bank_pk (la ! i) = bk"
    and other: "active bal \<Longrightarrow> bank_pk bal \<noteq> bk \<Longrightarrow> bal \<in> set la \<longleftrightarrow> bal \<in> set (balances a)" for bal
    using assms(2) by (auto simp: position_in_def)
  have "bal \<in> set (la[i := bw_balance wr]) \<longleftrightarrow> bal \<in> set (balances a)" if "active bal" "bank_pk bal \<notin> bks" for bal
  proof -
    have "bank_pk bal \<noteq> bk" using that assms(4) by blast
    with that la assms(5) have "bal \<in> set (la[i := bw_balance wr]) \<longleftrightarrow> bal \<in> set la"
      by (intro mem_update_iff) (auto simp: position_step_def)
    with other [OF that(1) \<open>bank_pk bal \<noteq> bk\<close>] show ?thesis by simp
  qed
  then have "only_positions bks a (with_balance a la i (bw_balance wr))"
    by (simp add: only_positions_def with_balance_def)
  with assms(1,3,4) show ?thesis
    by (auto simp: only_changes_def store_bank_def store_account_def)
qed

section \<open>Operations on a position\<close>

text \<open>
  Every operation of the wrapper is a step of its position; claiming emissions and closing
  included.
\<close>

context fixed_point
begin

lemma increase_position_step:
  assumes "wrapper_ok w" and "0 \<le> delta" and "increase_balance_internal fx w delta op t = Ok w'"
  shows "position_step w w'"
proof (rule increase_balance_OkD [OF assms])
  fix e owed da dl
  assume "w' = \<lparr>bw_balance = (bw_balance w)\<lparr>emissions_outstanding := emissions_outstanding (bw_balance w) + e,
               bal_last_update := t, asset_shares := asset_shares (bw_balance w) + da,
               liability_shares := liability_shares (bw_balance w) - dl\<rparr>,
             bw_bank = (bw_bank w)\<lparr>emissions_remaining := emissions_remaining (bw_bank w) - e,
               total_asset_shares := total_asset_shares (bw_bank w) + da,
               total_liability_shares := total_liability_shares (bw_bank w) - dl\<rparr>\<rparr>"
  with increase_keeps_ok [OF assms] show ?thesis
    by (simp add: position_step_def)
qed

lemma increase_favours:
  assumes "wrapper_ok w" and "0 \<le> delta" and "increase_balance_internal fx w delta op t = Ok w'"
  shows "favours w w'"
proof (rule increase_balance_OkD [OF assms])
  fix e owed da dl
  assume owed: "owed = liability_shares (bw_balance w) * liability_share_value (bw_bank w) div SCALE"
    and da: "da = max (delta - owed) 0 * SCALE div asset_share_value (bw_bank w)"
    and dl: "dl = min owed delta * SCALE div liability_share_value (bw_bank w)"
    and w': "w' = \<lparr>bw_balance = (bw_balance w)\<lparr>emissions_outstanding := emissions_outstanding (bw_balance w) + e,
               bal_last_update := t, asset_shares := asset_shares (bw_balance w) + da,
               liability_shares := liability_shares (bw_balance w) - dl\<rparr>,
             bw_bank = (bw_bank w)\<lparr>emissions_remaining := emissions_remaining (bw_bank w) - e,
               total_asset_shares := total_asset_shares (bw_bank w) + da,
               total_liability_shares := total_liability_shares (bw_bank w) - dl\<rparr>\<rparr>"
  have "0 < asset_share_value (bw_bank w)" "0 < liability_share_value (bw_bank w)" "0 \<le> owed"
    using assms(1) by (auto simp: owed wrapper_ok_def bank_ok_def balance_ok_def)
  then have "0 \<le> da" "0 \<le> dl"
    using assms(2) by (simp_all add: da dl pos_imp_zdiv_nonneg_iff)
  then show ?thesis by (simp add: w' favours_def)
qed

text \<open>A withdrawal may overdraw the deposit by dust.\<close>

lemma withdraw_dust:
  assumes "wrapper_ok w" and "0 \<le> delta" and "withdraw fx w delta t = Ok w'"
  shows "active (bw_balance w') = active (bw_balance w)" and "bank_pk (bw_balance w') = bank_pk (bw_balance w)"
    and "liability_shares (bw_balance w) \<le> liability_shares (bw_balance w')"
    and "(liability_shares (bw_balance w') - liability_shares (bw_balance w)) * liability_share_value (bw_bank w)
      < ZERO_AMOUNT_THRESHOLD * SCALE"
proof -
  have lsv: "0 < liability_share_value (bw_bank w)"
    using assms(1) by (simp add: wrapper_ok_def bank_ok_def)
  obtain e owned da dl where dl: "dl = max (delta - owned) 0 * SCALE div liability_share_value (bw_bank w)"
    and w': "w' = \<lparr>bw_balance = (bw_balance w)\<lparr>emissions_outstanding := emissions_outstanding (bw_balance w) + e,
               bal_last_update := t, asset_shares := asset_shares (bw_balance w) - da,
               liability_shares := liability_shares (bw_balance w) + dl\<rparr>,
             bw_bank = (bw_bank w)\<lparr>emissions_remaining := emissions_remaining (bw_bank w) - e,
               total_asset_shares := total_asset_shares (bw_bank w) - da,
               total_liability_shares := total_liability_shares (bw_bank w) + dl\<rparr>\<rparr>"
    and dust: "max (delta - owned) 0 < ZERO_AMOUNT_THRESHOLD"
    using decrease_balance_OkD [OF assms(1,2) assms(3) [unfolded withdraw_def]] by metis
  have "0 \<le> dl" using lsv by (simp add: dl pos_imp_zdiv_nonneg_iff)
  moreover have "dl * liability_share_value (bw_bank w) < ZERO_AMOUNT_THRESHOLD * SCALE"
    using quot_mult_le [OF lsv, of "max (delta - owned) 0 * SCALE"] mult_strict_right_mono [OF dust SCALE_pos(1)]
    unfolding dl by (rule le_less_trans)
  ultimately show "active (bw_balance w') = active (bw_balance w)" "bank_pk (bw_balance w') = bank_pk (bw_balance w)"
    "liability_shares (bw_balance w) \<le> liability_shares (bw_balance w')"
    "(liability_shares (bw_balance w') - liability_shares (bw_balance w)) * liability_share_value (bw_bank w)
      < ZERO_AMOUNT_THRESHOLD * SCALE"
    by (simp_all add: w')
qed

lemma decrease_position_step:
  assumes "wrapper_ok w" and "0 \<le> delta" and "decrease_balance_internal fx w delta op t = Ok w'"
  shows "position_step w w'"
proof (rule decrease_balance_OkD [OF assms])
  fix e owned da dl
  assume "w' = \<lparr>bw_balance = (bw_balance w)\<lparr>emissions_outstanding := emissions_outstanding (bw_balance w) + e,
               bal_last_update := t, asset_shares := asset_shares (bw_balance w) - da,
               liability_shares := liability_shares (bw_balance w) + dl\<rparr>,
             bw_bank = (bw_bank w)\<lparr>emissions_remaining := emissions_remaining (bw_bank w) - e,
               total_asset_shares := total_asset_shares (bw_bank w) - da,
               total_liability_shares := total_liability_shares (bw_bank w) + dl\<rparr>\<rparr>"
  with decrease_keeps_ok [OF assms] show ?thesis
    by (simp add: position_step_def)
qed

lemma withdraw_all_position_step:
  assumes "wrapper_ok w" and "withdraw_all fx w t = Ok (amount, w')"
  shows "position_step w w'"
proof (rule withdraw_all_OkD [OF assms])
  fix e worth
  assume e: "0 \<le> e" "e \<le> emissions_remaining (bw_bank w)"
    and w': "w' = \<lparr>bw_balance = empty_deactivated,
           bw_bank = (bw_bank w)\<lparr>emissions_remaining := emissions_remaining (bw_bank w) - e,
             total_asset_shares := total_asset_shares (bw_bank w) - asset_shares (bw_balance w),
             collected_insurance_fees_outstanding :=
               collected_insurance_fees_outstanding (bw_bank w) + worth mod SCALE\<rparr>\<rparr>"
  have "0 \<le> worth mod SCALE" by simp
  with e assms(1) empty_deactivated_ok show ?thesis
    unfolding w' by (auto simp: position_step_def wrapper_ok_def bank_ok_def empty_deactivated_def ZERO_def balance_ok_def)
qed

lemma repay_all_position_step:
  assumes "wrapper_ok w" and "repay_all fx w t = Ok (amount, w')"
  shows "position_step w w'"
proof (rule repay_all_OkD [OF assms])
  fix e worth
  assume e: "0 \<le> e" "e \<le> emissions_remaining (bw_bank w)" and amount: "uint amount = - (- worth div SCALE)"
    and w': "w' = \<lparr>bw_balance = empty_deactivated,
           bw_bank = (bw_bank w)\<lparr>emissions_remaining := emissions_remaining (bw_bank w) - e,
             total_liability_shares := total_liability_shares (bw_bank w) - liability_shares (bw_balance w),
             collected_insurance_fees_outstanding :=
               collected_insurance_fees_outstanding (bw_bank w) + (uint amount * SCALE - worth)\<rparr>\<rparr>"
  have "0 \<le> uint amount * SCALE - worth"
    unfolding amount using quot_mult_le [OF SCALE_pos(1), of "- worth"] by simp
  with e assms(1) empty_deactivated_ok show ?thesis
    unfolding w' by (auto simp: position_step_def wrapper_ok_def bank_ok_def empty_deactivated_def ZERO_def balance_ok_def)
qed

lemma close_balance_position_step:
  assumes "wrapper_ok w" and "close_balance fx w t = Ok w'"
  shows "position_step w w'"
proof (rule close_balance_OkD [OF assms])
  fix e
  assume "0 \<le> e" "e \<le> emissions_remaining (bw_bank w)"
    and w': "w' = \<lparr>bw_balance = empty_deactivated,
           bw_bank = (bw_bank w)\<lparr>emissions_remaining := emissions_remaining (bw_bank w) - e\<rparr>\<rparr>"
  with assms(1) empty_deactivated_ok show ?thesis
    unfolding w' by (auto simp: position_step_def wrapper_ok_def bank_ok_def empty_deactivated_def ZERO_def balance_ok_def)
qed

lemma claim_emissions_position_step:
  assumes "wrapper_ok w" and "claim_emissions fx w t = Ok w'"
  shows "position_step w w'"
proof (rule claim_emissions_OkD [OF assms])
  fix e
  assume "0 \<le> e" "e \<le> emissions_remaining (bw_bank w)"
    and w': "w' = \<lparr>bw_balance = (bw_balance w)\<lparr>emissions_outstanding := emissions_outstanding (bw_balance w) + e,
             bal_last_update := t\<rparr>,
           bw_bank = (bw_bank w)\<lparr>emissions_remaining := emissions_remaining (bw_bank w) - e\<rparr>\<rparr>"
  with assms(1) show ?thesis
    unfolding w' by (auto simp: position_step_def wrapper_ok_def bank_ok_def balance_ok_def)
qed

lemma settle_emissions_position_step:
  assumes "wrapper_ok w" and "settle_emissions_and_get_transfer_amount fx w t = Ok (amount, w')"
  shows "position_step w w'"
proof (rule settle_emissions_OkD [OF assms])
  fix e owed
  assume "0 \<le> e" "e \<le> emissions_remaining (bw_bank w)"
    and w': "w' = \<lparr>bw_balance = (bw_balance w)\<lparr>emissions_outstanding := owed mod SCALE, bal_last_update := t\<rparr>,
           bw_bank = (bw_bank w)\<lparr>emissions_remaining := emissions_remaining (bw_bank w) - e\<rparr>\<rparr>"
  moreover have "0 \<le> owed mod SCALE" by simp
  ultimately show ?thesis
    using assms(1) unfolding w' by (auto simp: position_step_def wrapper_ok_def bank_ok_def balance_ok_def)
qed

lemma accrue_interest_backs:
  assumes "backs accounts bk b" and "accrue_interest fx b t g = Ok b'"
  shows "backs accounts bk b'"
proof -
  have b: "bank_ok b" using assms(1) by (simp add: backs_def)
  have fr: "bank_ok b'" "asset_share_value b \<le> asset_share_value b'" "liability_share_value b \<le> liability_share_value b'"
    and eq: "b' = b\<lparr>last_update := t, asset_share_value := asset_share_value b',
          liability_share_value := liability_share_value b',
          collected_group_fees_outstanding := collected_group_fees_outstanding b',
          collected_insurance_fees_outstanding := collected_insurance_fees_outstanding b',
          collected_program_fees_outstanding := collected_program_fees_outstanding b'\<rparr>"
    using accrue_interest_frame [OF b assms(2)] by blast+
  have "total_asset_shares b' = total_asset_shares b" "total_liability_shares b' = total_liability_shares b"
    by (subst eq, simp)+
  with fr assms(1) show ?thesis
    by (auto simp: backs_def)
qed

end

end
