(* ===== verification/Example_World.thy ===== *)
theory Example_World
  imports World
begin

text \<open>
  A small world for the examples of the instructions: one group with two banks at the same price,
  an account that owes too much, an account with a large deposit, and an account that has debts
  only. The token program moves amounts that are there; addresses depend on the seed only.
\<close>

definition example_tokens :: token_ops where
  "example_tokens = \<lparr>token_transfer = (\<lambda>l src dst authority mint amount.
     if amount \<le> l src then Some (let l' = l(src := l src - amount) in l'(dst := l' dst + amount)) else None)\<rparr>"

definition example_address :: "string \<Rightarrow> pubkey" where
  "example_address seed = (if seed = get_seed LiquidityVault then 41 else if seed = get_seed InsuranceVault then 42
     else if seed = get_seed FeeVault then 43 else 44)"

definition example_runtime :: runtime where
  "example_runtime = \<lparr>rt_fx = i80f48_ref, rt_sdk = example_sdk, rt_tk = example_tokens, rt_mints = example_mint_ops,
     rt_clock = example_clock, rt_create_address = (\<lambda>seed keys bump. Some (example_address seed)),
     rt_find_address = (\<lambda>seed keys. (example_address seed, 255)),
     rt_find_bank_address = (\<lambda>g m n. (g + m + ucast n, 255)),
     rt_associated_token_address = (\<lambda>wallet mint program. wallet + 1000),
     rt_system_transfer = (\<lambda>l src dst amount. if amount \<le> l src then Some (l(src := l src - amount)) else None)\<rparr>"

definition deposit_of :: "pubkey \<Rightarrow> int \<Rightarrow> balance" where
  "deposit_of bk n = \<lparr>active = True, bank_pk = bk, asset_shares = n * SCALE, liability_shares = 0,
     emissions_outstanding = 0, bal_last_update = 0\<rparr>"

definition debt_of :: "pubkey \<Rightarrow> int \<Rightarrow> balance" where
  "debt_of bk n = \<lparr>active = True, bank_pk = bk, asset_shares = 0, liability_shares = n * SCALE,
     emissions_outstanding = 0, bal_last_update = 0\<rparr>"

definition example_holder :: "pubkey \<Rightarrow> balance list \<Rightarrow> marginfi_account" where
  "example_holder authority bals = \<lparr>ma_group = 2, ma_authority = authority,
     balances = bals @ replicate (16 - length bals) empty_deactivated, account_flags = FLASHLOAN_ENABLED_FLAG\<rparr>"

definition unhealthy_holder :: marginfi_account where
  "unhealthy_holder = example_holder 71 [deposit_of 51 100000000, debt_of 52 70000000]"

definition wealthy_holder :: marginfi_account where
  "wealthy_holder = example_holder 72 [deposit_of 51 500000000]"

definition bankrupt_holder :: marginfi_account where
  "bankrupt_holder = example_holder 73 [debt_of 52 20000000]"

definition example_fee_state :: fee_state where
  "example_fee_state = \<lparr>fst_key = 81, global_fee_admin = 82, global_fee_wallet = 83, bank_init_flat_sol_fee = 5000,
     fst_bump_seed = 255, program_fee_fixed = SCALE div 100, program_fee_rate = SCALE div 16\<rparr>"

definition example_world :: world where
  "example_world = \<lparr>w_groups = [2 \<mapsto> example_group], w_banks = [51 \<mapsto> example_bank, 52 \<mapsto> example_bank],
     w_accounts = [61 \<mapsto> unhealthy_holder, 62 \<mapsto> wealthy_holder, 63 \<mapsto> bankrupt_holder],
     w_fee_state = Some example_fee_state, w_ledger = (\<lambda>_. 1000000000), w_lamports = (\<lambda>_. 1000000)\<rparr>"

lemma example_world_ok: "world_ok example_world"
proof -
  have accounts: "account_ok (balances unhealthy_holder)" "account_ok (balances wealthy_holder)" "account_ok (balances bankrupt_holder)"
    by code_simp+
  have held: "held_by_all f k [61 \<mapsto> unhealthy_holder, 62 \<mapsto> wealthy_holder, 63 \<mapsto> bankrupt_holder] =
      held f k (balances unhealthy_holder) + held f k (balances wealthy_holder) + held f k (balances bankrupt_holder)" for f k
    by (simp add: held_by_all_def)
  have bank: "bank_ok example_bank \<and> 1 < asset_share_value example_bank \<and> 1 < liability_share_value example_bank"
    by code_simp
  have "held asset_shares k (balances unhealthy_holder) + held asset_shares k (balances wealthy_holder) +
        held asset_shares k (balances bankrupt_holder) \<le> total_asset_shares example_bank \<and>
      held liability_shares k (balances unhealthy_holder) + held liability_shares k (balances wealthy_holder) +
        held liability_shares k (balances bankrupt_holder) \<le> total_liability_shares example_bank" if "k = 51 \<or> k = 52" for k
    using that by (elim disjE) (simp, code_simp)+
  with bank have "backs [61 \<mapsto> unhealthy_holder, 62 \<mapsto> wealthy_holder, 63 \<mapsto> bankrupt_holder] k example_bank" if "k = 51 \<or> k = 52" for k
    using that by (simp add: backs_def held)
  moreover have "held f k (balances unhealthy_holder) + held f k (balances wealthy_holder) + held f k (balances bankrupt_holder) = 0"
    if "k \<noteq> 51" "k \<noteq> 52" for f k
    using that by (simp add: held_def unhealthy_holder_def wealthy_holder_def bankrupt_holder_def example_holder_def deposit_of_def
        debt_of_def empty_deactivated_def)
  ultimately show ?thesis
    using accounts
    by (auto simp: held world_ok_def example_world_def example_group_def example_fee_state_def fee_rate_ok_def SCALE_def split: if_splits)
qed

end
