(* ===== verification/Account_Instructions.thy ===== *)
theory Account_Instructions
  imports Example_World
begin

text \<open>
  The instructions on a marginfi account, \<^verbatim>\<open>instructions/marginfi_account\<close>: initialize, deposit,
  repay, withdraw, borrow, close a balance, emissions, transfer of the authority, close. Flash
  loans and liquidations have theories of their own.
\<close>

section \<open>Accounts passed to an instruction\<close>

record user_accounts =
  ctx_marginfi_group :: pubkey
  ctx_marginfi_account :: pubkey
  ctx_signer :: pubkey
  ctx_bank :: pubkey

record deposit_accounts = user_accounts +
  ctx_signer_token_account :: pubkey
  ctx_deposit_vault :: pubkey
  ctx_deposit_token_program :: pubkey

type_synonym repay_accounts = deposit_accounts

record withdraw_accounts = user_accounts +
  ctx_destination_token_account :: pubkey
  ctx_bank_liquidity_vault_authority :: pubkey
  ctx_bank_liquidity_vault :: pubkey
  ctx_token_program :: pubkey

type_synonym borrow_accounts = withdraw_accounts

record withdraw_emissions_accounts = user_accounts +
  ctx_emissions_mint :: pubkey
  ctx_emissions_auth :: pubkey
  ctx_emissions_vault :: pubkey
  ctx_emissions_destination :: pubkey
  ctx_emissions_token_program :: pubkey

record settle_emissions_accounts =
  ctx_settle_marginfi_account :: pubkey
  ctx_settle_bank :: pubkey

record account_initialize_accounts =
  ctx_init_marginfi_group :: pubkey
  ctx_init_marginfi_account :: pubkey
  ctx_init_authority :: pubkey

record account_close_accounts =
  ctx_close_marginfi_account :: pubkey
  ctx_close_authority :: pubkey

record set_authority_accounts =
  ctx_auth_marginfi_account :: pubkey
  ctx_auth_marginfi_group :: pubkey
  ctx_auth_signer :: pubkey
  ctx_new_authority :: pubkey

section \<open>Constraints\<close>

text \<open>
  Group, account and bank load; account and bank belong to the group; the signer is the
  authority of the account.
\<close>

definition user_constraints ::
    "world \<Rightarrow> ('a) user_accounts_scheme \<Rightarrow> (marginfi_group \<times> marginfi_account \<times> bank) result" where
  "user_constraints w c =
     (bind (load_group w (ctx_marginfi_group c)) (\<lambda>g.
      bind (load_account w (ctx_marginfi_account c)) (\<lambda>a.
      bind (load_bank_at w (ctx_bank c)) (\<lambda>b.
      bind (require (ma_group a = ctx_marginfi_group c) ConstraintRaw) (\<lambda>_.
      bind (require (ctx_signer c = ma_authority a) ConstraintAddress) (\<lambda>_.
      bind (require (bk_group b = ctx_marginfi_group c) ConstraintRaw) (\<lambda>_.
      Ok (g, a, b))))))))"

definition deposit_constraints ::
    "runtime \<Rightarrow> world \<Rightarrow> deposit_accounts \<Rightarrow> (marginfi_group \<times> marginfi_account \<times> bank) result" where
  "deposit_constraints rt w c =
     (bind (user_constraints w c) (\<lambda>(g, a, b).
      bind (require_address rt (get_seed LiquidityVault) [ctx_bank c] (liquidity_vault_bump b) (ctx_deposit_vault c)) (\<lambda>_.
      bind (require_token_program rt (ctx_deposit_token_program c)) (\<lambda>_.
      Ok (g, a, b)))))"

definition withdraw_constraints ::
    "runtime \<Rightarrow> world \<Rightarrow> withdraw_accounts \<Rightarrow> (marginfi_group \<times> marginfi_account \<times> bank) result" where
  "withdraw_constraints rt w c =
     (bind (user_constraints w c) (\<lambda>(g, a, b).
      bind (require_address rt (get_authority_seed LiquidityVault) [ctx_bank c] (liquidity_vault_authority_bump b)
              (ctx_bank_liquidity_vault_authority c)) (\<lambda>_.
      bind (require_address rt (get_seed LiquidityVault) [ctx_bank c] (liquidity_vault_bump b)
              (ctx_bank_liquidity_vault c)) (\<lambda>_.
      bind (require_token_program rt (ctx_token_program c)) (\<lambda>_.
      Ok (g, a, b))))))"

section \<open>Deposit and repay\<close>

definition lending_account_deposit ::
    "runtime \<Rightarrow> world \<Rightarrow> deposit_accounts \<Rightarrow> account_info list \<Rightarrow> u64 \<Rightarrow> world result" where
  "lending_account_deposit rt w c remaining_accounts amount =
     (bind (deposit_constraints rt w c) (\<lambda>(g, a, b0).
      bind (maybe_take_bank_mint (rt_mints rt) remaining_accounts b0 (ctx_deposit_token_program c)) (\<lambda>(maybe_bank_mint, _).
      bind (check (\<not> get_flag a DISABLED_FLAG) AccountDisabled) (\<lambda>_.
      bind (accrue_interest (rt_fx rt) b0 (now rt) g) (\<lambda>b1.
      bind (find_or_create (ctx_bank c) (balances a) (now rt)) (\<lambda>(i, la).
      bind (from_u64 (rt_fx rt) amount) (\<lambda>x.
      bind (deposit (rt_fx rt) \<lparr>bw_balance = la ! i, bw_bank = b1\<rparr> x (now rt)) (\<lambda>wr.
      bind (pre_fee_of (rt_mints rt) maybe_bank_mint amount (epoch (rt_clock rt))) (\<lambda>amount_pre_fee.
      bind (deposit_spl_transfer (rt_tk rt) (bw_bank wr) (w_ledger w) amount_pre_fee
              (ctx_signer_token_account c) (ctx_deposit_vault c) (ctx_signer c) (map_option ai_key maybe_bank_mint)) (\<lambda>ledger.
      Ok ((store_bank (ctx_bank c) (bw_bank wr)
            (store_account (ctx_marginfi_account c) (with_balance a la i (bw_balance wr)) w))\<lparr>w_ledger := ledger\<rparr>)))))))))))"

text \<open>The amount repaid, before the transfer fee is added.\<close>

definition repay_some_or_all ::
    "runtime \<Rightarrow> bank_account_wrapper \<Rightarrow> u64 \<Rightarrow> bool option \<Rightarrow> (u64 \<times> bank_account_wrapper) result" where
  "repay_some_or_all rt wr0 amount repay_all_opt =
     (if repay_all_opt = Some True then repay_all (rt_fx rt) wr0 (now rt)
      else bind (from_u64 (rt_fx rt) amount) (\<lambda>x.
           bind (repay (rt_fx rt) wr0 x (now rt)) (\<lambda>wr. Ok (amount, wr))))"

definition lending_account_repay ::
    "runtime \<Rightarrow> world \<Rightarrow> repay_accounts \<Rightarrow> account_info list \<Rightarrow> u64 \<Rightarrow> bool option \<Rightarrow> world result" where
  "lending_account_repay rt w c remaining_accounts amount repay_all_opt =
     (bind (deposit_constraints rt w c) (\<lambda>(g, a, b0).
      bind (maybe_take_bank_mint (rt_mints rt) remaining_accounts b0 (ctx_deposit_token_program c)) (\<lambda>(maybe_bank_mint, _).
      bind (check (\<not> get_flag a DISABLED_FLAG) AccountDisabled) (\<lambda>_.
      bind (accrue_interest (rt_fx rt) b0 (now rt) g) (\<lambda>b1.
      bind (find_balance (ctx_bank c) (balances a)) (\<lambda>i.
      bind (repay_some_or_all rt \<lparr>bw_balance = balances a ! i, bw_bank = b1\<rparr> amount repay_all_opt)
        (\<lambda>(repay_amount_post_fee, wr).
      bind (pre_fee_of (rt_mints rt) maybe_bank_mint repay_amount_post_fee (epoch (rt_clock rt))) (\<lambda>repay_amount_pre_fee.
      bind (deposit_spl_transfer (rt_tk rt) (bw_bank wr) (w_ledger w) repay_amount_pre_fee
              (ctx_signer_token_account c) (ctx_deposit_vault c) (ctx_signer c) (map_option ai_key maybe_bank_mint)) (\<lambda>ledger.
      Ok ((store_bank (ctx_bank c) (bw_bank wr)
            (store_account (ctx_marginfi_account c) (with_balance a (balances a) i (bw_balance wr)) w))\<lparr>w_ledger := ledger\<rparr>))))))))))"

section \<open>Withdraw and borrow\<close>

text \<open>The amount that leaves the vault: all of the deposit, or enough for \<open>amount\<close> to arrive.\<close>

definition withdraw_some_or_all ::
    "runtime \<Rightarrow> account_info option \<Rightarrow> bank_account_wrapper \<Rightarrow> u64 \<Rightarrow> bool option \<Rightarrow>
     (u64 \<times> bank_account_wrapper) result" where
  "withdraw_some_or_all rt maybe_bank_mint wr0 amount withdraw_all_opt =
     (if withdraw_all_opt = Some True then withdraw_all (rt_fx rt) wr0 (now rt)
      else bind (pre_fee_of (rt_mints rt) maybe_bank_mint amount (epoch (rt_clock rt))) (\<lambda>amount_pre_fee.
           bind (from_u64 (rt_fx rt) amount_pre_fee) (\<lambda>x.
           bind (withdraw (rt_fx rt) wr0 x (now rt)) (\<lambda>wr. Ok (amount_pre_fee, wr)))))"

definition lending_account_withdraw ::
    "runtime \<Rightarrow> world \<Rightarrow> withdraw_accounts \<Rightarrow> account_info list \<Rightarrow> u64 \<Rightarrow> bool option \<Rightarrow> world result" where
  "lending_account_withdraw rt w c remaining_accounts amount withdraw_all_opt =
     (bind (withdraw_constraints rt w c) (\<lambda>(g, a, b0).
      bind (check (\<not> get_flag a DISABLED_FLAG) AccountDisabled) (\<lambda>_.
      bind (maybe_take_bank_mint (rt_mints rt) remaining_accounts b0 (ctx_token_program c)) (\<lambda>(maybe_bank_mint, remaining).
      bind (accrue_interest (rt_fx rt) b0 (now rt) g) (\<lambda>b1.
      bind (find_balance (ctx_bank c) (balances a)) (\<lambda>i.
      bind (withdraw_some_or_all rt maybe_bank_mint \<lparr>bw_balance = balances a ! i, bw_bank = b1\<rparr> amount withdraw_all_opt)
        (\<lambda>(amount_pre_fee, wr).
      bind (withdraw_spl_transfer (rt_tk rt) (bw_bank wr) (w_ledger w) amount_pre_fee
              (ctx_bank_liquidity_vault c) (ctx_destination_token_account c) (ctx_bank_liquidity_vault_authority c)
              (map_option ai_key maybe_bank_mint)) (\<lambda>ledger.
      let a' = with_balance a (balances a) i (bw_balance wr);
          w' = (store_bank (ctx_bank c) (bw_bank wr) (store_account (ctx_marginfi_account c) a' w))\<lparr>w_ledger := ledger\<rparr> in
      bind (check_account_init_health (rt_fx rt) (rt_sdk rt) (w_banks w') (rt_clock rt) a' remaining) (\<lambda>_.
      Ok w')))))))))"

text \<open>The origination fee of a borrow, and how group and program share it.\<close>

definition origination_fee_of :: "fixed_ops \<Rightarrow> i80f48 \<Rightarrow> i80f48 \<Rightarrow> i80f48 result" where
  "origination_fee_of fx amount origination_fee_rate =
     (if origination_fee_rate \<noteq> ZERO
      then bind (ok_or_math_error (checked_mul fx amount origination_fee_rate)) (\<lambda>origination_fee.
           bind (ok_or_math_error (checked_to_u64 fx origination_fee)) (\<lambda>_. Ok origination_fee))
      else Ok ZERO)"

definition collect_origination_fee :: "fixed_ops \<Rightarrow> bank \<Rightarrow> i80f48 \<Rightarrow> i80f48 \<Rightarrow> bank result" where
  "collect_origination_fee fx b origination_fee rate_of_program =
     (if origination_fee = ZERO then Ok b
      else if rate_of_program \<noteq> ZERO
      then bind (ok_or_math_error (checked_mul fx origination_fee rate_of_program)) (\<lambda>program_fee_amount.
           Ok (b\<lparr>collected_group_fees_outstanding := saturating_add fx (collected_group_fees_outstanding b)
                    (saturating_sub fx origination_fee program_fee_amount),
                 collected_program_fees_outstanding :=
                    saturating_add fx (collected_program_fees_outstanding b) program_fee_amount\<rparr>))
      else Ok (b\<lparr>collected_group_fees_outstanding :=
             saturating_add fx (collected_group_fees_outstanding b) origination_fee\<rparr>))"

text \<open>
  The event carries \<^verbatim>\<open>amount_pre_fee + origination_fee_u64\<close>, an addition that panics on overflow.
\<close>

definition borrow_event_amount :: "fixed_ops \<Rightarrow> u64 \<Rightarrow> i80f48 \<Rightarrow> u64 result" where
  "borrow_event_amount fx amount_pre_fee origination_fee =
     (bind (ok_or_math_error (checked_to_u64 fx origination_fee)) (\<lambda>f.
      unwrap (checked_u64 (uint amount_pre_fee + uint f))))"

definition lending_account_borrow ::
    "runtime \<Rightarrow> world \<Rightarrow> borrow_accounts \<Rightarrow> account_info list \<Rightarrow> u64 \<Rightarrow> world result" where
  "lending_account_borrow rt w c remaining_accounts amount =
     (bind (withdraw_constraints rt w c) (\<lambda>(g, a, b0).
      bind (maybe_take_bank_mint (rt_mints rt) remaining_accounts b0 (ctx_token_program c)) (\<lambda>(maybe_bank_mint, remaining).
      bind (check (\<not> get_flag a DISABLED_FLAG) AccountDisabled) (\<lambda>_.
      bind (accrue_interest (rt_fx rt) b0 (now rt) g) (\<lambda>b1.
      bind (find_or_create (ctx_bank c) (balances a) (now rt)) (\<lambda>(i, la).
      bind (pre_fee_of (rt_mints rt) maybe_bank_mint amount (epoch (rt_clock rt))) (\<lambda>amount_pre_fee.
      bind (from_u64 (rt_fx rt) amount_pre_fee) (\<lambda>x.
      let origination_fee_rate = protocol_origination_fee (bc_interest_rate_config (bk_config b1)) in
      bind (origination_fee_of (rt_fx rt) x origination_fee_rate) (\<lambda>origination_fee.
      bind (if origination_fee_rate \<noteq> ZERO then op_add (rt_fx rt) x origination_fee else Ok x) (\<lambda>borrowed.
      bind (borrow (rt_fx rt) \<lparr>bw_balance = la ! i, bw_bank = b1\<rparr> borrowed (now rt)) (\<lambda>wr.
      bind (withdraw_spl_transfer (rt_tk rt) (bw_bank wr) (w_ledger w) amount_pre_fee
              (ctx_bank_liquidity_vault c) (ctx_destination_token_account c) (ctx_bank_liquidity_vault_authority c)
              (map_option ai_key maybe_bank_mint)) (\<lambda>ledger.
      bind (borrow_event_amount (rt_fx rt) amount_pre_fee origination_fee) (\<lambda>_.
      bind (collect_origination_fee (rt_fx rt) (bw_bank wr) origination_fee
              (fsc_program_fee_rate (grp_fee_state_cache g))) (\<lambda>b2.
      let a' = with_balance a la i (bw_balance wr);
          w' = (store_bank (ctx_bank c) b2 (store_account (ctx_marginfi_account c) a' w))\<lparr>w_ledger := ledger\<rparr> in
      bind (check_account_init_health (rt_fx rt) (rt_sdk rt) (w_banks w') (rt_clock rt) a' remaining) (\<lambda>_.
      Ok w')))))))))))))))"

section \<open>Closing a balance\<close>

definition lending_account_close_balance :: "runtime \<Rightarrow> world \<Rightarrow> user_accounts \<Rightarrow> world result" where
  "lending_account_close_balance rt w c =
     (bind (user_constraints w c) (\<lambda>(g, a, b0).
      bind (check (\<not> get_flag a DISABLED_FLAG) AccountDisabled) (\<lambda>_.
      bind (accrue_interest (rt_fx rt) b0 (now rt) g) (\<lambda>b1.
      bind (find_balance (ctx_bank c) (balances a)) (\<lambda>i.
      bind (close_balance (rt_fx rt) \<lparr>bw_balance = balances a ! i, bw_bank = b1\<rparr> (now rt)) (\<lambda>wr.
      Ok (store_bank (ctx_bank c) (bw_bank wr)
           (store_account (ctx_marginfi_account c) (with_balance a (balances a) i (bw_balance wr)) w))))))))"

section \<open>Emissions\<close>

definition withdraw_emissions_constraints ::
    "runtime \<Rightarrow> world \<Rightarrow> withdraw_emissions_accounts \<Rightarrow> (marginfi_group \<times> marginfi_account \<times> bank) result" where
  "withdraw_emissions_constraints rt w c =
     (bind (user_constraints w c) (\<lambda>(g, a, b).
      bind (require (ctx_emissions_mint c = emissions_mint b) ConstraintAddress) (\<lambda>_.
      bind (require_found_address rt EMISSIONS_AUTH_SEED [ctx_bank c, ctx_emissions_mint c] (ctx_emissions_auth c)) (\<lambda>_.
      bind (require_found_address rt EMISSIONS_TOKEN_ACCOUNT_SEED [ctx_bank c, ctx_emissions_mint c] (ctx_emissions_vault c)) (\<lambda>_.
      bind (require_token_program rt (ctx_emissions_token_program c)) (\<lambda>_.
      Ok (g, a, b)))))))"

definition lending_account_withdraw_emissions ::
    "runtime \<Rightarrow> world \<Rightarrow> withdraw_emissions_accounts \<Rightarrow> world result" where
  "lending_account_withdraw_emissions rt w c =
     (bind (withdraw_emissions_constraints rt w c) (\<lambda>(g, a, b).
      bind (check (\<not> get_flag a DISABLED_FLAG) AccountDisabled) (\<lambda>_.
      bind (find_balance (ctx_bank c) (balances a)) (\<lambda>i.
      bind (settle_emissions_and_get_transfer_amount (rt_fx rt) \<lparr>bw_balance = balances a ! i, bw_bank = b\<rparr> (now rt))
        (\<lambda>(emissions_settle_amount, wr).
      bind (if 0 < emissions_settle_amount
            then ok_or (token_transfer (rt_tk rt) (w_ledger w) (ctx_emissions_vault c) (ctx_emissions_destination c)
                   (ctx_emissions_auth c) (Some (ctx_emissions_mint c)) emissions_settle_amount) (Anchor CallFailed)
            else Ok (w_ledger w)) (\<lambda>ledger.
      Ok ((store_bank (ctx_bank c) (bw_bank wr)
            (store_account (ctx_marginfi_account c) (with_balance a (balances a) i (bw_balance wr)) w))\<lparr>w_ledger := ledger\<rparr>)))))))"

definition lending_account_settle_emissions :: "runtime \<Rightarrow> world \<Rightarrow> settle_emissions_accounts \<Rightarrow> world result" where
  "lending_account_settle_emissions rt w c =
     (bind (load_account w (ctx_settle_marginfi_account c)) (\<lambda>a.
      bind (load_bank_at w (ctx_settle_bank c)) (\<lambda>b.
      bind (require (ma_group a = bk_group b) ConstraintRaw) (\<lambda>_.
      bind (find_balance (ctx_settle_bank c) (balances a)) (\<lambda>i.
      bind (assert_that (0 \<le> sint (now rt))) (\<lambda>_.
      bind (claim_emissions (rt_fx rt) \<lparr>bw_balance = balances a ! i, bw_bank = b\<rparr> (now rt)) (\<lambda>wr.
      Ok (store_bank (ctx_settle_bank c) (bw_bank wr)
           (store_account (ctx_settle_marginfi_account c) (with_balance a (balances a) i (bw_balance wr)) w)))))))))"

section \<open>The account\<close>

definition initialize_account :: "world \<Rightarrow> account_initialize_accounts \<Rightarrow> world result" where
  "initialize_account w c =
     (bind (load_group w (ctx_init_marginfi_group c)) (\<lambda>_.
      bind (require (unused w (ctx_init_marginfi_account c)) CallFailed) (\<lambda>_.
      Ok (store_account (ctx_init_marginfi_account c)
           (account_initialize account_zeroed (ctx_init_marginfi_group c) (ctx_init_authority c)) w))))"

definition close_account :: "world \<Rightarrow> account_close_accounts \<Rightarrow> world result" where
  "close_account w c =
     (bind (load_account w (ctx_close_marginfi_account c)) (\<lambda>a.
      bind (require (ctx_close_authority c = ma_authority a) ConstraintAddress) (\<lambda>_.
      bind (can_be_closed a) (\<lambda>closable.
      bind (check closable IllegalAction) (\<lambda>_.
      Ok (w\<lparr>w_accounts := (w_accounts w)(ctx_close_marginfi_account c := None)\<rparr>))))))"

definition set_account_transfer_authority :: "world \<Rightarrow> set_authority_accounts \<Rightarrow> world result" where
  "set_account_transfer_authority w c =
     (bind (load_account w (ctx_auth_marginfi_account c)) (\<lambda>a.
      bind (require (ctx_auth_marginfi_group c = ma_group a) ConstraintAddress) (\<lambda>_.
      bind (require (ctx_auth_signer c = ma_authority a) ConstraintAddress) (\<lambda>_.
      bind (set_new_account_authority_checked a (ctx_new_authority c)) (\<lambda>a'.
      Ok (store_account (ctx_auth_marginfi_account c) a' w))))))"

section \<open>Keeping the world well formed\<close>

lemma load_Ok_iff [run_iff]:
  "load_group w pk = Ok g \<longleftrightarrow> w_groups w pk = Some g" "load_account w pk = Ok a \<longleftrightarrow> w_accounts w pk = Some a"
  "load_bank_at w pk = Ok b \<longleftrightarrow> w_banks w pk = Some b" "load_fee_state w = Ok fs \<longleftrightarrow> w_fee_state w = Some fs"
  by (simp_all add: load_group_def load_account_def load_bank_at_def load_fee_state_def run_iff)

lemma require_address_Ok_iff [run_iff]:
  "require_address rt seed keys bump pk = Ok u \<longleftrightarrow> rt_create_address rt seed keys bump = Some pk"
  "require_found_address rt seed keys pk = Ok u \<longleftrightarrow> fst (rt_find_address rt seed keys) = pk"
  "require_token_program rt pk = Ok u \<longleftrightarrow> pk = token_id (rt_mints rt) \<or> pk = token_2022_id (rt_mints rt)"
  by (auto simp: require_address_def require_found_address_def require_token_program_def run_iff)

lemma user_constraints_Ok_iff [run_iff]:
  "user_constraints w c = Ok (g, a, b) \<longleftrightarrow> w_groups w (ctx_marginfi_group c) = Some g \<and>
     w_accounts w (ctx_marginfi_account c) = Some a \<and> w_banks w (ctx_bank c) = Some b \<and>
     ma_group a = ctx_marginfi_group c \<and> ctx_signer c = ma_authority a \<and> bk_group b = ctx_marginfi_group c"
  by (auto simp: user_constraints_def run_iff)

text \<open>
  The common end of the handlers: accrue, find the position, run an operation on it, store.
\<close>

lemma world_ok_operation:
  assumes "fixed_point fx" and "world_ok w" and "w_accounts w ak = Some a" and "w_banks w bk = Some b0"
    and "accrue_interest fx b0 t g = Ok b1" and "position_in a bk la i"
    and "wrapper_ok \<lparr>bw_balance = la ! i, bw_bank = b1\<rparr> \<Longrightarrow> position_step \<lparr>bw_balance = la ! i, bw_bank = b1\<rparr> wr"
  shows "world_ok (store_bank bk (bw_bank wr) (store_account ak (with_balance a la i (bw_balance wr)) w))"
    and "backs ((w_accounts w)(ak \<mapsto> with_balance a la i (bw_balance wr))) bk (bw_bank wr)"
    and "account_ok (balances (with_balance a la i (bw_balance wr)))"
proof -
  have b1: "backs (w_accounts w) bk b1"
    by (rule fixed_point.accrue_interest_backs [OF assms(1) world_okD(3) [OF assms(2,4)] assms(5)])
  note step = assms(7) [OF position_wrapper_ok [OF assms(2,3,6) b1]]
  have "balances (with_balance a la i (bw_balance wr)) = la[i := bw_balance wr]"
    by (simp add: with_balance_def)
  note * = world_ok_position_step [OF assms(2,3,6) b1 step this]
  show "world_ok (store_bank bk (bw_bank wr) (store_account ak (with_balance a la i (bw_balance wr)) w))"
    by (rule *(1))
  show "backs ((w_accounts w)(ak \<mapsto> with_balance a la i (bw_balance wr))) bk (bw_bank wr)"
    by (rule *(2))
  show "account_ok (balances (with_balance a la i (bw_balance wr)))"
    by (rule *(3))
qed

lemma deposit_keeps_world:
  assumes "fixed_point (rt_fx rt)" and "world_ok w" and "lending_account_deposit rt w c ais amount = Ok w'"
  shows "world_ok w'"
proof -
  obtain g a b0 b1 i la wr ledger where
    ctx: "w_accounts w (ctx_marginfi_account c) = Some a" "w_banks w (ctx_bank c) = Some b0"
      "accrue_interest (rt_fx rt) b0 (now rt) g = Ok b1" "find_or_create (ctx_bank c) (balances a) (now rt) = Ok (i, la)"
    and wr: "deposit (rt_fx rt) \<lparr>bw_balance = la ! i, bw_bank = b1\<rparr> (uint amount * SCALE) (now rt) = Ok wr"
    and w': "w' = (store_bank (ctx_bank c) (bw_bank wr)
            (store_account (ctx_marginfi_account c) (with_balance a la i (bw_balance wr)) w))\<lparr>w_ledger := ledger\<rparr>"
    using assms(3)
    by (auto simp: lending_account_deposit_def deposit_constraints_def bind_Ok_iff user_constraints_Ok_iff
        fixed_point.from_u64_law [OF assms(1)])
  show ?thesis
    unfolding w' world_ok_ledger
    by (rule world_ok_operation(1) [OF assms(1,2) ctx(1-3) find_or_create_position [OF world_okD(2) [OF assms(2) ctx(1)] ctx(4)]])
      (rule fixed_point.increase_position_step [OF assms(1) _ _ wr [unfolded deposit_def]], simp_all)
qed

lemma repay_some_or_all_step:
  assumes "fixed_point (rt_fx rt)" and "repay_some_or_all rt wr0 amount all = Ok (post, wr)" and "wrapper_ok wr0"
  shows "position_step wr0 wr"
  using assms(2)
  by (auto simp: repay_some_or_all_def repay_def bind_Ok_iff fixed_point.from_u64_law [OF assms(1)] split: if_splits
      intro: fixed_point.increase_position_step [OF assms(1,3) amount_nonneg] fixed_point.repay_all_position_step [OF assms(1,3)])

lemma withdraw_some_or_all_step:
  assumes "fixed_point (rt_fx rt)" and "withdraw_some_or_all rt m wr0 amount all = Ok (pre, wr)" and "wrapper_ok wr0"
  shows "position_step wr0 wr"
  using assms(2)
  by (auto simp: withdraw_some_or_all_def withdraw_def bind_Ok_iff fixed_point.from_u64_law [OF assms(1)] split: if_splits
      intro: fixed_point.decrease_position_step [OF assms(1,3) amount_nonneg] fixed_point.withdraw_all_position_step [OF assms(1,3)])

lemma repay_keeps_world:
  assumes "fixed_point (rt_fx rt)" and "world_ok w" and "lending_account_repay rt w c ais amount all = Ok w'"
  shows "world_ok w'"
proof -
  obtain g a b0 b1 i wr post ledger where
    ctx: "w_accounts w (ctx_marginfi_account c) = Some a" "w_banks w (ctx_bank c) = Some b0"
      "accrue_interest (rt_fx rt) b0 (now rt) g = Ok b1" "find_balance (ctx_bank c) (balances a) = Ok i"
    and wr: "repay_some_or_all rt \<lparr>bw_balance = balances a ! i, bw_bank = b1\<rparr> amount all = Ok (post, wr)"
    and w': "w' = (store_bank (ctx_bank c) (bw_bank wr)
            (store_account (ctx_marginfi_account c) (with_balance a (balances a) i (bw_balance wr)) w))\<lparr>w_ledger := ledger\<rparr>"
    using assms(3)
    by (auto simp: lending_account_repay_def deposit_constraints_def bind_Ok_iff user_constraints_Ok_iff)
  show ?thesis
    unfolding w' world_ok_ledger
    by (rule world_ok_operation(1) [OF assms(1,2) ctx(1-3) find_balance_position [OF world_okD(2) [OF assms(2) ctx(1)] ctx(4)]
        repay_some_or_all_step [OF assms(1) wr]])
qed

lemma withdraw_OkD:
  assumes "lending_account_withdraw rt w c ais amount all = Ok w'"
  obtains g a b0 b1 m rest i wr pre ledger where "w_accounts w (ctx_marginfi_account c) = Some a"
    and "w_banks w (ctx_bank c) = Some b0" and "ctx_signer c = ma_authority a" and "\<not> get_flag a DISABLED_FLAG"
    and "maybe_take_bank_mint (rt_mints rt) ais b0 (ctx_token_program c) = Ok (m, rest)"
    and "accrue_interest (rt_fx rt) b0 (now rt) g = Ok b1" and "find_balance (ctx_bank c) (balances a) = Ok i"
    and "withdraw_some_or_all rt m \<lparr>bw_balance = balances a ! i, bw_bank = b1\<rparr> amount all = Ok (pre, wr)"
    and "w' = (store_bank (ctx_bank c) (bw_bank wr)
            (store_account (ctx_marginfi_account c) (with_balance a (balances a) i (bw_balance wr)) w))\<lparr>w_ledger := ledger\<rparr>"
    and "check_account_init_health (rt_fx rt) (rt_sdk rt) (w_banks w') (rt_clock rt)
           (with_balance a (balances a) i (bw_balance wr)) rest = Ok ()"
  using assms
  by (auto simp: lending_account_withdraw_def withdraw_constraints_def bind_Ok_iff user_constraints_Ok_iff Let_def
      check_Ok_iff)

lemma withdraw_keeps_world:
  assumes "fixed_point (rt_fx rt)" and "world_ok w" and "lending_account_withdraw rt w c ais amount all = Ok w'"
  shows "world_ok w'"
proof (rule withdraw_OkD [OF assms(3)])
  fix g a b0 b1 m rest i wr pre ledger
  assume ctx: "w_accounts w (ctx_marginfi_account c) = Some a" "w_banks w (ctx_bank c) = Some b0"
      "accrue_interest (rt_fx rt) b0 (now rt) g = Ok b1" "find_balance (ctx_bank c) (balances a) = Ok i"
    and wr: "withdraw_some_or_all rt m \<lparr>bw_balance = balances a ! i, bw_bank = b1\<rparr> amount all = Ok (pre, wr)"
    and w': "w' = (store_bank (ctx_bank c) (bw_bank wr)
            (store_account (ctx_marginfi_account c) (with_balance a (balances a) i (bw_balance wr)) w))\<lparr>w_ledger := ledger\<rparr>"
  show ?thesis
    unfolding w' world_ok_ledger
    by (rule world_ok_operation(1) [OF assms(1,2) ctx(1-3) find_balance_position [OF world_okD(2) [OF assms(2) ctx(1)] ctx(4)]
        withdraw_some_or_all_step [OF assms(1) wr]])
qed

text \<open>A borrow: the fee is never negative, and what group and program get is not either.\<close>

lemma origination_fee_nonneg:
  assumes "fixed_point fx" and "origination_fee_of fx x rate = Ok fee"
  shows "0 \<le> fee"
  using assms(2)
  by (auto simp: origination_fee_of_def bind_Ok_iff ok_or_Ok_iff fixed_point.to_u64_law [OF assms(1)] ZERO_def
      pos_imp_zdiv_nonneg_iff split: if_splits)

lemma saturated:
  fixes z :: int
  assumes "0 \<le> z"
  shows "0 \<le> max (- (2 ^ 127)) (min (2 ^ 127 - 1) z)" and "max (- (2 ^ 127)) (min (2 ^ 127 - 1) z) \<le> z"
    and "fits z \<longrightarrow> max (- (2 ^ 127)) (min (2 ^ 127 - 1) z) = z"
proof -
  have "max (- (2 ^ 127)) (min (2 ^ 127 - 1) z) = min (2 ^ 127 - 1) z"
    using assms by (intro max_absorb2) simp
  then show "0 \<le> max (- (2 ^ 127)) (min (2 ^ 127 - 1) z)" and "max (- (2 ^ 127)) (min (2 ^ 127 - 1) z) \<le> z"
    and "fits z \<longrightarrow> max (- (2 ^ 127)) (min (2 ^ 127 - 1) z) = z"
    using assms by (simp_all add: fits_def)
qed

text \<open>
  With a program rate between none and all, both shares of the fee are credited, and together
  they are the fee unless an addition saturates.
\<close>

lemma collect_origination_fee_OkD:
  assumes "fixed_point fx" and "0 \<le> fee" and "fee_rate_ok rate" and "collect_origination_fee fx b fee rate = Ok b'"
    and "0 \<le> collected_group_fees_outstanding b" and "0 \<le> collected_program_fees_outstanding b"
  obtains x y where "b' = b\<lparr>collected_group_fees_outstanding := x, collected_program_fees_outstanding := y\<rparr>"
    and "0 \<le> x" and "0 \<le> y" and "x + y \<le> collected_group_fees_outstanding b + collected_program_fees_outstanding b + fee"
    and "fits (collected_group_fees_outstanding b + fee) \<and> fits (collected_program_fees_outstanding b + fee) \<longrightarrow>
      collected_group_fees_outstanding b \<le> x \<and> collected_program_fees_outstanding b \<le> y \<and>
      x + y = collected_group_fees_outstanding b + collected_program_fees_outstanding b + fee"
proof -
  let ?g = "collected_group_fees_outstanding b" and ?q = "collected_program_fees_outstanding b"
  define p where "p = fee * rate div SCALE"
  have p: "0 \<le> p" "p \<le> fee"
    using assms(2,3) mul_floor_le_factor [of fee rate] by (auto simp: p_def fee_rate_ok_def mult.commute)
  consider "fee = 0" | "fee \<noteq> 0" "rate = 0" | "fee \<noteq> 0" "rate \<noteq> 0"
    by blast
  then show thesis
  proof cases
    case 1
    then have "b' = b" using assms(4) by (simp add: collect_origination_fee_def ZERO_def)
    with 1 assms(5,6) show thesis by (intro that [where x = ?g and y = ?q]) simp_all
  next
    case 2
    then have b': "b' = b\<lparr>collected_group_fees_outstanding := saturating_add fx ?g fee\<rparr>"
      using assms(4) by (simp add: collect_origination_fee_def ZERO_def)
    have "0 \<le> ?g + fee" using assms(2,5) by simp
    from saturated [OF this] assms(2,5,6) show thesis
      by (intro that [where x = "saturating_add fx ?g fee" and y = ?q]) (simp_all add: b' fixed_point.saturating_add_law [OF assms(1)])
  next
    case 3
    then have b': "b' = b\<lparr>collected_group_fees_outstanding := saturating_add fx ?g (saturating_sub fx fee p),
          collected_program_fees_outstanding := saturating_add fx ?q p\<rparr>"
      using assms(4)
      by (auto simp: collect_origination_fee_def ZERO_def bind_Ok_iff ok_or_Ok_iff fixed_point.mul_law [OF assms(1)]
          fit_Some_iff p_def)
    define d where "d = saturating_sub fx fee p"
    have d: "0 \<le> d" "d \<le> fee - p" "fits fee \<longrightarrow> d = fee - p"
      using saturated [of "fee - p"] p fits_nonneg_le [of "fee - p" fee]
      by (auto simp: d_def fixed_point.saturating_sub_law [OF assms(1)])
    have nn: "0 \<le> ?g + d" "0 \<le> ?q + p" using assms(5,6) p d by simp_all
    have fits: "fits (?g + d) \<and> fits (?q + p) \<and> d = fee - p" if "fits (?g + fee)" "fits (?q + fee)"
      using d p nn assms(2,5) fits_nonneg_le [OF nn(1) _ that(1)] fits_nonneg_le [OF nn(2) _ that(2)]
        fits_nonneg_le [of fee "?g + fee"] that(1) by auto
    define x where "x = saturating_add fx ?g d"
    define y where "y = saturating_add fx ?q p"
    have x: "0 \<le> x" "x \<le> ?g + d" "fits (?g + d) \<longrightarrow> x = ?g + d"
      and y: "0 \<le> y" "y \<le> ?q + p" "fits (?q + p) \<longrightarrow> y = ?q + p"
      unfolding x_def y_def fixed_point.saturating_add_law [OF assms(1)] by (fact saturated [OF nn(1)] saturated [OF nn(2)])+
    show thesis
    proof (rule that [where x = x and y = y])
      show "b' = b\<lparr>collected_group_fees_outstanding := x, collected_program_fees_outstanding := y\<rparr>"
        by (simp add: b' x_def y_def d_def)
      show "fits (?g + fee) \<and> fits (?q + fee) \<longrightarrow> ?g \<le> x \<and> ?q \<le> y \<and> x + y = ?g + ?q + fee"
        using fits x(3) y(3) p by auto
    qed (use x y d in linarith)+
  qed
qed

lemma borrow_OkD:
  assumes "lending_account_borrow rt w c ais amount = Ok w'"
  obtains g a b0 b1 m rest i la pre x fee borrowed wr ledger b2 where "w_groups w (ctx_marginfi_group c) = Some g"
    and "w_accounts w (ctx_marginfi_account c) = Some a"
    and "w_banks w (ctx_bank c) = Some b0" and "ctx_signer c = ma_authority a" and "\<not> get_flag a DISABLED_FLAG"
    and "maybe_take_bank_mint (rt_mints rt) ais b0 (ctx_token_program c) = Ok (m, rest)"
    and "accrue_interest (rt_fx rt) b0 (now rt) g = Ok b1"
    and "find_or_create (ctx_bank c) (balances a) (now rt) = Ok (i, la)"
    and "pre_fee_of (rt_mints rt) m amount (epoch (rt_clock rt)) = Ok pre" and "from_u64 (rt_fx rt) pre = Ok x"
    and "origination_fee_of (rt_fx rt) x (protocol_origination_fee (bc_interest_rate_config (bk_config b1))) = Ok fee"
    and "(if protocol_origination_fee (bc_interest_rate_config (bk_config b1)) \<noteq> ZERO
          then op_add (rt_fx rt) x fee else Ok x) = Ok borrowed"
    and "borrow (rt_fx rt) \<lparr>bw_balance = la ! i, bw_bank = b1\<rparr> borrowed (now rt) = Ok wr"
    and "withdraw_spl_transfer (rt_tk rt) (bw_bank wr) (w_ledger w) pre (ctx_bank_liquidity_vault c)
           (ctx_destination_token_account c) (ctx_bank_liquidity_vault_authority c) (map_option ai_key m) = Ok ledger"
    and "collect_origination_fee (rt_fx rt) (bw_bank wr) fee (fsc_program_fee_rate (grp_fee_state_cache g)) = Ok b2"
    and "w' = (store_bank (ctx_bank c) b2
            (store_account (ctx_marginfi_account c) (with_balance a la i (bw_balance wr)) w))\<lparr>w_ledger := ledger\<rparr>"
    and "check_account_init_health (rt_fx rt) (rt_sdk rt) (w_banks w') (rt_clock rt)
           (with_balance a la i (bw_balance wr)) rest = Ok ()"
  using assms
  by (auto simp: lending_account_borrow_def withdraw_constraints_def bind_Ok_iff user_constraints_Ok_iff Let_def
      check_Ok_iff)

lemma borrowed_nonneg:
  assumes "fixed_point fx" and "from_u64 fx pre = Ok x" and "origination_fee_of fx x rate = Ok fee"
    and "(if rate \<noteq> ZERO then op_add fx x fee else Ok x) = Ok borrowed"
  shows "0 \<le> borrowed" and "borrowed = uint pre * SCALE + fee" and "0 \<le> fee"
proof -
  have x: "x = uint pre * SCALE" using assms(2) by (simp add: fixed_point.from_u64_law [OF assms(1)])
  show fee: "0 \<le> fee" by (rule origination_fee_nonneg [OF assms(1,3)])
  show eq: "borrowed = uint pre * SCALE + fee"
    using assms(3,4)
    by (auto simp: x op_add_def fixed_point.add_law [OF assms(1)] ok_or_Ok_iff fit_Some_iff origination_fee_of_def ZERO_def
        split: if_splits)
  show "0 \<le> borrowed" using fee amount_nonneg [of pre] by (simp add: eq)
qed

lemma borrow_keeps_world:
  assumes "fixed_point (rt_fx rt)" and "world_ok w" and "lending_account_borrow rt w c ais amount = Ok w'"
  shows "world_ok w'"
proof (rule borrow_OkD [OF assms(3)])
  fix g a b0 b1 m rest i la pre x fee borrowed wr ledger b2
  assume g: "w_groups w (ctx_marginfi_group c) = Some g"
    and ctx: "w_accounts w (ctx_marginfi_account c) = Some a" "w_banks w (ctx_bank c) = Some b0"
      "accrue_interest (rt_fx rt) b0 (now rt) g = Ok b1" "find_or_create (ctx_bank c) (balances a) (now rt) = Ok (i, la)"
    and x: "from_u64 (rt_fx rt) pre = Ok x"
    and fee: "origination_fee_of (rt_fx rt) x (protocol_origination_fee (bc_interest_rate_config (bk_config b1))) = Ok fee"
    and borrowed: "(if protocol_origination_fee (bc_interest_rate_config (bk_config b1)) \<noteq> ZERO
          then op_add (rt_fx rt) x fee else Ok x) = Ok borrowed"
    and wr: "borrow (rt_fx rt) \<lparr>bw_balance = la ! i, bw_bank = b1\<rparr> borrowed (now rt) = Ok wr"
    and b2: "collect_origination_fee (rt_fx rt) (bw_bank wr) fee (fsc_program_fee_rate (grp_fee_state_cache g)) = Ok b2"
    and w': "w' = (store_bank (ctx_bank c) b2
            (store_account (ctx_marginfi_account c) (with_balance a la i (bw_balance wr)) w))\<lparr>w_ledger := ledger\<rparr>"
  note nn = borrowed_nonneg [OF assms(1) x fee borrowed]
  note op = world_ok_operation [OF assms(1,2) ctx(1-3) find_or_create_position [OF world_okD(2) [OF assms(2) ctx(1)] ctx(4)]
      fixed_point.decrease_position_step [OF assms(1) _ nn(1) wr [unfolded borrow_def]]]
  let ?acc = "(w_accounts w)(ctx_marginfi_account c \<mapsto> with_balance a la i (bw_balance wr))"
  have backs: "backs ?acc (ctx_bank c) (bw_bank wr)"
    by (rule op(2))
  have "backs ?acc (ctx_bank c) b2"
  proof (rule collect_origination_fee_OkD [OF assms(1) nn(3) world_okD(4) [OF assms(2) g] b2])
    fix p q
    assume "b2 = (bw_bank wr)\<lparr>collected_group_fees_outstanding := p, collected_program_fees_outstanding := q\<rparr>" "0 \<le> p" "0 \<le> q"
    with backs show ?thesis
      by (auto simp: backs_def bank_ok_def)
  qed (use backs in \<open>auto simp: backs_def bank_ok_def\<close>)
  then have "world_ok (store_bank (ctx_bank c) b2 (store_bank (ctx_bank c) (bw_bank wr)
      (store_account (ctx_marginfi_account c) (with_balance a la i (bw_balance wr)) w)))"
    by (intro world_ok_store_bank [OF op(1)]) simp_all
  then show ?thesis
    by (simp add: w' store_bank_again)
qed

lemma accrue_nothing: "accrue_interest fx b (last_update b) g = Ok b"
  by (simp add: accrue_interest_def elapsed_def)

lemma close_balance_keeps_world:
  assumes "fixed_point (rt_fx rt)" and "world_ok w" and "lending_account_close_balance rt w c = Ok w'"
  shows "world_ok w'"
proof -
  obtain g a b0 b1 i wr where
    ctx: "w_accounts w (ctx_marginfi_account c) = Some a" "w_banks w (ctx_bank c) = Some b0"
      "accrue_interest (rt_fx rt) b0 (now rt) g = Ok b1" "find_balance (ctx_bank c) (balances a) = Ok i"
    and wr: "close_balance (rt_fx rt) \<lparr>bw_balance = balances a ! i, bw_bank = b1\<rparr> (now rt) = Ok wr"
    and w': "w' = store_bank (ctx_bank c) (bw_bank wr)
            (store_account (ctx_marginfi_account c) (with_balance a (balances a) i (bw_balance wr)) w)"
    using assms(3) by (auto simp: lending_account_close_balance_def bind_Ok_iff user_constraints_Ok_iff)
  show ?thesis
    unfolding w'
    by (rule world_ok_operation(1) [OF assms(1,2) ctx(1-3) find_balance_position [OF world_okD(2) [OF assms(2) ctx(1)] ctx(4)]
        fixed_point.close_balance_position_step [OF assms(1) _ wr]])
qed

lemma withdraw_emissions_keeps_world:
  assumes "fixed_point (rt_fx rt)" and "world_ok w" and "lending_account_withdraw_emissions rt w c = Ok w'"
  shows "world_ok w'"
proof -
  obtain g a b i amount wr ledger where
    ctx: "w_accounts w (ctx_marginfi_account c) = Some a" "w_banks w (ctx_bank c) = Some b"
      "find_balance (ctx_bank c) (balances a) = Ok i"
    and wr: "settle_emissions_and_get_transfer_amount (rt_fx rt) \<lparr>bw_balance = balances a ! i, bw_bank = b\<rparr> (now rt) = Ok (amount, wr)"
    and w': "w' = (store_bank (ctx_bank c) (bw_bank wr)
            (store_account (ctx_marginfi_account c) (with_balance a (balances a) i (bw_balance wr)) w))\<lparr>w_ledger := ledger\<rparr>"
    using assms(3)
    by (auto simp: lending_account_withdraw_emissions_def withdraw_emissions_constraints_def bind_Ok_iff user_constraints_Ok_iff)
  show ?thesis
    unfolding w' world_ok_ledger
    by (rule world_ok_operation(1) [OF assms(1,2) ctx(1,2) accrue_nothing
        find_balance_position [OF world_okD(2) [OF assms(2) ctx(1)] ctx(3)]
        fixed_point.settle_emissions_position_step [OF assms(1) _ wr]])
qed

lemma settle_emissions_keeps_world:
  assumes "fixed_point (rt_fx rt)" and "world_ok w" and "lending_account_settle_emissions rt w c = Ok w'"
  shows "world_ok w'"
proof -
  obtain a b i wr where
    ctx: "w_accounts w (ctx_settle_marginfi_account c) = Some a" "w_banks w (ctx_settle_bank c) = Some b"
      "find_balance (ctx_settle_bank c) (balances a) = Ok i"
    and wr: "claim_emissions (rt_fx rt) \<lparr>bw_balance = balances a ! i, bw_bank = b\<rparr> (now rt) = Ok wr"
    and w': "w' = store_bank (ctx_settle_bank c) (bw_bank wr)
            (store_account (ctx_settle_marginfi_account c) (with_balance a (balances a) i (bw_balance wr)) w)"
    using assms(3) by (auto simp: lending_account_settle_emissions_def bind_Ok_iff load_Ok_iff)
  show ?thesis
    unfolding w'
    by (rule world_ok_operation(1) [OF assms(1,2) ctx(1,2) accrue_nothing
        find_balance_position [OF world_okD(2) [OF assms(2) ctx(1)] ctx(3)]
        fixed_point.claim_emissions_position_step [OF assms(1) _ wr]])
qed

lemma held_zeroed: "held f bk (balances account_zeroed) = 0"
  by (simp add: held_def account_zeroed_def empty_deactivated_def)

lemma initialize_account_keeps_world:
  assumes "world_ok w" and "initialize_account w c = Ok w'"
  shows "world_ok w'"
proof -
  let ?ak = "ctx_init_marginfi_account c"
  let ?a = "account_initialize account_zeroed (ctx_init_marginfi_group c) (ctx_init_authority c)"
  have none: "w_accounts w ?ak = None" and w': "w' = store_account ?ak ?a w"
    using assms(2) by (auto simp: initialize_account_def run_iff unused_def)
  have bal: "balances ?a = balances account_zeroed"
    by (simp add: account_initialize_def)
  note w = world_okD [OF assms(1)]
  have "backs ((w_accounts w)(?ak \<mapsto> ?a)) bk b" if "w_banks w bk = Some b" for bk b
    by (intro backs_cong [OF w(3) [OF that]]) (simp_all add: held_by_all_insert [OF w(1) none] bal held_zeroed)
  then show ?thesis
    using w account_zeroed_ok bal
    by (auto simp: world_ok_def w' store_account_def held_by_all_insert [OF w(1) none] held_zeroed)
qed

lemma close_account_keeps_world:
  assumes "world_ok w" and "close_account w c = Ok w'"
  shows "world_ok w'"
proof -
  let ?ak = "ctx_close_marginfi_account c"
  obtain a where a: "w_accounts w ?ak = Some a" and w': "w' = w\<lparr>w_accounts := (w_accounts w)(?ak := None)\<rparr>"
    using assms(2) by (auto simp: close_account_def run_iff)
  note w = world_okD [OF assms(1)]
  have less: "held_by_all asset_shares bk ((w_accounts w)(?ak := None)) \<le> held_by_all asset_shares bk (w_accounts w)"
    "held_by_all liability_shares bk ((w_accounts w)(?ak := None)) \<le> held_by_all liability_shares bk (w_accounts w)" for bk
    by (auto simp: held_by_all_remove [OF w(1) a] intro!: held_nonneg account_ok_nonneg [OF w(2) [OF a]])
  have "backs ((w_accounts w)(?ak := None)) bk b" if "w_banks w bk = Some b" for bk b
    by (rule backs_cong [OF w(3) [OF that] less])
  then show ?thesis
    using w order_trans [OF less(1)] order_trans [OF less(2)] by (auto simp: world_ok_def w')
qed

lemma set_authority_keeps_world:
  assumes "world_ok w" and "set_account_transfer_authority w c = Ok w'"
  shows "world_ok w'"
proof -
  obtain a a' where a: "w_accounts w (ctx_auth_marginfi_account c) = Some a"
    and a': "set_new_account_authority_checked a (ctx_new_authority c) = Ok a'"
    and w': "w' = store_account (ctx_auth_marginfi_account c) a' w"
    using assms(2) by (auto simp: set_account_transfer_authority_def run_iff)
  have "balances a' = balances a"
    using a' by (auto simp: set_new_account_authority_checked_def unset_flag_def split: if_splits)
  then show ?thesis
    unfolding w' using world_okD(2) [OF assms(1) a] by (intro world_ok_store_account [OF assms(1) a]) simp_all
qed

section \<open>Claims\<close>

text \<open>Accruing interest and collecting the origination fee leave the configuration and the totals of the bank.\<close>

lemma accrue_interest_config:
  assumes "fixed_point fx" and "bank_ok b" and "accrue_interest fx b t g = Ok b'"
  shows "bk_config b' = bk_config b \<and> total_asset_shares b' = total_asset_shares b \<and>
    total_liability_shares b' = total_liability_shares b"
proof -
  have eq: "b' = b\<lparr>last_update := t, asset_share_value := asset_share_value b', liability_share_value := liability_share_value b',
      collected_group_fees_outstanding := collected_group_fees_outstanding b',
      collected_insurance_fees_outstanding := collected_insurance_fees_outstanding b',
      collected_program_fees_outstanding := collected_program_fees_outstanding b'\<rparr>"
    using fixed_point.accrue_interest_frame [OF assms] by blast
  show ?thesis by (intro conjI; subst eq, simp)
qed

lemma collect_origination_fee_totals:
  assumes "collect_origination_fee fx b fee r = Ok b'"
  shows "total_assets b' = total_assets b \<and> total_liabilities b' = total_liabilities b \<and>
    total_liability_shares b' = total_liability_shares b"
  using assms by (auto simp: collect_origination_fee_def bind_Ok_iff total_assets_def total_liabilities_def split: if_splits)

text \<open>The bank and the position that an operation of a user works on.\<close>

lemma accrued_position_ok:
  assumes "fixed_point fx" and "world_ok w" and "w_accounts w ak = Some a" and "w_banks w bk = Some b0"
    and "accrue_interest fx b0 t g = Ok b1" and "position_in a bk la i"
  shows "wrapper_ok \<lparr>bw_balance = la ! i, bw_bank = b1\<rparr>"
    and "bk_config b1 = bk_config b0" and "total_asset_shares b1 = total_asset_shares b0"
    and "total_liability_shares b1 = total_liability_shares b0"
proof -
  note backs = world_okD(3) [OF assms(2,4)]
  show "wrapper_ok \<lparr>bw_balance = la ! i, bw_bank = b1\<rparr>"
    by (rule position_wrapper_ok [OF assms(2,3,6) fixed_point.accrue_interest_backs [OF assms(1) backs assms(5)]])
  show "bk_config b1 = bk_config b0" "total_asset_shares b1 = total_asset_shares b0" "total_liability_shares b1 = total_liability_shares b0"
    using accrue_interest_config [OF assms(1) _ assms(5)] backs by (simp_all add: backs_def)
qed

lemma deposit_within_limit:
  assumes "fixed_point (rt_fx rt)" and "world_ok w" and "lending_account_deposit rt w c ais amount = Ok w'"
  shows "\<exists>b b'. w_banks w (ctx_bank c) = Some b \<and> w_banks w' (ctx_bank c) = Some b' \<and>
    (total_asset_shares b < total_asset_shares b' \<and> is_deposit_limit_active (bk_config b) \<longrightarrow>
       total_assets b' < uint (deposit_limit (bk_config b)) * SCALE)"
proof -
  obtain g a b0 b1 i la wr ledger where
    ctx: "w_accounts w (ctx_marginfi_account c) = Some a" "w_banks w (ctx_bank c) = Some b0"
      "accrue_interest (rt_fx rt) b0 (now rt) g = Ok b1" "find_or_create (ctx_bank c) (balances a) (now rt) = Ok (i, la)"
    and wr: "deposit (rt_fx rt) \<lparr>bw_balance = la ! i, bw_bank = b1\<rparr> (uint amount * SCALE) (now rt) = Ok wr"
    and w': "w' = (store_bank (ctx_bank c) (bw_bank wr)
            (store_account (ctx_marginfi_account c) (with_balance a la i (bw_balance wr)) w))\<lparr>w_ledger := ledger\<rparr>"
    using assms(3)
    by (auto simp: lending_account_deposit_def deposit_constraints_def bind_Ok_iff user_constraints_Ok_iff
        fixed_point.from_u64_law [OF assms(1)])
  note ok = accrued_position_ok [OF assms(1,2) ctx(1-3) find_or_create_position [OF world_okD(2) [OF assms(2) ctx(1)] ctx(4)]]
  from wr have "total_asset_shares b1 < total_asset_shares (bw_bank wr) \<and> is_deposit_limit_active (bk_config b1) \<longrightarrow>
      total_assets (bw_bank wr) < uint (deposit_limit (bk_config b1)) * SCALE"
    unfolding deposit_def by (rule fixed_point.increase_balance_OkD [OF assms(1) ok(1) amount_nonneg]) simp
  then show ?thesis
    using ctx(2) by (simp add: w' ok(2-4))
qed

lemma withdraw_within_deposits:
  assumes "fixed_point (rt_fx rt)" and "world_ok w" and "lending_account_withdraw rt w c ais amount all = Ok w'"
  shows "\<exists>b'. w_banks w' (ctx_bank c) = Some b' \<and> total_liabilities b' \<le> total_assets b'"
proof (rule withdraw_OkD [OF assms(3)])
  fix g a b0 b1 m rest i wr pre ledger
  assume ctx: "w_accounts w (ctx_marginfi_account c) = Some a" "w_banks w (ctx_bank c) = Some b0"
      "accrue_interest (rt_fx rt) b0 (now rt) g = Ok b1" "find_balance (ctx_bank c) (balances a) = Ok i"
    and wr: "withdraw_some_or_all rt m \<lparr>bw_balance = balances a ! i, bw_bank = b1\<rparr> amount all = Ok (pre, wr)"
    and w': "w' = (store_bank (ctx_bank c) (bw_bank wr)
            (store_account (ctx_marginfi_account c) (with_balance a (balances a) i (bw_balance wr)) w))\<lparr>w_ledger := ledger\<rparr>"
  note ok = accrued_position_ok [OF assms(1,2) ctx(1-3) find_balance_position [OF world_okD(2) [OF assms(2) ctx(1)] ctx(4)]]
  have "total_liabilities (bw_bank wr) \<le> total_assets (bw_bank wr)"
    using wr
    by (auto simp: withdraw_some_or_all_def withdraw_def bind_Ok_iff fixed_point.from_u64_law [OF assms(1)] split: if_splits
        elim!: fixed_point.decrease_balance_OkD [OF assms(1) ok(1) amount_nonneg] fixed_point.withdraw_all_OkD [OF assms(1) ok(1)])
  then show ?thesis by (simp add: w')
qed

lemma borrow_within_limit:
  assumes "fixed_point (rt_fx rt)" and "world_ok w" and "lending_account_borrow rt w c ais amount = Ok w'"
  shows "\<exists>b b'. w_banks w (ctx_bank c) = Some b \<and> w_banks w' (ctx_bank c) = Some b' \<and>
    (total_liability_shares b < total_liability_shares b' \<and> is_borrow_limit_active (bk_config b) \<longrightarrow>
       total_liabilities b' < uint (borrow_limit (bk_config b)) * SCALE) \<and> total_liabilities b' \<le> total_assets b'"
proof (rule borrow_OkD [OF assms(3)])
  fix g a b0 b1 m rest i la pre x fee borrowed wr ledger b2
  assume ctx: "w_accounts w (ctx_marginfi_account c) = Some a" "w_banks w (ctx_bank c) = Some b0"
      "accrue_interest (rt_fx rt) b0 (now rt) g = Ok b1" "find_or_create (ctx_bank c) (balances a) (now rt) = Ok (i, la)"
    and x: "from_u64 (rt_fx rt) pre = Ok x"
    and fee: "origination_fee_of (rt_fx rt) x (protocol_origination_fee (bc_interest_rate_config (bk_config b1))) = Ok fee"
    and borrowed: "(if protocol_origination_fee (bc_interest_rate_config (bk_config b1)) \<noteq> ZERO
          then op_add (rt_fx rt) x fee else Ok x) = Ok borrowed"
    and wr: "borrow (rt_fx rt) \<lparr>bw_balance = la ! i, bw_bank = b1\<rparr> borrowed (now rt) = Ok wr"
    and b2: "collect_origination_fee (rt_fx rt) (bw_bank wr) fee (fsc_program_fee_rate (grp_fee_state_cache g)) = Ok b2"
    and w': "w' = (store_bank (ctx_bank c) b2
            (store_account (ctx_marginfi_account c) (with_balance a la i (bw_balance wr)) w))\<lparr>w_ledger := ledger\<rparr>"
  note ok = accrued_position_ok [OF assms(1,2) ctx(1-3) find_or_create_position [OF world_okD(2) [OF assms(2) ctx(1)] ctx(4)]]
  from wr have "(total_liability_shares b1 < total_liability_shares (bw_bank wr) \<and> is_borrow_limit_active (bk_config b1) \<longrightarrow>
      total_liabilities (bw_bank wr) < uint (borrow_limit (bk_config b1)) * SCALE) \<and>
    total_liabilities (bw_bank wr) \<le> total_assets (bw_bank wr)"
    unfolding borrow_def
    by (rule fixed_point.decrease_balance_OkD [OF assms(1) ok(1) borrowed_nonneg(1) [OF assms(1) x fee borrowed]]) simp
  then show ?thesis
    using ctx(2) collect_origination_fee_totals [OF b2] by (simp add: w' ok(2-4))
qed

text \<open>
  C15. The limits of a bank hold at the level of the instructions, in a well-formed world and with
  the interest accrued. A deposit after which the bank has more deposit shares leaves its deposits
  below the deposit limit, where that limit is active. A borrow after which it has more debt
  shares leaves its debts, the origination fee included, below the borrow limit, where that limit is active. A borrow
  and a withdrawal, of an amount or of all, leave no more debt in the bank than deposits.
\<close>

theorem limits_respected:
  assumes "fixed_point (rt_fx rt)" and "world_ok w"
  shows "(lending_account_deposit rt w cd ais amount = Ok w' \<longrightarrow>
      (\<exists>b b'. w_banks w (ctx_bank cd) = Some b \<and> w_banks w' (ctx_bank cd) = Some b' \<and>
        (total_asset_shares b < total_asset_shares b' \<and> is_deposit_limit_active (bk_config b) \<longrightarrow>
           total_assets b' < uint (deposit_limit (bk_config b)) * SCALE))) \<and>
    (lending_account_borrow rt w cw ais amount = Ok w' \<longrightarrow>
      (\<exists>b b'. w_banks w (ctx_bank cw) = Some b \<and> w_banks w' (ctx_bank cw) = Some b' \<and>
        (total_liability_shares b < total_liability_shares b' \<and> is_borrow_limit_active (bk_config b) \<longrightarrow>
           total_liabilities b' < uint (borrow_limit (bk_config b)) * SCALE) \<and> total_liabilities b' \<le> total_assets b')) \<and>
    (lending_account_withdraw rt w cw ais amount all = Ok w' \<longrightarrow>
      (\<exists>b'. w_banks w' (ctx_bank cw) = Some b' \<and> total_liabilities b' \<le> total_assets b'))"
  using deposit_within_limit [OF assms] borrow_within_limit [OF assms] withdraw_within_deposits [OF assms] by blast

theorem limits_respected_witness:
  "\<exists>w' b'. lending_account_deposit example_runtime example_world
      \<lparr>ctx_marginfi_group = 2, ctx_marginfi_account = 61, ctx_signer = 71, ctx_bank = 51,
       ctx_signer_token_account = 5, ctx_deposit_vault = 41, ctx_deposit_token_program = 1\<rparr> [] 1000 = Ok w' \<and>
     w_banks w' 51 = Some b' \<and> total_assets b' < uint (deposit_limit (bk_config example_bank)) * SCALE"
proof -
  let ?c = "\<lparr>ctx_marginfi_group = 2, ctx_marginfi_account = 61, ctx_signer = 71, ctx_bank = 51,
       ctx_signer_token_account = 5, ctx_deposit_vault = 41, ctx_deposit_token_program = 1\<rparr>"
  let ?run = "lending_account_deposit example_runtime example_world ?c [] 1000"
  have "case ?run of Ok w' \<Rightarrow> (case w_banks w' 51 of Some b' \<Rightarrow> total_asset_shares example_bank < total_asset_shares b' | None \<Rightarrow> False)
      | Err e \<Rightarrow> False"
    and active: "is_deposit_limit_active (bk_config example_bank)"
    by code_simp+
  then obtain w' b' where run: "?run = Ok w'" and b': "w_banks w' 51 = Some b'" "total_asset_shares example_bank < total_asset_shares b'"
    by (auto split: sum.splits option.splits)
  have fx: "fixed_point (rt_fx example_runtime)"
    using reference.fixed_point_axioms by (simp add: example_runtime_def)
  have b: "w_banks example_world 51 = Some example_bank"
    by (simp add: example_world_def)
  from limits_respected [OF fx example_world_ok, of ?c "[]" 1000 w'] run b b' active show ?thesis
    by auto
qed

end
