(* ===== verification/Liquidation.thy ===== *)
theory Liquidation
  imports Account_Instructions
begin

text \<open>
  \<^verbatim>\<open>lending_account_liquidate\<close> of \<^verbatim>\<open>instructions/marginfi_account/liquidate.rs\<close>: a liquidator takes
  collateral of an unhealthy account and pays part of its debt, with a fee for the insurance fund.

  The two accounts and the two banks are held mutably during the instruction, so each of the four
  changes of a balance is written back to the world at once.
\<close>

section \<open>Accounts\<close>

record liquidate_accounts =
  liq_marginfi_group :: pubkey
  liq_asset_bank :: pubkey
  liq_liab_bank :: pubkey
  liq_liquidator_marginfi_account :: pubkey
  liq_signer :: pubkey
  liq_liquidatee_marginfi_account :: pubkey
  liq_bank_liquidity_vault_authority :: pubkey
  liq_bank_liquidity_vault :: pubkey
  liq_bank_insurance_vault :: pubkey
  liq_token_program :: pubkey

definition liquidate_constraints ::
    "runtime \<Rightarrow> world \<Rightarrow> liquidate_accounts \<Rightarrow> (marginfi_group \<times> bank \<times> bank \<times> marginfi_account \<times> marginfi_account) result" where
  "liquidate_constraints rt w c =
     (bind (load_group w (liq_marginfi_group c)) (\<lambda>g.
      bind (load_bank_at w (liq_asset_bank c)) (\<lambda>asset_bank.
      bind (load_bank_at w (liq_liab_bank c)) (\<lambda>liab_bank.
      bind (load_account w (liq_liquidator_marginfi_account c)) (\<lambda>liquidator.
      bind (load_account w (liq_liquidatee_marginfi_account c)) (\<lambda>liquidatee.
      bind (require (bk_group asset_bank = liq_marginfi_group c) ConstraintRaw) (\<lambda>_.
      bind (require (bk_group liab_bank = liq_marginfi_group c) ConstraintRaw) (\<lambda>_.
      bind (require (ma_group liquidator = liq_marginfi_group c) ConstraintRaw) (\<lambda>_.
      bind (require (liq_signer c = ma_authority liquidator) ConstraintAddress) (\<lambda>_.
      bind (require (ma_group liquidatee = liq_marginfi_group c) ConstraintRaw) (\<lambda>_.
      bind (require_address rt (get_authority_seed LiquidityVault) [liq_liab_bank c]
              (liquidity_vault_authority_bump liab_bank) (liq_bank_liquidity_vault_authority c)) (\<lambda>_.
      bind (require_address rt (get_seed LiquidityVault) [liq_liab_bank c]
              (liquidity_vault_bump liab_bank) (liq_bank_liquidity_vault c)) (\<lambda>_.
      bind (require_address rt (get_seed InsuranceVault) [liq_liab_bank c]
              (insurance_vault_bump liab_bank) (liq_bank_insurance_vault c)) (\<lambda>_.
      bind (require_token_program rt (liq_token_program c)) (\<lambda>_.
      Ok (g, asset_bank, liab_bank, liquidator, liquidatee))))))))))))))))"

section \<open>Quantities\<close>

text \<open>
  The debt the liquidator takes over, the debt the liquidatee is relieved of, and the difference,
  the fee of the insurance fund.
\<close>

definition liquidation_quantities ::
    "fixed_ops \<Rightarrow> u8 \<Rightarrow> u8 \<Rightarrow> i80f48 \<Rightarrow> i80f48 \<Rightarrow> i80f48 \<Rightarrow> (i80f48 \<times> i80f48 \<times> i80f48) result" where
  "liquidation_quantities fx asset_decimals liab_decimals asset_amount asset_price liab_price =
     (bind (op_add fx LIQUIDATION_INSURANCE_FEE LIQUIDATION_LIQUIDATOR_FEE) (\<lambda>fees.
      bind (op_sub fx ONE fees) (\<lambda>final_discount.
      bind (op_sub fx ONE LIQUIDATION_LIQUIDATOR_FEE) (\<lambda>liquidator_discount.
      bind (calc_value fx asset_amount asset_price asset_decimals (Some liquidator_discount)) (\<lambda>v1.
      bind (calc_amount fx v1 liab_price liab_decimals) (\<lambda>liab_amount_liquidator.
      bind (calc_value fx asset_amount asset_price asset_decimals (Some final_discount)) (\<lambda>v2.
      bind (calc_amount fx v2 liab_price liab_decimals) (\<lambda>liab_amount_final.
      bind (op_sub fx liab_amount_liquidator liab_amount_final) (\<lambda>insurance_fund_fee.
      bind (assert_that (ZERO \<le> insurance_fund_fee)) (\<lambda>_.
      Ok (liab_amount_liquidator, liab_amount_final, insurance_fund_fee)))))))))))"

text \<open>The price of one of the two oracles at the head of the remaining accounts.\<close>

definition liquidation_price ::
    "runtime \<Rightarrow> bank \<Rightarrow> account_info list \<Rightarrow> nat \<Rightarrow> price_bias \<Rightarrow> i80f48 result" where
  "liquidation_price rt b remaining_accounts k bias =
     (bind (slice remaining_accounts k (k + 1)) (\<lambda>oracle_ais.
      bind (try_from_bank_config (rt_sdk rt) (bk_config b) oracle_ais (rt_clock rt)) (\<lambda>pf.
      get_price_of_type (rt_fx rt) (rt_sdk rt) pf RealTime (Some bias))))"

section \<open>Changing a position of the world\<close>

definition position_amount :: "fixed_ops \<Rightarrow> balance_side \<Rightarrow> bank_account_wrapper \<Rightarrow> i80f48 result" where
  "position_amount fx side wr = (case side of
     Assets \<Rightarrow> get_asset_amount fx (bw_bank wr) (asset_shares (bw_balance wr))
   | Liabilities \<Rightarrow> get_liability_amount fx (bw_bank wr) (liability_shares (bw_balance wr)))"

text \<open>
  Find or find-or-create the position, run an operation on it, write balance and bank back. The
  amount is read before and after for the event, which can overflow.
\<close>

definition change_position ::
    "fixed_ops \<Rightarrow> i64 \<Rightarrow> bool \<Rightarrow> balance_side \<Rightarrow> pubkey \<Rightarrow> pubkey \<Rightarrow>
     (bank_account_wrapper \<Rightarrow> bank_account_wrapper result) \<Rightarrow> world \<Rightarrow> world result" where
  "change_position fx t create side ak bk op w =
     (bind (load_account w ak) (\<lambda>a.
      bind (load_bank_at w bk) (\<lambda>b.
      bind (if create then find_or_create bk (balances a) t
            else bind (find_balance bk (balances a)) (\<lambda>i. Ok (i, balances a))) (\<lambda>(i, la).
      bind (position_amount fx side \<lparr>bw_balance = la ! i, bw_bank = b\<rparr>) (\<lambda>pre_balance.
      bind (op \<lparr>bw_balance = la ! i, bw_bank = b\<rparr>) (\<lambda>wr.
      bind (position_amount fx side wr) (\<lambda>post_balance.
      Ok (store_bank bk (bw_bank wr) (store_account ak (with_balance a la i (bw_balance wr)) w)))))))))"

section \<open>The instruction\<close>

definition liquidation_accounting ::
    "runtime \<Rightarrow> liquidate_accounts \<Rightarrow> account_info option \<Rightarrow> i80f48 \<Rightarrow> i80f48 \<Rightarrow> i80f48 \<Rightarrow> i80f48 \<Rightarrow> world \<Rightarrow> world result" where
  "liquidation_accounting rt c maybe_liab_bank_mint asset_amount liab_amount_liquidator liab_amount_final insurance_fund_fee w =
     (let fx = rt_fx rt; t = now rt in
      bind (change_position fx t True Liabilities (liq_liquidator_marginfi_account c) (liq_liab_bank c)
              (\<lambda>wr. decrease_balance_in_liquidation fx wr liab_amount_liquidator t) w) (\<lambda>w1.
      bind (change_position fx t False Assets (liq_liquidatee_marginfi_account c) (liq_asset_bank c)
              (\<lambda>wr. map_err (withdraw fx wr asset_amount t) IllegalLiquidation) w1) (\<lambda>w2.
      bind (change_position fx t True Assets (liq_liquidator_marginfi_account c) (liq_asset_bank c)
              (\<lambda>wr. increase_balance_in_liquidation fx wr asset_amount t) w2) (\<lambda>w3.
      bind (ok_or_math_error (checked_to_u64 fx insurance_fund_fee)) (\<lambda>insurance_fee_to_transfer.
      bind (change_position fx t True Liabilities (liq_liquidatee_marginfi_account c) (liq_liab_bank c)
              (\<lambda>wr. increase_balance fx wr liab_amount_final t) w3) (\<lambda>w4.
      bind (load_bank_at w4 (liq_liab_bank c)) (\<lambda>liab_bank.
      bind (withdraw_spl_transfer (rt_tk rt) liab_bank (w_ledger w4) insurance_fee_to_transfer
              (liq_bank_liquidity_vault c) (liq_bank_insurance_vault c) (liq_bank_liquidity_vault_authority c)
              (map_option ai_key maybe_liab_bank_mint)) (\<lambda>ledger.
      bind (ok_or_math_error (checked_add fx (collected_insurance_fees_outstanding liab_bank)
              (frac_part fx insurance_fund_fee))) (\<lambda>fees_outstanding.
      Ok ((store_bank (liq_liab_bank c)
            (liab_bank\<lparr>collected_insurance_fees_outstanding := fees_outstanding\<rparr>) w4)\<lparr>w_ledger := ledger\<rparr>))))))))))"

text \<open>\<^verbatim>\<open>a - b\<close> on \<^verbatim>\<open>usize\<close>.\<close>

definition usize_sub :: "nat \<Rightarrow> nat \<Rightarrow> nat result" where
  "usize_sub a b = (if b \<le> a then Ok (a - b) else Err Panic)"

definition lending_account_liquidate ::
    "runtime \<Rightarrow> world \<Rightarrow> liquidate_accounts \<Rightarrow> account_info list \<Rightarrow> u64 \<Rightarrow> world result" where
  "lending_account_liquidate rt w c remaining_accounts asset_amount =
     (let fx = rt_fx rt; sdk = rt_sdk rt; clk = rt_clock rt in
      bind (liquidate_constraints rt w c) (\<lambda>(g, asset_bank0, liab_bank0, liquidator0, liquidatee0).
      bind (check (0 < asset_amount) IllegalLiquidation) (\<lambda>_.
      bind (check (liq_asset_bank c \<noteq> liq_liab_bank c) IllegalLiquidation) (\<lambda>_.
      bind (require (liq_liquidator_marginfi_account c \<noteq> liq_liquidatee_marginfi_account c) AccountBorrowFailed) (\<lambda>_.
      bind (maybe_take_bank_mint (rt_mints rt) remaining_accounts liab_bank0 (liq_token_program c)) (\<lambda>(maybe_liab_bank_mint, remaining).
      bind (accrue_interest fx asset_bank0 (now rt) g) (\<lambda>asset_bank.
      bind (accrue_interest fx liab_bank0 (now rt) g) (\<lambda>liab_bank.
      let w1 = store_bank (liq_liab_bank c) liab_bank (store_bank (liq_asset_bank c) asset_bank w) in
      bind (usize_sub (length remaining) (get_remaining_accounts_len liquidatee0)) (\<lambda>liquidatee_pos.
      let liquidatee_ais = drop liquidatee_pos remaining in
      bind (risk_engine_new sdk (w_banks w1) clk liquidatee0 liquidatee_ais) (\<lambda>re0.
      bind (check_pre_liquidation_condition_and_get_account_health fx sdk (w_banks w1) re0 (liq_liab_bank c)) (\<lambda>pre_liquidation_health.
      bind (from_u64 fx asset_amount) (\<lambda>amount.
      bind (liquidation_price rt asset_bank remaining 0 Low) (\<lambda>asset_price.
      bind (liquidation_price rt liab_bank remaining 1 High) (\<lambda>liab_price.
      bind (liquidation_quantities fx (mint_decimals asset_bank) (mint_decimals liab_bank) amount asset_price liab_price)
        (\<lambda>(liab_amount_liquidator, liab_amount_final, insurance_fund_fee).
      bind (liquidation_accounting rt c maybe_liab_bank_mint amount liab_amount_liquidator liab_amount_final insurance_fund_fee w1) (\<lambda>w2.
      bind (load_account w2 (liq_liquidator_marginfi_account c)) (\<lambda>liquidator.
      bind (load_account w2 (liq_liquidatee_marginfi_account c)) (\<lambda>liquidatee.
      bind (usize_sub liquidatee_pos (get_remaining_accounts_len liquidator)) (\<lambda>liquidator_pos.
      bind (slice remaining liquidator_pos liquidatee_pos) (\<lambda>liquidator_ais.
      bind (risk_engine_new sdk (w_banks w2) clk liquidatee liquidatee_ais) (\<lambda>re.
      bind (check_post_liquidation_condition_and_get_account_health fx sdk (w_banks w2) re (liq_liab_bank c)
              pre_liquidation_health) (\<lambda>post_liquidation_health.
      bind (check_account_init_health fx sdk (w_banks w2) clk liquidator liquidator_ais) (\<lambda>_.
      Ok w2)))))))))))))))))))))))"

section \<open>Quantities are sound\<close>

text \<open>A weighted value of an amount the format holds, with a weight of at most one, does not panic.\<close>

lemma calc_value_no_panic:
  assumes "fixed_point fx" and "0 \<le> amount" and "fits amount" and "0 \<le> w" and "w \<le> SCALE" and "0 \<le> price" and "unat d < 24"
  shows "(\<exists>v. calc_value fx amount price d (Some w) = Ok v \<and> v = amount * w div SCALE * price div SCALE div 10 ^ unat d) \<or>
    calc_value fx amount price d (Some w) = Err (Mfi MathError)"
proof -
  have "w * amount div SCALE \<le> amount"
    using assms by (intro mul_floor_le_factor)
  then have "fits (amount * w div SCALE)"
    using assms by (intro fits_nonneg_le [OF _ _ assms(3)]) (simp_all add: mult.commute)
  then have "is_ok (calc_value fx amount price d (Some w)) \<or> calc_value fx amount price d (Some w) = Err (Mfi MathError)"
    using assms(7)
    by (auto simp: calc_value_def is_ok_def bind_def index_at_def EXP_10_I80F48_def ok_or_def
        fixed_point.mul_law [OF assms(1)] split: option.splits)
  then show ?thesis
    using fixed_point.calc_value_OkD [OF assms(1)] assms(2,4,6) by (fastforce simp: is_ok_iff)
qed

lemma calc_amount_no_panic:
  assumes "fixed_point fx" and "0 \<le> v" and "0 \<le> price" and "unat d < 24"
  shows "(\<exists>x. calc_amount fx v price d = Ok x \<and> 0 < price \<and> x = v * 10 ^ unat d * SCALE div price) \<or>
    calc_amount fx v price d = Err (Mfi MathError)"
proof -
  have "(is_ok (calc_amount fx v price d) \<and> price \<noteq> 0) \<or> calc_amount fx v price d = Err (Mfi MathError)"
    using assms(4)
    by (auto simp: calc_amount_def is_ok_def bind_def index_at_def EXP_10_I80F48_def ok_or_def
        fixed_point.div_law [OF assms(1)] split: option.splits if_splits)
  then show ?thesis
    using fixed_point.calc_amount_OkD [OF assms(1) _ assms(2)] assms(3) by (fastforce simp: is_ok_iff)
qed

text \<open>A discounted value, turned into debt, is worth at most the discounted collateral.\<close>

lemma discounted_debt_worth:
  fixes amount w ap lp :: int and m n :: nat
  assumes "0 < lp"
  defines "q \<equiv> (amount * w div SCALE * ap div SCALE div 10 ^ m) * 10 ^ n * SCALE div lp"
  assumes "0 \<le> amount" and "0 \<le> w" and "0 \<le> ap"
  shows "q * lp * 10 ^ m * SCALE \<le> amount * w * ap * 10 ^ n"
proof -
  define v1 where "v1 = amount * w div SCALE"
  define v2 where "v2 = v1 * ap div SCALE"
  define v3 where "v3 = v2 div 10 ^ m"
  have "q * lp \<le> v3 * 10 ^ n * SCALE"
    using quot_mult_le [OF assms(1)] by (simp add: q_def v1_def v2_def v3_def)
  then have "q * lp * (10 ^ m * SCALE) \<le> v3 * 10 ^ n * SCALE * (10 ^ m * SCALE)"
    by (rule mult_right_mono) simp
  also have "\<dots> = (v3 * 10 ^ m) * (SCALE * SCALE * 10 ^ n)"
    by (simp add: ac_simps)
  also have "\<dots> \<le> v2 * (SCALE * SCALE * 10 ^ n)"
    by (rule mult_right_mono) (simp_all add: v3_def quot_mult_le)
  also have "\<dots> = (v2 * SCALE) * (SCALE * 10 ^ n)"
    by (simp add: ac_simps)
  also have "\<dots> \<le> (v1 * ap) * (SCALE * 10 ^ n)"
    by (rule mult_right_mono) (simp_all add: v2_def mul_floor_le)
  also have "\<dots> = (v1 * SCALE) * (ap * 10 ^ n)"
    by (simp add: ac_simps)
  also have "\<dots> \<le> (amount * w) * (ap * 10 ^ n)"
    by (rule mult_right_mono) (simp_all add: v1_def mul_floor_le assms)
  finally show ?thesis
    by (simp add: ac_simps)
qed

lemma calc_amount_fits: "fixed_point fx \<Longrightarrow> calc_amount fx v price d = Ok x \<Longrightarrow> fits x"
  by (auto simp: calc_amount_def bind_Ok_iff ok_or_Ok_iff fixed_point.div_law fit_Some_iff split: if_splits)

lemma liquidation_discounts:
  "LIQUIDATION_INSURANCE_FEE + LIQUIDATION_LIQUIDATOR_FEE = 14073748835532"
  "ONE - 14073748835532 = SCALE - 14073748835532" "fits 14073748835532" "fits (SCALE - 14073748835532)"
  "fits (SCALE - LIQUIDATION_LIQUIDATOR_FEE)" "ONE = SCALE"
  "0 \<le> SCALE - 14073748835532" "SCALE - 14073748835532 \<le> SCALE - LIQUIDATION_LIQUIDATOR_FEE"
  "SCALE - LIQUIDATION_LIQUIDATOR_FEE \<le> SCALE" "0 \<le> SCALE - LIQUIDATION_LIQUIDATOR_FEE"
  by (simp_all add: LIQUIDATION_INSURANCE_FEE_def LIQUIDATION_LIQUIDATOR_FEE_def ONE_def SCALE_def fits_def)

text \<open>The quantities, step by step: the discounts are constants and the fee is never negative.\<close>

lemma liquidation_quantities_cases:
  assumes "fixed_point fx" and "0 \<le> amount" and "fits amount" and "0 \<le> ap" and "0 \<le> lp" and "unat da < 24" and "unat dl < 24"
  obtains "liquidation_quantities fx da dl amount ap lp = Err (Mfi MathError)"
  | ql qf where "liquidation_quantities fx da dl amount ap lp = Ok (ql, qf, ql - qf)" and "0 < lp" and "0 \<le> qf" and "qf \<le> ql"
    and "ql = (amount * (SCALE - LIQUIDATION_LIQUIDATOR_FEE) div SCALE * ap div SCALE div 10 ^ unat da) * 10 ^ unat dl * SCALE div lp"
    and "qf = (amount * (SCALE - 14073748835532) div SCALE * ap div SCALE div 10 ^ unat da) * 10 ^ unat dl * SCALE div lp"
proof -
  define w1 where "w1 = SCALE - LIQUIDATION_LIQUIDATOR_FEE"
  define w2 :: int where "w2 = SCALE - 14073748835532"
  define v where "v w = amount * w div SCALE * ap div SCALE div 10 ^ unat da" for w
  define q where "q w = v w * 10 ^ unat dl * SCALE div lp" for w
  have w: "0 \<le> w2" "w2 \<le> w1" "w1 \<le> SCALE" "0 \<le> w1" "w2 \<le> SCALE"
    using liquidation_discounts(7-10) by (simp_all add: w1_def w2_def)
  have v: "0 \<le> v w2" "v w2 \<le> v w1"
    using w assms value_at_nonneg [of amount w2 ap da] value_at_mono [of amount w2 w1 ap ap da]
    by (simp_all add: v_def value_at_def)
  then have "0 \<le> v w1" by simp
  let ?run = "liquidation_quantities fx da dl amount ap lp"
  have run: "?run = bind (calc_value fx amount ap da (Some w1)) (\<lambda>v1. bind (calc_amount fx v1 lp dl) (\<lambda>ql.
      bind (calc_value fx amount ap da (Some w2)) (\<lambda>v2. bind (calc_amount fx v2 lp dl) (\<lambda>qf.
      bind (op_sub fx ql qf) (\<lambda>fee. bind (assert_that (ZERO \<le> fee)) (\<lambda>_. Ok (ql, qf, fee)))))))"
    by (simp add: liquidation_quantities_def op_add_def op_sub_def [of fx SCALE] fixed_point.add_law [OF assms(1)]
        fixed_point.sub_law [OF assms(1)] liquidation_discounts w1_def w2_def)
  show thesis
  proof (cases "?run = Err (Mfi MathError)")
    case True
    then show thesis by (rule that(1))
  next
    case False
    have v1: "calc_value fx amount ap da (Some w1) = Ok (v w1)"
      using calc_value_no_panic [OF assms(1-3) w(4,3) assms(4,6), folded v_def] False by (auto simp: run)
    have ql: "calc_amount fx (v w1) lp dl = Ok (q w1)" and lp: "0 < lp"
      using calc_amount_no_panic [OF assms(1) \<open>0 \<le> v w1\<close> assms(5,7), folded q_def] False by (auto simp: run v1)
    have v2: "calc_value fx amount ap da (Some w2) = Ok (v w2)"
      using calc_value_no_panic [OF assms(1-3) w(1,5) assms(4,6), folded v_def] False by (auto simp: run v1 ql)
    have qf: "calc_amount fx (v w2) lp dl = Ok (q w2)"
      using calc_amount_no_panic [OF assms(1) v(1) assms(5,7), folded q_def] False by (auto simp: run v1 ql v2)
    have q: "0 \<le> q w2" "q w2 \<le> q w1"
      using v lp by (auto simp: q_def pos_imp_zdiv_nonneg_iff intro!: zdiv_mono1 mult_right_mono)
    have "fits (q w1 - q w2)"
      using q by (intro fits_nonneg_le [OF _ _ calc_amount_fits [OF assms(1) ql]]) simp_all
    with q have "?run = Ok (q w1, q w2, q w1 - q w2)"
      by (simp add: run v1 ql v2 qf op_sub_def fixed_point.sub_law [OF assms(1)] ZERO_def)
    from that(2) [OF this lp q] show thesis
      by (simp add: q_def v_def w1_def w2_def)
  qed
qed

section \<open>Positions\<close>

lemma change_position_OkD:
  assumes "change_position fx t create side ak bk op w = Ok w'" and "world_ok w"
  obtains a b i la wr where "w_accounts w ak = Some a" and "w_banks w bk = Some b" and "position_in a bk la i"
    and "op \<lparr>bw_balance = la ! i, bw_bank = b\<rparr> = Ok wr"
    and "w' = store_bank bk (bw_bank wr) (store_account ak (with_balance a la i (bw_balance wr)) w)"
proof -
  obtain a b i la wr where a: "w_accounts w ak = Some a" and b: "w_banks w bk = Some b"
    and pos: "(if create then find_or_create bk (balances a) t
      else bind (find_balance bk (balances a)) (\<lambda>i. Ok (i, balances a))) = Ok (i, la)"
    and op: "op \<lparr>bw_balance = la ! i, bw_bank = b\<rparr> = Ok wr"
    and w': "w' = store_bank bk (bw_bank wr) (store_account ak (with_balance a la i (bw_balance wr)) w)"
    using assms(1) by (auto simp: change_position_def bind_Ok_iff load_Ok_iff)
  note ok = world_okD(2) [OF assms(2) a]
  have "position_in a bk la i"
    using pos find_or_create_position [OF ok, of bk t i la] find_balance_position [OF ok, of bk i]
    by (auto simp: bind_Ok_iff split: if_splits)
  with a b op w' show thesis
    by (intro that) blast+
qed

lemma change_position_keeps_world:
  assumes "world_ok w" and "change_position fx t create side ak bk op w = Ok w'"
    and "\<And>wr wr'. wrapper_ok wr \<Longrightarrow> op wr = Ok wr' \<Longrightarrow> position_step wr wr'"
  shows "world_ok w'"
proof (rule change_position_OkD [OF assms(2,1)])
  fix a b i la wr
  assume a: "w_accounts w ak = Some a" and b: "w_banks w bk = Some b" and pos: "position_in a bk la i"
    and op: "op \<lparr>bw_balance = la ! i, bw_bank = b\<rparr> = Ok wr"
    and w': "w' = store_bank bk (bw_bank wr) (store_account ak (with_balance a la i (bw_balance wr)) w)"
  note backs = world_okD(3) [OF assms(1) b]
  show ?thesis
    unfolding w'
    by (rule world_ok_position_step(1) [OF assms(1) a pos backs assms(3) [OF position_wrapper_ok [OF assms(1) a pos backs] op]])
      (simp add: with_balance_def)
qed

lemma change_position_frame:
  assumes "change_position fx t create side ak bk op w = Ok w'" and "world_ok w" and "ak \<in> aks" and "bk \<in> bks"
    and "\<And>wr wr'. wrapper_ok wr \<Longrightarrow> op wr = Ok wr' \<Longrightarrow> position_step wr wr'"
  shows "only_changes aks bks w w'"
proof (rule change_position_OkD [OF assms(1,2)])
  fix a b i la wr
  assume a: "w_accounts w ak = Some a" and b: "w_banks w bk = Some b" and pos: "position_in a bk la i"
    and op: "op \<lparr>bw_balance = la ! i, bw_bank = b\<rparr> = Ok wr"
    and w': "w' = store_bank bk (bw_bank wr) (store_account ak (with_balance a la i (bw_balance wr)) w)"
  show ?thesis
    unfolding w'
    by (rule only_changes_position_step [OF a pos assms(3,4)
        assms(5) [OF position_wrapper_ok [OF assms(2) a pos world_okD(3) [OF assms(2) b]] op]])
qed

text \<open>The four legs of a liquidation are steps of their positions.\<close>

lemma liquidation_leg_steps:
  assumes "fixed_point fx" and "0 \<le> amount" and "wrapper_ok wr"
  shows "decrease_balance_in_liquidation fx wr amount t = Ok wr' \<Longrightarrow> position_step wr wr'"
    and "map_err (withdraw fx wr amount t) e = Ok wr' \<Longrightarrow> position_step wr wr'"
    and "increase_balance_in_liquidation fx wr amount t = Ok wr' \<Longrightarrow> position_step wr wr'"
    and "increase_balance fx wr amount t = Ok wr' \<Longrightarrow> position_step wr wr'"
  by (auto simp: decrease_balance_in_liquidation_def withdraw_def increase_balance_in_liquidation_def increase_balance_def
      map_err_Ok_iff intro: fixed_point.decrease_position_step [OF assms(1,3,2)] fixed_point.increase_position_step [OF assms(1,3,2)])

text \<open>The legs move no tokens and leave the insurance fees of the banks as they are.\<close>

lemma liquidation_leg_fees:
  fixes wr wr' :: bank_account_wrapper
  assumes "fixed_point fx" and "0 \<le> amount" and "wrapper_ok wr"
  defines "same_fees \<equiv> collected_insurance_fees_outstanding (bw_bank wr') = collected_insurance_fees_outstanding (bw_bank wr)"
  shows "decrease_balance_in_liquidation fx wr amount t = Ok wr' \<Longrightarrow> same_fees"
    and "map_err (withdraw fx wr amount t) e = Ok wr' \<Longrightarrow> same_fees"
    and "increase_balance_in_liquidation fx wr amount t = Ok wr' \<Longrightarrow> same_fees"
    and "increase_balance fx wr amount t = Ok wr' \<Longrightarrow> same_fees"
proof -
  have dec: same_fees if "decrease_balance_internal fx wr amount op t = Ok wr'" for op
    by (rule fixed_point.decrease_balance_OkD [OF assms(1,3,2) that]) (simp add: same_fees_def)
  have inc: same_fees if "increase_balance_internal fx wr amount op t = Ok wr'" for op
    by (rule fixed_point.increase_balance_OkD [OF assms(1,3,2) that]) (simp add: same_fees_def)
  show "decrease_balance_in_liquidation fx wr amount t = Ok wr' \<Longrightarrow> same_fees" "map_err (withdraw fx wr amount t) e = Ok wr' \<Longrightarrow> same_fees"
    by (simp_all add: decrease_balance_in_liquidation_def withdraw_def map_err_Ok_iff dec)
  show "increase_balance_in_liquidation fx wr amount t = Ok wr' \<Longrightarrow> same_fees" "increase_balance fx wr amount t = Ok wr' \<Longrightarrow> same_fees"
    by (simp_all add: increase_balance_in_liquidation_def increase_balance_def inc)
qed

lemma change_position_fees:
  assumes "change_position fx t create side ak bk op w = Ok w'" and "world_ok w"
    and "\<And>wr wr'. wrapper_ok wr \<Longrightarrow> op wr = Ok wr' \<Longrightarrow> collected_insurance_fees_outstanding (bw_bank wr') = collected_insurance_fees_outstanding (bw_bank wr)"
  shows "w_ledger w' = w_ledger w \<and> map_option collected_insurance_fees_outstanding (w_banks w' k) = map_option collected_insurance_fees_outstanding (w_banks w k)"
proof (rule change_position_OkD [OF assms(1,2)])
  fix a b i la wr
  assume a: "w_accounts w ak = Some a" and b: "w_banks w bk = Some b" and pos: "position_in a bk la i"
    and op: "op \<lparr>bw_balance = la ! i, bw_bank = b\<rparr> = Ok wr"
    and w': "w' = store_bank bk (bw_bank wr) (store_account ak (with_balance a la i (bw_balance wr)) w)"
  from assms(3) [OF position_wrapper_ok [OF assms(2) a pos world_okD(3) [OF assms(2) b]] op] b show ?thesis
    by (simp add: w' store_bank_def store_account_def)
qed

lemma liquidation_legs:
  assumes "fixed_point (rt_fx rt)" and "world_ok w" and "0 \<le> amount" and "0 \<le> ql" and "0 \<le> qf"
    and "liquidation_accounting rt c m amount ql qf fee w = Ok w'"
  obtains w1 w2 w3 w4 b x l n where
    "change_position (rt_fx rt) (now rt) True Liabilities (liq_liquidator_marginfi_account c) (liq_liab_bank c)
       (\<lambda>wr. decrease_balance_in_liquidation (rt_fx rt) wr ql (now rt)) w = Ok w1" and "world_ok w1"
    and "change_position (rt_fx rt) (now rt) False Assets (liq_liquidatee_marginfi_account c) (liq_asset_bank c)
       (\<lambda>wr. map_err (withdraw (rt_fx rt) wr amount (now rt)) IllegalLiquidation) w1 = Ok w2" and "world_ok w2"
    and "change_position (rt_fx rt) (now rt) True Assets (liq_liquidator_marginfi_account c) (liq_asset_bank c)
       (\<lambda>wr. increase_balance_in_liquidation (rt_fx rt) wr amount (now rt)) w2 = Ok w3" and "world_ok w3"
    and "change_position (rt_fx rt) (now rt) True Liabilities (liq_liquidatee_marginfi_account c) (liq_liab_bank c)
       (\<lambda>wr. increase_balance (rt_fx rt) wr qf (now rt)) w3 = Ok w4" and "world_ok w4"
    and "w_banks w4 (liq_liab_bank c) = Some b" and "x = collected_insurance_fees_outstanding b + fee mod SCALE"
    and "w' = (store_bank (liq_liab_bank c) (b\<lparr>collected_insurance_fees_outstanding := x\<rparr>) w4)\<lparr>w_ledger := l\<rparr>"
    and "checked_to_u64 (rt_fx rt) fee = Some n"
    and "token_transfer (rt_tk rt) (w_ledger w4) (liq_bank_liquidity_vault c) (liq_bank_insurance_vault c)
       (liq_bank_liquidity_vault_authority c) (map_option ai_key m) n = Some l"
proof -
  let ?fx = "rt_fx rt" and ?t = "now rt"
  obtain w1 w2 w3 w4 b x l n where
    1: "change_position ?fx ?t True Liabilities (liq_liquidator_marginfi_account c) (liq_liab_bank c)
          (\<lambda>wr. decrease_balance_in_liquidation ?fx wr ql ?t) w = Ok w1"
    and 2: "change_position ?fx ?t False Assets (liq_liquidatee_marginfi_account c) (liq_asset_bank c)
          (\<lambda>wr. map_err (withdraw ?fx wr amount ?t) IllegalLiquidation) w1 = Ok w2"
    and 3: "change_position ?fx ?t True Assets (liq_liquidator_marginfi_account c) (liq_asset_bank c)
          (\<lambda>wr. increase_balance_in_liquidation ?fx wr amount ?t) w2 = Ok w3"
    and 4: "change_position ?fx ?t True Liabilities (liq_liquidatee_marginfi_account c) (liq_liab_bank c)
          (\<lambda>wr. increase_balance ?fx wr qf ?t) w3 = Ok w4"
    and rest: "w_banks w4 (liq_liab_bank c) = Some b" "x = collected_insurance_fees_outstanding b + fee mod SCALE"
      "w' = (store_bank (liq_liab_bank c) (b\<lparr>collected_insurance_fees_outstanding := x\<rparr>) w4)\<lparr>w_ledger := l\<rparr>"
      "checked_to_u64 ?fx fee = Some n" "token_transfer (rt_tk rt) (w_ledger w4) (liq_bank_liquidity_vault c) (liq_bank_insurance_vault c)
         (liq_bank_liquidity_vault_authority c) (map_option ai_key m) n = Some l"
    using assms(6)
    by (auto simp: liquidation_accounting_def withdraw_spl_transfer_def Let_def bind_Ok_iff load_Ok_iff ok_or_Ok_iff fit_Some_iff
        fixed_point.add_law [OF assms(1)] fixed_point.frac_law [OF assms(1)])
  note steps = liquidation_leg_steps [OF assms(1)]
  have ok1: "world_ok w1" by (rule change_position_keeps_world [OF assms(2) 1 steps(1) [OF assms(4)]])
  have ok2: "world_ok w2" by (rule change_position_keeps_world [OF ok1 2 steps(2) [OF assms(3)]])
  have ok3: "world_ok w3" by (rule change_position_keeps_world [OF ok2 3 steps(3) [OF assms(3)]])
  have "world_ok w4" by (rule change_position_keeps_world [OF ok3 4 steps(4) [OF assms(5)]])
  from that [OF 1 ok1 2 ok2 3 ok3 4 this rest] show thesis .
qed

lemma liquidation_accounting_sound:
  assumes "fixed_point (rt_fx rt)" and "world_ok w" and "0 \<le> amount" and "0 \<le> ql" and "0 \<le> qf"
    and "liquidation_accounting rt c m amount ql qf fee w = Ok w'"
  shows "world_ok w' \<and>
    only_changes {liq_liquidator_marginfi_account c, liq_liquidatee_marginfi_account c} {liq_asset_bank c, liq_liab_bank c} w w'"
proof (rule liquidation_legs [OF assms])
  let ?aks = "{liq_liquidator_marginfi_account c, liq_liquidatee_marginfi_account c}"
  let ?bks = "{liq_asset_bank c, liq_liab_bank c}"
  fix w1 w2 w3 w4 b x l
  assume 1: "change_position (rt_fx rt) (now rt) True Liabilities (liq_liquidator_marginfi_account c) (liq_liab_bank c)
       (\<lambda>wr. decrease_balance_in_liquidation (rt_fx rt) wr ql (now rt)) w = Ok w1" and ok1: "world_ok w1"
    and 2: "change_position (rt_fx rt) (now rt) False Assets (liq_liquidatee_marginfi_account c) (liq_asset_bank c)
       (\<lambda>wr. map_err (withdraw (rt_fx rt) wr amount (now rt)) IllegalLiquidation) w1 = Ok w2" and ok2: "world_ok w2"
    and 3: "change_position (rt_fx rt) (now rt) True Assets (liq_liquidator_marginfi_account c) (liq_asset_bank c)
       (\<lambda>wr. increase_balance_in_liquidation (rt_fx rt) wr amount (now rt)) w2 = Ok w3" and ok3: "world_ok w3"
    and 4: "change_position (rt_fx rt) (now rt) True Liabilities (liq_liquidatee_marginfi_account c) (liq_liab_bank c)
       (\<lambda>wr. increase_balance (rt_fx rt) wr qf (now rt)) w3 = Ok w4" and ok4: "world_ok w4"
    and b: "w_banks w4 (liq_liab_bank c) = Some b" and x: "x = collected_insurance_fees_outstanding b + fee mod SCALE"
    and w': "w' = (store_bank (liq_liab_bank c) (b\<lparr>collected_insurance_fees_outstanding := x\<rparr>) w4)\<lparr>w_ledger := l\<rparr>"
  note steps = liquidation_leg_steps [OF assms(1)]
  have "backs (w_accounts w4) (liq_liab_bank c) (b\<lparr>collected_insurance_fees_outstanding := x\<rparr>)"
    using world_okD(3) [OF ok4 b] by (simp add: backs_def bank_ok_def x)
  from world_ok_store_bank [OF ok4 this] have "world_ok w'"
    by (simp add: w')
  have "only_changes ?aks ?bks w w1" by (rule change_position_frame [OF 1 assms(2) _ _ steps(1) [OF assms(4)]]) simp_all
  also have "only_changes ?aks ?bks w1 w2"
    by (rule change_position_frame [OF 2 ok1 _ _ steps(2) [OF assms(3)]]) simp_all
  also have "only_changes ?aks ?bks w2 w3"
    by (rule change_position_frame [OF 3 ok2 _ _ steps(3) [OF assms(3)]]) simp_all
  also have "only_changes ?aks ?bks w3 w4"
    by (rule change_position_frame [OF 4 ok3 _ _ steps(4) [OF assms(5)]]) simp_all
  finally have "only_changes ?aks ?bks w w'"
    by (simp add: w' only_changes_store_bank)
  with \<open>world_ok w'\<close> show ?thesis ..
qed

section \<open>The instruction\<close>

text \<open>The maintenance health of an account, from the accounts its risk engine reads.\<close>

definition account_health :: "runtime \<Rightarrow> bank_store \<Rightarrow> marginfi_account \<Rightarrow> account_info list \<Rightarrow> i80f48 result" where
  "account_health rt banks a ais =
     (bind (risk_engine_new (rt_sdk rt) banks (rt_clock rt) a ais) (\<lambda>re.
      get_account_health (rt_fx rt) (rt_sdk rt) banks re MaintenanceRequirement))"

definition owes :: "marginfi_account \<Rightarrow> pubkey \<Rightarrow> bool" where
  "owes a bk \<longleftrightarrow> (\<exists>bal \<in> set (balances a). active bal \<and> bank_pk bal = bk \<and>
     \<not> balance_is_empty bal Liabilities \<and> balance_is_empty bal Assets)"

lemma found_balance_owes:
  assumes "risk_engine_new sdk banks clk a ais = Ok re"
    and "find (\<lambda>bp. bank_pk (bp_balance bp) = pk) (re_bank_accounts_with_price re) = Some bp"
    and "\<not> bp_is_empty bp Liabilities" and "bp_is_empty bp Assets"
  shows "owes a pk"
proof -
  have ld: "load_bank_accounts sdk banks clk (balances a) ais = Ok (re_bank_accounts_with_price re)"
    using assms(1) by (auto simp: risk_engine_new_def new_no_flashloan_check_def bind_Ok_iff)
  have "bp \<in> set (re_bank_accounts_with_price re)" "bank_pk (bp_balance bp) = pk"
    using assms(2) by (auto simp: find_Some_iff)
  then have "bp_balance bp \<in> set (filter active (balances a))"
    using loaded_balances(1) [OF ld] by (metis image_eqI list.set_map)
  with \<open>bank_pk (bp_balance bp) = pk\<close> assms(3,4) show ?thesis
    by (auto simp: owes_def bp_is_empty_def)
qed

lemma pre_liquidation_OkD:
  assumes "risk_engine_new (rt_sdk rt) banks (rt_clock rt) a ais = Ok re"
    and "check_pre_liquidation_condition_and_get_account_health (rt_fx rt) (rt_sdk rt) banks re pk = Ok h"
  shows "account_health rt banks a ais = Ok h" and "h \<le> 0" and "owes a pk"
  using assms found_balance_owes [OF assms(1)]
  by (auto simp: account_health_def get_account_health_def check_pre_liquidation_condition_and_get_account_health_def
      bind_Ok_iff check_Ok_iff ok_or_Ok_iff ZERO_def)

lemma post_liquidation_OkD:
  assumes "risk_engine_new (rt_sdk rt) banks (rt_clock rt) a ais = Ok re"
    and "check_post_liquidation_condition_and_get_account_health (rt_fx rt) (rt_sdk rt) banks re pk pre = Ok h"
  shows "account_health rt banks a ais = Ok h" and "pre < h" and "h \<le> 0" and "owes a pk"
  using assms found_balance_owes [OF assms(1)]
  by (auto simp: account_health_def get_account_health_def check_post_liquidation_condition_and_get_account_health_def
      bind_Ok_iff check_Ok_iff ok_or_Ok_iff ZERO_def)

lemma liquidation_quantities_OkD:
  assumes "fixed_point fx" and "liquidation_quantities fx da dl amount ap lp = Ok (ql, qf, fee)"
    and "0 \<le> amount" and "0 \<le> ap" and "0 \<le> lp"
  shows "0 \<le> qf" and "0 \<le> ql" and "fee = ql - qf" and "qf \<le> ql"
proof -
  obtain v where v: "calc_value fx amount ap da (Some (SCALE - 14073748835532)) = Ok v" "calc_amount fx v lp dl = Ok qf"
    and fee: "fee = ql - qf" "0 \<le> fee"
    using assms(2)
    by (auto simp: liquidation_quantities_def op_add_def op_sub_def fixed_point.add_law [OF assms(1)]
        fixed_point.sub_law [OF assms(1)] liquidation_discounts bind_Ok_iff ok_or_Ok_iff fit_Some_iff assert_that_Ok_iff ZERO_def)
  have "0 \<le> v"
    using fixed_point.calc_value_OkD [OF assms(1) v(1) assms(3,4)] assms(3,4) liquidation_discounts(7)
    by (simp add: pos_imp_zdiv_nonneg_iff)
  moreover have "lp \<noteq> 0"
    using v(2) by (auto simp: calc_amount_def bind_Ok_iff ok_or_Ok_iff fixed_point.div_law [OF assms(1)])
  ultimately show "0 \<le> qf"
    using fixed_point.calc_amount_OkD [OF assms(1) v(2)] assms(5) by (simp add: pos_imp_zdiv_nonneg_iff)
  with fee show "0 \<le> ql" by simp
  show "fee = ql - qf" "qf \<le> ql" using fee by simp_all
qed

lemma liquidation_price_nonneg:
  assumes "fixed_point (rt_fx rt)" and "liquidation_price rt b ais k bias = Ok p"
  shows "0 \<le> p"
proof -
  obtain feed where "get_price_of_type (rt_fx rt) (rt_sdk rt) feed RealTime (Some bias) = Ok p"
    using assms(2) by (auto simp: liquidation_price_def bind_Ok_iff)
  then show ?thesis
    by (cases bias) (auto elim: fixed_point.low_price [OF assms(1)] fixed_point.high_price [OF assms(1)])
qed

text \<open>The insurance fund is paid: whole tokens into its vault, the rest onto what the bank owes it.\<close>

lemma liquidation_pays_insurance:
  assumes "fixed_point (rt_fx rt)" and "world_ok w" and "0 \<le> amount" and "0 \<le> ql" and "0 \<le> qf"
    and "liquidation_accounting rt c m amount ql qf fee w = Ok w'" and "w_banks w (liq_liab_bank c) = Some lb"
  shows "\<exists>n lb'. uint n = fee div SCALE \<and> token_transfer (rt_tk rt) (w_ledger w) (liq_bank_liquidity_vault c)
      (liq_bank_insurance_vault c) (liq_bank_liquidity_vault_authority c) (map_option ai_key m) n = Some (w_ledger w') \<and>
    w_banks w' (liq_liab_bank c) = Some lb' \<and> collected_insurance_fees_outstanding lb' = collected_insurance_fees_outstanding lb + fee mod SCALE"
proof (rule liquidation_legs [OF assms(1-6)])
  fix w1 w2 w3 w4 b x l n
  assume 1: "change_position (rt_fx rt) (now rt) True Liabilities (liq_liquidator_marginfi_account c) (liq_liab_bank c)
       (\<lambda>wr. decrease_balance_in_liquidation (rt_fx rt) wr ql (now rt)) w = Ok w1" and ok1: "world_ok w1"
    and 2: "change_position (rt_fx rt) (now rt) False Assets (liq_liquidatee_marginfi_account c) (liq_asset_bank c)
       (\<lambda>wr. map_err (withdraw (rt_fx rt) wr amount (now rt)) IllegalLiquidation) w1 = Ok w2" and ok2: "world_ok w2"
    and 3: "change_position (rt_fx rt) (now rt) True Assets (liq_liquidator_marginfi_account c) (liq_asset_bank c)
       (\<lambda>wr. increase_balance_in_liquidation (rt_fx rt) wr amount (now rt)) w2 = Ok w3" and ok3: "world_ok w3"
    and 4: "change_position (rt_fx rt) (now rt) True Liabilities (liq_liquidatee_marginfi_account c) (liq_liab_bank c)
       (\<lambda>wr. increase_balance (rt_fx rt) wr qf (now rt)) w3 = Ok w4"
    and b: "w_banks w4 (liq_liab_bank c) = Some b" and x: "x = collected_insurance_fees_outstanding b + fee mod SCALE"
    and w': "w' = (store_bank (liq_liab_bank c) (b\<lparr>collected_insurance_fees_outstanding := x\<rparr>) w4)\<lparr>w_ledger := l\<rparr>"
    and n: "checked_to_u64 (rt_fx rt) fee = Some n"
    and paid: "token_transfer (rt_tk rt) (w_ledger w4) (liq_bank_liquidity_vault c) (liq_bank_insurance_vault c)
       (liq_bank_liquidity_vault_authority c) (map_option ai_key m) n = Some l"
  note fees = liquidation_leg_fees [OF assms(1)]
  let ?kept = "\<lambda>v v'. w_ledger v' = w_ledger v \<and> map_option collected_insurance_fees_outstanding (w_banks v' (liq_liab_bank c)) =
    map_option collected_insurance_fees_outstanding (w_banks v (liq_liab_bank c))"
  have "?kept w w1" by (rule change_position_fees [OF 1 assms(2) fees(1) [OF assms(4)]])
  moreover have "?kept w1 w2" by (rule change_position_fees [OF 2 ok1 fees(2) [OF assms(3)]])
  moreover have "?kept w2 w3" by (rule change_position_fees [OF 3 ok2 fees(3) [OF assms(3)]])
  moreover have "?kept w3 w4" by (rule change_position_fees [OF 4 ok3 fees(4) [OF assms(5)]])
  ultimately have "collected_insurance_fees_outstanding b = collected_insurance_fees_outstanding lb" "w_ledger w4 = w_ledger w"
    using b assms(7) by auto
  moreover have "uint n = fee div SCALE"
    using n by (auto simp: fixed_point.to_u64_law [OF assms(1)] uint_word_of_int split: if_splits)
  ultimately show ?thesis
    using paid by (auto simp: w' x)
qed

lemma liquidate_OkD:
  assumes "lending_account_liquidate rt w c ais asset_amount = Ok w'"
  obtains g ab0 lb0 ab lb lq0 le m rest pos lpos re0 re pre post amount ap lp ql qf fee lq le' lq_ais
  where "w_groups w (liq_marginfi_group c) = Some g" and "w_banks w (liq_asset_bank c) = Some ab0"
    and "w_banks w (liq_liab_bank c) = Some lb0" and "liq_asset_bank c \<noteq> liq_liab_bank c"
    and "w_accounts w (liq_liquidator_marginfi_account c) = Some lq0" and "liq_signer c = ma_authority lq0"
    and "w_accounts w (liq_liquidatee_marginfi_account c) = Some le"
    and "accrue_interest (rt_fx rt) ab0 (now rt) g = Ok ab" and "accrue_interest (rt_fx rt) lb0 (now rt) g = Ok lb"
    and "risk_engine_new (rt_sdk rt) ((w_banks w)(liq_asset_bank c \<mapsto> ab, liq_liab_bank c \<mapsto> lb)) (rt_clock rt) le (drop pos rest) = Ok re0"
    and "check_pre_liquidation_condition_and_get_account_health (rt_fx rt) (rt_sdk rt)
           ((w_banks w)(liq_asset_bank c \<mapsto> ab, liq_liab_bank c \<mapsto> lb)) re0 (liq_liab_bank c) = Ok pre"
    and "maybe_take_bank_mint (rt_mints rt) ais lb0 (liq_token_program c) = Ok (m, rest)"
    and "from_u64 (rt_fx rt) asset_amount = Ok amount"
    and "liquidation_price rt ab rest 0 Low = Ok ap" and "liquidation_price rt lb rest 1 High = Ok lp"
    and "liquidation_quantities (rt_fx rt) (mint_decimals ab) (mint_decimals lb) amount ap lp = Ok (ql, qf, fee)"
    and "liquidation_accounting rt c m amount ql qf fee (store_bank (liq_liab_bank c) lb (store_bank (liq_asset_bank c) ab w)) = Ok w'"
    and "w_accounts w' (liq_liquidator_marginfi_account c) = Some lq" and "w_accounts w' (liq_liquidatee_marginfi_account c) = Some le'"
    and "risk_engine_new (rt_sdk rt) (w_banks w') (rt_clock rt) le' (drop pos rest) = Ok re"
    and "check_post_liquidation_condition_and_get_account_health (rt_fx rt) (rt_sdk rt) (w_banks w') re (liq_liab_bank c) pre = Ok post"
    and "check_account_init_health (rt_fx rt) (rt_sdk rt) (w_banks w') (rt_clock rt) lq lq_ais = Ok ()"
    and "bk_group ab0 = liq_marginfi_group c" and "bk_group lb0 = liq_marginfi_group c"
    and "rt_create_address rt (get_seed LiquidityVault) [liq_liab_bank c] (liquidity_vault_bump lb0) = Some (liq_bank_liquidity_vault c)"
    and "rt_create_address rt (get_seed InsuranceVault) [liq_liab_bank c] (insurance_vault_bump lb0) = Some (liq_bank_insurance_vault c)"
  using assms
  by (auto simp: lending_account_liquidate_def liquidate_constraints_def require_address_def Let_def bind_Ok_iff check_Ok_iff require_Ok_iff load_Ok_iff)

text \<open>The two accounts and the two banks are all that changes, and the world stays well formed.\<close>

lemma accrued_world_ok:
  assumes "fixed_point fx" and "world_ok w" and "w_banks w ak = Some ab0" and "w_banks w lk = Some lb0"
    and "accrue_interest fx ab0 t g = Ok ab" and "accrue_interest fx lb0 t g = Ok lb"
  shows "world_ok (store_bank lk lb (store_bank ak ab w))"
  using fixed_point.accrue_interest_backs [OF assms(1) world_okD(3) [OF assms(2,3)] assms(5)]
    fixed_point.accrue_interest_backs [OF assms(1) world_okD(3) [OF assms(2,4)] assms(6)]
  by (intro world_ok_store_bank assms(2)) simp_all

lemma liquidate_keeps_world:
  assumes "fixed_point (rt_fx rt)" and "world_ok w" and "lending_account_liquidate rt w c ais asset_amount = Ok w'"
  shows "world_ok w' \<and>
    only_changes {liq_liquidator_marginfi_account c, liq_liquidatee_marginfi_account c} {liq_asset_bank c, liq_liab_bank c} w w'"
proof (rule liquidate_OkD [OF assms(3)])
  fix g ab0 lb0 ab lb m rest amount ap lp ql qf fee
  let ?w1 = "store_bank (liq_liab_bank c) lb (store_bank (liq_asset_bank c) ab w)"
  assume ctx: "w_banks w (liq_asset_bank c) = Some ab0" "w_banks w (liq_liab_bank c) = Some lb0"
    and acc: "accrue_interest (rt_fx rt) ab0 (now rt) g = Ok ab" "accrue_interest (rt_fx rt) lb0 (now rt) g = Ok lb"
    and amount: "from_u64 (rt_fx rt) asset_amount = Ok amount"
    and prices: "liquidation_price rt ab rest 0 Low = Ok ap" "liquidation_price rt lb rest 1 High = Ok lp"
    and q: "liquidation_quantities (rt_fx rt) (mint_decimals ab) (mint_decimals lb) amount ap lp = Ok (ql, qf, fee)"
    and acct: "liquidation_accounting rt c m amount ql qf fee ?w1 = Ok w'"
  note w1 = accrued_world_ok [OF assms(1,2) ctx acc]
  have "0 \<le> amount" using amount amount_nonneg by (auto simp: fixed_point.from_u64_law [OF assms(1)])
  note nn = this liquidation_quantities_OkD [OF assms(1) q this liquidation_price_nonneg [OF assms(1) prices(1)]
      liquidation_price_nonneg [OF assms(1) prices(2)]]
  note acct = liquidation_accounting_sound [OF assms(1) w1 nn(1,3,2) acct]
  have "only_changes {liq_liquidator_marginfi_account c, liq_liquidatee_marginfi_account c} {liq_asset_bank c, liq_liab_bank c} w ?w1"
    by (simp add: only_changes_store_bank)
  from only_changes_trans [OF this acct [THEN conjunct2]] acct show ?thesis by blast
qed

text \<open>
  The other bound: the roundings cost the account at most one step of the amount, of the price
  and of the value each.
\<close>

lemma discounted_debt_worth_lower:
  fixes amount w ap lp :: int and m n :: nat
  assumes "0 < lp"
  defines "q \<equiv> (amount * w div SCALE * ap div SCALE div 10 ^ m) * 10 ^ n * SCALE div lp"
  assumes "0 \<le> ap"
  shows "amount * w * ap * 10 ^ n \<le>
    q * lp * 10 ^ m * SCALE + (lp * 10 ^ m * SCALE + ap * 10 ^ n * SCALE + 10 ^ m * 10 ^ n * SCALE * SCALE)"
proof -
  define v1 where "v1 = amount * w div SCALE"
  define v2 where "v2 = v1 * ap div SCALE"
  define v3 where "v3 = v2 div 10 ^ m"
  have "amount * w * (ap * 10 ^ n) \<le> (v1 + 1) * SCALE * (ap * 10 ^ n)"
    using le_quot_mult [OF SCALE_pos(1), of "amount * w"] assms(3) by (intro mult_right_mono) (simp_all add: v1_def)
  moreover have "v1 * ap * (10 ^ n * SCALE) \<le> (v2 + 1) * SCALE * (10 ^ n * SCALE)"
    using le_quot_mult [OF SCALE_pos(1), of "v1 * ap"] by (intro mult_right_mono) (simp_all add: v2_def)
  moreover have "v2 + 1 \<le> (v3 + 1) * 10 ^ m"
  proof -
    have "v2 mod 10 ^ m < 10 ^ m" by simp
    then show ?thesis
      unfolding v3_def distrib_right minus_mod_eq_div_mult [symmetric] by linarith
  qed
  then have "(v2 + 1) * (SCALE * (10 ^ n * SCALE)) \<le> (v3 + 1) * 10 ^ m * (SCALE * (10 ^ n * SCALE))"
    by (rule mult_right_mono) simp
  moreover have "v3 * 10 ^ n * SCALE * (10 ^ m * SCALE) \<le> (q + 1) * lp * (10 ^ m * SCALE)"
    using le_quot_mult [OF assms(1), of "v3 * 10 ^ n * SCALE"]
    by (intro mult_right_mono) (simp_all add: q_def v1_def v2_def v3_def)
  ultimately show ?thesis
    by (simp add: algebra_simps)
qed

section \<open>Claims\<close>

text \<open>
  C11. The quantities of a liquidation are sound. For any amount of collateral and non-negative
  prices the computation does not panic, so the assertion on the insurance fee never fires: it
  gives a math error or three quantities. Then the debt price is positive and the fee is the
  non-negative difference of the debt the liquidator takes over and the debt the liquidatee is
  relieved of. What the liquidator takes over is worth at most 97.5 percent of the collateral.
  What the liquidatee is relieved of is worth 95 percent of it, never more, and less by at most
  the roundings.
\<close>

theorem liquidation_quantities_sound:
  fixes n :: u64 and da dl :: u8
  defines "amount \<equiv> uint n * SCALE"
  assumes "fixed_point fx" and "0 \<le> ap" and "0 \<le> lp" and "unat da < 24" and "unat dl < 24"
  shows "liquidation_quantities fx da dl amount ap lp = Err (Mfi MathError) \<or>
    (\<exists>ql qf. liquidation_quantities fx da dl amount ap lp = Ok (ql, qf, ql - qf) \<and> 0 < lp \<and> 0 \<le> qf \<and> qf \<le> ql \<and>
       ql * lp * 10 ^ unat da * SCALE \<le> amount * (ONE - LIQUIDATION_LIQUIDATOR_FEE) * ap * 10 ^ unat dl \<and>
       qf * lp * 10 ^ unat da * SCALE
         \<le> amount * (ONE - (LIQUIDATION_INSURANCE_FEE + LIQUIDATION_LIQUIDATOR_FEE)) * ap * 10 ^ unat dl \<and>
       amount * (ONE - (LIQUIDATION_INSURANCE_FEE + LIQUIDATION_LIQUIDATOR_FEE)) * ap * 10 ^ unat dl
         \<le> qf * lp * 10 ^ unat da * SCALE +
           (lp * 10 ^ unat da * SCALE + ap * 10 ^ unat dl * SCALE + 10 ^ unat da * 10 ^ unat dl * SCALE * SCALE))"
proof -
  have amount: "0 \<le> amount" "fits amount"
    by (simp_all add: amount_def)
  show ?thesis
  proof (rule liquidation_quantities_cases [OF assms(2) amount assms(3-6)])
    fix ql qf
    assume run: "liquidation_quantities fx da dl amount ap lp = Ok (ql, qf, ql - qf)" and lp: "0 < lp"
      and nn: "0 \<le> qf" "qf \<le> ql"
      and ql: "ql = (amount * (SCALE - LIQUIDATION_LIQUIDATOR_FEE) div SCALE * ap div SCALE div 10 ^ unat da) * 10 ^ unat dl * SCALE div lp"
      and qf: "qf = (amount * (SCALE - 14073748835532) div SCALE * ap div SCALE div 10 ^ unat da) * 10 ^ unat dl * SCALE div lp"
    show ?thesis
      using run lp nn discounted_debt_worth [OF lp amount(1) liquidation_discounts(10) assms(3), of "unat da" "unat dl", folded ql]
        discounted_debt_worth [OF lp amount(1) liquidation_discounts(7) assms(3), of "unat da" "unat dl", folded qf]
        discounted_debt_worth_lower [OF lp assms(3), where amount = amount and w = "SCALE - 14073748835532"
          and m = "unat da" and n = "unat dl", folded qf]
      by (intro disjI2 exI conjI) (simp_all only: liquidation_discounts)
  qed blast
qed

text \<open>100 tokens of 6 decimals at 2 dollars against a debt of 9 decimals at 25 dollars.\<close>

theorem liquidation_quantities_sound_witness:
  "\<exists>ql qf. liquidation_quantities i80f48_ref 6 9 (uint (100000000 :: u64) * SCALE) (2 * SCALE) (25 * SCALE) = Ok (ql, qf, ql - qf) \<and>
     qf < ql"
proof -
  define r where "r = projr (liquidation_quantities i80f48_ref 6 9 (uint (100000000 :: u64) * SCALE) (2 * SCALE) (25 * SCALE))"
  have run: "liquidation_quantities i80f48_ref 6 9 (uint (100000000 :: u64) * SCALE) (2 * SCALE) (25 * SCALE) = Ok r"
    and lt: "fst (snd r) < fst r"
    unfolding r_def by code_simp+
  from liquidation_quantities_sound [OF reference.fixed_point_axioms, of "2 * SCALE" "25 * SCALE" 6 9 100000000] run lt
  show ?thesis by auto
qed

text \<open>
  C4. A liquidation that succeeds was justified and helped. In a well-formed world, with the
  interest of both banks accrued: the account taken over had a maintenance health of at most
  zero and owed to the debt bank; its health is better afterwards and still not positive, and it
  still owes to that bank, so it was not liquidated further than needed. The liquidator, whose
  authority signed, passes the initial health check. The insurance fund gets its fee: what the
  liquidator takes over of the debt less what the liquidatee is relieved of, both computed from
  the amount and from the prices of the first two accounts after the mint. The whole tokens of it go from the
  liquidity vault of the debt bank to its insurance vault, no other tokens move, and the rest
  is added to the insurance fees the bank still owes. Nothing else changed: no other account, no
  other bank, and in the two accounts only their balances in the two banks. The world is well
  formed again.
\<close>

theorem liquidation_sound:
  assumes "fixed_point (rt_fx rt)" and "world_ok w" and "lending_account_liquidate rt w c ais asset_amount = Ok w'"
  shows "world_ok w' \<and>
    only_changes {liq_liquidator_marginfi_account c, liq_liquidatee_marginfi_account c} {liq_asset_bank c, liq_liab_bank c} w w' \<and>
    (\<exists>g ab0 lb0 ab lb le le' es pre post. w_groups w (liq_marginfi_group c) = Some g \<and>
       w_banks w (liq_asset_bank c) = Some ab0 \<and> accrue_interest (rt_fx rt) ab0 (now rt) g = Ok ab \<and>
       w_banks w (liq_liab_bank c) = Some lb0 \<and> accrue_interest (rt_fx rt) lb0 (now rt) g = Ok lb \<and>
       w_accounts w (liq_liquidatee_marginfi_account c) = Some le \<and> w_accounts w' (liq_liquidatee_marginfi_account c) = Some le' \<and>
       account_health rt ((w_banks w)(liq_asset_bank c \<mapsto> ab, liq_liab_bank c \<mapsto> lb)) le es = Ok pre \<and>
       account_health rt (w_banks w') le' es = Ok post \<and> pre \<le> 0 \<and> pre < post \<and> post \<le> 0 \<and>
       owes le (liq_liab_bank c) \<and> owes le' (liq_liab_bank c)) \<and>
    (\<exists>lq lq' qs. w_accounts w (liq_liquidator_marginfi_account c) = Some lq \<and> liq_signer c = ma_authority lq \<and>
       w_accounts w' (liq_liquidator_marginfi_account c) = Some lq' \<and>
       check_account_init_health (rt_fx rt) (rt_sdk rt) (w_banks w') (rt_clock rt) lq' qs = Ok ()) \<and>
    (\<exists>g ab0 lb0 ab lb lb' m rest ap lp ql qf n. w_groups w (liq_marginfi_group c) = Some g \<and>
       w_banks w (liq_asset_bank c) = Some ab0 \<and> accrue_interest (rt_fx rt) ab0 (now rt) g = Ok ab \<and>
       w_banks w (liq_liab_bank c) = Some lb0 \<and> accrue_interest (rt_fx rt) lb0 (now rt) g = Ok lb \<and>
       maybe_take_bank_mint (rt_mints rt) ais lb0 (liq_token_program c) = Ok (m, rest) \<and>
       liquidation_price rt ab rest 0 Low = Ok ap \<and> liquidation_price rt lb rest 1 High = Ok lp \<and>
       liquidation_quantities (rt_fx rt) (mint_decimals ab) (mint_decimals lb) (uint asset_amount * SCALE) ap lp =
         Ok (ql, qf, ql - qf) \<and> qf \<le> ql \<and>
       rt_create_address rt (get_seed LiquidityVault) [liq_liab_bank c] (liquidity_vault_bump lb0) = Some (liq_bank_liquidity_vault c) \<and>
       rt_create_address rt (get_seed InsuranceVault) [liq_liab_bank c] (insurance_vault_bump lb0) = Some (liq_bank_insurance_vault c) \<and>
       uint n = (ql - qf) div SCALE \<and>
       token_transfer (rt_tk rt) (w_ledger w) (liq_bank_liquidity_vault c) (liq_bank_insurance_vault c)
         (liq_bank_liquidity_vault_authority c) (map_option ai_key m) n = Some (w_ledger w') \<and>
       w_banks w' (liq_liab_bank c) = Some lb' \<and>
       collected_insurance_fees_outstanding lb' = collected_insurance_fees_outstanding lb + (ql - qf) mod SCALE)"
  (is "?ok \<and> ?only \<and> ?helped \<and> ?solvent \<and> ?paid")
proof (rule liquidate_OkD [OF assms(3)])
  fix g ab0 lb0 ab lb lq0 le m rest pos lpos re0 re pre post amount ap lp ql qf fee lq le' lq_ais
  assume ctx: "w_groups w (liq_marginfi_group c) = Some g" "w_banks w (liq_asset_bank c) = Some ab0"
      "w_banks w (liq_liab_bank c) = Some lb0" "w_accounts w (liq_liquidator_marginfi_account c) = Some lq0"
      "liq_signer c = ma_authority lq0" "w_accounts w (liq_liquidatee_marginfi_account c) = Some le"
    and acc: "accrue_interest (rt_fx rt) ab0 (now rt) g = Ok ab" "accrue_interest (rt_fx rt) lb0 (now rt) g = Ok lb"
    and pre: "risk_engine_new (rt_sdk rt) ((w_banks w)(liq_asset_bank c \<mapsto> ab, liq_liab_bank c \<mapsto> lb)) (rt_clock rt) le (drop pos rest) = Ok re0"
      "check_pre_liquidation_condition_and_get_account_health (rt_fx rt) (rt_sdk rt)
           ((w_banks w)(liq_asset_bank c \<mapsto> ab, liq_liab_bank c \<mapsto> lb)) re0 (liq_liab_bank c) = Ok pre"
    and after: "w_accounts w' (liq_liquidator_marginfi_account c) = Some lq" "w_accounts w' (liq_liquidatee_marginfi_account c) = Some le'"
    and post: "risk_engine_new (rt_sdk rt) (w_banks w') (rt_clock rt) le' (drop pos rest) = Ok re"
      "check_post_liquidation_condition_and_get_account_health (rt_fx rt) (rt_sdk rt) (w_banks w') re (liq_liab_bank c) pre = Ok post"
    and health: "check_account_init_health (rt_fx rt) (rt_sdk rt) (w_banks w') (rt_clock rt) lq lq_ais = Ok ()"
    and mint: "maybe_take_bank_mint (rt_mints rt) ais lb0 (liq_token_program c) = Ok (m, rest)"
    and amount: "from_u64 (rt_fx rt) asset_amount = Ok amount"
    and prices: "liquidation_price rt ab rest 0 Low = Ok ap" "liquidation_price rt lb rest 1 High = Ok lp"
    and q: "liquidation_quantities (rt_fx rt) (mint_decimals ab) (mint_decimals lb) amount ap lp = Ok (ql, qf, fee)"
    and acct: "liquidation_accounting rt c m amount ql qf fee (store_bank (liq_liab_bank c) lb (store_bank (liq_asset_bank c) ab w)) = Ok w'"
    and vaults: "rt_create_address rt (get_seed LiquidityVault) [liq_liab_bank c] (liquidity_vault_bump lb0) = Some (liq_bank_liquidity_vault c)"
      "rt_create_address rt (get_seed InsuranceVault) [liq_liab_bank c] (insurance_vault_bump lb0) = Some (liq_bank_insurance_vault c)"
  note frame = liquidate_keeps_world [OF assms]
  have amount_eq: "amount = uint asset_amount * SCALE" using amount by (simp add: fixed_point.from_u64_law [OF assms(1)])
  then have "0 \<le> amount" by (simp add: amount_nonneg)
  note nn = this liquidation_quantities_OkD [OF assms(1) q this liquidation_price_nonneg [OF assms(1) prices(1)]
      liquidation_price_nonneg [OF assms(1) prices(2)]]
  note w1 = accrued_world_ok [OF assms(1,2) ctx(2,3) acc]
  have ?paid
    using liquidation_pays_insurance [OF assms(1) w1 nn(1,3,2) acct, of lb] ctx acc mint prices q vaults nn(5)
    by (simp add: amount_eq nn(4)) blast
  moreover have ?helped ?solvent
    using ctx acc after pre_liquidation_OkD [OF pre] post_liquidation_OkD [OF post] health by blast+
  ultimately show ?thesis using frame by blast
qed

definition example_liquidation :: liquidate_accounts where
  "example_liquidation = \<lparr>liq_marginfi_group = 2, liq_asset_bank = 51, liq_liab_bank = 52,
     liq_liquidator_marginfi_account = 62, liq_signer = 72, liq_liquidatee_marginfi_account = 61,
     liq_bank_liquidity_vault_authority = 44, liq_bank_liquidity_vault = 41, liq_bank_insurance_vault = 42, liq_token_program = 1\<rparr>"

theorem liquidation_sound_witness:
  "\<exists>w'. lending_account_liquidate example_runtime example_world example_liquidation
      ([example_oracle_ai, example_oracle_ai] @ example_ais @ example_ais) 10000000 = Ok w' \<and>
     world_ok w' \<and> only_changes {62, 61} {51, 52} example_world w'"
proof -
  let ?run = "lending_account_liquidate example_runtime example_world example_liquidation
      ([example_oracle_ai, example_oracle_ai] @ example_ais @ example_ais) 10000000"
  have "is_ok ?run"
    by code_simp
  then obtain w' where run: "?run = Ok w'"
    by (auto simp: is_ok_iff)
  have fx: "fixed_point (rt_fx example_runtime)"
    using reference.fixed_point_axioms by (simp add: example_runtime_def)
  from liquidation_sound [OF fx example_world_ok run] run show ?thesis
    by (auto simp: example_liquidation_def)
qed

end
