(* ===== verification/Flashloan.thy ===== *)
theory Flashloan
  imports Account_Instructions
begin

text \<open>
  Flash loans, \<^verbatim>\<open>instructions/marginfi_account/flashloan.rs\<close>: an account whose loan has started may be
  unhealthy until the instruction that ends it, which the start looks up in the same transaction.

  \<open>tx_context\<close> is what an instruction sees of its transaction: the top-level instructions with the
  index of the one that runs, as the instructions sysvar holds them, the height of the call stack,
  the address of the sysvar, and the discriminator that the framework gives to the end instruction.
\<close>

record raw_instruction =
  ix_program_id :: pubkey
  ix_accounts :: "pubkey list"
  ix_data :: "u8 list"

record tx_context =
  tx_instructions :: "raw_instruction list"
  tx_index :: nat
  tx_stack_height :: nat
  tx_sysvar_id :: pubkey
  tx_end_discriminator :: "u8 list"

record start_flashloan_accounts =
  sfl_marginfi_account :: pubkey
  sfl_signer :: pubkey
  sfl_ixs_sysvar :: pubkey

record end_flashloan_accounts =
  efl_marginfi_account :: pubkey
  efl_signer :: pubkey

text \<open>The address of the program on mainnet, and the height of a top-level instruction.\<close>

definition MARGINFI_ID :: pubkey where
  "MARGINFI_ID = 2347220691806293639428827900514996093801988534716016008815348639507076233019"

definition TRANSACTION_LEVEL_STACK_HEIGHT :: nat where "TRANSACTION_LEVEL_STACK_HEIGHT = 1"
definition END_FL_IX_MARGINFI_ACCOUNT_AI_IDX :: nat where "END_FL_IX_MARGINFI_ACCOUNT_AI_IDX = 0"

definition load_instruction_at_checked :: "tx_context \<Rightarrow> nat \<Rightarrow> raw_instruction result" where
  "load_instruction_at_checked tx i =
     (if i < length (tx_instructions tx) then Ok (tx_instructions tx ! i) else Err (Anchor CallFailed))"

definition check_flashloan_can_start :: "tx_context \<Rightarrow> world \<Rightarrow> pubkey \<Rightarrow> nat \<Rightarrow> unit result" where
  "check_flashloan_can_start tx w pk end_fl_idx =
     (bind (load_account w pk) (\<lambda>a.
      bind (check (\<not> get_flag a DISABLED_FLAG) AccountDisabled) (\<lambda>_.
      bind (check (tx_index tx < end_fl_idx) IllegalFlashloan) (\<lambda>_.
      bind (load_instruction_at_checked tx (tx_index tx)) (\<lambda>current_ix.
      bind (check (tx_stack_height tx = TRANSACTION_LEVEL_STACK_HEIGHT) IllegalFlashloan) (\<lambda>_.
      bind (check (ix_program_id current_ix = MARGINFI_ID) IllegalFlashloan) (\<lambda>_.
      bind (load_instruction_at_checked tx end_fl_idx) (\<lambda>end_fl_ix.
      bind (slice (ix_data end_fl_ix) 0 8) (\<lambda>discriminator.
      bind (check (discriminator = tx_end_discriminator tx) IllegalFlashloan) (\<lambda>_.
      bind (check (ix_program_id end_fl_ix = MARGINFI_ID) IllegalFlashloan) (\<lambda>_.
      bind (ok_or (if END_FL_IX_MARGINFI_ACCOUNT_AI_IDX < length (ix_accounts end_fl_ix)
                   then Some (ix_accounts end_fl_ix ! END_FL_IX_MARGINFI_ACCOUNT_AI_IDX) else None)
              (Mfi IllegalFlashloan)) (\<lambda>end_fl_marginfi_account.
      bind (check (end_fl_marginfi_account = pk) IllegalFlashloan) (\<lambda>_.
      bind (check (\<not> get_flag a DISABLED_FLAG) AccountDisabled) (\<lambda>_.
      check (\<not> get_flag a IN_FLASHLOAN_FLAG) IllegalFlashloan))))))))))))))"

definition lending_account_start_flashloan ::
    "tx_context \<Rightarrow> world \<Rightarrow> start_flashloan_accounts \<Rightarrow> u64 \<Rightarrow> world result" where
  "lending_account_start_flashloan tx w c end_index =
     (bind (load_account w (sfl_marginfi_account c)) (\<lambda>a.
      bind (require (sfl_signer c = ma_authority a) ConstraintAddress) (\<lambda>_.
      bind (require (sfl_ixs_sysvar c = tx_sysvar_id tx) ConstraintAddress) (\<lambda>_.
      bind (check_flashloan_can_start tx w (sfl_marginfi_account c) (unat end_index)) (\<lambda>_.
      Ok (store_account (sfl_marginfi_account c) (set_flag a IN_FLASHLOAN_FLAG) w))))))"

definition lending_account_end_flashloan ::
    "runtime \<Rightarrow> tx_context \<Rightarrow> world \<Rightarrow> end_flashloan_accounts \<Rightarrow> account_info list \<Rightarrow> world result" where
  "lending_account_end_flashloan rt tx w c remaining_accounts =
     (bind (load_account w (efl_marginfi_account c)) (\<lambda>a.
      bind (require (efl_signer c = ma_authority a) ConstraintAddress) (\<lambda>_.
      bind (check (tx_stack_height tx = TRANSACTION_LEVEL_STACK_HEIGHT) IllegalFlashloan) (\<lambda>_.
      let a' = unset_flag a IN_FLASHLOAN_FLAG in
      bind (check_account_init_health (rt_fx rt) (rt_sdk rt) (w_banks w) (rt_clock rt) a' remaining_accounts) (\<lambda>_.
      Ok (store_account (efl_marginfi_account c) a' w))))))"

section \<open>Behaviour\<close>

definition in_flashloan :: "world \<Rightarrow> pubkey \<Rightarrow> bool" where
  "in_flashloan w pk \<longleftrightarrow> (\<exists>a. w_accounts w pk = Some a \<and> get_flag a IN_FLASHLOAN_FLAG)"

text \<open>The instruction of a transaction that ends the loan of an account.\<close>

definition ends_flashloan_of :: "tx_context \<Rightarrow> nat \<Rightarrow> pubkey \<Rightarrow> bool" where
  "ends_flashloan_of tx i pk \<longleftrightarrow> i < length (tx_instructions tx) \<and>
     ix_program_id (tx_instructions tx ! i) = MARGINFI_ID \<and> 8 \<le> length (ix_data (tx_instructions tx ! i)) \<and>
     take 8 (ix_data (tx_instructions tx ! i)) = tx_end_discriminator tx \<and>
     (\<exists>rest. ix_accounts (tx_instructions tx ! i) = pk # rest)"

lemma load_instruction_Ok_iff [run_iff]:
  "load_instruction_at_checked tx i = Ok ix \<longleftrightarrow> i < length (tx_instructions tx) \<and> ix = tx_instructions tx ! i"
  by (auto simp: load_instruction_at_checked_def)

text \<open>A loan can start exactly at the top level, on an enabled account without a loan, with its end ahead.\<close>

lemma can_start_iff:
  "check_flashloan_can_start tx w pk e = Ok () \<longleftrightarrow>
     (\<exists>a. w_accounts w pk = Some a \<and> \<not> get_flag a DISABLED_FLAG \<and> \<not> get_flag a IN_FLASHLOAN_FLAG) \<and>
     tx_index tx < e \<and> tx_stack_height tx = TRANSACTION_LEVEL_STACK_HEIGHT \<and>
     ix_program_id (tx_instructions tx ! tx_index tx) = MARGINFI_ID \<and> ends_flashloan_of tx e pk"
  by (auto simp: check_flashloan_can_start_def bind_Ok_iff load_Ok_iff check_Ok_iff load_instruction_Ok_iff slice_def
      ok_or_Ok_iff ends_flashloan_of_def END_FL_IX_MARGINFI_ACCOUNT_AI_IDX_def neq_Nil_conv split: if_splits)

lemma start_flashloan_OkD:
  assumes "lending_account_start_flashloan tx w c e = Ok w'"
  obtains a where "w_accounts w (sfl_marginfi_account c) = Some a" and "sfl_signer c = ma_authority a"
    and "\<not> get_flag a DISABLED_FLAG" and "\<not> get_flag a IN_FLASHLOAN_FLAG"
    and "tx_index tx < unat e" and "tx_stack_height tx = TRANSACTION_LEVEL_STACK_HEIGHT"
    and "ends_flashloan_of tx (unat e) (sfl_marginfi_account c)"
    and "w' = store_account (sfl_marginfi_account c) (set_flag a IN_FLASHLOAN_FLAG) w"
  using assms by (auto simp: lending_account_start_flashloan_def bind_Ok_iff load_Ok_iff require_Ok_iff can_start_iff)

lemma end_flashloan_OkD:
  assumes "lending_account_end_flashloan rt tx w c ais = Ok w'"
  obtains a where "w_accounts w (efl_marginfi_account c) = Some a" and "efl_signer c = ma_authority a"
    and "tx_stack_height tx = TRANSACTION_LEVEL_STACK_HEIGHT"
    and "w' = store_account (efl_marginfi_account c) (unset_flag a IN_FLASHLOAN_FLAG) w"
    and "check_account_init_health (rt_fx rt) (rt_sdk rt) (w_banks w') (rt_clock rt) (unset_flag a IN_FLASHLOAN_FLAG) ais = Ok ()"
  using assms by (auto simp: lending_account_end_flashloan_def bind_Ok_iff load_Ok_iff require_Ok_iff check_Ok_iff Let_def)

lemma store_same_balances:
  assumes "world_ok w" and "w_accounts w ak = Some a" and "balances a' = balances a"
  shows "world_ok (store_account ak a' w)"
  using world_okD(2) [OF assms(1,2)] by (intro world_ok_store_account [OF assms(1,2)]) (simp_all add: assms(3))

lemma flag_balances [simp]: "balances (set_flag a f) = balances a" "balances (unset_flag a f) = balances a"
  by (simp_all add: set_flag_def unset_flag_def)

lemma start_flashloan_keeps_world:
  "world_ok w \<Longrightarrow> lending_account_start_flashloan tx w c e = Ok w' \<Longrightarrow> world_ok w'"
  by (elim start_flashloan_OkD) (auto intro: store_same_balances)

lemma end_flashloan_keeps_world:
  "world_ok w \<Longrightarrow> lending_account_end_flashloan rt tx w c ais = Ok w' \<Longrightarrow> world_ok w'"
  by (elim end_flashloan_OkD) (auto intro: store_same_balances)

end
