(* ===== verification/Group_Instructions.thy ===== *)
theory Group_Instructions
  imports Flashloan
begin

text \<open>
  The instructions of \<^verbatim>\<open>instructions/marginfi_group\<close> that set up and configure: groups, the flags of
  accounts, the global fee state, banks and their emissions, and accruing interest. Collecting fees
  and settling a bankruptcy have theories of their own.

  Creating the token accounts of a bank and paying rent are left to the token and system programs.
\<close>

section \<open>Accounts passed to an instruction\<close>

record group_initialize_accounts =
  gi_marginfi_group :: pubkey
  gi_admin :: pubkey
  gi_fee_state :: pubkey

record group_admin_accounts =
  ga_marginfi_group :: pubkey
  ga_admin :: pubkey

record account_flag_accounts = group_admin_accounts +
  af_marginfi_account :: pubkey

record config_group_fee_accounts =
  cgf_marginfi_group :: pubkey
  cgf_global_fee_admin :: pubkey
  cgf_fee_state :: pubkey

record init_fee_state_accounts =
  ifs_payer :: pubkey
  ifs_fee_state :: pubkey

record edit_fee_state_accounts =
  efs_global_fee_admin :: pubkey
  efs_fee_state :: pubkey

record propagate_fee_accounts =
  pf_fee_state :: pubkey
  pf_marginfi_group :: pubkey

record accrue_interest_accounts =
  ai_marginfi_group :: pubkey
  ai_bank :: pubkey

record add_bank_accounts = group_admin_accounts +
  ab_fee_payer :: pubkey
  ab_fee_state :: pubkey
  ab_global_fee_wallet :: pubkey
  ab_bank_mint :: account_info
  ab_bank :: pubkey
  ab_liquidity_vault_authority :: pubkey
  ab_liquidity_vault :: pubkey
  ab_insurance_vault_authority :: pubkey
  ab_insurance_vault :: pubkey
  ab_fee_vault_authority :: pubkey
  ab_fee_vault :: pubkey
  ab_token_program :: pubkey

record configure_bank_accounts = group_admin_accounts +
  cb_bank :: pubkey

record setup_emissions_accounts = configure_bank_accounts +
  se_emissions_mint :: account_info
  se_emissions_auth :: pubkey
  se_emissions_token_account :: pubkey
  se_emissions_funding_account :: pubkey
  se_token_program :: pubkey

record update_emissions_accounts = configure_bank_accounts +
  ue_emissions_mint :: account_info
  ue_emissions_token_account :: pubkey
  ue_emissions_funding_account :: pubkey
  ue_token_program :: pubkey

section \<open>Constraints\<close>

text \<open>\<^verbatim>\<open>address = marginfi_group.load()?.admin\<close>, and the one fee state of the program at its address.\<close>

definition admin_constraints :: "world \<Rightarrow> ('a) group_admin_accounts_scheme \<Rightarrow> marginfi_group result" where
  "admin_constraints w c =
     (bind (load_group w (ga_marginfi_group c)) (\<lambda>g.
      bind (require (ga_admin c = grp_admin g) ConstraintAddress) (\<lambda>_. Ok g)))"

definition fee_state_constraints :: "runtime \<Rightarrow> world \<Rightarrow> pubkey \<Rightarrow> fee_state result" where
  "fee_state_constraints rt w pk =
     (bind (require_found_address rt FEE_STATE_SEED [] pk) (\<lambda>_. load_fee_state w))"

definition bank_constraints :: "world \<Rightarrow> ('a) configure_bank_accounts_scheme \<Rightarrow> bank result" where
  "bank_constraints w c =
     (bind (admin_constraints w c) (\<lambda>_.
      bind (load_bank_at w (cb_bank c)) (\<lambda>b.
      bind (require (bk_group b = ga_marginfi_group c) ConstraintRaw) (\<lambda>_. Ok b))))"

section \<open>Groups\<close>

definition group_zeroed :: marginfi_group where
  "group_zeroed = \<lparr>grp_admin = default_pubkey, group_flags = 0, grp_fee_state_cache =
     \<lparr>fsc_global_fee_wallet = default_pubkey, fsc_program_fee_fixed = 0, fsc_program_fee_rate = 0\<rparr>\<rparr>"

definition initialize_group :: "runtime \<Rightarrow> world \<Rightarrow> group_initialize_accounts \<Rightarrow> world result" where
  "initialize_group rt w c =
     (bind (require (unused w (gi_marginfi_group c)) CallFailed) (\<lambda>_.
      bind (fee_state_constraints rt w (gi_fee_state c)) (\<lambda>fs.
      Ok (store_group (gi_marginfi_group c)
           (cache_fee_state (set_initial_configuration group_zeroed (gi_admin c)) fs) w))))"

definition configure :: "world \<Rightarrow> group_admin_accounts \<Rightarrow> group_config \<Rightarrow> world result" where
  "configure w c config =
     (bind (admin_constraints w c) (\<lambda>g.
      Ok (store_group (ga_marginfi_group c) (group_configure g config) w)))"

definition CONFIGURABLE_FLAGS :: u64 where
  "CONFIGURABLE_FLAGS = FLASHLOAN_ENABLED_FLAG + TRANSFER_AUTHORITY_ALLOWED_FLAG"

definition flag_can_be_set :: "u64 \<Rightarrow> bool" where
  "flag_can_be_set flag \<longleftrightarrow> flag AND NOT CONFIGURABLE_FLAGS = 0"

definition account_flag_constraints :: "world \<Rightarrow> account_flag_accounts \<Rightarrow> marginfi_account result" where
  "account_flag_constraints w c =
     (bind (load_account w (af_marginfi_account c)) (\<lambda>a.
      bind (require (ga_marginfi_group c = ma_group a) ConstraintAddress) (\<lambda>_.
      bind (admin_constraints w c) (\<lambda>_. Ok a))))"

definition set_account_flag :: "world \<Rightarrow> account_flag_accounts \<Rightarrow> u64 \<Rightarrow> world result" where
  "set_account_flag w c flag =
     (bind (account_flag_constraints w c) (\<lambda>a.
      bind (check (flag_can_be_set flag) IllegalFlag) (\<lambda>_.
      Ok (store_account (af_marginfi_account c) (set_flag a flag) w))))"

definition unset_account_flag :: "world \<Rightarrow> account_flag_accounts \<Rightarrow> u64 \<Rightarrow> world result" where
  "unset_account_flag w c flag =
     (bind (account_flag_constraints w c) (\<lambda>a.
      bind (check (flag_can_be_set flag) IllegalFlag) (\<lambda>_.
      Ok (store_account (af_marginfi_account c) (unset_flag a flag) w))))"

section \<open>The global fee state\<close>

definition config_group_fee :: "runtime \<Rightarrow> world \<Rightarrow> config_group_fee_accounts \<Rightarrow> u64 \<Rightarrow> world result" where
  "config_group_fee rt w c flag =
     (bind (load_group w (cgf_marginfi_group c)) (\<lambda>g.
      bind (fee_state_constraints rt w (cgf_fee_state c)) (\<lambda>fs.
      bind (require (global_fee_admin fs = cgf_global_fee_admin c) ConstraintHasOne) (\<lambda>_.
      bind (set_flags g flag) (\<lambda>g'.
      Ok (store_group (cgf_marginfi_group c) g' w))))))"

text \<open>The multisig that pays for the fee state on mainnet.\<close>

definition PROGRAM_MULTISIG :: pubkey where
  "PROGRAM_MULTISIG = 15326222140804254622203228430269952881273114783388478041558280097611018838134"

definition initialize_fee_state ::
    "runtime \<Rightarrow> world \<Rightarrow> init_fee_state_accounts \<Rightarrow> pubkey \<Rightarrow> pubkey \<Rightarrow> u32 \<Rightarrow> i80f48 \<Rightarrow> i80f48 \<Rightarrow> world result" where
  "initialize_fee_state rt w c admin_key fee_wallet flat_sol_fee fee_fixed fee_rate =
     (bind (require_found_address rt FEE_STATE_SEED [] (ifs_fee_state c)) (\<lambda>_.
      bind (require (w_fee_state w = None \<and> unused w (ifs_fee_state c)) CallFailed) (\<lambda>_.
      bind (assert_that (ifs_payer c = PROGRAM_MULTISIG)) (\<lambda>_.
      Ok (w\<lparr>w_fee_state := Some \<lparr>fst_key = ifs_fee_state c, global_fee_admin = admin_key,
             global_fee_wallet = fee_wallet, bank_init_flat_sol_fee = flat_sol_fee,
             fst_bump_seed = snd (rt_find_address rt FEE_STATE_SEED []),
             program_fee_fixed = fee_fixed, program_fee_rate = fee_rate\<rparr>\<rparr>)))))"

definition edit_fee_state ::
    "runtime \<Rightarrow> world \<Rightarrow> edit_fee_state_accounts \<Rightarrow> pubkey \<Rightarrow> u32 \<Rightarrow> i80f48 \<Rightarrow> i80f48 \<Rightarrow> world result" where
  "edit_fee_state rt w c fee_wallet flat_sol_fee fee_fixed fee_rate =
     (bind (fee_state_constraints rt w (efs_fee_state c)) (\<lambda>fs.
      bind (require (global_fee_admin fs = efs_global_fee_admin c) ConstraintHasOne) (\<lambda>_.
      Ok (w\<lparr>w_fee_state := Some (fs\<lparr>global_fee_wallet := fee_wallet, bank_init_flat_sol_fee := flat_sol_fee,
             program_fee_fixed := fee_fixed, program_fee_rate := fee_rate\<rparr>)\<rparr>))))"

definition propagate_fee :: "runtime \<Rightarrow> world \<Rightarrow> propagate_fee_accounts \<Rightarrow> world result" where
  "propagate_fee rt w c =
     (bind (fee_state_constraints rt w (pf_fee_state c)) (\<lambda>fs.
      bind (load_group w (pf_marginfi_group c)) (\<lambda>g.
      Ok (store_group (pf_marginfi_group c) (cache_fee_state g fs) w))))"

section \<open>Banks\<close>

definition lending_pool_accrue_bank_interest :: "runtime \<Rightarrow> world \<Rightarrow> accrue_interest_accounts \<Rightarrow> world result" where
  "lending_pool_accrue_bank_interest rt w c =
     (bind (load_group w (ai_marginfi_group c)) (\<lambda>g.
      bind (load_bank_at w (ai_bank c)) (\<lambda>b.
      bind (require (bk_group b = ai_marginfi_group c) ConstraintRaw) (\<lambda>_.
      bind (accrue_interest (rt_fx rt) b (now rt) g) (\<lambda>b'.
      Ok (store_bank (ai_bank c) b' w))))))"

text \<open>A vault of the new bank is at the address found for its seed.\<close>

definition add_bank_constraints :: "runtime \<Rightarrow> world \<Rightarrow> add_bank_accounts \<Rightarrow> fee_state result" where
  "add_bank_constraints rt w c =
     (bind (admin_constraints w c) (\<lambda>_.
      bind (fee_state_constraints rt w (ab_fee_state c)) (\<lambda>fs.
      bind (require (global_fee_wallet fs = ab_global_fee_wallet c) ConstraintHasOne) (\<lambda>_.
      bind (require (mint_parses (rt_mints rt) (ab_bank_mint c)) AccountNotLoadable) (\<lambda>_.
      bind (require (unused w (ab_bank c)) CallFailed) (\<lambda>_.
      bind (require_found_address rt (get_authority_seed LiquidityVault) [ab_bank c] (ab_liquidity_vault_authority c)) (\<lambda>_.
      bind (require_found_address rt (get_seed LiquidityVault) [ab_bank c] (ab_liquidity_vault c)) (\<lambda>_.
      bind (require_found_address rt (get_authority_seed InsuranceVault) [ab_bank c] (ab_insurance_vault_authority c)) (\<lambda>_.
      bind (require_found_address rt (get_seed InsuranceVault) [ab_bank c] (ab_insurance_vault c)) (\<lambda>_.
      bind (require_found_address rt (get_authority_seed FeeVault) [ab_bank c] (ab_fee_vault_authority c)) (\<lambda>_.
      bind (require_found_address rt (get_seed FeeVault) [ab_bank c] (ab_fee_vault c)) (\<lambda>_.
      bind (require_token_program rt (ab_token_program c)) (\<lambda>_.
      Ok fs)))))))))))))"

text \<open>\<^verbatim>\<open>transfer_flat_fee\<close>: native tokens from the payer to the fee wallet.\<close>

definition transfer_flat_fee :: "runtime \<Rightarrow> world \<Rightarrow> add_bank_accounts \<Rightarrow> fee_state \<Rightarrow> ledger result" where
  "transfer_flat_fee rt w c fs =
     (if 0 < bank_init_flat_sol_fee fs
      then ok_or (rt_system_transfer rt (w_lamports w) (ab_fee_payer c) (ab_global_fee_wallet c)
             (ucast (bank_init_flat_sol_fee fs))) (Anchor CallFailed)
      else Ok (w_lamports w))"

definition found_bump :: "runtime \<Rightarrow> string \<Rightarrow> pubkey \<Rightarrow> u8" where
  "found_bump rt seed bk = snd (rt_find_address rt seed [bk])"

definition lending_pool_add_bank ::
    "runtime \<Rightarrow> world \<Rightarrow> add_bank_accounts \<Rightarrow> account_info list \<Rightarrow> bank_config \<Rightarrow> world result" where
  "lending_pool_add_bank rt w c remaining_accounts config =
     (bind (add_bank_constraints rt w c) (\<lambda>fs.
      bind (transfer_flat_fee rt w c fs) (\<lambda>lamports.
      let b = bank_new (ga_marginfi_group c) config (ai_key (ab_bank_mint c))
            (mint_decimals_of (rt_mints rt) (ab_bank_mint c))
            (ab_liquidity_vault c) (ab_insurance_vault c) (ab_fee_vault c) (now rt)
            (found_bump rt (get_seed LiquidityVault) (ab_bank c))
            (found_bump rt (get_authority_seed LiquidityVault) (ab_bank c))
            (found_bump rt (get_seed InsuranceVault) (ab_bank c))
            (found_bump rt (get_authority_seed InsuranceVault) (ab_bank c))
            (found_bump rt (get_seed FeeVault) (ab_bank c))
            (found_bump rt (get_authority_seed FeeVault) (ab_bank c)) in
      bind (bank_config_validate (bk_config b)) (\<lambda>_.
      bind (validate_bank_config (rt_sdk rt) (bk_config b) remaining_accounts) (\<lambda>_.
      Ok ((store_bank (ab_bank c) b w)\<lparr>w_lamports := lamports\<rparr>))))))"

text \<open>The variant whose bank is at an address derived from group, mint and a number.\<close>

definition lending_pool_add_bank_with_seed ::
    "runtime \<Rightarrow> world \<Rightarrow> add_bank_accounts \<Rightarrow> account_info list \<Rightarrow> bank_config \<Rightarrow> u64 \<Rightarrow> world result" where
  "lending_pool_add_bank_with_seed rt w c remaining_accounts config bank_seed =
     (bind (require (fst (rt_find_bank_address rt (ga_marginfi_group c) (ai_key (ab_bank_mint c)) bank_seed) = ab_bank c)
              ConstraintSeeds) (\<lambda>_.
      lending_pool_add_bank rt w c remaining_accounts config))"

definition lending_pool_configure_bank ::
    "runtime \<Rightarrow> world \<Rightarrow> configure_bank_accounts \<Rightarrow> account_info list \<Rightarrow> bank_config_opt \<Rightarrow> world result" where
  "lending_pool_configure_bank rt w c remaining_accounts config =
     (bind (bank_constraints w c) (\<lambda>b.
      bind (bank_configure b config) (\<lambda>b'.
      bind (if bco_oracle config \<noteq> None
            then validate_bank_config (rt_sdk rt) (bk_config b') remaining_accounts else Ok ()) (\<lambda>_.
      Ok (store_bank (cb_bank c) b' w)))))"

section \<open>Emissions\<close>

definition lending_pool_setup_emissions ::
    "runtime \<Rightarrow> world \<Rightarrow> setup_emissions_accounts \<Rightarrow> u64 \<Rightarrow> u64 \<Rightarrow> u64 \<Rightarrow> world result" where
  "lending_pool_setup_emissions rt w c flags rate total_emissions =
     (let mint_key = ai_key (se_emissions_mint c) in
      bind (bank_constraints w c) (\<lambda>b.
      bind (require (mint_parses (rt_mints rt) (se_emissions_mint c)) AccountNotLoadable) (\<lambda>_.
      bind (require_found_address rt EMISSIONS_AUTH_SEED [cb_bank c, mint_key] (se_emissions_auth c)) (\<lambda>_.
      bind (require_found_address rt EMISSIONS_TOKEN_ACCOUNT_SEED [cb_bank c, mint_key] (se_emissions_token_account c)) (\<lambda>_.
      bind (require_token_program rt (se_token_program c)) (\<lambda>_.
      bind (check (emissions_mint b = default_pubkey) EmissionsAlreadySetup) (\<lambda>_.
      bind (override_emissions_flag (b\<lparr>emissions_mint := mint_key\<rparr>) flags) (\<lambda>b'.
      bind (from_u64 (rt_fx rt) total_emissions) (\<lambda>remaining.
      bind (calculate_pre_fee_spl_deposit_amount (rt_mints rt) (se_emissions_mint c) total_emissions (epoch (rt_clock rt))) (\<lambda>pre_fee.
      bind (ok_or (token_transfer (rt_tk rt) (w_ledger w) (se_emissions_funding_account c) (se_emissions_token_account c)
              (ga_admin c) (Some mint_key) pre_fee) (Anchor CallFailed)) (\<lambda>ledger.
      Ok ((store_bank (cb_bank c) (b'\<lparr>emissions_rate := rate, emissions_remaining := remaining\<rparr>) w)
            \<lparr>w_ledger := ledger\<rparr>))))))))))))"

definition lending_pool_update_emissions_parameters ::
    "runtime \<Rightarrow> world \<Rightarrow> update_emissions_accounts \<Rightarrow> u64 option \<Rightarrow> u64 option \<Rightarrow> u64 option \<Rightarrow> world result" where
  "lending_pool_update_emissions_parameters rt w c flags rate additional =
     (let mint_key = ai_key (ue_emissions_mint c) in
      bind (bank_constraints w c) (\<lambda>b.
      bind (require (mint_parses (rt_mints rt) (ue_emissions_mint c)) AccountNotLoadable) (\<lambda>_.
      bind (require_found_address rt EMISSIONS_TOKEN_ACCOUNT_SEED [cb_bank c, mint_key] (ue_emissions_token_account c)) (\<lambda>_.
      bind (require_token_program rt (ue_token_program c)) (\<lambda>_.
      bind (check (emissions_mint b \<noteq> default_pubkey) EmissionsUpdateError) (\<lambda>_.
      bind (check (emissions_mint b = mint_key) EmissionsUpdateError) (\<lambda>_.
      let b' = b\<lparr>bk_flags := set_if_some (bk_flags b) flags, emissions_rate := set_if_some (emissions_rate b) rate\<rparr> in
      case additional of
        None \<Rightarrow> Ok (store_bank (cb_bank c) b' w)
      | Some extra \<Rightarrow>
          bind (from_u64 (rt_fx rt) extra) (\<lambda>x.
          bind (ok_or_math_error (checked_add (rt_fx rt) (emissions_remaining b') x)) (\<lambda>remaining.
          bind (calculate_pre_fee_spl_deposit_amount (rt_mints rt) (ue_emissions_mint c) extra (epoch (rt_clock rt))) (\<lambda>pre_fee.
          bind (ok_or (token_transfer (rt_tk rt) (w_ledger w) (ue_emissions_funding_account c) (ue_emissions_token_account c)
                  (ga_admin c) (Some mint_key) pre_fee) (Anchor CallFailed)) (\<lambda>ledger.
          Ok ((store_bank (cb_bank c) (b'\<lparr>emissions_remaining := remaining\<rparr>) w)\<lparr>w_ledger := ledger\<rparr>))))))))))))"

section \<open>Keeping the world well formed\<close>

lemma admin_constraints_Ok_iff [run_iff]:
  "admin_constraints w c = Ok g \<longleftrightarrow> w_groups w (ga_marginfi_group c) = Some g \<and> ga_admin c = grp_admin g"
  by (auto simp: admin_constraints_def run_iff)

lemma fee_state_constraints_Ok_iff [run_iff]:
  "fee_state_constraints rt w pk = Ok fs \<longleftrightarrow> fst (rt_find_address rt FEE_STATE_SEED []) = pk \<and> w_fee_state w = Some fs"
  by (auto simp: fee_state_constraints_def run_iff)

lemma bank_constraints_Ok_iff [run_iff]:
  "bank_constraints w c = Ok b \<longleftrightarrow> (\<exists>g. w_groups w (ga_marginfi_group c) = Some g \<and> ga_admin c = grp_admin g) \<and>
     w_banks w (cb_bank c) = Some b \<and> bk_group b = ga_marginfi_group c"
  by (auto simp: bank_constraints_def run_iff)

lemma account_flag_constraints_Ok_iff [run_iff]:
  "account_flag_constraints w c = Ok a \<longleftrightarrow> w_accounts w (af_marginfi_account c) = Some a \<and> ga_marginfi_group c = ma_group a \<and>
     (\<exists>g. w_groups w (ga_marginfi_group c) = Some g \<and> ga_admin c = grp_admin g)"
  by (auto simp: account_flag_constraints_def run_iff)

text \<open>Storing a group whose cached rate is in range.\<close>

lemma world_ok_store_group:
  assumes "world_ok w" and "fee_rate_ok (fsc_program_fee_rate (grp_fee_state_cache g))"
  shows "world_ok (store_group gk g w)"
  using assms by (auto simp: world_ok_def store_group_def)

lemma initialize_group_keeps_world:
  assumes "world_ok w" and "initialize_group rt w c = Ok w'"
  shows "world_ok w'"
  using assms(2) world_okD(5) [OF assms(1)]
  by (auto simp: initialize_group_def run_iff cache_fee_state_def intro!: world_ok_store_group [OF assms(1)])

lemma configure_keeps_world:
  assumes "world_ok w" and "configure w c config = Ok w'"
  shows "world_ok w'"
  using assms(2) world_okD(4) [OF assms(1)]
  by (auto simp: configure_def run_iff group_configure_def intro!: world_ok_store_group [OF assms(1)])

lemma account_flag_keeps_world:
  assumes "world_ok w" and "set_account_flag w c flag = Ok w' \<or> unset_account_flag w c flag = Ok w'"
  shows "world_ok w'"
  using assms(2)
  by (auto simp: set_account_flag_def unset_account_flag_def run_iff intro!: store_same_balances [OF assms(1)])

lemma config_group_fee_keeps_world:
  assumes "world_ok w" and "config_group_fee rt w c flag = Ok w'"
  shows "world_ok w'"
  using assms(2) world_okD(4) [OF assms(1)]
  by (auto simp: config_group_fee_def run_iff set_flags_def intro!: world_ok_store_group [OF assms(1)])

lemma propagate_fee_keeps_world:
  assumes "world_ok w" and "propagate_fee rt w c = Ok w'"
  shows "world_ok w'"
  using assms(2) world_okD(5) [OF assms(1)]
  by (auto simp: propagate_fee_def run_iff cache_fee_state_def intro!: world_ok_store_group [OF assms(1)])

text \<open>The fee admin sets the rate; it is not checked, so here the range is a hypothesis.\<close>

lemma world_ok_fee_state: "world_ok w \<Longrightarrow> fee_rate_ok (program_fee_rate fs) \<Longrightarrow> world_ok (w\<lparr>w_fee_state := Some fs\<rparr>)"
  by (simp add: world_ok_def)

lemma fee_state_keeps_world:
  assumes "world_ok w" and "fee_rate_ok rate"
  shows "initialize_fee_state rt w ci admin wallet flat fixed rate = Ok w' \<Longrightarrow> world_ok w'"
    and "edit_fee_state rt w ce wallet flat fixed rate = Ok w' \<Longrightarrow> world_ok w'"
  using assms(2)
  by (auto simp: initialize_fee_state_def edit_fee_state_def run_iff intro!: world_ok_fee_state [OF assms(1)])

lemma accrue_bank_interest_keeps_world:
  assumes "fixed_point (rt_fx rt)" and "world_ok w" and "lending_pool_accrue_bank_interest rt w c = Ok w'"
  shows "world_ok w'"
  using assms(3) fixed_point.accrue_interest_backs [OF assms(1) world_okD(3) [OF assms(2)]]
  by (auto simp: lending_pool_accrue_bank_interest_def bind_Ok_iff load_Ok_iff intro!: world_ok_store_bank [OF assms(2)])

lemma add_bank_keeps_world:
  assumes "world_ok w" and "lending_pool_add_bank rt w c ais config = Ok w'"
  shows "world_ok w'"
proof -
  obtain b lamports where none: "w_banks w (ab_bank c) = None" and w': "w' = (store_bank (ab_bank c) b w)\<lparr>w_lamports := lamports\<rparr>"
    and b: "config_ok (bk_config b)" "asset_share_value b = ONE" "liability_share_value b = ONE"
      "total_asset_shares b = ZERO" "total_liability_shares b = ZERO" "collected_insurance_fees_outstanding b = ZERO"
      "collected_group_fees_outstanding b = ZERO" "collected_program_fees_outstanding b = ZERO" "emissions_remaining b = ZERO"
    using assms(2)
    by (auto simp: lending_pool_add_bank_def add_bank_constraints_def bind_Ok_iff require_Ok_iff unused_def Let_def
        bank_config_validate_Ok_iff bank_new_def)
  have "backs (w_accounts w) (ab_bank c) b"
    using b world_okD(6) [OF assms(1) none] by (simp add: backs_def bank_ok_def ZERO_def ONE_def SCALE_def)
  from world_ok_store_bank [OF assms(1) this] show ?thesis
    by (simp add: w')
qed

lemma add_bank_with_seed_keeps_world:
  "world_ok w \<Longrightarrow> lending_pool_add_bank_with_seed rt w c ais config n = Ok w' \<Longrightarrow> world_ok w'"
  by (auto simp: lending_pool_add_bank_with_seed_def bind_Ok_iff intro: add_bank_keeps_world)

text \<open>Writing back a bank with other flags, rate, emissions or valid configuration.\<close>

lemma backs_administration:
  assumes "backs accounts bk b" and "b' = b\<lparr>bk_config := cfg, bk_flags := f, emissions_rate := r, emissions_remaining := e, emissions_mint := m\<rparr>"
    and "config_ok cfg" and "0 \<le> e"
  shows "backs accounts bk b'"
  using assms by (auto simp: backs_def bank_ok_def)

lemma configure_bank_keeps_world:
  assumes "world_ok w" and "lending_pool_configure_bank rt w c ais config = Ok w'"
  shows "world_ok w'"
proof -
  obtain b b' where b: "w_banks w (cb_bank c) = Some b" and b': "bank_configure b config = Ok b'"
    and w': "w' = store_bank (cb_bank c) b' w"
    using assms(2) by (auto simp: lending_pool_configure_bank_def bind_Ok_iff bank_constraints_Ok_iff)
  note backs = world_okD(3) [OF assms(1) b]
  have eq: "b' = b\<lparr>bk_config := bk_config b', bk_flags := bk_flags b', emissions_rate := emissions_rate b,
      emissions_remaining := emissions_remaining b, emissions_mint := emissions_mint b\<rparr>" and "config_ok (bk_config b')"
    using b' by (auto simp: bank_configure_def update_flag_def Let_def bind_Ok_iff bank_config_validate_Ok_iff split: option.splits)
  then have "backs (w_accounts w) (cb_bank c) b'"
    using backs by (intro backs_administration [OF backs eq]) (simp_all add: backs_def bank_ok_def)
  then show ?thesis
    unfolding w' by (rule world_ok_store_bank [OF assms(1)])
qed

lemma setup_emissions_keeps_world:
  assumes "fixed_point (rt_fx rt)" and "world_ok w" and "lending_pool_setup_emissions rt w c flags rate n = Ok w'"
  shows "world_ok w'"
proof -
  obtain b ledger where b: "w_banks w (cb_bank c) = Some b"
    and w': "w' = (store_bank (cb_bank c) (b\<lparr>emissions_mint := ai_key (se_emissions_mint c), bk_flags := flags,
      emissions_rate := rate, emissions_remaining := uint n * SCALE\<rparr>) w)\<lparr>w_ledger := ledger\<rparr>"
    using assms(3)
    by (auto simp: lending_pool_setup_emissions_def Let_def bind_Ok_iff bank_constraints_Ok_iff override_emissions_flag_def
        fixed_point.from_u64_law [OF assms(1)])
  note backs = world_okD(3) [OF assms(2) b]
  show ?thesis
    unfolding w' world_ok_ledger using backs
    by (intro world_ok_store_bank [OF assms(2)]) (simp add: backs_def bank_ok_def)
qed

lemma update_emissions_keeps_world:
  assumes "fixed_point (rt_fx rt)" and "world_ok w"
    and "lending_pool_update_emissions_parameters rt w c flags rate additional = Ok w'"
  shows "world_ok w'"
proof -
  obtain b f r e ledger where b: "w_banks w (cb_bank c) = Some b" and e: "emissions_remaining b \<le> e"
    and w': "w' = (store_bank (cb_bank c) (b\<lparr>bk_flags := f, emissions_rate := r, emissions_remaining := e\<rparr>) w)\<lparr>w_ledger := ledger\<rparr>"
  proof (cases additional)
    case None
    then obtain b where b: "w_banks w (cb_bank c) = Some b"
      and w': "w' = store_bank (cb_bank c) (b\<lparr>bk_flags := set_if_some (bk_flags b) flags,
        emissions_rate := set_if_some (emissions_rate b) rate\<rparr>) w"
      using assms(3)
      by (auto simp: lending_pool_update_emissions_parameters_def Let_def bind_Ok_iff bank_constraints_Ok_iff)
    show thesis
      by (rule that [OF b order_refl, where ledger = "w_ledger w"]) (simp add: w' store_bank_def)
  next
    case (Some n)
    then obtain b ledger where b: "w_banks w (cb_bank c) = Some b"
      and w': "w' = (store_bank (cb_bank c) (b\<lparr>bk_flags := set_if_some (bk_flags b) flags,
        emissions_rate := set_if_some (emissions_rate b) rate,
        emissions_remaining := emissions_remaining b + uint n * SCALE\<rparr>) w)\<lparr>w_ledger := ledger\<rparr>"
      using assms(3)
      by (auto simp: lending_pool_update_emissions_parameters_def Let_def bind_Ok_iff bank_constraints_Ok_iff ok_or_Ok_iff
          fixed_point.add_law [OF assms(1)] fixed_point.from_u64_law [OF assms(1)] fit_Some_iff)
    show thesis
      by (rule that [OF b _ w']) simp
  qed
  show ?thesis
    unfolding w' world_ok_ledger using world_okD(3) [OF assms(2) b] e
    by (intro world_ok_store_bank [OF assms(2)]) (auto simp: backs_def bank_ok_def)
qed

end
