(* ===== verification/Fee_Instructions.thy ===== *)
theory Fee_Instructions
  imports Group_Instructions
begin

text \<open>
  The instructions of \<^verbatim>\<open>instructions/marginfi_group/collect_bank_fees.rs\<close>: moving the fees a bank has
  collected out of its liquidity vault, and withdrawing from the fee and the insurance vault.
\<close>

section \<open>Accounts passed to an instruction\<close>

record collect_fees_accounts =
  cf_marginfi_group :: pubkey
  cf_bank :: pubkey
  cf_liquidity_vault_authority :: pubkey
  cf_liquidity_vault :: pubkey
  cf_insurance_vault :: pubkey
  cf_fee_vault :: pubkey
  cf_fee_state :: pubkey
  cf_fee_ata :: pubkey
  cf_token_program :: pubkey

record withdraw_vault_accounts = configure_bank_accounts +
  wv_vault :: pubkey
  wv_vault_authority :: pubkey
  wv_dst_token_account :: pubkey
  wv_token_program :: pubkey

section \<open>Collecting\<close>

definition collect_fees_constraints ::
    "runtime \<Rightarrow> world \<Rightarrow> collect_fees_accounts \<Rightarrow> (bank \<times> fee_state) result" where
  "collect_fees_constraints rt w c =
     (bind (load_group w (cf_marginfi_group c)) (\<lambda>_.
      bind (load_bank_at w (cf_bank c)) (\<lambda>b.
      bind (require (bk_group b = cf_marginfi_group c) ConstraintRaw) (\<lambda>_.
      bind (require_address rt (get_authority_seed LiquidityVault) [cf_bank c] (liquidity_vault_authority_bump b)
              (cf_liquidity_vault_authority c)) (\<lambda>_.
      bind (require_address rt (get_seed LiquidityVault) [cf_bank c] (liquidity_vault_bump b) (cf_liquidity_vault c)) (\<lambda>_.
      bind (require_address rt (get_seed InsuranceVault) [cf_bank c] (insurance_vault_bump b) (cf_insurance_vault c)) (\<lambda>_.
      bind (require_address rt (get_seed FeeVault) [cf_bank c] (fee_vault_bump b) (cf_fee_vault c)) (\<lambda>_.
      bind (fee_state_constraints rt w (cf_fee_state c)) (\<lambda>fs.
      bind (require_token_program rt (cf_token_program c)) (\<lambda>_.
      Ok (b, fs)))))))))))"

text \<open>The whole tokens that are due and available, and what stays outstanding.\<close>

definition fee_transfer :: "fixed_ops \<Rightarrow> i80f48 \<Rightarrow> i80f48 \<Rightarrow> (i80f48 \<times> i80f48) result" where
  "fee_transfer fx outstanding available_liquidity =
     (let transfer_amount = int_part fx (min outstanding available_liquidity) in
      bind (ok_or_math_error (checked_sub fx outstanding transfer_amount)) (\<lambda>new_outstanding.
      Ok (int_part fx transfer_amount, new_outstanding)))"

definition lending_pool_collect_bank_fees ::
    "runtime \<Rightarrow> world \<Rightarrow> collect_fees_accounts \<Rightarrow> account_info list \<Rightarrow> world result" where
  "lending_pool_collect_bank_fees rt w c remaining_accounts =
     (let fx = rt_fx rt in
      bind (collect_fees_constraints rt w c) (\<lambda>(b, fs).
      bind (check (cf_fee_ata c = rt_associated_token_address rt (global_fee_wallet fs) (mint b) (cf_token_program c))
              InvalidFeeAta) (\<lambda>_.
      bind (maybe_take_bank_mint (rt_mints rt) remaining_accounts b (cf_token_program c)) (\<lambda>(maybe_bank_mint, _).
      let send = (\<lambda>ledger amount dst.
            bind (ok_or_math_error (checked_to_u64 fx amount)) (\<lambda>n.
            withdraw_spl_transfer (rt_tk rt) b ledger n (cf_liquidity_vault c) dst (cf_liquidity_vault_authority c)
              (map_option ai_key maybe_bank_mint))) in
      bind (from_u64 fx (w_ledger w (cf_liquidity_vault c))) (\<lambda>available.
      bind (fee_transfer fx (collected_insurance_fees_outstanding b) available) (\<lambda>(insurance_amount, new_insurance).
      bind (ok_or_math_error (checked_sub fx available insurance_amount)) (\<lambda>available1.
      bind (fee_transfer fx (collected_group_fees_outstanding b) available1) (\<lambda>(group_amount, new_group).
      bind (ok_or_math_error (checked_sub fx available1 group_amount)) (\<lambda>available2.
      bind (assert_that (ZERO \<le> available2)) (\<lambda>_.
      bind (send (w_ledger w) group_amount (cf_fee_vault c)) (\<lambda>ledger1.
      bind (send ledger1 insurance_amount (cf_insurance_vault c)) (\<lambda>ledger2.
      bind (fee_transfer fx (collected_program_fees_outstanding b) available2) (\<lambda>(program_amount, new_program).
      bind (ok_or_math_error (checked_sub fx available2 program_amount)) (\<lambda>available3.
      bind (assert_that (ZERO \<le> available3)) (\<lambda>_.
      bind (send ledger2 program_amount (cf_fee_ata c)) (\<lambda>ledger3.
      Ok ((store_bank (cf_bank c)
            (b\<lparr>collected_insurance_fees_outstanding := new_insurance, collected_group_fees_outstanding := new_group,
               collected_program_fees_outstanding := new_program\<rparr>) w)\<lparr>w_ledger := ledger3\<rparr>)))))))))))))))))"

section \<open>Withdrawing\<close>

definition withdraw_vault ::
    "runtime \<Rightarrow> world \<Rightarrow> withdraw_vault_accounts \<Rightarrow> account_info list \<Rightarrow> bank_vault_type \<Rightarrow> (bank \<Rightarrow> u8) \<Rightarrow> (bank \<Rightarrow> u8) \<Rightarrow>
     u64 \<Rightarrow> world result" where
  "withdraw_vault rt w c remaining_accounts vault bump authority_bump amount =
     (bind (bank_constraints w c) (\<lambda>b.
      bind (require_address rt (get_seed vault) [cb_bank c] (bump b) (wv_vault c)) (\<lambda>_.
      bind (require_address rt (get_authority_seed vault) [cb_bank c] (authority_bump b) (wv_vault_authority c)) (\<lambda>_.
      bind (require_token_program rt (wv_token_program c)) (\<lambda>_.
      bind (maybe_take_bank_mint (rt_mints rt) remaining_accounts b (wv_token_program c)) (\<lambda>(maybe_bank_mint, _).
      bind (withdraw_spl_transfer (rt_tk rt) b (w_ledger w) amount (wv_vault c) (wv_dst_token_account c)
              (wv_vault_authority c) (map_option ai_key maybe_bank_mint)) (\<lambda>ledger.
      Ok (w\<lparr>w_ledger := ledger\<rparr>))))))))"

definition lending_pool_withdraw_fees ::
    "runtime \<Rightarrow> world \<Rightarrow> withdraw_vault_accounts \<Rightarrow> account_info list \<Rightarrow> u64 \<Rightarrow> world result" where
  "lending_pool_withdraw_fees rt w c remaining_accounts amount =
     withdraw_vault rt w c remaining_accounts FeeVault fee_vault_bump fee_vault_authority_bump amount"

definition lending_pool_withdraw_insurance ::
    "runtime \<Rightarrow> world \<Rightarrow> withdraw_vault_accounts \<Rightarrow> account_info list \<Rightarrow> u64 \<Rightarrow> world result" where
  "lending_pool_withdraw_insurance rt w c remaining_accounts amount =
     withdraw_vault rt w c remaining_accounts InsuranceVault insurance_vault_bump insurance_vault_authority_bump amount"

lemma withdraw_vault_keeps_world:
  assumes "world_ok w"
  shows "lending_pool_withdraw_fees rt w c ais n = Ok w' \<Longrightarrow> world_ok w'"
    and "lending_pool_withdraw_insurance rt w c ais n = Ok w' \<Longrightarrow> world_ok w'"
  using assms
  by (auto simp: lending_pool_withdraw_fees_def lending_pool_withdraw_insurance_def withdraw_vault_def bind_Ok_iff)

section \<open>What is collected\<close>

lemma min_div_SCALE: "min o' (n * SCALE) div SCALE = min (o' div SCALE) n"
proof (cases "o' \<le> n * SCALE")
  case True
  then have "o' div SCALE \<le> n" using zdiv_mono1 [of o' "n * SCALE" SCALE] by simp
  with True show ?thesis by simp
next
  case False
  then have "n \<le> o' div SCALE" using zdiv_mono1 [of "n * SCALE" o' SCALE] by simp
  with False show ?thesis by simp
qed

lemma fee_transfer_Ok_iff:
  assumes "fixed_point fx"
  shows "fee_transfer fx o' (n * SCALE) = Ok r \<longleftrightarrow>
    r = (min (o' div SCALE) n * SCALE, o' - min (o' div SCALE) n * SCALE) \<and> fits (o' - min (o' div SCALE) n * SCALE)"
  by (auto simp: fee_transfer_def Let_def bind_Ok_iff ok_or_Ok_iff fit_Some_iff fixed_point.sub_law [OF assms]
      fixed_point.int_law [OF assms] min_div_SCALE)

lemma fee_transfer_no_panic: "fee_transfer fx o' a \<noteq> Err Panic"
  by (auto simp: fee_transfer_def Let_def bind_def ok_or_def split: sum.splits option.splits if_splits)

text \<open>The whole tokens sent for a fee: what is due, or what the vault still has.\<close>

definition whole_due :: "i80f48 \<Rightarrow> int \<Rightarrow> int" where
  "whole_due outstanding available = min (outstanding div SCALE) available"

lemma whole_due_bounds:
  assumes "0 \<le> o'" and "0 \<le> n"
  shows "0 \<le> whole_due o' n" and "whole_due o' n \<le> n" and "whole_due o' n * SCALE \<le> o'"
    and "o' div SCALE \<le> n \<Longrightarrow> o' - whole_due o' n * SCALE < SCALE"
proof -
  show "0 \<le> whole_due o' n" "whole_due o' n \<le> n"
    using assms by (simp_all add: whole_due_def pos_imp_zdiv_nonneg_iff)
  have "whole_due o' n * SCALE \<le> o' div SCALE * SCALE"
    by (intro mult_right_mono) (simp_all add: whole_due_def)
  also have "\<dots> \<le> o'" by (simp add: quot_mult_le)
  finally show "whole_due o' n * SCALE \<le> o'" .
  show "o' - whole_due o' n * SCALE < SCALE" if "o' div SCALE \<le> n"
    using that by (simp add: whole_due_def minus_div_mult_eq_mod)
qed

lemma address_no_panic [simp]:
  "load_group w pk \<noteq> Inl Panic" "load_bank_at w pk \<noteq> Inl Panic" "load_fee_state w \<noteq> Inl Panic"
  "require_address rt seed keys bump pk \<noteq> Inl Panic" "require_found_address rt seed keys pk \<noteq> Inl Panic"
  "require_token_program rt pk \<noteq> Inl Panic" "fee_state_constraints rt w pk \<noteq> Inl Panic"
  by (simp_all add: load_group_def load_bank_at_def load_fee_state_def require_address_def require_found_address_def
      require_token_program_def fee_state_constraints_def bind_Err_iff)

lemma take_mint_no_panic:
  "require_token_program rt pk = Ok u \<Longrightarrow> maybe_take_bank_mint (rt_mints rt) ais b pk \<noteq> Err Panic"
  by (auto simp: require_address_Ok_iff maybe_take_bank_mint_def split: list.splits)

lemma collect_fees_constraints_Ok_iff:
  "collect_fees_constraints rt w c = Ok (b, fs) \<longleftrightarrow> (\<exists>g. w_groups w (cf_marginfi_group c) = Some g) \<and>
     w_banks w (cf_bank c) = Some b \<and> bk_group b = cf_marginfi_group c \<and>
     rt_create_address rt (get_authority_seed LiquidityVault) [cf_bank c] (liquidity_vault_authority_bump b) = Some (cf_liquidity_vault_authority c) \<and>
     rt_create_address rt (get_seed LiquidityVault) [cf_bank c] (liquidity_vault_bump b) = Some (cf_liquidity_vault c) \<and>
     rt_create_address rt (get_seed InsuranceVault) [cf_bank c] (insurance_vault_bump b) = Some (cf_insurance_vault c) \<and>
     rt_create_address rt (get_seed FeeVault) [cf_bank c] (fee_vault_bump b) = Some (cf_fee_vault c) \<and>
     fst (rt_find_address rt FEE_STATE_SEED []) = cf_fee_state c \<and> w_fee_state w = Some fs \<and>
     require_token_program rt (cf_token_program c) = Ok ()"
  by (auto simp: collect_fees_constraints_def bind_Ok_iff load_Ok_iff require_Ok_iff require_address_Ok_iff(1,2)
      fee_state_constraints_Ok_iff)

text \<open>
  The handler on a bank whose fees are not negative, with the amounts computed: the two assertions
  on the available liquidity hold.
\<close>

definition send_fee ::
    "runtime \<Rightarrow> collect_fees_accounts \<Rightarrow> bank \<Rightarrow> account_info option \<Rightarrow> ledger \<Rightarrow> int \<Rightarrow> pubkey \<Rightarrow> ledger result" where
  "send_fee rt c b m ledger n dst =
     (bind (ok_or_math_error (checked_to_u64 (rt_fx rt) (n * SCALE))) (\<lambda>x.
      withdraw_spl_transfer (rt_tk rt) b ledger x (cf_liquidity_vault c) dst (cf_liquidity_vault_authority c)
        (map_option ai_key m)))"

lemma bind_fee_transfer:
  assumes "fixed_point fx"
  shows "bind (fee_transfer fx o' (n * SCALE)) f =
    (if fits (o' - whole_due o' n * SCALE) then f (whole_due o' n * SCALE, o' - whole_due o' n * SCALE) else Err (Mfi MathError))"
  by (simp add: fee_transfer_def Let_def fixed_point.sub_law [OF assms] fixed_point.int_law [OF assms] min_div_SCALE
      whole_due_def fit_def)

lemma bind_checked_sub_whole:
  assumes "fixed_point fx"
  shows "bind (ok_or_math_error (checked_sub fx (n * SCALE) (k * SCALE))) f =
    (if fits ((n - k) * SCALE) then f ((n - k) * SCALE) else Err (Mfi MathError))"
  by (simp add: fixed_point.sub_law [OF assms] left_diff_distrib fit_def)

lemma send_fee_no_panic [simp]: "send_fee rt c b m l n dst \<noteq> Inl Panic"
  by (simp add: send_fee_def bind_Err_iff withdraw_spl_transfer_def)

lemma collect_fees_computed:
  assumes "fixed_point (rt_fx rt)" and "collect_fees_constraints rt w c = Ok (b, fs)" and "bank_ok b"
    and "cf_fee_ata c = rt_associated_token_address rt (global_fee_wallet fs) (mint b) (cf_token_program c)"
    and "maybe_take_bank_mint (rt_mints rt) ais b (cf_token_program c) = Ok (m, rest)"
  defines "V \<equiv> uint (w_ledger w (cf_liquidity_vault c))"
  defines "i \<equiv> whole_due (collected_insurance_fees_outstanding b) V"
  defines "g \<equiv> whole_due (collected_group_fees_outstanding b) (V - i)"
  defines "p \<equiv> whole_due (collected_program_fees_outstanding b) (V - i - g)"
  defines "b' \<equiv> b\<lparr>collected_insurance_fees_outstanding := collected_insurance_fees_outstanding b - i * SCALE,
      collected_group_fees_outstanding := collected_group_fees_outstanding b - g * SCALE,
      collected_program_fees_outstanding := collected_program_fees_outstanding b - p * SCALE\<rparr>"
  shows "lending_pool_collect_bank_fees rt w c ais \<noteq> Err Panic"
    and "lending_pool_collect_bank_fees rt w c ais = Ok w' \<Longrightarrow>
      \<exists>l1 l2 l3. send_fee rt c b m (w_ledger w) g (cf_fee_vault c) = Ok l1 \<and>
        send_fee rt c b m l1 i (cf_insurance_vault c) = Ok l2 \<and> send_fee rt c b m l2 p (cf_fee_ata c) = Ok l3 \<and>
        w' = (store_bank (cf_bank c) b' w)\<lparr>w_ledger := l3\<rparr>"
    and "0 \<le> i" and "0 \<le> g" and "0 \<le> p" and "i + g + p \<le> V"
proof -
  have o: "0 \<le> collected_insurance_fees_outstanding b" "0 \<le> collected_group_fees_outstanding b" "0 \<le> collected_program_fees_outstanding b"
    using assms(3) by (simp_all add: bank_ok_def)
  have "0 \<le> V" by (simp add: V_def)
  note i = whole_due_bounds(1,2) [OF o(1) this, folded i_def]
  then have "0 \<le> V - i" by simp
  note g = whole_due_bounds(1,2) [OF o(2) this, folded g_def]
  then have "0 \<le> V - i - g" by simp
  note p = whole_due_bounds(1,2) [OF o(3) this, folded p_def]
  show "0 \<le> i" and "0 \<le> g" and "0 \<le> p" and "i + g + p \<le> V"
    using i g p by simp_all
  have asserts: "ZERO \<le> (V - i - g) * SCALE" "ZERO \<le> (V - i - g - p) * SCALE"
    using p \<open>0 \<le> V - i - g\<close> by (simp_all add: ZERO_def)
  have V: "from_u64 (rt_fx rt) (w_ledger w (cf_liquidity_vault c)) = Ok (V * SCALE)"
    by (simp add: fixed_point.from_u64_law [OF assms(1)] V_def)
  have ata: "check (cf_fee_ata c = rt_associated_token_address rt (global_fee_wallet fs) (mint b) (cf_token_program c)) InvalidFeeAta = Ok ()"
    using assms(4) by simp
  note run = lending_pool_collect_bank_fees_def [of rt w c ais, unfolded Let_def assms(2,5) V ata bind_simps
    prod.case bind_fee_transfer [OF assms(1)] bind_checked_sub_whole [OF assms(1)]
    i_def [symmetric] g_def [symmetric] p_def [symmetric] b'_def [symmetric]
    send_fee_def [of rt c b m, symmetric]]
  show "lending_pool_collect_bank_fees rt w c ais \<noteq> Err Panic"
    by (simp add: run asserts bind_Err_iff)
  show "\<exists>l1 l2 l3. send_fee rt c b m (w_ledger w) g (cf_fee_vault c) = Ok l1 \<and>
        send_fee rt c b m l1 i (cf_insurance_vault c) = Ok l2 \<and> send_fee rt c b m l2 p (cf_fee_ata c) = Ok l3 \<and>
        w' = (store_bank (cf_bank c) b' w)\<lparr>w_ledger := l3\<rparr>" if "lending_pool_collect_bank_fees rt w c ais = Ok w'"
    using that by (auto simp: run asserts bind_Ok_iff split: if_splits)
qed

lemma send_fee_OkD:
  assumes "fixed_point (rt_fx rt)" and "send_fee rt c b m l n dst = Ok l'"
  shows "token_transfer (rt_tk rt) l (cf_liquidity_vault c) dst (cf_liquidity_vault_authority c) (map_option ai_key m)
    (word_of_int n) = Some l'"
  using assms(2)
  by (auto simp: send_fee_def bind_Ok_iff ok_or_Ok_iff withdraw_spl_transfer_def fixed_point.to_u64_law [OF assms(1)] split: if_splits)

lemma collect_fees_OkD:
  assumes "lending_pool_collect_bank_fees rt w c ais = Ok w'"
  obtains b fs m rest where "collect_fees_constraints rt w c = Ok (b, fs)"
    and "cf_fee_ata c = rt_associated_token_address rt (global_fee_wallet fs) (mint b) (cf_token_program c)"
    and "maybe_take_bank_mint (rt_mints rt) ais b (cf_token_program c) = Ok (m, rest)"
  using assms by (auto simp: lending_pool_collect_bank_fees_def Let_def bind_Ok_iff check_Ok_iff)

lemma collect_fees_no_panic:
  assumes "fixed_point (rt_fx rt)" and "world_ok w"
  shows "lending_pool_collect_bank_fees rt w c ais \<noteq> Err Panic"
proof
  assume panic: "lending_pool_collect_bank_fees rt w c ais = Err Panic"
  have "collect_fees_constraints rt w c \<noteq> Err Panic"
    by (simp add: collect_fees_constraints_def bind_Err_iff)
  with panic obtain b fs where con: "collect_fees_constraints rt w c = Ok (b, fs)"
    and ata: "cf_fee_ata c = rt_associated_token_address rt (global_fee_wallet fs) (mint b) (cf_token_program c)"
    by (auto simp: lending_pool_collect_bank_fees_def Let_def bind_Err_iff check_Ok_iff)
  have ok: "bank_ok b"
    using con world_okD(3) [OF assms(2)] by (auto simp: collect_fees_constraints_Ok_iff backs_def)
  have "maybe_take_bank_mint (rt_mints rt) ais b (cf_token_program c) \<noteq> Err Panic"
    using con by (intro take_mint_no_panic) (auto simp: collect_fees_constraints_Ok_iff)
  with panic con obtain m rest where "maybe_take_bank_mint (rt_mints rt) ais b (cf_token_program c) = Ok (m, rest)"
    by (auto simp: lending_pool_collect_bank_fees_def Let_def bind_Err_iff)
  from collect_fees_computed(1) [OF assms(1) con ok ata this] panic show False by simp
qed

lemma collect_fees_settled:
  assumes "fixed_point (rt_fx rt)" and "world_ok w" and "lending_pool_collect_bank_fees rt w c ais = Ok w'"
  defines "V \<equiv> uint (w_ledger w (cf_liquidity_vault c))"
  defines "send \<equiv> \<lambda>l dst mk n. token_transfer (rt_tk rt) l (cf_liquidity_vault c) dst (cf_liquidity_vault_authority c) mk (word_of_int n)"
  obtains b fs mk i g p l1 l2 l3 where "w_banks w (cf_bank c) = Some b" and "w_fee_state w = Some fs" and "bank_ok b"
    and "cf_fee_ata c = rt_associated_token_address rt (global_fee_wallet fs) (mint b) (cf_token_program c)"
    and "send (w_ledger w) (cf_fee_vault c) mk g = Some l1" and "send l1 (cf_insurance_vault c) mk i = Some l2"
    and "send l2 (cf_fee_ata c) mk p = Some l3" and "0 \<le> i" and "0 \<le> g" and "0 \<le> p" and "i + g + p \<le> V"
    and "i = whole_due (collected_insurance_fees_outstanding b) V"
    and "g = whole_due (collected_group_fees_outstanding b) (V - i)"
    and "p = whole_due (collected_program_fees_outstanding b) (V - i - g)"
    and "w' = (store_bank (cf_bank c) (b\<lparr>
           collected_insurance_fees_outstanding := collected_insurance_fees_outstanding b - i * SCALE,
           collected_group_fees_outstanding := collected_group_fees_outstanding b - g * SCALE,
           collected_program_fees_outstanding := collected_program_fees_outstanding b - p * SCALE\<rparr>) w)\<lparr>w_ledger := l3\<rparr>"
proof (rule collect_fees_OkD [OF assms(3)])
  fix b fs m rest
  assume con: "collect_fees_constraints rt w c = Ok (b, fs)"
    and ata: "cf_fee_ata c = rt_associated_token_address rt (global_fee_wallet fs) (mint b) (cf_token_program c)"
    and mint: "maybe_take_bank_mint (rt_mints rt) ais b (cf_token_program c) = Ok (m, rest)"
  have b: "w_banks w (cf_bank c) = Some b" "w_fee_state w = Some fs" and ok: "bank_ok b"
    using con world_okD(3) [OF assms(2)] by (auto simp: collect_fees_constraints_Ok_iff backs_def)
  note cc = collect_fees_computed [OF assms(1) con ok ata mint]
  from cc(2) [OF assms(3)] send_fee_OkD [OF assms(1)] b ok ata cc(3-6) show thesis
    by (elim exE conjE) (rule that, unfold V_def send_def, assumption+, (rule refl | assumption)+)
qed

text \<open>Each outstanding fee covers what is sent.\<close>

lemma due_within:
  assumes "bank_ok b" and "0 \<le> V" and "i = whole_due (collected_insurance_fees_outstanding b) V"
    and "g = whole_due (collected_group_fees_outstanding b) (V - i)"
    and "p = whole_due (collected_program_fees_outstanding b) (V - i - g)"
  shows "i * SCALE \<le> collected_insurance_fees_outstanding b" and "g * SCALE \<le> collected_group_fees_outstanding b"
    and "p * SCALE \<le> collected_program_fees_outstanding b"
    and "collected_insurance_fees_outstanding b div SCALE + collected_group_fees_outstanding b div SCALE +
       collected_program_fees_outstanding b div SCALE \<le> V \<Longrightarrow>
      collected_insurance_fees_outstanding b - i * SCALE < SCALE \<and>
      collected_group_fees_outstanding b - g * SCALE < SCALE \<and> collected_program_fees_outstanding b - p * SCALE < SCALE"
proof -
  let ?i = "collected_insurance_fees_outstanding b" and ?g = "collected_group_fees_outstanding b"
    and ?p = "collected_program_fees_outstanding b"
  have o: "0 \<le> ?i" "0 \<le> ?g" "0 \<le> ?p"
    using assms(1) by (simp_all add: bank_ok_def)
  then have d: "0 \<le> ?i div SCALE" "0 \<le> ?g div SCALE" "0 \<le> ?p div SCALE"
    by (simp_all add: pos_imp_zdiv_nonneg_iff)
  note i = whole_due_bounds [OF o(1) assms(2), folded assms(3)]
  then have "0 \<le> V - i" by simp
  note g = whole_due_bounds [OF o(2) this, folded assms(4)]
  then have "0 \<le> V - i - g" by simp
  note p = whole_due_bounds [OF o(3) this, folded assms(5)]
  show "i * SCALE \<le> ?i" "g * SCALE \<le> ?g" "p * SCALE \<le> ?p"
    using i g p by blast+
  assume le: "?i div SCALE + ?g div SCALE + ?p div SCALE \<le> V"
  have "i \<le> ?i div SCALE" "g \<le> ?g div SCALE"
    by (simp_all add: assms(3,4) whole_due_def)
  with le d have "?i div SCALE \<le> V" "?g div SCALE \<le> V - i" "?p div SCALE \<le> V - i - g"
    by linarith+
  with i g p show "?i - i * SCALE < SCALE \<and> ?g - g * SCALE < SCALE \<and> ?p - p * SCALE < SCALE"
    by blast
qed

lemma collect_fees_keeps_world:
  assumes "fixed_point (rt_fx rt)" and "world_ok w" and "lending_pool_collect_bank_fees rt w c ais = Ok w'"
  shows "world_ok w'"
proof (rule collect_fees_settled [OF assms])
  fix b i g p l3
  let ?V = "uint (w_ledger w (cf_liquidity_vault c))"
  assume b: "w_banks w (cf_bank c) = Some b" "bank_ok b" and due: "i = whole_due (collected_insurance_fees_outstanding b) ?V"
    "g = whole_due (collected_group_fees_outstanding b) (?V - i)" "p = whole_due (collected_program_fees_outstanding b) (?V - i - g)"
    and w': "w' = (store_bank (cf_bank c) (b\<lparr>
           collected_insurance_fees_outstanding := collected_insurance_fees_outstanding b - i * SCALE,
           collected_group_fees_outstanding := collected_group_fees_outstanding b - g * SCALE,
           collected_program_fees_outstanding := collected_program_fees_outstanding b - p * SCALE\<rparr>) w)\<lparr>w_ledger := l3\<rparr>"
  show ?thesis
    unfolding w' world_ok_ledger using world_okD(3) [OF assms(2) b(1)] due_within(1-3) [OF b(2) _ due]
    by (intro world_ok_store_bank [OF assms(2)]) (simp add: backs_def bank_ok_def)
qed

section \<open>Claim\<close>

text \<open>
  C8. Collecting the fees of a bank. In a well-formed world the instruction never panics, so its
  two assertions on the available liquidity never fail. When it succeeds, three transfers leave
  the liquidity vault: \<open>g\<close> tokens to the fee vault, then \<open>i\<close> to the insurance vault, then \<open>p\<close> to the
  associated token account of the global fee wallet. They are whole tokens, together at most what
  the vault holds, with the insurance fees served first, then the group's, then the program's; each
  outstanding fee falls by exactly what was sent and does not become negative, and less than one
  token of each stays outstanding when the vault holds enough for all. Nothing else changes.
\<close>

theorem collect_fees_sound:
  fixes rt w c
  defines "V \<equiv> uint (w_ledger w (cf_liquidity_vault c))"
  defines "send \<equiv> \<lambda>l dst mk n. token_transfer (rt_tk rt) l (cf_liquidity_vault c) dst (cf_liquidity_vault_authority c) mk (word_of_int n)"
  assumes "fixed_point (rt_fx rt)" and "world_ok w"
  shows "lending_pool_collect_bank_fees rt w c ais \<noteq> Err Panic \<and>
    (\<forall>w'. lending_pool_collect_bank_fees rt w c ais = Ok w' \<longrightarrow> world_ok w' \<and>
      (\<exists>b fs mk i g p l1 l2 l3. w_banks w (cf_bank c) = Some b \<and> w_fee_state w = Some fs \<and>
         cf_fee_ata c = rt_associated_token_address rt (global_fee_wallet fs) (mint b) (cf_token_program c) \<and>
         send (w_ledger w) (cf_fee_vault c) mk g = Some l1 \<and> send l1 (cf_insurance_vault c) mk i = Some l2 \<and>
         send l2 (cf_fee_ata c) mk p = Some l3 \<and> 0 \<le> i \<and> 0 \<le> g \<and> 0 \<le> p \<and> i + g + p \<le> V \<and>
         i = min (collected_insurance_fees_outstanding b div SCALE) V \<and>
         g = min (collected_group_fees_outstanding b div SCALE) (V - i) \<and>
         p = min (collected_program_fees_outstanding b div SCALE) (V - i - g) \<and>
         w' = (store_bank (cf_bank c) (b\<lparr>
           collected_insurance_fees_outstanding := collected_insurance_fees_outstanding b - i * SCALE,
           collected_group_fees_outstanding := collected_group_fees_outstanding b - g * SCALE,
           collected_program_fees_outstanding := collected_program_fees_outstanding b - p * SCALE\<rparr>) w)\<lparr>w_ledger := l3\<rparr> \<and>
         i * SCALE \<le> collected_insurance_fees_outstanding b \<and> g * SCALE \<le> collected_group_fees_outstanding b \<and>
         p * SCALE \<le> collected_program_fees_outstanding b \<and>
         (collected_insurance_fees_outstanding b div SCALE + collected_group_fees_outstanding b div SCALE +
            collected_program_fees_outstanding b div SCALE \<le> V \<longrightarrow>
          collected_insurance_fees_outstanding b - i * SCALE < SCALE \<and>
          collected_group_fees_outstanding b - g * SCALE < SCALE \<and>
          collected_program_fees_outstanding b - p * SCALE < SCALE)))"
    (is "_ \<and> (\<forall>w'. _ \<longrightarrow> world_ok w' \<and> ?settled w')")
proof (intro conjI [OF collect_fees_no_panic [OF assms(3,4)]] allI impI)
  fix w'
  assume run: "lending_pool_collect_bank_fees rt w c ais = Ok w'"
  show "world_ok w' \<and> ?settled w'"
  proof (rule collect_fees_settled [OF assms(3,4) run, folded V_def])
    fix b fs mk i g p l1 l2 l3
    assume *: "w_banks w (cf_bank c) = Some b" "w_fee_state w = Some fs" "bank_ok b"
      "cf_fee_ata c = rt_associated_token_address rt (global_fee_wallet fs) (mint b) (cf_token_program c)"
      "token_transfer (rt_tk rt) (w_ledger w) (cf_liquidity_vault c) (cf_fee_vault c) (cf_liquidity_vault_authority c) mk (word_of_int g) = Some l1"
      "token_transfer (rt_tk rt) l1 (cf_liquidity_vault c) (cf_insurance_vault c) (cf_liquidity_vault_authority c) mk (word_of_int i) = Some l2"
      "token_transfer (rt_tk rt) l2 (cf_liquidity_vault c) (cf_fee_ata c) (cf_liquidity_vault_authority c) mk (word_of_int p) = Some l3"
      "0 \<le> i" "0 \<le> g" "0 \<le> p" "i + g + p \<le> V"
    and due: "i = whole_due (collected_insurance_fees_outstanding b) V" "g = whole_due (collected_group_fees_outstanding b) (V - i)"
      "p = whole_due (collected_program_fees_outstanding b) (V - i - g)"
    and w': "w' = (store_bank (cf_bank c) (b\<lparr>
           collected_insurance_fees_outstanding := collected_insurance_fees_outstanding b - i * SCALE,
           collected_group_fees_outstanding := collected_group_fees_outstanding b - g * SCALE,
           collected_program_fees_outstanding := collected_program_fees_outstanding b - p * SCALE\<rparr>) w)\<lparr>w_ledger := l3\<rparr>"
    have "0 \<le> V" by (simp add: V_def)
    note d = due_within [OF *(3) this due]
    have "?settled w'"
      apply (rule exI [of _ b], rule exI [of _ fs], rule exI [of _ mk], rule exI [of _ i], rule exI [of _ g], rule exI [of _ p],
          rule exI [of _ l1], rule exI [of _ l2], rule exI [of _ l3])
      using * w' d due unfolding send_def whole_due_def by blast
    with collect_fees_keeps_world [OF assms(3,4) run] show ?thesis ..
  qed
qed

definition example_collect :: collect_fees_accounts where
  "example_collect = \<lparr>cf_marginfi_group = 2, cf_bank = 51, cf_liquidity_vault_authority = 44, cf_liquidity_vault = 41,
     cf_insurance_vault = 42, cf_fee_vault = 43, cf_fee_state = 44, cf_fee_ata = 1083, cf_token_program = 1\<rparr>"

definition example_fees_world :: world where
  "example_fees_world = store_bank 51 (example_bank\<lparr>collected_insurance_fees_outstanding := 7 * SCALE + 5,
     collected_group_fees_outstanding := 3 * SCALE, collected_program_fees_outstanding := SCALE div 2\<rparr>) example_world"

lemma example_fees_world_ok: "world_ok example_fees_world"
  unfolding example_fees_world_def
proof (rule world_ok_store_bank [OF example_world_ok])
  have "w_banks example_world 51 = Some example_bank" by (simp add: example_world_def)
  from world_okD(3) [OF example_world_ok this]
  show "backs (w_accounts example_world) 51 (example_bank\<lparr>collected_insurance_fees_outstanding := 7 * SCALE + 5,
     collected_group_fees_outstanding := 3 * SCALE, collected_program_fees_outstanding := SCALE div 2\<rparr>)"
    by (simp add: backs_def bank_ok_def SCALE_def)
qed

theorem collect_fees_sound_witness:
  "\<exists>w'. lending_pool_collect_bank_fees example_runtime example_fees_world example_collect [] = Ok w' \<and> world_ok w'"
proof -
  have "is_ok (lending_pool_collect_bank_fees example_runtime example_fees_world example_collect [])"
    by code_simp
  then obtain w' where run: "lending_pool_collect_bank_fees example_runtime example_fees_world example_collect [] = Ok w'"
    by (auto simp: is_ok_iff)
  have "fixed_point (rt_fx example_runtime)"
    using reference.fixed_point_axioms by (simp add: example_runtime_def)
  from collect_fees_sound [OF this example_fees_world_ok] run show ?thesis by blast
qed

end
