(* ===== verification/Bankruptcy.thy ===== *)
theory Bankruptcy
  imports Fee_Instructions
begin

text \<open>
  \<^verbatim>\<open>lending_pool_handle_bankruptcy\<close> of \<^verbatim>\<open>instructions/marginfi_group/handle_bankruptcy.rs\<close>: the bad debt of
  a bankrupt account is paid by the insurance fund of the bank and, beyond that, by its depositors,
  and the account is disabled.
\<close>

record bankruptcy_accounts =
  bkr_marginfi_group :: pubkey
  bkr_signer :: pubkey
  bkr_bank :: pubkey
  bkr_marginfi_account :: pubkey
  bkr_liquidity_vault :: pubkey
  bkr_insurance_vault :: pubkey
  bkr_insurance_vault_authority :: pubkey
  bkr_token_program :: pubkey

definition bankruptcy_constraints ::
    "runtime \<Rightarrow> world \<Rightarrow> bankruptcy_accounts \<Rightarrow> (marginfi_group \<times> bank \<times> marginfi_account) result" where
  "bankruptcy_constraints rt w c =
     (bind (load_group w (bkr_marginfi_group c)) (\<lambda>g.
      bind (load_bank_at w (bkr_bank c)) (\<lambda>b.
      bind (require (bk_group b = bkr_marginfi_group c) ConstraintRaw) (\<lambda>_.
      bind (load_account w (bkr_marginfi_account c)) (\<lambda>a.
      bind (require (ma_group a = bkr_marginfi_group c) ConstraintRaw) (\<lambda>_.
      bind (require_address rt (get_seed LiquidityVault) [bkr_bank c] (liquidity_vault_bump b) (bkr_liquidity_vault c)) (\<lambda>_.
      bind (require_address rt (get_seed InsuranceVault) [bkr_bank c] (insurance_vault_bump b) (bkr_insurance_vault c)) (\<lambda>_.
      bind (require_address rt (get_authority_seed InsuranceVault) [bkr_bank c] (insurance_vault_authority_bump b)
              (bkr_insurance_vault_authority c)) (\<lambda>_.
      bind (require_token_program rt (bkr_token_program c)) (\<lambda>_.
      Ok (g, b, a)))))))))))"

text \<open>What the insurance vault can deliver after the fee of the mint.\<close>

definition post_fee_of :: "mint_ops \<Rightarrow> account_info option \<Rightarrow> u64 \<Rightarrow> u64 \<Rightarrow> u64 result" where
  "post_fee_of mo maybe_mint amount ep = (case maybe_mint of
     Some m \<Rightarrow> calculate_post_fee_spl_deposit_amount mo m amount ep
   | None \<Rightarrow> Ok amount)"

text \<open>The part the insurance fund covers, the part the depositors bear, and the tokens to move.\<close>

definition bankruptcy_split :: "fixed_ops \<Rightarrow> i80f48 \<Rightarrow> i80f48 \<Rightarrow> (i80f48 \<times> i80f48 \<times> u64) result" where
  "bankruptcy_split fx bad_debt available_insurance_fund =
     (let covered_by_insurance = min bad_debt available_insurance_fund in
      bind (op_sub fx bad_debt covered_by_insurance) (\<lambda>d.
      let socialized_loss = max d ZERO in
      bind (ok_or_math_error (checked_ceil fx covered_by_insurance)) (\<lambda>r.
      bind (ok_or_math_error (checked_to_u64 fx r)) (\<lambda>covered_by_insurance_rounded_up.
      Ok (covered_by_insurance, socialized_loss, covered_by_insurance_rounded_up)))))"

definition lending_pool_handle_bankruptcy ::
    "runtime \<Rightarrow> world \<Rightarrow> bankruptcy_accounts \<Rightarrow> account_info list \<Rightarrow> world result" where
  "lending_pool_handle_bankruptcy rt w c remaining_accounts =
     (let fx = rt_fx rt; sdk = rt_sdk rt; bk = bkr_bank c; ep = epoch (rt_clock rt) in
      bind (bankruptcy_constraints rt w c) (\<lambda>(g, b0, a).
      bind (maybe_take_bank_mint (rt_mints rt) remaining_accounts b0 (bkr_token_program c)) (\<lambda>(maybe_bank_mint, remaining).
      bind (if \<not> bank_get_flag b0 PERMISSIONLESS_BAD_DEBT_SETTLEMENT_FLAG
            then check (bkr_signer c = grp_admin g) Unauthorized else Ok ()) (\<lambda>_.
      bind (risk_engine_new sdk (w_banks w) (rt_clock rt) a remaining) (\<lambda>re.
      bind (check_account_bankrupt fx sdk (w_banks w) re) (\<lambda>_.
      bind (accrue_interest fx b0 (now rt) g) (\<lambda>b1.
      bind (ok_or (position (\<lambda>bal. active bal \<and> bank_pk bal = bk) (balances a)) (Mfi LendingAccountBalanceNotFound)) (\<lambda>k.
      bind (get_liability_amount fx b1 (liability_shares (balances a ! k))) (\<lambda>bad_debt.
      bind (check (ZERO_AMOUNT_THRESHOLD < bad_debt) BalanceNotBadDebt) (\<lambda>_.
      bind (post_fee_of (rt_mints rt) maybe_bank_mint (w_ledger w (bkr_insurance_vault c)) ep) (\<lambda>available.
      bind (from_u64 fx available) (\<lambda>available_insurance_fund.
      bind (bankruptcy_split fx bad_debt available_insurance_fund) (\<lambda>(covered, socialized_loss, rounded_up).
      bind (pre_fee_of (rt_mints rt) maybe_bank_mint rounded_up ep) (\<lambda>insurance_coverage_deposit_pre_fee.
      bind (withdraw_spl_transfer (rt_tk rt) b1 (w_ledger w) insurance_coverage_deposit_pre_fee (bkr_insurance_vault c)
              (bkr_liquidity_vault c) (bkr_insurance_vault_authority c) (map_option ai_key maybe_bank_mint)) (\<lambda>ledger.
      bind (socialize_loss fx b1 socialized_loss) (\<lambda>b2.
      bind (find_or_create bk (balances a) (now rt)) (\<lambda>(i, la).
      bind (repay fx \<lparr>bw_balance = la ! i, bw_bank = b2\<rparr> bad_debt (now rt)) (\<lambda>wr.
      Ok ((store_bank bk (bw_bank wr)
            (store_account (bkr_marginfi_account c) (set_flag (with_balance a la i (bw_balance wr)) DISABLED_FLAG) w))
            \<lparr>w_ledger := ledger\<rparr>)))))))))))))))))))"

section \<open>Behaviour\<close>

lemma bankruptcy_constraints_Ok_iff:
  "bankruptcy_constraints rt w c = Ok (g, b, a) \<longleftrightarrow> w_groups w (bkr_marginfi_group c) = Some g \<and>
     w_banks w (bkr_bank c) = Some b \<and> bk_group b = bkr_marginfi_group c \<and>
     w_accounts w (bkr_marginfi_account c) = Some a \<and> ma_group a = bkr_marginfi_group c \<and>
     rt_create_address rt (get_seed LiquidityVault) [bkr_bank c] (liquidity_vault_bump b) = Some (bkr_liquidity_vault c) \<and>
     rt_create_address rt (get_seed InsuranceVault) [bkr_bank c] (insurance_vault_bump b) = Some (bkr_insurance_vault c) \<and>
     rt_create_address rt (get_authority_seed InsuranceVault) [bkr_bank c] (insurance_vault_authority_bump b) =
       Some (bkr_insurance_vault_authority c) \<and>
     (bkr_token_program c = token_id (rt_mints rt) \<or> bkr_token_program c = token_2022_id (rt_mints rt))"
  by (auto simp: bankruptcy_constraints_def run_iff)

lemma neg_whole_div: "- (x * SCALE) div SCALE = - x"
  using nonzero_mult_div_cancel_right [of SCALE "- x"] by simp

text \<open>The split: both parts add up to the debt, and the tokens moved are available.\<close>

lemma bankruptcy_split_OkD:
  assumes "fixed_point fx" and "0 \<le> bad" and "bankruptcy_split fx bad (uint available * SCALE) = Ok (covered, loss, n)"
  shows "0 \<le> covered" and "0 \<le> loss" and "covered + loss = bad" and "covered = min bad (uint available * SCALE)"
    and "n \<le> (available :: u64)" and "covered \<le> uint n * SCALE" and "uint n * SCALE < covered + SCALE"
proof -
  have c: "covered = min bad (uint available * SCALE)" and l: "loss = max (bad - covered) 0"
    and n: "n = word_of_int (- (- covered div SCALE))" "0 \<le> - (- covered div SCALE)" "- (- covered div SCALE) < 2 ^ 64"
    using assms(3)
    by (auto simp: bankruptcy_split_def Let_def bind_Ok_iff ok_or_Ok_iff op_sub_def fixed_point.sub_law [OF assms(1)]
        fixed_point.ceil_law [OF assms(1)] fixed_point.to_u64_law [OF assms(1)] fit_Some_iff ZERO_def neg_whole_div split: if_splits)
  have un: "uint n = - (- covered div SCALE)"
    unfolding n(1) by (rule uint_u64_of_int [OF n(2,3)])
  show "covered = min bad (uint available * SCALE)" "0 \<le> covered" "0 \<le> loss" "covered + loss = bad"
    using c l assms(2) by auto
  have "- covered \<ge> (- uint available) * SCALE"
    by (simp add: c)
  then have "- uint available \<le> - covered div SCALE"
    using zdiv_mono1 [of "(- uint available) * SCALE" "- covered" SCALE] by (simp add: neg_whole_div)
  then show "n \<le> available"
    by (simp add: word_le_def un)
  show "covered \<le> uint n * SCALE"
    using quot_mult_le [OF SCALE_pos(1), of "- covered"] by (simp add: un)
  have "- covered mod SCALE < SCALE" by simp
  then show "uint n * SCALE < covered + SCALE"
    unfolding un by (simp add: minus_mod_eq_div_mult [symmetric])
qed

lemma insurance_within_vault:
  assumes "token_2022 mo" and "post_fee_of mo m vault ep = Ok available" and "n \<le> available" and "pre_fee_of mo m n ep = Ok pre"
  shows "pre \<le> vault"
  using assms by (cases m) (auto simp: post_fee_of_def pre_fee_of_def intro: token_2022.pre_fee_within)

text \<open>The share values are not touched by an increase.\<close>

lemma increase_share_value:
  "increase_balance_internal fx w delta op t = Ok w' \<Longrightarrow> asset_share_value (bw_bank w') = asset_share_value (bw_bank w)"
  by (auto simp: increase_balance_internal_def bind_Ok_iff claim_emissions_def bank_change_asset_shares_def
      bank_change_liability_shares_def Let_def split: if_splits option.splits prod.splits)

lemma position_find_or_create:
  "position (\<lambda>bal. active bal \<and> bank_pk bal = bk) la = Some k \<Longrightarrow> find_or_create bk la t = Ok (k, la)"
  by (simp add: find_or_create_def)

lemma handle_bankruptcy_OkD:
  assumes "fixed_point (rt_fx rt)" and "lending_pool_handle_bankruptcy rt w c ais = Ok w'"
  obtains g b0 a m rest b1 k bad available covered loss n pre ledger b2 wr
  where "w_groups w (bkr_marginfi_group c) = Some g" and "w_banks w (bkr_bank c) = Some b0"
    and "w_accounts w (bkr_marginfi_account c) = Some a"
    and "bkr_signer c = grp_admin g \<or> bank_get_flag b0 PERMISSIONLESS_BAD_DEBT_SETTLEMENT_FLAG"
    and "maybe_take_bank_mint (rt_mints rt) ais b0 (bkr_token_program c) = Ok (m, rest)"
    and "bind (risk_engine_new (rt_sdk rt) (w_banks w) (rt_clock rt) a rest)
           (check_account_bankrupt (rt_fx rt) (rt_sdk rt) (w_banks w)) = Ok ()"
    and "accrue_interest (rt_fx rt) b0 (now rt) g = Ok b1"
    and "position (\<lambda>bal. active bal \<and> bank_pk bal = bkr_bank c) (balances a) = Some k"
    and "bad = liability_shares (balances a ! k) * liability_share_value b1 div SCALE" and "ZERO_AMOUNT_THRESHOLD < bad"
    and "post_fee_of (rt_mints rt) m (w_ledger w (bkr_insurance_vault c)) (epoch (rt_clock rt)) = Ok available"
    and "bankruptcy_split (rt_fx rt) bad (uint available * SCALE) = Ok (covered, loss, n)"
    and "pre_fee_of (rt_mints rt) m n (epoch (rt_clock rt)) = Ok pre"
    and "token_transfer (rt_tk rt) (w_ledger w) (bkr_insurance_vault c) (bkr_liquidity_vault c)
           (bkr_insurance_vault_authority c) (map_option ai_key m) pre = Some ledger"
    and "socialize_loss (rt_fx rt) b1 loss = Ok b2"
    and "repay (rt_fx rt) \<lparr>bw_balance = balances a ! k, bw_bank = b2\<rparr> bad (now rt) = Ok wr"
    and "w' = (store_bank (bkr_bank c) (bw_bank wr) (store_account (bkr_marginfi_account c)
           (set_flag (with_balance a (balances a) k (bw_balance wr)) DISABLED_FLAG) w))\<lparr>w_ledger := ledger\<rparr>"
proof -
  obtain g b0 a m rest re b1 k bad available covered loss n pre ledger b2 i la wr where
    1: "bankruptcy_constraints rt w c = Ok (g, b0, a)"
    and 15: "maybe_take_bank_mint (rt_mints rt) ais b0 (bkr_token_program c) = Ok (m, rest)"
    and 2: "(if \<not> bank_get_flag b0 PERMISSIONLESS_BAD_DEBT_SETTLEMENT_FLAG then check (bkr_signer c = grp_admin g) Unauthorized else Ok ()) = Ok ()"
    and 3: "risk_engine_new (rt_sdk rt) (w_banks w) (rt_clock rt) a rest = Ok re" "check_account_bankrupt (rt_fx rt) (rt_sdk rt) (w_banks w) re = Ok ()"
    and 4: "accrue_interest (rt_fx rt) b0 (now rt) g = Ok b1"
    and 5: "position (\<lambda>bal. active bal \<and> bank_pk bal = bkr_bank c) (balances a) = Some k"
    and 6: "get_liability_amount (rt_fx rt) b1 (liability_shares (balances a ! k)) = Ok bad" "ZERO_AMOUNT_THRESHOLD < bad"
    and 7: "post_fee_of (rt_mints rt) m (w_ledger w (bkr_insurance_vault c)) (epoch (rt_clock rt)) = Ok available"
    and 8: "bankruptcy_split (rt_fx rt) bad (uint available * SCALE) = Ok (covered, loss, n)"
    and 9: "pre_fee_of (rt_mints rt) m n (epoch (rt_clock rt)) = Ok pre"
    and 10: "token_transfer (rt_tk rt) (w_ledger w) (bkr_insurance_vault c) (bkr_liquidity_vault c)
           (bkr_insurance_vault_authority c) (map_option ai_key m) pre = Some ledger"
    and 11: "socialize_loss (rt_fx rt) b1 loss = Ok b2" and 12: "find_or_create (bkr_bank c) (balances a) (now rt) = Ok (i, la)"
    and 13: "repay (rt_fx rt) \<lparr>bw_balance = la ! i, bw_bank = b2\<rparr> bad (now rt) = Ok wr"
    and 14: "w' = (store_bank (bkr_bank c) (bw_bank wr) (store_account (bkr_marginfi_account c)
           (set_flag (with_balance a la i (bw_balance wr)) DISABLED_FLAG) w))\<lparr>w_ledger := ledger\<rparr>"
    using assms(2)
    by (auto simp: lending_pool_handle_bankruptcy_def Let_def bind_Ok_iff ok_or_Ok_iff check_Ok_iff withdraw_spl_transfer_def
        fixed_point.from_u64_law [OF assms(1)])
  have "i = k" "la = balances a"
    using 12 position_find_or_create [OF 5, of "now rt"] by simp_all
  moreover have "bad = liability_shares (balances a ! k) * liability_share_value b1 div SCALE"
    using 6(1) by (simp add: get_liability_amount_def ok_or_Ok_iff fixed_point.mul_law [OF assms(1)] fit_Some_iff)
  moreover have "bkr_signer c = grp_admin g \<or> bank_get_flag b0 PERMISSIONLESS_BAD_DEBT_SETTLEMENT_FLAG"
    using 2 by (auto simp: check_Ok_iff split: if_splits)
  ultimately show thesis
    using 1 15 3 4 5 6(2) 7 8 9 10 11 13 14
    by (intro that [of g b0 a m rest b1 k bad available covered loss n pre ledger b2 wr])
      (simp_all add: bankruptcy_constraints_Ok_iff)
qed

lemma trunc_div_nonpos: "a \<le> 0 \<Longrightarrow> 0 < b \<Longrightarrow> trunc_div a b \<le> 0"
  by (cases "a = 0") (auto simp: trunc_div_def pos_imp_zdiv_nonneg_iff)

text \<open>A loss that leaves a positive share value is bearable, and is spread over the deposits.\<close>

lemma socialize_loss_OkD:
  assumes "fixed_point fx" and "bank_ok b" and "0 \<le> loss" and "socialize_loss fx b loss = Ok b'" and "0 < asset_share_value b'"
  shows "b' = b\<lparr>asset_share_value := asset_share_value b'\<rparr>" and "0 < total_asset_shares b"
    and "asset_share_value b' \<le> asset_share_value b"
    and "total_assets b' \<le> total_assets b - loss"
    and "total_assets b - loss \<le> total_assets b' + total_asset_shares b div SCALE + 1"
proof -
  let ?n = "total_asset_shares b" and ?v = "asset_share_value b"
  have v': "asset_share_value b' = trunc_div ((?n * ?v div SCALE - loss) * SCALE) ?n" and "?n \<noteq> 0"
    and eq: "b' = b\<lparr>asset_share_value := asset_share_value b'\<rparr>"
    using assms(4)
    by (auto simp: socialize_loss_def bind_Ok_iff ok_or_Ok_iff fixed_point.mul_law [OF assms(1)] fixed_point.sub_law [OF assms(1)]
        fixed_point.div_law [OF assms(1)] fit_Some_iff split: if_splits)
  show "b' = b\<lparr>asset_share_value := asset_share_value b'\<rparr>" by (fact eq)
  show n: "0 < ?n" using \<open>?n \<noteq> 0\<close> assms(2) by (simp add: bank_ok_def)
  have le: "loss \<le> ?n * ?v div SCALE"
  proof (rule ccontr)
    assume "\<not> ?thesis"
    then have "(?n * ?v div SCALE - loss) * SCALE \<le> 0"
      by (intro mult_nonpos_nonneg) simp_all
    then have "trunc_div ((?n * ?v div SCALE - loss) * SCALE) ?n \<le> 0"
      using n by (rule trunc_div_nonpos)
    with assms(5) v' show False by simp
  qed
  have v: "asset_share_value b' = (?n * ?v div SCALE - loss) * SCALE div ?n"
    unfolding v' using le n by (intro trunc_div_nonneg) simp_all
  have t: "total_assets b' = ?n * asset_share_value b' div SCALE" "total_assets b = ?n * ?v div SCALE"
    by (subst eq, simp add: total_assets_def) (simp add: total_assets_def)
  show "asset_share_value b' \<le> ?v" "total_assets b' \<le> total_assets b - loss"
    "total_assets b - loss \<le> total_assets b' + ?n div SCALE + 1"
    unfolding t v using socialized_value [OF n assms(3) le] by simp_all
qed

lemma repaid_shares:
  fixes s v :: int
  assumes "0 \<le> s" and "0 < v"
  defines "d \<equiv> (s * v div SCALE) * SCALE div v"
  shows "d \<le> s" and "(s - d) * v < SCALE + v"
proof -
  have "(s * v div SCALE) * SCALE \<le> s * v" by (rule mul_floor_le)
  then show "d \<le> s"
    using zdiv_mono1 [of "(s * v div SCALE) * SCALE" "s * v" v] assms(2) by (simp add: d_def)
  have "s * v < (s * v div SCALE + 1) * SCALE" by (rule mul_floor_gt)
  moreover have "(s * v div SCALE) * SCALE \<le> (d + 1) * v"
    unfolding d_def by (rule le_quot_mult [OF assms(2)])
  ultimately show "(s - d) * v < SCALE + v"
    by (simp add: algebra_simps)
qed

text \<open>Repaying a debt in full leaves dust at most, and changes nothing on the asset side.\<close>

lemma repay_exact:
  assumes "fixed_point fx" and "wrapper_ok \<lparr>bw_balance = bal, bw_bank = b\<rparr>"
    and "repay fx \<lparr>bw_balance = bal, bw_bank = b\<rparr> (liability_shares bal * liability_share_value b div SCALE) t = Ok wr"
  shows "asset_shares (bw_balance wr) = asset_shares bal" and "total_asset_shares (bw_bank wr) = total_asset_shares b"
    and "asset_share_value (bw_bank wr) = asset_share_value b" and "0 \<le> liability_shares (bw_balance wr)"
    and "liability_shares (bw_balance wr) * liability_share_value b < SCALE + liability_share_value b"
    and "total_liability_shares b - total_liability_shares (bw_bank wr) = liability_shares bal - liability_shares (bw_balance wr)"
proof -
  have nn: "0 \<le> liability_shares bal" "0 < liability_share_value b"
    using assms(2) by (auto simp: wrapper_ok_def balance_ok_def bank_ok_def)
  then have bad: "0 \<le> liability_shares bal * liability_share_value b div SCALE" by simp
  define dl where "dl = (liability_shares bal * liability_share_value b div SCALE) * SCALE div liability_share_value b"
  obtain e where wr: "wr = \<lparr>bw_balance = bal\<lparr>emissions_outstanding := emissions_outstanding bal + e, bal_last_update := t,
         asset_shares := asset_shares bal, liability_shares := liability_shares bal - dl\<rparr>,
       bw_bank = b\<lparr>emissions_remaining := emissions_remaining b - e, total_asset_shares := total_asset_shares b,
         total_liability_shares := total_liability_shares b - dl\<rparr>\<rparr>"
  proof (rule fixed_point.increase_balance_OkD [OF assms(1,2) bad assms(3) [unfolded repay_def], unfolded bank_account_wrapper.simps])
    fix e owed da x
    assume amounts: "owed = liability_shares bal * liability_share_value b div SCALE"
        "da = max (liability_shares bal * liability_share_value b div SCALE - owed) 0 * SCALE div asset_share_value b"
        "x = min owed (liability_shares bal * liability_share_value b div SCALE) * SCALE div liability_share_value b"
      and wr: "wr = \<lparr>bw_balance = bal\<lparr>emissions_outstanding := emissions_outstanding bal + e, bal_last_update := t,
           asset_shares := asset_shares bal + da, liability_shares := liability_shares bal - x\<rparr>,
         bw_bank = b\<lparr>emissions_remaining := emissions_remaining b - e, total_asset_shares := total_asset_shares b + da,
           total_liability_shares := total_liability_shares b - x\<rparr>\<rparr>"
    have "da = 0" "x = dl" by (simp_all add: amounts dl_def)
    with wr show thesis by (intro that [of e]) simp
  qed
  show "asset_shares (bw_balance wr) = asset_shares bal" "total_asset_shares (bw_bank wr) = total_asset_shares b"
    "asset_share_value (bw_bank wr) = asset_share_value b"
    "total_liability_shares b - total_liability_shares (bw_bank wr) = liability_shares bal - liability_shares (bw_balance wr)"
    by (simp_all add: wr)
  show "0 \<le> liability_shares (bw_balance wr)"
    "liability_shares (bw_balance wr) * liability_share_value b < SCALE + liability_share_value b"
    using repaid_shares [OF nn] by (simp_all add: wr dl_def)
qed

lemma handle_bankruptcy_settles:
  assumes "fixed_point (rt_fx rt)" and "world_ok w" and "w_accounts w ak = Some a" and "backs (w_accounts w) bk b1"
    and "position (\<lambda>bal. active bal \<and> bank_pk bal = bk) (balances a) = Some k"
    and "bad = liability_shares (balances a ! k) * liability_share_value b1 div SCALE" and "0 \<le> loss"
    and "socialize_loss (rt_fx rt) b1 loss = Ok b2"
    and "repay (rt_fx rt) \<lparr>bw_balance = balances a ! k, bw_bank = b2\<rparr> bad t = Ok wr" and "1 < asset_share_value (bw_bank wr)"
  defines "a' \<equiv> set_flag (with_balance a (balances a) k (bw_balance wr)) DISABLED_FLAG"
  shows "world_ok (store_bank bk (bw_bank wr) (store_account ak a' w))"
    and "total_assets (bw_bank wr) \<le> total_assets b1 - loss"
    and "total_assets b1 - loss \<le> total_assets (bw_bank wr) + total_asset_shares b1 div SCALE + 1"
    and "liability_shares (bw_balance wr) * liability_share_value b1 < SCALE + liability_share_value b1"
    and "total_liability_shares b1 - total_liability_shares (bw_bank wr) =
      liability_shares (balances a ! k) - liability_shares (bw_balance wr)"
    and "favours \<lparr>bw_balance = balances a ! k, bw_bank = b2\<rparr> wr"
proof -
  have b1: "bank_ok b1" using assms(4) by (simp add: backs_def)
  have pos: "1 < asset_share_value b2"
    using increase_share_value [OF assms(9) [unfolded repay_def]] assms(10) by simp
  note sl = socialize_loss_OkD [OF assms(1) b1 assms(7,8)]
  have b2: "b2 = b1\<lparr>asset_share_value := asset_share_value b2\<rparr>" using sl pos by simp
  have same: "liability_share_value b2 = liability_share_value b1" "total_liability_shares b2 = total_liability_shares b1"
    by (subst b2, simp)+
  have backs: "backs (w_accounts w) bk b2"
    using assms(4) pos by (subst b2) (simp add: backs_def bank_ok_def)
  have posn: "position_in a bk (balances a) k"
    using find_balance_position [OF world_okD(2) [OF assms(2,3)]] assms(5) by (simp add: find_balance_def)
  note wok = position_wrapper_ok [OF assms(2,3) posn backs]
  have bad: "bad = liability_shares (balances a ! k) * liability_share_value b2 div SCALE" "0 \<le> bad"
    using wok b1 by (auto simp: assms(6) same wrapper_ok_def balance_ok_def bank_ok_def)
  note step = fixed_point.increase_position_step [OF assms(1) wok bad(2) assms(9) [unfolded repay_def]]
  show "world_ok (store_bank bk (bw_bank wr) (store_account ak a' w))"
    by (rule world_ok_position_step(1) [OF assms(2,3) posn backs step]) (simp add: a'_def with_balance_def)
  show "favours \<lparr>bw_balance = balances a ! k, bw_bank = b2\<rparr> wr"
    by (rule fixed_point.increase_favours [OF assms(1) wok bad(2) assms(9) [unfolded repay_def]])
  note exact = repay_exact [OF assms(1) wok assms(9) [unfolded bad(1)], unfolded same]
  have "total_assets (bw_bank wr) = total_assets b2"
    by (simp add: total_assets_def exact)
  with sl(4,5) pos show "total_assets (bw_bank wr) \<le> total_assets b1 - loss"
    "total_assets b1 - loss \<le> total_assets (bw_bank wr) + total_asset_shares b1 div SCALE + 1"
    by simp_all
  show "liability_shares (bw_balance wr) * liability_share_value b1 < SCALE + liability_share_value b1"
    "total_liability_shares b1 - total_liability_shares (bw_bank wr) =
      liability_shares (balances a ! k) - liability_shares (bw_balance wr)"
    by (fact exact)+
qed

lemma handle_bankruptcy_keeps_world:
  assumes "fixed_point (rt_fx rt)" and "world_ok w" and "lending_pool_handle_bankruptcy rt w c ais = Ok w'"
    and "w_banks w' (bkr_bank c) = Some b'" and "1 < asset_share_value b'"
  shows "world_ok w'"
proof (rule handle_bankruptcy_OkD [OF assms(1,3)])
  fix g b0 a m rest b1 k bad covered loss n pre ledger b2 and wr :: bank_account_wrapper and available :: u64
  assume ctx: "w_banks w (bkr_bank c) = Some b0" "w_accounts w (bkr_marginfi_account c) = Some a"
      "accrue_interest (rt_fx rt) b0 (now rt) g = Ok b1"
      "position (\<lambda>bal. active bal \<and> bank_pk bal = bkr_bank c) (balances a) = Some k"
    and bad: "bad = liability_shares (balances a ! k) * liability_share_value b1 div SCALE" "ZERO_AMOUNT_THRESHOLD < bad"
    and split: "bankruptcy_split (rt_fx rt) bad (uint available * SCALE) = Ok (covered, loss, n)"
    and run: "socialize_loss (rt_fx rt) b1 loss = Ok b2"
      "repay (rt_fx rt) \<lparr>bw_balance = balances a ! k, bw_bank = b2\<rparr> bad (now rt) = Ok wr"
    and w': "w' = (store_bank (bkr_bank c) (bw_bank wr) (store_account (bkr_marginfi_account c)
           (set_flag (with_balance a (balances a) k (bw_balance wr)) DISABLED_FLAG) w))\<lparr>w_ledger := ledger\<rparr>"
  have "0 \<le> bad" using bad(2) by (simp add: ZERO_AMOUNT_THRESHOLD_def)
  moreover have "1 < asset_share_value (bw_bank wr)" using assms(4,5) by (simp add: w')
  ultimately show ?thesis
    unfolding w' world_ok_ledger
    using handle_bankruptcy_settles(1) [OF assms(1,2) ctx(2) fixed_point.accrue_interest_backs [OF assms(1) world_okD(3) [OF assms(2) ctx(1)] ctx(3)]
        ctx(4) bad(1) bankruptcy_split_OkD(2) [OF assms(1) _ split] run]
    by simp
qed

section \<open>Claim\<close>

text \<open>
  C5. Settling the bad debt of an account. Suppose the settlement succeeds and leaves the deposits of
  the bank a share value above one step. Then the signer is the admin of the group or the bank
  allows anyone to settle, and the account is bankrupt at the prices of its feeds. The debt is the
  sum of what the insurance fund covers and of the loss of the depositors, who lose something only
  when the fund is used up; the transfer that covers the debt takes no more than the insurance vault
  holds, fee of the mint included. The deposits lose the loss, up to rounding. Of the debt of the
  account less than one share and one step remain, the total debt of the bank falls by the same
  shares, and the account is disabled. No other account and no other bank changes, and the world
  stays well formed.
\<close>

theorem bankruptcy_sound:
  fixes rt w c
  defines "ak \<equiv> bkr_marginfi_account c" and "bk \<equiv> bkr_bank c"
  assumes "fixed_point (rt_fx rt)" and "token_2022 (rt_mints rt)" and "world_ok w"
    and "lending_pool_handle_bankruptcy rt w c ais = Ok w'"
    and "w_banks w' bk = Some b'" and "1 < asset_share_value b'"
  shows "world_ok w' \<and> (\<forall>k. k \<noteq> ak \<longrightarrow> w_accounts w' k = w_accounts w k) \<and> (\<forall>k. k \<noteq> bk \<longrightarrow> w_banks w' k = w_banks w k) \<and>
    (\<exists>g b0 b1 a a' i ais' mk bad available covered loss n pre.
       w_groups w (bkr_marginfi_group c) = Some g \<and> w_banks w bk = Some b0 \<and> accrue_interest (rt_fx rt) b0 (now rt) g = Ok b1 \<and>
       (bkr_signer c = grp_admin g \<or> bank_get_flag b0 PERMISSIONLESS_BAD_DEBT_SETTLEMENT_FLAG) \<and>
       w_accounts w ak = Some a \<and> w_accounts w' ak = Some a' \<and>
       bind (risk_engine_new (rt_sdk rt) (w_banks w) (rt_clock rt) a ais')
         (check_account_bankrupt (rt_fx rt) (rt_sdk rt) (w_banks w)) = Ok () \<and>
       find_balance bk (balances a) = Ok i \<and> bad = liability_shares (balances a ! i) * liability_share_value b1 div SCALE \<and>
       0 < bad \<and> 0 \<le> covered \<and> 0 \<le> loss \<and> covered + loss = bad \<and>
       post_fee_of (rt_mints rt) mk (w_ledger w (bkr_insurance_vault c)) (epoch (rt_clock rt)) = Ok available \<and>
       (0 < loss \<longrightarrow> covered = uint available * SCALE) \<and> covered \<le> uint n * SCALE \<and> uint n * SCALE < covered + SCALE \<and>
       pre_fee_of (rt_mints rt) mk n (epoch (rt_clock rt)) = Ok pre \<and> pre \<le> w_ledger w (bkr_insurance_vault c) \<and>
       token_transfer (rt_tk rt) (w_ledger w) (bkr_insurance_vault c) (bkr_liquidity_vault c)
         (bkr_insurance_vault_authority c) (map_option ai_key mk) pre = Some (w_ledger w') \<and>
       total_assets b' \<le> total_assets b1 - loss \<and>
       total_assets b1 - loss \<le> total_assets b' + total_asset_shares b1 div SCALE + 1 \<and>
       liability_shares (balances a' ! i) * liability_share_value b1 < SCALE + liability_share_value b1 \<and>
       total_liability_shares b1 - total_liability_shares b' =
         liability_shares (balances a ! i) - liability_shares (balances a' ! i) \<and>
       get_flag a' DISABLED_FLAG)"
    (is "_ \<and> _ \<and> _ \<and> ?settled")
proof (rule handle_bankruptcy_OkD [OF assms(3,6)])
  fix g b0 a m rest b1 k bad covered loss n pre ledger b2 and wr :: bank_account_wrapper and available :: u64
  let ?a' = "set_flag (with_balance a (balances a) k (bw_balance wr)) DISABLED_FLAG"
  assume ctx: "w_groups w (bkr_marginfi_group c) = Some g" "w_banks w (bkr_bank c) = Some b0"
      "w_accounts w (bkr_marginfi_account c) = Some a"
      "bkr_signer c = grp_admin g \<or> bank_get_flag b0 PERMISSIONLESS_BAD_DEBT_SETTLEMENT_FLAG"
    and bankrupt: "bind (risk_engine_new (rt_sdk rt) (w_banks w) (rt_clock rt) a rest)
           (check_account_bankrupt (rt_fx rt) (rt_sdk rt) (w_banks w)) = Ok ()"
    and acc: "accrue_interest (rt_fx rt) b0 (now rt) g = Ok b1"
    and pos: "position (\<lambda>bal. active bal \<and> bank_pk bal = bkr_bank c) (balances a) = Some k"
    and bad: "bad = liability_shares (balances a ! k) * liability_share_value b1 div SCALE" "ZERO_AMOUNT_THRESHOLD < bad"
    and fund: "post_fee_of (rt_mints rt) m (w_ledger w (bkr_insurance_vault c)) (epoch (rt_clock rt)) = Ok available"
    and split: "bankruptcy_split (rt_fx rt) bad (uint available * SCALE) = Ok (covered, loss, n)"
    and pre: "pre_fee_of (rt_mints rt) m n (epoch (rt_clock rt)) = Ok pre"
    and send: "token_transfer (rt_tk rt) (w_ledger w) (bkr_insurance_vault c) (bkr_liquidity_vault c)
           (bkr_insurance_vault_authority c) (map_option ai_key m) pre = Some ledger"
    and run: "socialize_loss (rt_fx rt) b1 loss = Ok b2"
      "repay (rt_fx rt) \<lparr>bw_balance = balances a ! k, bw_bank = b2\<rparr> bad (now rt) = Ok wr"
    and w': "w' = (store_bank (bkr_bank c) (bw_bank wr) (store_account (bkr_marginfi_account c) ?a' w))\<lparr>w_ledger := ledger\<rparr>"
  have b': "b' = bw_bank wr" and pos': "1 < asset_share_value (bw_bank wr)"
    using assms(7,8) by (simp_all add: w' bk_def)
  have "0 < bad" using bad(2) by (simp add: ZERO_AMOUNT_THRESHOLD_def)
  note sp = bankruptcy_split_OkD [OF assms(3) less_imp_le [OF this] split]
  note st = handle_bankruptcy_settles [OF assms(3,5) ctx(3) fixed_point.accrue_interest_backs [OF assms(3) world_okD(3) [OF assms(5) ctx(2)] acc]
      pos bad(1) sp(2) run pos']
  have "k < length (balances a)" "find_balance bk (balances a) = Ok k"
    using position_SomeD [OF pos] pos by (simp_all add: find_balance_def bk_def)
  then have a': "balances ?a' ! k = bw_balance wr" "w_accounts w' ak = Some ?a'" "w_ledger w' = ledger"
    by (simp_all add: with_balance_def w' ak_def set_flag_def)
  have disabled: "get_flag ?a' DISABLED_FLAG"
    by (auto simp: get_flag_def set_flag_def DISABLED_FLAG_def bit_eq_iff intro: exI [of _ 0])
  have lossy: "0 < loss \<longrightarrow> covered = uint available * SCALE"
    using sp(3,4) by auto
  have ?settled
    apply (rule exI [of _ g], rule exI [of _ b0], rule exI [of _ b1], rule exI [of _ a], rule exI [of _ ?a'], rule exI [of _ k],
        rule exI [of _ rest], rule exI [of _ m], rule exI [of _ bad], rule exI [of _ available], rule exI [of _ covered],
        rule exI [of _ loss], rule exI [of _ n], rule exI [of _ pre])
    unfolding a' b' bk_def ak_def
    using ctx bankrupt acc \<open>find_balance bk (balances a) = Ok k\<close> bad(1) \<open>0 < bad\<close> sp fund lossy pre
      insurance_within_vault [OF assms(4) fund sp(5) pre] send st(2-5) a'(2) disabled
    by (simp add: bk_def ak_def)
  moreover have "world_ok w'"
    using st(1) by (simp add: w')
  ultimately show ?thesis
    by (simp add: w' ak_def bk_def)
qed

definition example_bankruptcy :: bankruptcy_accounts where
  "example_bankruptcy = \<lparr>bkr_marginfi_group = 2, bkr_signer = 3, bkr_bank = 52, bkr_marginfi_account = 63,
     bkr_liquidity_vault = 41, bkr_insurance_vault = 42, bkr_insurance_vault_authority = 44, bkr_token_program = 1\<rparr>"

definition example_short_fund :: world where
  "example_short_fund = example_world\<lparr>w_ledger := (w_ledger example_world)(42 := 15000000)\<rparr>"

theorem bankruptcy_sound_witness:
  "\<exists>w' b'. lending_pool_handle_bankruptcy example_runtime example_short_fund example_bankruptcy
       [example_bank_ai 52, example_oracle_ai] = Ok w' \<and>
     world_ok w' \<and> w_banks w' 52 = Some b' \<and> asset_share_value b' < ONE"
proof -
  let ?run = "lending_pool_handle_bankruptcy example_runtime example_short_fund example_bankruptcy
       [example_bank_ai 52, example_oracle_ai]"
  define sv where "sv = (case ?run of Inr w' \<Rightarrow> map_option asset_share_value (w_banks w' 52) | Inl _ \<Rightarrow> None)"
  have "sv = Some (995 * SCALE div 1000)"
    unfolding sv_def by code_simp
  then obtain w' b' where run: "?run = Ok w'" and b': "w_banks w' 52 = Some b'" and v: "asset_share_value b' = 995 * SCALE div 1000"
    by (auto simp: sv_def split: sum.splits)
  have "1 < asset_share_value b'" "asset_share_value b' < ONE"
    by (simp_all add: v SCALE_def ONE_def)
  moreover have "fixed_point (rt_fx example_runtime)" "token_2022 (rt_mints example_runtime)" "world_ok example_short_fund"
    using reference.fixed_point_axioms reference_mints.token_2022_axioms example_world_ok
    by (simp_all add: example_runtime_def example_short_fund_def)
  ultimately show ?thesis
    using bankruptcy_sound [of example_runtime example_short_fund example_bankruptcy _ w' b'] run b'
    by (auto simp: example_bankruptcy_def)
qed

end
