(* ===== verification/Program.thy ===== *)
theory Program
  imports Liquidation Bankruptcy
begin

text \<open>
  The program as a whole, the module \<^verbatim>\<open>marginfi\<close> of \<^verbatim>\<open>lib.rs\<close>: its instructions with the accounts
  and arguments they carry, their dispatch to the handlers, and the worlds the instructions can
  reach from the world without accounts.
\<close>

section \<open>Instructions\<close>

datatype instruction =
    MarginfiGroupInitialize group_initialize_accounts
  | MarginfiGroupConfigure group_admin_accounts group_config
  | LendingPoolAddBank add_bank_accounts "account_info list" bank_config_compact
  | LendingPoolAddBankWithSeed add_bank_accounts "account_info list" bank_config_compact u64
  | LendingPoolConfigureBank configure_bank_accounts "account_info list" bank_config_opt
  | LendingPoolSetupEmissions setup_emissions_accounts u64 u64 u64
  | LendingPoolUpdateEmissionsParameters update_emissions_accounts "u64 option" "u64 option" "u64 option"
  | LendingPoolHandleBankruptcy bankruptcy_accounts "account_info list"
  | MarginfiAccountInitialize account_initialize_accounts
  | LendingAccountDeposit deposit_accounts "account_info list" u64
  | LendingAccountRepay repay_accounts "account_info list" u64 "bool option"
  | LendingAccountWithdraw withdraw_accounts "account_info list" u64 "bool option"
  | LendingAccountBorrow borrow_accounts "account_info list" u64
  | LendingAccountCloseBalance user_accounts
  | LendingAccountWithdrawEmissions withdraw_emissions_accounts
  | LendingAccountSettleEmissions settle_emissions_accounts
  | LendingAccountLiquidate liquidate_accounts "account_info list" u64
  | LendingAccountStartFlashloan start_flashloan_accounts u64
  | LendingAccountEndFlashloan end_flashloan_accounts "account_info list"
  | LendingPoolAccrueBankInterest accrue_interest_accounts
  | LendingPoolCollectBankFees collect_fees_accounts "account_info list"
  | LendingPoolWithdrawFees withdraw_vault_accounts "account_info list" u64
  | LendingPoolWithdrawInsurance withdraw_vault_accounts "account_info list" u64
  | SetAccountFlag account_flag_accounts u64
  | UnsetAccountFlag account_flag_accounts u64
  | SetNewAccountAuthority set_authority_accounts
  | MarginfiAccountClose account_close_accounts
  | InitGlobalFeeState init_fee_state_accounts pubkey pubkey u32 i80f48 i80f48
  | EditGlobalFeeState edit_fee_state_accounts pubkey u32 i80f48 i80f48
  | PropagateFeeState propagate_fee_accounts
  | ConfigGroupFee config_group_fee_accounts u64

fun process_instruction :: "runtime \<Rightarrow> tx_context \<Rightarrow> world \<Rightarrow> instruction \<Rightarrow> world result" where
  "process_instruction rt tx w (MarginfiGroupInitialize c) = initialize_group rt w c"
| "process_instruction rt tx w (MarginfiGroupConfigure c config) = configure w c config"
| "process_instruction rt tx w (LendingPoolAddBank c ais config) =
     lending_pool_add_bank rt w c ais (bank_config_from_compact config)"
| "process_instruction rt tx w (LendingPoolAddBankWithSeed c ais config bank_seed) =
     lending_pool_add_bank_with_seed rt w c ais (bank_config_from_compact config) bank_seed"
| "process_instruction rt tx w (LendingPoolConfigureBank c ais config) = lending_pool_configure_bank rt w c ais config"
| "process_instruction rt tx w (LendingPoolSetupEmissions c flags rate total_emissions) =
     lending_pool_setup_emissions rt w c flags rate total_emissions"
| "process_instruction rt tx w (LendingPoolUpdateEmissionsParameters c flags rate additional) =
     lending_pool_update_emissions_parameters rt w c flags rate additional"
| "process_instruction rt tx w (LendingPoolHandleBankruptcy c ais) = lending_pool_handle_bankruptcy rt w c ais"
| "process_instruction rt tx w (MarginfiAccountInitialize c) = initialize_account w c"
| "process_instruction rt tx w (LendingAccountDeposit c ais amount) = lending_account_deposit rt w c ais amount"
| "process_instruction rt tx w (LendingAccountRepay c ais amount all) = lending_account_repay rt w c ais amount all"
| "process_instruction rt tx w (LendingAccountWithdraw c ais amount all) = lending_account_withdraw rt w c ais amount all"
| "process_instruction rt tx w (LendingAccountBorrow c ais amount) = lending_account_borrow rt w c ais amount"
| "process_instruction rt tx w (LendingAccountCloseBalance c) = lending_account_close_balance rt w c"
| "process_instruction rt tx w (LendingAccountWithdrawEmissions c) = lending_account_withdraw_emissions rt w c"
| "process_instruction rt tx w (LendingAccountSettleEmissions c) = lending_account_settle_emissions rt w c"
| "process_instruction rt tx w (LendingAccountLiquidate c ais asset_amount) = lending_account_liquidate rt w c ais asset_amount"
| "process_instruction rt tx w (LendingAccountStartFlashloan c end_index) = lending_account_start_flashloan tx w c end_index"
| "process_instruction rt tx w (LendingAccountEndFlashloan c ais) = lending_account_end_flashloan rt tx w c ais"
| "process_instruction rt tx w (LendingPoolAccrueBankInterest c) = lending_pool_accrue_bank_interest rt w c"
| "process_instruction rt tx w (LendingPoolCollectBankFees c ais) = lending_pool_collect_bank_fees rt w c ais"
| "process_instruction rt tx w (LendingPoolWithdrawFees c ais amount) = lending_pool_withdraw_fees rt w c ais amount"
| "process_instruction rt tx w (LendingPoolWithdrawInsurance c ais amount) = lending_pool_withdraw_insurance rt w c ais amount"
| "process_instruction rt tx w (SetAccountFlag c flag) = set_account_flag w c flag"
| "process_instruction rt tx w (UnsetAccountFlag c flag) = unset_account_flag w c flag"
| "process_instruction rt tx w (SetNewAccountAuthority c) = set_account_transfer_authority w c"
| "process_instruction rt tx w (MarginfiAccountClose c) = close_account w c"
| "process_instruction rt tx w (InitGlobalFeeState c admin wallet flat fee_fixed fee_rate) =
     initialize_fee_state rt w c admin wallet flat fee_fixed fee_rate"
| "process_instruction rt tx w (EditGlobalFeeState c wallet flat fee_fixed fee_rate) =
     edit_fee_state rt w c wallet flat fee_fixed fee_rate"
| "process_instruction rt tx w (PropagateFeeState c) = propagate_fee rt w c"
| "process_instruction rt tx w (ConfigGroupFee c flag) = config_group_fee rt w c flag"

section \<open>Reachable worlds\<close>

text \<open>
  The two things the program does not check: the rate of the program fee, which its admin may set
  to any number, and that a loss leaves the deposits of a bank a share value.
\<close>

fun admissible :: "world \<Rightarrow> instruction \<Rightarrow> bool" where
  "admissible w' (InitGlobalFeeState c admin wallet flat fee_fixed fee_rate) = fee_rate_ok fee_rate"
| "admissible w' (EditGlobalFeeState c wallet flat fee_fixed fee_rate) = fee_rate_ok fee_rate"
| "admissible w' (LendingPoolHandleBankruptcy c ais) =
     (case w_banks w' (bkr_bank c) of Some b \<Rightarrow> 1 < asset_share_value b | None \<Rightarrow> False)"
| "admissible w' _ = True"

lemma process_instruction_keeps_world:
  assumes "fixed_point (rt_fx rt)" and "world_ok w" and "process_instruction rt tx w ins = Ok w'" and "admissible w' ins"
  shows "world_ok w'"
proof (cases ins)
  case (LendingPoolHandleBankruptcy c ais)
  with assms(3,4) show ?thesis
    using handle_bankruptcy_keeps_world [OF assms(1,2)] by (auto split: option.splits)
next
  case (LendingAccountLiquidate c ais n)
  with assms(3) show ?thesis using liquidate_keeps_world [OF assms(1,2)] by simp
next
  case (InitGlobalFeeState c admin wallet flat fee_fixed fee_rate)
  with assms(3,4) show ?thesis using fee_state_keeps_world(1) [OF assms(2)] by simp
next
  case (EditGlobalFeeState c wallet flat fee_fixed fee_rate)
  with assms(3,4) show ?thesis using fee_state_keeps_world(2) [OF assms(2)] by simp
qed (use assms(3) in \<open>auto intro: initialize_group_keeps_world [OF assms(2)] configure_keeps_world [OF assms(2)]
    account_flag_keeps_world [OF assms(2)] config_group_fee_keeps_world [OF assms(2)] propagate_fee_keeps_world [OF assms(2)]
    accrue_bank_interest_keeps_world [OF assms(1,2)] add_bank_keeps_world [OF assms(2)] add_bank_with_seed_keeps_world [OF assms(2)]
    configure_bank_keeps_world [OF assms(2)] setup_emissions_keeps_world [OF assms(1,2)] update_emissions_keeps_world [OF assms(1,2)]
    collect_fees_keeps_world [OF assms(1,2)] withdraw_vault_keeps_world [OF assms(2)]
    deposit_keeps_world [OF assms(1,2)] repay_keeps_world [OF assms(1,2)] withdraw_keeps_world [OF assms(1,2)]
    borrow_keeps_world [OF assms(1,2)] close_balance_keeps_world [OF assms(1,2)]
    withdraw_emissions_keeps_world [OF assms(1,2)] settle_emissions_keeps_world [OF assms(1,2)]
    initialize_account_keeps_world [OF assms(2)] close_account_keeps_world [OF assms(2)] set_authority_keeps_world [OF assms(2)]
    start_flashloan_keeps_world [OF assms(2)] end_flashloan_keeps_world [OF assms(2)]\<close>)

text \<open>
  Between two instructions the tokens move as their owners like. An instruction runs with the clock
  and the prices of its moment, so the runtime is any that computes with fixed-point numbers.
\<close>

definition empty_world :: world where
  "empty_world = \<lparr>w_groups = Map.empty, w_banks = Map.empty, w_accounts = Map.empty, w_fee_state = None,
     w_ledger = (\<lambda>_. 0), w_lamports = (\<lambda>_. 0)\<rparr>"

inductive reachable :: "world \<Rightarrow> bool" where
  empty: "reachable empty_world"
| instruction: "\<lbrakk> reachable w; fixed_point (rt_fx rt); process_instruction rt tx w ins = Ok w'; admissible w' ins \<rbrakk> \<Longrightarrow> reachable w'"
| tokens: "reachable w \<Longrightarrow> reachable (w\<lparr>w_ledger := l, w_lamports := n\<rparr>)"

lemma empty_world_ok: "world_ok empty_world"
  by (simp add: world_ok_def empty_world_def held_by_all_def)

text \<open>
  C1. The invariant of the protocol. In every world that instructions reach from the empty one, with
  program fee rates between none and all and with losses that leave a share of a bank a value, for
  every bank: its total of asset shares covers the deposits of all accounts and its total of
  liability shares covers their debts, a share of either kind is worth something, the outstanding
  fees and emissions are not negative, and its configuration is valid. Every account has at most
  one active balance per bank, and each balance is a deposit or a debt up to dust.
\<close>

theorem protocol_invariant:
  assumes "reachable w"
  shows "finite (dom (w_accounts w)) \<and>
    (\<forall>bk b. w_banks w bk = Some b \<longrightarrow>
       (\<Sum>ak \<in> dom (w_accounts w). held asset_shares bk (balances (the (w_accounts w ak)))) \<le> total_asset_shares b \<and>
       (\<Sum>ak \<in> dom (w_accounts w). held liability_shares bk (balances (the (w_accounts w ak)))) \<le> total_liability_shares b \<and>
       1 < asset_share_value b \<and> 0 < liability_share_value b \<and> 0 \<le> collected_insurance_fees_outstanding b \<and>
       0 \<le> collected_group_fees_outstanding b \<and> 0 \<le> collected_program_fees_outstanding b \<and>
       0 \<le> emissions_remaining b \<and> bank_config_validate (bk_config b) = Ok ()) \<and>
    (\<forall>ak a. w_accounts w ak = Some a \<longrightarrow> distinct (map bank_pk (filter active (balances a))) \<and>
       (\<forall>bal \<in> set (balances a). 0 \<le> asset_shares bal \<and> 0 \<le> liability_shares bal \<and>
          (asset_shares bal < EMPTY_BALANCE_THRESHOLD \<or> liability_shares bal < EMPTY_BALANCE_THRESHOLD)))"
proof -
  have w: "world_ok w"
    using assms
  proof induction
    case (instruction w rt tx ins w')
    show ?case
      by (rule process_instruction_keeps_world [OF instruction.hyps(2) instruction.IH instruction.hyps(3,4)])
  qed (simp_all add: empty_world_ok)
  note banks = world_okD(3) [OF w, unfolded backs_def bank_ok_def held_by_all_def]
    and accounts = world_okD(2) [OF w, unfolded account_ok_def]
  show ?thesis
  proof (intro conjI allI impI)
    fix bk b
    assume b: "w_banks w bk = Some b"
    show "bank_config_validate (bk_config b) = Ok ()"
      using banks [OF b] by (simp add: bank_config_validate_Ok_iff)
  qed (use world_okD(1) [OF w] banks accounts in \<open>blast | simp add: balance_ok_def\<close>)+
qed

definition example_tx :: tx_context where
  "example_tx = \<lparr>tx_instructions = [], tx_index = 0, tx_stack_height = 1, tx_sysvar_id = 9, tx_end_discriminator = []\<rparr>"

fun process_all :: "runtime \<Rightarrow> tx_context \<Rightarrow> world \<Rightarrow> instruction list \<Rightarrow> world result" where
  "process_all rt tx w [] = Ok w"
| "process_all rt tx w (ins # rest) = bind (process_instruction rt tx w ins) (\<lambda>w'. process_all rt tx w' rest)"

lemma process_all_reachable:
  assumes "process_all rt tx w inss = Ok w'" and "reachable w" and "fixed_point (rt_fx rt)"
    and "\<And>v ins. ins \<in> set inss \<Longrightarrow> admissible v ins"
  shows "reachable w'"
  using assms
proof (induction inss arbitrary: w)
  case (Cons ins rest)
  then obtain v where v: "process_instruction rt tx w ins = Ok v" "process_all rt tx v rest = Ok w'"
    by (auto simp: bind_Ok_iff)
  have "reachable v"
    by (rule reachable.instruction [OF Cons.prems(2,3) v(1) Cons.prems(4)]) simp
  with Cons.IH [OF v(2)] Cons.prems(3,4) show ?case by simp
qed simp

text \<open>A fee state, a group, a bank and an account from nothing, and a deposit.\<close>

definition example_compact :: bank_config_compact where
  "example_compact = \<lparr>bcc_asset_weight_init = SCALE div 2, bcc_asset_weight_maint = SCALE * 3 div 4,
     bcc_liability_weight_init = SCALE * 3 div 2, bcc_liability_weight_maint = SCALE * 5 div 4,
     bcc_deposit_limit = 2000000000, bcc_interest_rate_config = ir_config_to_compact example_ir_config,
     bcc_operational_state = Operational, bcc_oracle_setup = PythLegacy, bcc_oracle_key = 21,
     bcc_borrow_limit = 1000000000, bcc_risk_tier = Collateral, bcc_total_asset_value_init_limit = 0, bcc_oracle_max_age = 60\<rparr>"

definition example_setup :: "instruction list" where
  "example_setup =
    [InitGlobalFeeState \<lparr>ifs_payer = PROGRAM_MULTISIG, ifs_fee_state = 44\<rparr> 82 83 0 (SCALE div 100) (SCALE div 16),
     MarginfiGroupInitialize \<lparr>gi_marginfi_group = 2, gi_admin = 3, gi_fee_state = 44\<rparr>,
     LendingPoolAddBank \<lparr>ga_marginfi_group = 2, ga_admin = 3, ab_fee_payer = 3, ab_fee_state = 44, ab_global_fee_wallet = 83,
         ab_bank_mint = example_mint, ab_bank = 51, ab_liquidity_vault_authority = 44, ab_liquidity_vault = 41,
         ab_insurance_vault_authority = 44, ab_insurance_vault = 42, ab_fee_vault_authority = 44, ab_fee_vault = 43,
         ab_token_program = 1\<rparr> [example_oracle_ai] example_compact,
     MarginfiAccountInitialize \<lparr>ctx_init_marginfi_group = 2, ctx_init_marginfi_account = 61, ctx_init_authority = 71\<rparr>,
     LendingAccountDeposit \<lparr>ctx_marginfi_group = 2, ctx_marginfi_account = 61, ctx_signer = 71, ctx_bank = 51,
         ctx_signer_token_account = 5, ctx_deposit_vault = 41, ctx_deposit_token_program = 1\<rparr> [] 1000000]"

theorem protocol_invariant_witness:
  "\<exists>w b. reachable w \<and> w_banks w 51 = Some b \<and> total_asset_shares b = 1000000 * SCALE \<and>
     (\<Sum>ak \<in> dom (w_accounts w). held asset_shares 51 (balances (the (w_accounts w ak)))) \<le> total_asset_shares b"
proof -
  let ?start = "empty_world\<lparr>w_ledger := (\<lambda>_. 1000000000), w_lamports := (\<lambda>_. 1000000)\<rparr>"
  let ?run = "process_all example_runtime example_tx ?start example_setup"
  define shares where "shares = (case ?run of Inr w \<Rightarrow> map_option total_asset_shares (w_banks w 51) | Inl _ \<Rightarrow> None)"
  have "shares = Some (1000000 * SCALE)"
    unfolding shares_def by code_simp
  then obtain w b where run: "?run = Ok w" and b: "w_banks w 51 = Some b" "total_asset_shares b = 1000000 * SCALE"
    by (auto simp: shares_def split: sum.splits)
  have "fixed_point (rt_fx example_runtime)"
    using reference.fixed_point_axioms by (simp add: example_runtime_def)
  then have "reachable w"
    by (rule process_all_reachable [OF run reachable.tokens [OF reachable.empty]])
      (auto simp: example_setup_def fee_rate_ok_def SCALE_def)
  with protocol_invariant [OF this] b show ?thesis by blast
qed

end
