(* ===== verification/Transaction.thy ===== *)
theory Transaction
  imports Program
begin

text \<open>
  Transactions: the top-level instructions run in order, each either of the program or of another
  one that may call the program any number of times, and all of them succeed or nothing happens.
  The theory shows what flash loans need of this: a loan ends within its transaction, and whoever
  takes risk passes a health check in it.

  How the framework finds the handler and the accounts of an instruction from its bytes is a
  parameter, \<open>decode\<close>.
\<close>

section \<open>What an instruction does to flags and authorities\<close>

definition header_of :: "marginfi_account \<Rightarrow> pubkey \<times> pubkey \<times> u64" where
  "header_of a = (ma_group a, ma_authority a, account_flags a)"

definition headers :: "world \<Rightarrow> pubkey \<Rightarrow> (pubkey \<times> pubkey \<times> u64) option" where
  "headers w ak = map_option header_of (w_accounts w ak)"

lemma header_with_balance [simp]: "header_of (with_balance a la i bal) = header_of a"
  by (simp add: header_of_def with_balance_def)

lemma headers_simps [simp]:
  "headers (store_bank bk b w) = headers w" "headers (store_group gk g w) = headers w"
  "headers (w\<lparr>w_ledger := l\<rparr>) = headers w" "headers (w\<lparr>w_lamports := l\<rparr>) = headers w"
  "headers (w\<lparr>w_fee_state := fs\<rparr>) = headers w"
  by (simp_all add: fun_eq_iff headers_def store_bank_def store_group_def)

lemma headers_store_account: "headers (store_account ak a w) = (headers w)(ak \<mapsto> header_of a)"
  by (auto simp: headers_def store_account_def)

lemma headers_store_same: "w_accounts w ak = Some a \<Longrightarrow> header_of a' = header_of a \<Longrightarrow> headers (store_account ak a' w) = headers w"
  by (auto simp: headers_def store_account_def)

lemma change_position_headers:
  "change_position fx t create side ak bk op w = Ok w' \<Longrightarrow> headers w' = headers w"
  by (auto simp: change_position_def bind_Ok_iff load_Ok_iff headers_store_same)

lemma liquidate_headers:
  assumes "lending_account_liquidate rt w c ais n = Ok w'"
  shows "headers w' = headers w"
proof (rule liquidate_OkD [OF assms])
  fix ab lb m amount ql qf fee
  assume "liquidation_accounting rt c m amount ql qf fee (store_bank (liq_liab_bank c) lb (store_bank (liq_asset_bank c) ab w)) = Ok w'"
  then show ?thesis
    by (auto simp: liquidation_accounting_def Let_def bind_Ok_iff dest!: change_position_headers)
qed

lemma position_headers:
  "lending_account_deposit rt w cd ais n = Ok w' \<Longrightarrow> headers w' = headers w"
  "lending_account_repay rt w cd ais n all = Ok w' \<Longrightarrow> headers w' = headers w"
  "lending_account_withdraw rt w cw ais n all = Ok w' \<Longrightarrow> headers w' = headers w"
  "lending_account_borrow rt w cw ais n = Ok w' \<Longrightarrow> headers w' = headers w"
  "lending_account_close_balance rt w cu = Ok w' \<Longrightarrow> headers w' = headers w"
  "lending_account_withdraw_emissions rt w ce = Ok w' \<Longrightarrow> headers w' = headers w"
  "lending_account_settle_emissions rt w cs = Ok w' \<Longrightarrow> headers w' = headers w"
  by (auto simp: lending_account_deposit_def lending_account_repay_def deposit_constraints_def lending_account_close_balance_def
      lending_account_withdraw_emissions_def withdraw_emissions_constraints_def lending_account_settle_emissions_def
      bind_Ok_iff user_constraints_Ok_iff load_Ok_iff headers_store_same elim!: withdraw_OkD borrow_OkD)

text \<open>The instructions that leave the accounts alone.\<close>

fun administers :: "instruction \<Rightarrow> bool" where
  "administers (MarginfiGroupInitialize c) = True"
| "administers (MarginfiGroupConfigure c config) = True"
| "administers (LendingPoolAddBank c ais config) = True"
| "administers (LendingPoolAddBankWithSeed c ais config n) = True"
| "administers (LendingPoolConfigureBank c ais config) = True"
| "administers (LendingPoolSetupEmissions c flags rate n) = True"
| "administers (LendingPoolUpdateEmissionsParameters c flags rate additional) = True"
| "administers (LendingPoolAccrueBankInterest c) = True"
| "administers (LendingPoolCollectBankFees c ais) = True"
| "administers (LendingPoolWithdrawFees c ais n) = True"
| "administers (LendingPoolWithdrawInsurance c ais n) = True"
| "administers (InitGlobalFeeState c admin wallet flat fee_fixed fee_rate) = True"
| "administers (EditGlobalFeeState c wallet flat fee_fixed fee_rate) = True"
| "administers (PropagateFeeState c) = True"
| "administers (ConfigGroupFee c flag) = True"
| "administers _ = False"

lemma accounts_simps [simp]:
  "w_accounts (store_bank bk b w) = w_accounts w" "w_accounts (store_group gk g w) = w_accounts w"
  by (simp_all add: store_bank_def store_group_def)

lemma administers_accounts:
  assumes "administers ins" and "process_instruction rt tx w ins = Ok w'"
  shows "w_accounts w' = w_accounts w"
proof -
  have bank: "lending_pool_add_bank rt w c ais config = Ok w' \<Longrightarrow> w_accounts w' = w_accounts w" for c ais config
    by (auto simp: lending_pool_add_bank_def Let_def bind_Ok_iff)
  have emissions: "lending_pool_update_emissions_parameters rt w c flags rate n = Ok w' \<Longrightarrow> w_accounts w' = w_accounts w"
    for c flags rate n
    by (auto simp: lending_pool_update_emissions_parameters_def Let_def bind_Ok_iff split: option.splits)
  have fees: "lending_pool_collect_bank_fees rt w c ais = Ok w' \<Longrightarrow> w_accounts w' = w_accounts w" for c ais
    by (auto simp: lending_pool_collect_bank_fees_def Let_def bind_Ok_iff)
  show ?thesis
    using assms bank emissions fees
    by (cases ins) (auto simp: initialize_group_def configure_def config_group_fee_def propagate_fee_def initialize_fee_state_def
        edit_fee_state_def lending_pool_accrue_bank_interest_def lending_pool_add_bank_with_seed_def
        lending_pool_configure_bank_def lending_pool_setup_emissions_def Let_def lending_pool_withdraw_fees_def
        lending_pool_withdraw_insurance_def withdraw_vault_def bind_Ok_iff)
qed

section \<open>Flash loans\<close>

lemma in_flashloan_alt: "in_flashloan w pk \<longleftrightarrow> (\<exists>g k f. headers w pk = Some (g, k, f) \<and> f AND IN_FLASHLOAN_FLAG \<noteq> 0)"
  by (auto simp: in_flashloan_def headers_def header_of_def get_flag_def)

lemma in_flashloan_cong: "headers w' = headers w \<Longrightarrow> in_flashloan w' = in_flashloan w"
  by (simp add: fun_eq_iff in_flashloan_alt)

lemma loan_flag_bit: "f AND IN_FLASHLOAN_FLAG \<noteq> 0 \<longleftrightarrow> bit f 1" for f :: u64
proof -
  have "f AND IN_FLASHLOAN_FLAG = f AND push_bit 1 1"
    by (simp add: IN_FLASHLOAN_FLAG_def)
  then show ?thesis by (simp add: and_exp_eq_0_iff_not_bit [of f 1, simplified] push_bit_of_1)
qed

text \<open>An admin may set and clear flags, but not this one; disabling an account and moving its authority do not set it.\<close>

lemma other_flags:
  "flag_can_be_set flag \<Longrightarrow> get_flag (set_flag a flag) IN_FLASHLOAN_FLAG = get_flag a IN_FLASHLOAN_FLAG"
  "flag_can_be_set flag \<Longrightarrow> get_flag (unset_flag a flag) IN_FLASHLOAN_FLAG = get_flag a IN_FLASHLOAN_FLAG"
  "get_flag (set_flag a DISABLED_FLAG) IN_FLASHLOAN_FLAG = get_flag a IN_FLASHLOAN_FLAG"
  "get_flag (unset_flag a TRANSFER_AUTHORITY_ALLOWED_FLAG) IN_FLASHLOAN_FLAG = get_flag a IN_FLASHLOAN_FLAG"
  "\<not> get_flag (unset_flag a IN_FLASHLOAN_FLAG) IN_FLASHLOAN_FLAG"
  "get_flag (with_balance a la i bal) f = get_flag a f"
proof -
  have "\<not> bit flag 1" if "flag_can_be_set flag"
  proof
    assume "bit flag 1"
    then have "bit (flag AND NOT CONFIGURABLE_FLAGS) 1"
      by (simp add: bit_simps CONFIGURABLE_FLAGS_def FLASHLOAN_ENABLED_FLAG_def TRANSFER_AUTHORITY_ALLOWED_FLAG_def)
    with that show False by (simp add: flag_can_be_set_def)
  qed
  then show "flag_can_be_set flag \<Longrightarrow> get_flag (set_flag a flag) IN_FLASHLOAN_FLAG = get_flag a IN_FLASHLOAN_FLAG"
    "flag_can_be_set flag \<Longrightarrow> get_flag (unset_flag a flag) IN_FLASHLOAN_FLAG = get_flag a IN_FLASHLOAN_FLAG"
    by (simp_all add: get_flag_def loan_flag_bit set_flag_def unset_flag_def bit_simps)
  have "bit IN_FLASHLOAN_FLAG 1"
    by (simp add: IN_FLASHLOAN_FLAG_def)
  then show "\<not> get_flag (unset_flag a IN_FLASHLOAN_FLAG) IN_FLASHLOAN_FLAG"
    by (simp add: get_flag_def loan_flag_bit unset_flag_def bit_simps)
qed (simp_all add: get_flag_def loan_flag_bit set_flag_def unset_flag_def bit_simps with_balance_def DISABLED_FLAG_def
    TRANSFER_AUTHORITY_ALLOWED_FLAG_def)

lemma store_account_loan:
  "in_flashloan (store_account ak a w) pk \<longleftrightarrow> (if pk = ak then get_flag a IN_FLASHLOAN_FLAG else in_flashloan w pk)"
  by (simp add: in_flashloan_def store_account_def)

lemma flag_instructions_loan:
  "set_account_flag w ca flag = Ok w' \<Longrightarrow> in_flashloan w' pk \<Longrightarrow> in_flashloan w pk"
  "unset_account_flag w ca flag = Ok w' \<Longrightarrow> in_flashloan w' pk \<Longrightarrow> in_flashloan w pk"
  "set_account_transfer_authority w cs = Ok w' \<Longrightarrow> in_flashloan w' pk \<Longrightarrow> in_flashloan w pk"
  "initialize_account w ci = Ok w' \<Longrightarrow> in_flashloan w' pk \<Longrightarrow> in_flashloan w pk"
  "close_account w cc = Ok w' \<Longrightarrow> in_flashloan w' pk \<Longrightarrow> in_flashloan w pk"
  by (auto simp: set_account_flag_def unset_account_flag_def set_account_transfer_authority_def initialize_account_def
      close_account_def set_new_account_authority_checked_def run_iff store_account_loan other_flags account_initialize_def
      account_zeroed_def split: if_splits)
    (auto simp: in_flashloan_def get_flag_def split: if_splits)

lemma bankruptcy_loan:
  assumes "fixed_point (rt_fx rt)" and "lending_pool_handle_bankruptcy rt w c ais = Ok w'" and "in_flashloan w' pk"
  shows "in_flashloan w pk"
proof (rule handle_bankruptcy_OkD [OF assms(1,2)])
  fix a k ledger and wr :: bank_account_wrapper
  assume "w_accounts w (bkr_marginfi_account c) = Some a"
    and "w' = (store_bank (bkr_bank c) (bw_bank wr) (store_account (bkr_marginfi_account c)
           (set_flag (with_balance a (balances a) k (bw_balance wr)) DISABLED_FLAG) w))\<lparr>w_ledger := ledger\<rparr>"
  with assms(3) show ?thesis
    by (auto simp: in_flashloan_cong [of "_\<lparr>w_ledger := ledger\<rparr>" "_"] in_flashloan_def store_account_def other_flags split: if_splits)
qed

lemma process_instruction_loan:
  assumes "fixed_point (rt_fx rt)" and "process_instruction rt tx w ins = Ok w'" and "in_flashloan w' pk"
  shows "in_flashloan w pk \<or> (\<exists>c e. ins = LendingAccountStartFlashloan c e \<and> pk = sfl_marginfi_account c)"
proof (cases "administers ins")
  case True
  from administers_accounts [OF this assms(2)] assms(3) show ?thesis
    by (simp add: in_flashloan_def)
next
  case False
  note same = position_headers [THEN in_flashloan_cong] liquidate_headers [THEN in_flashloan_cong]
  show ?thesis
  proof (cases ins)
    case (LendingAccountStartFlashloan c e)
    with assms(2,3) show ?thesis
      by (auto elim!: start_flashloan_OkD simp: store_account_loan split: if_splits)
  next
    case (LendingAccountEndFlashloan c ais)
    with assms(2,3) show ?thesis
      by (auto elim!: end_flashloan_OkD simp: store_account_loan other_flags split: if_splits)
  next
    case (LendingPoolHandleBankruptcy c ais)
    with assms(2,3) show ?thesis
      using bankruptcy_loan [OF assms(1)] by auto
  qed (use False assms(2,3) in \<open>auto dest: same flag_instructions_loan\<close>)
qed

text \<open>The account that an instruction puts at risk, and that an account is healthy without a loan.\<close>

fun takes_risk :: "instruction \<Rightarrow> pubkey option" where
  "takes_risk (LendingAccountWithdraw c ais amount all) = Some (ctx_marginfi_account c)"
| "takes_risk (LendingAccountBorrow c ais amount) = Some (ctx_marginfi_account c)"
| "takes_risk (LendingAccountLiquidate c ais amount) = Some (liq_liquidator_marginfi_account c)"
| "takes_risk _ = None"

definition passes_health :: "runtime \<Rightarrow> world \<Rightarrow> pubkey \<Rightarrow> bool" where
  "passes_health rt w pk \<longleftrightarrow> (\<exists>a ais. w_accounts w pk = Some a \<and> \<not> get_flag a IN_FLASHLOAN_FLAG \<and>
     check_account_init_health (rt_fx rt) (rt_sdk rt) (w_banks w) (rt_clock rt) a ais = Ok ())"

lemma takes_risk_checked:
  assumes "process_instruction rt tx w ins = Ok w'" and "takes_risk ins = Some pk"
  shows "passes_health rt w' pk \<or> in_flashloan w' pk"
proof -
  have "\<exists>a ais. w_accounts w' pk = Some a \<and>
      check_account_init_health (rt_fx rt) (rt_sdk rt) (w_banks w') (rt_clock rt) a ais = Ok ()"
    using assms
    by (cases ins) (auto elim!: withdraw_OkD borrow_OkD liquidate_OkD simp: store_account_def)
  then show ?thesis
    by (auto simp: passes_health_def in_flashloan_def)
qed

lemma end_flashloan_checked:
  assumes "lending_account_end_flashloan rt tx w c ais = Ok w'"
  shows "passes_health rt w' (efl_marginfi_account c)" and "\<not> in_flashloan w' (efl_marginfi_account c)"
  using assms
  by (auto elim!: end_flashloan_OkD simp: passes_health_def store_account_loan other_flags)

section \<open>Transactions\<close>

text \<open>
  The framework dispatches by the first eight bytes of the data and takes the accounts in the order
  of the declaration, here for the instruction that ends a loan.
\<close>

type_synonym decoder = "raw_instruction \<Rightarrow> instruction option"

definition decodes_end :: "decoder \<Rightarrow> tx_context \<Rightarrow> bool" where
  "decodes_end decode tx \<longleftrightarrow> (\<forall>ix ins. decode ix = Some ins \<longrightarrow> take 8 (ix_data ix) = tx_end_discriminator tx \<longrightarrow>
     (\<exists>c ais rest. ins = LendingAccountEndFlashloan c ais \<and> ix_accounts ix = efl_marginfi_account c # rest))"

text \<open>
  The rest of a transaction from its instruction \<open>i\<close>, with the instructions of the program that run
  and the worlds they lead to. A foreign program calls from a greater height of the stack, and
  changes nothing of the world but the tokens.
\<close>

inductive executes :: "runtime \<Rightarrow> decoder \<Rightarrow> tx_context \<Rightarrow> nat \<Rightarrow> world \<Rightarrow> (instruction \<times> world) list \<Rightarrow> world \<Rightarrow> bool"
  for rt decode tx where
  finished: "executes rt decode tx (length (tx_instructions tx)) w [] w"
| own: "\<lbrakk> i < length (tx_instructions tx); ix_program_id (tx_instructions tx ! i) = MARGINFI_ID;
    decode (tx_instructions tx ! i) = Some ins;
    process_instruction rt (tx\<lparr>tx_index := i, tx_stack_height := TRANSACTION_LEVEL_STACK_HEIGHT\<rparr>) w ins = Ok w';
    executes rt decode tx (Suc i) w' trace w'' \<rbrakk> \<Longrightarrow> executes rt decode tx i w ((ins, w') # trace) w''"
| call: "\<lbrakk> i < length (tx_instructions tx); ix_program_id (tx_instructions tx ! i) \<noteq> MARGINFI_ID;
    TRANSACTION_LEVEL_STACK_HEIGHT < h; process_instruction rt (tx\<lparr>tx_index := i, tx_stack_height := h\<rparr>) w ins = Ok w';
    executes rt decode tx i w' trace w'' \<rbrakk> \<Longrightarrow> executes rt decode tx i w ((ins, w') # trace) w''"
| foreign: "\<lbrakk> i < length (tx_instructions tx); ix_program_id (tx_instructions tx ! i) \<noteq> MARGINFI_ID;
    executes rt decode tx (Suc i) (w\<lparr>w_ledger := l, w_lamports := n\<rparr>) trace w'' \<rbrakk> \<Longrightarrow> executes rt decode tx i w trace w''"

text \<open>The loans that are open end at an instruction still to come.\<close>

definition loans_end :: "tx_context \<Rightarrow> nat \<Rightarrow> world \<Rightarrow> bool" where
  "loans_end tx i w \<longleftrightarrow> (\<forall>pk. in_flashloan w pk \<longrightarrow> (\<exists>e \<ge> i. ends_flashloan_of tx e pk))"

lemma ends_flashloan_of_at [simp]: "ends_flashloan_of (tx\<lparr>tx_index := i, tx_stack_height := h\<rparr>) = ends_flashloan_of tx"
  by (simp add: fun_eq_iff ends_flashloan_of_def)

lemma decoded_end:
  assumes "decodes_end decode tx" and "ends_flashloan_of tx e pk" and "decode (tx_instructions tx ! e) = Some ins"
  obtains c ais where "ins = LendingAccountEndFlashloan c ais" and "efl_marginfi_account c = pk"
  using assms by (fastforce simp: decodes_end_def ends_flashloan_of_def)

text \<open>An instruction that ends a loan of the account runs if the transaction does, loan or no loan.\<close>

lemma end_reached:
  assumes "executes rt decode tx i w trace w'" and "decodes_end decode tx" and "ends_flashloan_of tx e pk" and "i \<le> e"
  shows "\<exists>j < length trace. passes_health rt (snd (trace ! j)) pk"
  using assms(1,4)
proof induction
  case (finished w)
  then show ?case using assms(3) by (simp add: ends_flashloan_of_def)
next
  case (own i ins w w' trace w'')
  show ?case
  proof (cases "i = e")
    case True
    with own have "passes_health rt w' pk"
      using decoded_end [OF assms(2,3), of ins] end_flashloan_checked(1) by fastforce
    then show ?thesis by (intro exI [of _ 0]) simp
  next
    case False
    with own obtain j where "j < length trace" "passes_health rt (snd (trace ! j)) pk" by auto
    then show ?thesis by (intro exI [of _ "Suc j"]) simp
  qed
next
  case (call i h w ins w' trace w'')
  then obtain j where "j < length trace" "passes_health rt (snd (trace ! j)) pk" by auto
  then show ?case by (intro exI [of _ "Suc j"]) simp
next
  case (foreign i n l w trace w'')
  have "i \<noteq> e" using foreign assms(3) by (auto simp: ends_flashloan_of_def)
  with foreign show ?case by simp
qed

lemma loans_end_own:
  assumes "fixed_point (rt_fx rt)" and "decodes_end decode tx" and "loans_end tx i w"
    and "decode (tx_instructions tx ! i) = Some ins"
    and "process_instruction rt (tx\<lparr>tx_index := i, tx_stack_height := TRANSACTION_LEVEL_STACK_HEIGHT\<rparr>) w ins = Ok w'"
  shows "loans_end tx (Suc i) w'"
  unfolding loans_end_def
proof (intro allI impI)
  fix pk
  assume loan: "in_flashloan w' pk"
  from process_instruction_loan [OF assms(1,5) this] show "\<exists>e \<ge> Suc i. ends_flashloan_of tx e pk"
  proof
    assume "in_flashloan w pk"
    then obtain e where e: "i \<le> e" "ends_flashloan_of tx e pk"
      using assms(3) by (auto simp: loans_end_def)
    have "e \<noteq> i"
    proof
      assume "e = i"
      with decoded_end [OF assms(2) e(2)] assms(4) obtain c ais where
        "ins = LendingAccountEndFlashloan c ais" "efl_marginfi_account c = pk" by blast
      with assms(5) end_flashloan_checked(2) loan show False by force
    qed
    with e show ?thesis by (intro exI [of _ e]) simp
  next
    assume "\<exists>c e. ins = LendingAccountStartFlashloan c e \<and> pk = sfl_marginfi_account c"
    with assms(5) show ?thesis
      by (auto elim!: start_flashloan_OkD simp: Suc_le_eq) blast
  qed
qed

lemma loans_end_call:
  assumes "fixed_point (rt_fx rt)" and "loans_end tx i w" and "TRANSACTION_LEVEL_STACK_HEIGHT < h"
    and "process_instruction rt (tx\<lparr>tx_index := i, tx_stack_height := h\<rparr>) w ins = Ok w'"
  shows "loans_end tx i w'"
  unfolding loans_end_def
proof (intro allI impI)
  fix pk
  assume "in_flashloan w' pk"
  from process_instruction_loan [OF assms(1,4) this] have "in_flashloan w pk"
    using assms(3,4) by (auto elim!: start_flashloan_OkD)
  with assms(2) show "\<exists>e \<ge> i. ends_flashloan_of tx e pk"
    by (simp add: loans_end_def)
qed

lemma risk_checked:
  assumes "process_instruction rt tx' w ins = Ok w'" and "loans_end tx i w'" and "executes rt decode tx i w' trace w''"
    and "decodes_end decode tx" and "takes_risk ins = Some pk"
  shows "\<exists>j < length ((ins, w') # trace). passes_health rt (snd (((ins, w') # trace) ! j)) pk"
  using takes_risk_checked [OF assms(1,5)]
proof
  assume "passes_health rt w' pk"
  then show ?thesis by (intro exI [of _ 0]) simp
next
  assume "in_flashloan w' pk"
  then obtain e where "i \<le> e" "ends_flashloan_of tx e pk"
    using assms(2) by (auto simp: loans_end_def)
  from end_reached [OF assms(3,4) this(2,1)] obtain j where "j < length trace" "passes_health rt (snd (trace ! j)) pk" by blast
  then show ?thesis by (intro exI [of _ "Suc j"]) simp
qed

text \<open>Every risk in a trace is followed by a check.\<close>

definition risks_checked :: "runtime \<Rightarrow> (instruction \<times> world) list \<Rightarrow> bool" where
  "risks_checked rt trace \<longleftrightarrow> (\<forall>k < length trace. \<forall>pk. takes_risk (fst (trace ! k)) = Some pk \<longrightarrow>
     (\<exists>j. k \<le> j \<and> j < length trace \<and> passes_health rt (snd (trace ! j)) pk))"

lemma risks_checked_Cons:
  assumes "risks_checked rt trace"
    and "\<And>pk. takes_risk (fst x) = Some pk \<Longrightarrow> \<exists>j < length (x # trace). passes_health rt (snd ((x # trace) ! j)) pk"
  shows "risks_checked rt (x # trace)"
  unfolding risks_checked_def
proof (intro allI impI)
  fix k pk
  assume k: "k < length (x # trace)" "takes_risk (fst ((x # trace) ! k)) = Some pk"
  show "\<exists>j. k \<le> j \<and> j < length (x # trace) \<and> passes_health rt (snd ((x # trace) ! j)) pk"
  proof (cases k)
    case 0
    with k assms(2) [of pk] show ?thesis by auto
  next
    case (Suc n)
    with k assms(1) obtain j where "n \<le> j" "j < length trace" "passes_health rt (snd (trace ! j)) pk"
      by (auto simp: risks_checked_def)
    with Suc show ?thesis by (intro exI [of _ "Suc j"]) simp
  qed
qed

lemma executes_sound:
  assumes "executes rt decode tx i w trace w'" and "fixed_point (rt_fx rt)" and "decodes_end decode tx" and "loans_end tx i w"
  shows "(\<forall>pk. \<not> in_flashloan w' pk) \<and> risks_checked rt trace"
  using assms(1,4)
proof induction
  case (finished w)
  then show ?case
    by (auto simp: loans_end_def ends_flashloan_of_def risks_checked_def)
next
  case (own i ins w w' trace w'')
  note next_end = loans_end_own [OF assms(2,3) own.prems own.hyps(3,4)]
  from own.IH [OF next_end] risk_checked [OF own.hyps(4) next_end own.hyps(5) assms(3)] show ?case
    by (auto intro!: risks_checked_Cons)
next
  case (call i h w ins w' trace w'')
  note next_end = loans_end_call [OF assms(2) call.prems call.hyps(3,4)]
  from call.IH [OF next_end] risk_checked [OF call.hyps(4) next_end call.hyps(5) assms(3)] show ?case
    by (auto intro!: risks_checked_Cons)
next
  case (foreign i n l w trace w'')
  from foreign.prems have "loans_end tx i (w\<lparr>w_ledger := l, w_lamports := n\<rparr>)"
    by (simp add: loans_end_def in_flashloan_def)
  moreover have "\<not> ends_flashloan_of tx i pk" for pk
    using foreign.hyps(2) by (simp add: ends_flashloan_of_def)
  ultimately have "loans_end tx (Suc i) (w\<lparr>w_ledger := l, w_lamports := n\<rparr>)"
    unfolding loans_end_def by (metis Suc_leI le_neq_implies_less)
  from foreign.IH [OF this] show ?case .
qed

section \<open>Claim\<close>

text \<open>
  C3. Flash loans are safe. Run a whole transaction, with foreign programs between the instructions
  of the program and calling it, from a world in which no account is in a flash loan. When it
  succeeds, no account is in a flash loan afterwards, and every account that an instruction has put
  at risk, by a withdrawal, a borrow or a liquidation, with or without a loan, is without a loan
  and passes the check of its initial health after that instruction or a later one of the
  transaction.
\<close>

theorem flashloan_sound:
  assumes "fixed_point (rt_fx rt)" and "decodes_end decode tx" and "executes rt decode tx 0 w trace w'"
    and "\<forall>pk. \<not> in_flashloan w pk"
  shows "(\<forall>pk. \<not> in_flashloan w' pk) \<and>
    (\<forall>k < length trace. \<forall>pk. takes_risk (fst (trace ! k)) = Some pk \<longrightarrow>
       (\<exists>j a ais. k \<le> j \<and> j < length trace \<and> w_accounts (snd (trace ! j)) pk = Some a \<and> \<not> get_flag a IN_FLASHLOAN_FLAG \<and>
          check_account_init_health (rt_fx rt) (rt_sdk rt) (w_banks (snd (trace ! j))) (rt_clock rt) a ais = Ok ()))"
proof -
  have "loans_end tx 0 w"
    using assms(4) by (simp add: loans_end_def)
  from executes_sound [OF assms(3,1,2) this] show ?thesis
    unfolding risks_checked_def passes_health_def by blast
qed

text \<open>
  A loan of an account with a deposit: it borrows more than its deposit allows, repays, and ends
  the loan.
\<close>

definition example_end_discriminator :: "u8 list" where
  "example_end_discriminator = [105, 124, 201, 106, 153, 2, 8, 156]"

definition example_loan :: tx_context where
  "example_loan = \<lparr>tx_instructions = map (\<lambda>d. \<lparr>ix_program_id = MARGINFI_ID, ix_accounts = [62], ix_data = d\<rparr>)
       [[1], [2], [3], example_end_discriminator],
     tx_index = 0, tx_stack_height = 1, tx_sysvar_id = 9, tx_end_discriminator = example_end_discriminator\<rparr>"

definition example_decode :: decoder where
  "example_decode ix =
     (if take 8 (ix_data ix) = example_end_discriminator
      then (case ix_accounts ix of pk # _ \<Rightarrow> Some (LendingAccountEndFlashloan \<lparr>efl_marginfi_account = pk, efl_signer = 72\<rparr> example_ais)
            | [] \<Rightarrow> None)
      else if ix_data ix = [1]
      then Some (LendingAccountStartFlashloan \<lparr>sfl_marginfi_account = 62, sfl_signer = 72, sfl_ixs_sysvar = 9\<rparr> 3)
      else if ix_data ix = [2]
      then Some (LendingAccountBorrow \<lparr>ctx_marginfi_group = 2, ctx_marginfi_account = 62, ctx_signer = 72, ctx_bank = 52,
             ctx_destination_token_account = 5, ctx_bank_liquidity_vault_authority = 44, ctx_bank_liquidity_vault = 41,
             ctx_token_program = 1\<rparr> example_ais 400000000)
      else if ix_data ix = [3]
      then Some (LendingAccountRepay \<lparr>ctx_marginfi_group = 2, ctx_marginfi_account = 62, ctx_signer = 72, ctx_bank = 52,
             ctx_signer_token_account = 5, ctx_deposit_vault = 41, ctx_deposit_token_program = 1\<rparr> [] 390000000 None)
      else None)"

lemma example_decodes_end: "decodes_end example_decode example_loan"
  by (auto simp: decodes_end_def example_decode_def example_loan_def split: list.splits if_splits)

definition example_step :: "nat \<Rightarrow> world \<Rightarrow> world result" where
  "example_step i w = process_instruction example_runtime (example_loan\<lparr>tx_index := i, tx_stack_height := TRANSACTION_LEVEL_STACK_HEIGHT\<rparr>)
     w (the (example_decode (tx_instructions example_loan ! i)))"

lemma example_own:
  assumes "example_step i w = Ok w'" and "executes example_runtime example_decode example_loan j w' trace w''"
    and "i < 4" and "j = Suc i"
  shows "executes example_runtime example_decode example_loan i w
    ((the (example_decode (tx_instructions example_loan ! i)), w') # trace) w''"
proof (rule executes.own)
  have "i = 0 \<or> i = 1 \<or> i = 2 \<or> i = 3" using assms(3) by auto
  then show "example_decode (tx_instructions example_loan ! i) = Some (the (example_decode (tx_instructions example_loan ! i)))"
    by (auto simp: example_loan_def example_decode_def example_end_discriminator_def)
qed (use assms in \<open>auto simp: example_loan_def example_step_def nth_Cons split: nat.splits\<close>)

theorem flashloan_sound_witness:
  "\<exists>trace w'. executes example_runtime example_decode example_loan 0 example_world trace w' \<and>
     takes_risk (fst (trace ! 1)) = Some 62 \<and> \<not> in_flashloan w' 62 \<and>
     (\<exists>j a ais. 1 \<le> j \<and> j < length trace \<and> w_accounts (snd (trace ! j)) 62 = Some a \<and> \<not> get_flag a IN_FLASHLOAN_FLAG \<and>
        check_account_init_health (rt_fx example_runtime) (rt_sdk example_runtime) (w_banks (snd (trace ! j)))
          (rt_clock example_runtime) a ais = Ok ())"
proof -
  have "is_ok (bind (bind (bind (example_step 0 example_world) (example_step 1)) (example_step 2)) (example_step 3))"
    by code_simp
  then obtain w1 w2 w3 w4 where run: "example_step 0 example_world = Ok w1" "example_step 1 w1 = Ok w2"
      "example_step 2 w2 = Ok w3" "example_step 3 w3 = Ok w4"
    by (auto simp: is_ok_iff bind_Ok_iff)
  have "length (tx_instructions example_loan) = 4"
    by (simp add: example_loan_def)
  then have "executes example_runtime example_decode example_loan 4 w4 [] w4"
    using executes.finished [of example_runtime example_decode example_loan w4] by argo
  note last = this
  let ?ins = "\<lambda>i. the (example_decode (tx_instructions example_loan ! i))"
  define trace where "trace = [(?ins 0, w1), (?ins 1, w2), (?ins 2, w3), (?ins 3, w4)]"
  have 3: "executes example_runtime example_decode example_loan 3 w3 [(?ins 3, w4)] w4"
    by (rule example_own [OF run(4) last]) simp_all
  have 2: "executes example_runtime example_decode example_loan 2 w2 [(?ins 2, w3), (?ins 3, w4)] w4"
    by (rule example_own [OF run(3) 3]) simp_all
  have 1: "executes example_runtime example_decode example_loan 1 w1 [(?ins 1, w2), (?ins 2, w3), (?ins 3, w4)] w4"
    by (rule example_own [OF run(2) 2]) simp_all
  have ex: "executes example_runtime example_decode example_loan 0 example_world trace w4"
    unfolding trace_def by (rule example_own [OF run(1) 1]) simp_all
  have trace: "length trace = 4" "fst (trace ! 1) = ?ins 1"
    by (simp_all add: trace_def)
  have risk: "takes_risk (fst (trace ! 1)) = Some 62"
    unfolding trace by (simp add: example_loan_def example_decode_def example_end_discriminator_def)
  have "\<forall>pk. \<not> in_flashloan example_world pk"
    by (simp add: in_flashloan_def example_world_def unhealthy_holder_def wealthy_holder_def bankrupt_holder_def
        example_holder_def get_flag_def FLASHLOAN_ENABLED_FLAG_def IN_FLASHLOAN_FLAG_def)
  moreover have "fixed_point (rt_fx example_runtime)"
    using reference.fixed_point_axioms by (simp add: example_runtime_def)
  ultimately have "\<not> in_flashloan w4 62 \<and> (\<exists>j a ais. 1 \<le> j \<and> j < length trace \<and> w_accounts (snd (trace ! j)) 62 = Some a \<and>
      \<not> get_flag a IN_FLASHLOAN_FLAG \<and> check_account_init_health (rt_fx example_runtime) (rt_sdk example_runtime)
        (w_banks (snd (trace ! j))) (rt_clock example_runtime) a ais = Ok ())"
    using flashloan_sound [OF _ example_decodes_end ex] risk trace(1) by auto
  with ex risk show ?thesis by blast
qed

end
