(* ===== verification/Custody.thy ===== *)
theory Custody
  imports Transaction
begin

text \<open>
  What the program promises the holder of an account, as an abstract machine: who owns which
  account, how many shares of which bank are deposited in it and owed by it, and on what grounds
  these may change. The program refines the machine, so that over any run of instructions an
  account loses nothing unless its owner signs or it is unhealthy.
\<close>

section \<open>Signers\<close>

text \<open>The accounts of an instruction that are of type \<^verbatim>\<open>Signer\<close>, without the fee payers that only pay for storage.\<close>

fun instruction_signers :: "instruction \<Rightarrow> pubkey set" where
  "instruction_signers (MarginfiGroupInitialize c) = {gi_admin c}"
| "instruction_signers (MarginfiGroupConfigure c config) = {ga_admin c}"
| "instruction_signers (LendingPoolAddBank c ais config) = {ga_admin c, ab_fee_payer c}"
| "instruction_signers (LendingPoolAddBankWithSeed c ais config n) = {ga_admin c, ab_fee_payer c}"
| "instruction_signers (LendingPoolConfigureBank c ais config) = {ga_admin c}"
| "instruction_signers (LendingPoolSetupEmissions c flags rate n) = {ga_admin c}"
| "instruction_signers (LendingPoolUpdateEmissionsParameters c flags rate n) = {ga_admin c}"
| "instruction_signers (LendingPoolHandleBankruptcy c ais) = {bkr_signer c}"
| "instruction_signers (MarginfiAccountInitialize c) = {ctx_init_authority c}"
| "instruction_signers (LendingAccountDeposit c ais n) = {ctx_signer c}"
| "instruction_signers (LendingAccountRepay c ais n all) = {ctx_signer c}"
| "instruction_signers (LendingAccountWithdraw c ais n all) = {ctx_signer c}"
| "instruction_signers (LendingAccountBorrow c ais n) = {ctx_signer c}"
| "instruction_signers (LendingAccountCloseBalance c) = {ctx_signer c}"
| "instruction_signers (LendingAccountWithdrawEmissions c) = {ctx_signer c}"
| "instruction_signers (LendingAccountSettleEmissions c) = {}"
| "instruction_signers (LendingAccountLiquidate c ais n) = {liq_signer c}"
| "instruction_signers (LendingAccountStartFlashloan c e) = {sfl_signer c}"
| "instruction_signers (LendingAccountEndFlashloan c ais) = {efl_signer c}"
| "instruction_signers (LendingPoolAccrueBankInterest c) = {}"
| "instruction_signers (LendingPoolCollectBankFees c ais) = {}"
| "instruction_signers (LendingPoolWithdrawFees c ais n) = {ga_admin c}"
| "instruction_signers (LendingPoolWithdrawInsurance c ais n) = {ga_admin c}"
| "instruction_signers (SetAccountFlag c flag) = {ga_admin c}"
| "instruction_signers (UnsetAccountFlag c flag) = {ga_admin c}"
| "instruction_signers (SetNewAccountAuthority c) = {ctx_auth_signer c}"
| "instruction_signers (MarginfiAccountClose c) = {ctx_close_authority c}"
| "instruction_signers (InitGlobalFeeState c admin wallet flat fee_fixed fee_rate) = {ifs_payer c}"
| "instruction_signers (EditGlobalFeeState c wallet flat fee_fixed fee_rate) = {efs_global_fee_admin c}"
| "instruction_signers (PropagateFeeState c) = {}"
| "instruction_signers (ConfigGroupFee c flag) = {cgf_global_fee_admin c}"

section \<open>The abstract machine\<close>

record custody =
  cu_owner :: "pubkey \<Rightarrow> pubkey option"
  cu_deposits :: "pubkey \<Rightarrow> pubkey \<Rightarrow> int"
  cu_debts :: "pubkey \<Rightarrow> pubkey \<Rightarrow> int"

text \<open>The grounds on which others may act: health, bankruptcy, and what counts as dust in a bank.\<close>

record grounds =
  unhealthy :: "pubkey \<Rightarrow> bool"
  bankrupt :: "pubkey \<Rightarrow> bool"
  dust :: "pubkey \<Rightarrow> int \<Rightarrow> bool"

definition same_holdings :: "custody \<Rightarrow> custody \<Rightarrow> pubkey \<Rightarrow> bool" where
  "same_holdings c c' ak \<longleftrightarrow> cu_deposits c' ak = cu_deposits c ak \<and> cu_debts c' ak = cu_debts c ak"

definition no_worse :: "custody \<Rightarrow> custody \<Rightarrow> pubkey \<Rightarrow> pubkey \<Rightarrow> bool" where
  "no_worse c c' ak bk \<longleftrightarrow> cu_deposits c ak bk \<le> cu_deposits c' ak bk \<and> cu_debts c' ak bk \<le> cu_debts c ak bk"

inductive custody_step :: "grounds \<times> pubkey set \<Rightarrow> custody \<Rightarrow> custody \<Rightarrow> bool" where
  idle: "custody_step (G, S) c c"
| owner: "\<lbrakk> cu_owner c ak = Some k; k \<in> S; cu_owner c' = cu_owner c; \<And>x. x \<noteq> ak \<Longrightarrow> same_holdings c c' x \<rbrakk>
    \<Longrightarrow> custody_step (G, S) c c'"
| opened: "\<lbrakk> cu_owner c ak = None; k \<in> S \<rbrakk> \<Longrightarrow> custody_step (G, S) c (c\<lparr>cu_owner := (cu_owner c)(ak \<mapsto> k)\<rparr>)"
| closed: "\<lbrakk> cu_owner c ak = Some k; k \<in> S; cu_owner c' = (cu_owner c)(ak := None); \<And>x. x \<noteq> ak \<Longrightarrow> same_holdings c c' x \<rbrakk>
    \<Longrightarrow> custody_step (G, S) c c'"
| handed_over: "\<lbrakk> cu_owner c ak = Some k; k \<in> S \<rbrakk> \<Longrightarrow> custody_step (G, S) c (c\<lparr>cu_owner := (cu_owner c)(ak \<mapsto> k')\<rparr>)"
| seized: "\<lbrakk> cu_owner c lq = Some k; k \<in> S; unhealthy G le; cu_owner c' = cu_owner c;
      \<And>x. x \<noteq> lq \<Longrightarrow> x \<noteq> le \<Longrightarrow> same_holdings c c' x; \<And>bk. bk \<noteq> ab \<Longrightarrow> no_worse c c' le bk;
      dust G ab (cu_debts c' le ab - cu_debts c le ab) \<rbrakk> \<Longrightarrow> custody_step (G, S) c c'"
| settled: "\<lbrakk> bankrupt G ak; cu_owner c' = cu_owner c; \<And>x. x \<noteq> ak \<Longrightarrow> same_holdings c c' x; \<And>bk. no_worse c c' ak bk \<rbrakk>
    \<Longrightarrow> custody_step (G, S) c c'"

text \<open>The machine alone: without a signature of the owner, an account that is not unhealthy loses nothing.\<close>

lemma custody_step_protects:
  assumes "custody_step (G, S) c c'" and "cu_owner c ak = Some k" and "k \<notin> S" and "\<not> unhealthy G ak"
  shows "cu_owner c' ak = Some k \<and> no_worse c c' ak bk"
  using assms(1)
proof cases
  case (seized lq k' le ab)
  have "ak \<noteq> lq" "ak \<noteq> le" using seized(1-3) assms(2-4) by auto
  then have "same_holdings c c' ak" by (rule seized(5))
  with seized assms(2) show ?thesis by (simp add: same_holdings_def no_worse_def)
next
  case (settled ak')
  with assms(2) show ?thesis
    by (cases "ak = ak'") (auto simp: same_holdings_def no_worse_def)
next
  case (owner ak' k')
  with assms have "ak \<noteq> ak'" by auto
  with owner(3,4) assms(2) show ?thesis by (simp add: same_holdings_def no_worse_def)
next
  case (closed ak' k')
  with assms have "ak \<noteq> ak'" by auto
  with closed(3,4) assms(2) show ?thesis by (simp add: same_holdings_def no_worse_def)
qed (use assms(2,3) in \<open>auto simp: no_worse_def\<close>)

section \<open>The abstraction\<close>

definition holding :: "(balance \<Rightarrow> int) \<Rightarrow> marginfi_account option \<Rightarrow> pubkey \<Rightarrow> int" where
  "holding f a bk = (case a of Some a \<Rightarrow> held f bk (balances a) | None \<Rightarrow> 0)"

definition custody_of :: "world \<Rightarrow> custody" where
  "custody_of w = \<lparr>cu_owner = (\<lambda>ak. map_option ma_authority (w_accounts w ak)),
     cu_deposits = (\<lambda>ak. holding asset_shares (w_accounts w ak)),
     cu_debts = (\<lambda>ak. holding liability_shares (w_accounts w ak))\<rparr>"

text \<open>
  An account is unhealthy when it owes something and its maintenance health is not positive, with the
  interest of the banks of a liquidation accrued by the fees of their own group and every other bank
  as it is stored. It is bankrupt when the risk engine says so. Both are judged at the prices in a
  tail of the accounts that an instruction brings with it. Dust is debt below the amount that the
  program takes for zero.
\<close>

fun evidence :: "instruction \<Rightarrow> account_info list" where
  "evidence (LendingAccountLiquidate c ais n) = ais"
| "evidence (LendingPoolHandleBankruptcy c ais) = ais"
| "evidence _ = []"

fun accrues :: "instruction \<Rightarrow> pubkey list" where
  "accrues (LendingAccountLiquidate c ais n) = [liq_asset_bank c, liq_liab_bank c]"
| "accrues _ = []"

lemma bank_mint_rest: "maybe_take_bank_mint mo ais b pk = Ok (m, rest) \<Longrightarrow> \<exists>n. rest = drop n ais"
  by (auto simp: maybe_take_bank_mint_def split: if_splits list.splits intro: exI [of _ 0] exI [of _ 1])

definition accrued :: "runtime \<Rightarrow> world \<Rightarrow> pubkey \<Rightarrow> bank option" where
  "accrued rt w bk = (case w_banks w bk of
     Some b \<Rightarrow> (case w_groups w (bk_group b) of
       Some g \<Rightarrow> (case accrue_interest (rt_fx rt) b (now rt) g of Ok b' \<Rightarrow> Some b' | Err e \<Rightarrow> None)
     | None \<Rightarrow> None)
   | None \<Rightarrow> None)"

definition banks_seen :: "runtime \<Rightarrow> instruction \<Rightarrow> world \<Rightarrow> bank_store" where
  "banks_seen rt ins w = (\<lambda>bk. if bk \<in> set (accrues ins) then accrued rt w bk else w_banks w bk)"

definition grounds_of :: "runtime \<Rightarrow> instruction \<Rightarrow> world \<Rightarrow> grounds" where
  "grounds_of rt ins w = \<lparr>
     unhealthy = (\<lambda>ak. \<exists>a n h bk. w_accounts w ak = Some a \<and>
       account_health rt (banks_seen rt ins w) a (drop n (evidence ins)) = Ok h \<and> h \<le> 0 \<and> owes a bk),
     bankrupt = (\<lambda>ak. \<exists>a n. w_accounts w ak = Some a \<and>
       bind (risk_engine_new (rt_sdk rt) (w_banks w) (rt_clock rt) a (drop n (evidence ins)))
         (check_account_bankrupt (rt_fx rt) (rt_sdk rt) (w_banks w)) = Ok ()),
     dust = (\<lambda>bk n. \<exists>b. w_banks w bk = Some b \<and> n * liability_share_value b < ZERO_AMOUNT_THRESHOLD * SCALE)\<rparr>"

lemma custody_of_accounts: "w_accounts w' = w_accounts w \<Longrightarrow> custody_of w' = custody_of w"
  by (simp add: custody_of_def)

lemma owner_headers: "cu_owner (custody_of w) = (\<lambda>ak. map_option (fst \<circ> snd) (headers w ak))"
  by (simp add: custody_of_def headers_def header_of_def option.map_comp comp_def)

lemma same_holdings_of: "w_accounts w' x = w_accounts w x \<Longrightarrow> same_holdings (custody_of w) (custody_of w') x"
  by (simp add: same_holdings_def custody_of_def)

text \<open>An account is replaced by one with the same authority, at the wish of its owner or with the same holdings.\<close>

lemma owner_step:
  assumes "w_accounts w ak = Some a" and "w_accounts w' = (w_accounts w)(ak \<mapsto> a')" and "ma_authority a' = ma_authority a"
    and "ma_authority a \<in> S"
  shows "custody_step (G, S) (custody_of w) (custody_of w')"
proof (rule custody_step.owner)
  show "cu_owner (custody_of w) ak = Some (ma_authority a)" "cu_owner (custody_of w') = cu_owner (custody_of w)"
    using assms(1-3) by (auto simp: custody_of_def)
  show "same_holdings (custody_of w) (custody_of w') x" if "x \<noteq> ak" for x
    using that assms(2) by (intro same_holdings_of) simp
qed (rule assms(4))

lemma idle_step:
  assumes "w_accounts w ak = Some a" and "w_accounts w' = (w_accounts w)(ak \<mapsto> a')" and "ma_authority a' = ma_authority a"
    and "\<And>k. held asset_shares k (balances a') = held asset_shares k (balances a)"
    and "\<And>k. held liability_shares k (balances a') = held liability_shares k (balances a)"
  shows "custody_step (G, S) (custody_of w) (custody_of w')"
proof -
  have "custody_of w' = custody_of w"
    using assms by (simp add: custody_of_def fun_eq_iff holding_def)
  then show ?thesis by (simp add: custody_step.idle)
qed

text \<open>The instructions of users change the account of the signer only.\<close>

lemma user_steps:
  shows "lending_account_deposit rt w cd ais n = Ok w' \<Longrightarrow> custody_step (G, {ctx_signer cd}) (custody_of w) (custody_of w')"
    and "lending_account_repay rt w cd ais n all = Ok w' \<Longrightarrow> custody_step (G, {ctx_signer cd}) (custody_of w) (custody_of w')"
    and "lending_account_withdraw rt w cw ais n all = Ok w' \<Longrightarrow> custody_step (G, {ctx_signer cw}) (custody_of w) (custody_of w')"
    and "lending_account_borrow rt w cw ais n = Ok w' \<Longrightarrow> custody_step (G, {ctx_signer cw}) (custody_of w) (custody_of w')"
    and "lending_account_close_balance rt w cu = Ok w' \<Longrightarrow> custody_step (G, {ctx_signer cu}) (custody_of w) (custody_of w')"
    and "lending_account_withdraw_emissions rt w ce = Ok w' \<Longrightarrow> custody_step (G, {ctx_signer ce}) (custody_of w) (custody_of w')"
  by (auto simp: lending_account_deposit_def lending_account_repay_def deposit_constraints_def lending_account_close_balance_def
      lending_account_withdraw_emissions_def withdraw_emissions_constraints_def
      bind_Ok_iff user_constraints_Ok_iff load_Ok_iff store_account_def with_balance_def
      elim!: withdraw_OkD borrow_OkD intro!: owner_step)

text \<open>Flags do not matter to custody, nor does settling emissions.\<close>

lemma flag_steps:
  shows "set_account_flag w ca flag = Ok w' \<Longrightarrow> custody_step (G, S) (custody_of w) (custody_of w')"
    and "unset_account_flag w ca flag = Ok w' \<Longrightarrow> custody_step (G, S) (custody_of w) (custody_of w')"
    and "lending_account_start_flashloan tx w cs e = Ok w' \<Longrightarrow> custody_step (G, S) (custody_of w) (custody_of w')"
    and "lending_account_end_flashloan rt tx w ce ais = Ok w' \<Longrightarrow> custody_step (G, S) (custody_of w) (custody_of w')"
  by (auto simp: set_account_flag_def unset_account_flag_def run_iff store_account_def set_flag_def unset_flag_def
      elim!: start_flashloan_OkD end_flashloan_OkD intro!: idle_step)

lemma settle_emissions_step:
  assumes "fixed_point (rt_fx rt)" and "world_ok w" and "lending_account_settle_emissions rt w c = Ok w'"
  shows "custody_step (G, S) (custody_of w) (custody_of w')"
proof -
  let ?bk = "ctx_settle_bank c"
  obtain a b i wr where
    ctx: "w_accounts w (ctx_settle_marginfi_account c) = Some a" "w_banks w ?bk = Some b" "find_balance ?bk (balances a) = Ok i"
    and wr: "claim_emissions (rt_fx rt) \<lparr>bw_balance = balances a ! i, bw_bank = b\<rparr> (now rt) = Ok wr"
    and w': "w' = store_bank ?bk (bw_bank wr)
            (store_account (ctx_settle_marginfi_account c) (with_balance a (balances a) i (bw_balance wr)) w)"
    using assms(3) by (auto simp: lending_account_settle_emissions_def bind_Ok_iff load_Ok_iff)
  note pos = find_balance_position [OF world_okD(2) [OF assms(2) ctx(1)] ctx(3)]
  note ok = position_wrapper_ok [OF assms(2) ctx(1) pos world_okD(3) [OF assms(2) ctx(2)]]
  obtain e where bal: "bw_balance wr = (balances a ! i)\<lparr>emissions_outstanding := e, bal_last_update := now rt\<rparr>"
    by (rule fixed_point.claim_emissions_OkD [OF assms(1) ok wr]) simp
  have i: "i < length (balances a)"
    using pos by (simp add: position_in_def)
  have same: "held f k ((balances a)[i := bw_balance wr]) = held f k (balances a)" if "f (bw_balance wr) = f (balances a ! i)" for f k
    using that i by (simp add: held_update share_of_def bal)
  show ?thesis
    by (rule idle_step [OF ctx(1), where a' = "with_balance a (balances a) i (bw_balance wr)"])
      (simp_all add: w' store_account_def, simp_all add: with_balance_def bal same [unfolded bal])
qed

text \<open>Opening, closing and handing over an account.\<close>

lemma account_steps:
  shows "initialize_account w ci = Ok w' \<Longrightarrow> custody_step (G, {ctx_init_authority ci}) (custody_of w) (custody_of w')"
    and "close_account w cc = Ok w' \<Longrightarrow> custody_step (G, {ctx_close_authority cc}) (custody_of w) (custody_of w')"
    and "set_account_transfer_authority w ct = Ok w' \<Longrightarrow> custody_step (G, {ctx_auth_signer ct}) (custody_of w) (custody_of w')"
proof -
  assume init: "initialize_account w ci = Ok w'"
  let ?ak = "ctx_init_marginfi_account ci" and ?k = "ctx_init_authority ci"
  have none: "w_accounts w ?ak = None"
    and w': "w' = store_account ?ak (account_initialize account_zeroed (ctx_init_marginfi_group ci) ?k) w"
    using init by (auto simp: initialize_account_def run_iff unused_def)
  have eq: "custody_of w' = (custody_of w)\<lparr>cu_owner := (cu_owner (custody_of w))(?ak \<mapsto> ?k)\<rparr>"
    using none by (auto simp: w' custody_of_def store_account_def account_initialize_def holding_def fun_eq_iff held_zeroed)
  show "custody_step (G, {?k}) (custody_of w) (custody_of w')"
    unfolding eq by (rule custody_step.opened) (simp_all add: custody_of_def none)
next
  assume "close_account w cc = Ok w'"
  then obtain a where "w_accounts w (ctx_close_marginfi_account cc) = Some a" "ctx_close_authority cc = ma_authority a"
    "w' = w\<lparr>w_accounts := (w_accounts w)(ctx_close_marginfi_account cc := None)\<rparr>"
    by (auto simp: close_account_def run_iff)
  then show "custody_step (G, {ctx_close_authority cc}) (custody_of w) (custody_of w')"
    by (intro custody_step.closed [where ak = "ctx_close_marginfi_account cc" and k = "ma_authority a"])
      (auto simp: custody_of_def same_holdings_def)
next
  assume "set_account_transfer_authority w ct = Ok w'"
  then obtain a where a: "w_accounts w (ctx_auth_marginfi_account ct) = Some a" "ctx_auth_signer ct = ma_authority a"
    and w': "w' = store_account (ctx_auth_marginfi_account ct)
      (unset_flag (a\<lparr>ma_authority := ctx_new_authority ct\<rparr>) TRANSFER_AUTHORITY_ALLOWED_FLAG) w"
    by (auto simp: set_account_transfer_authority_def set_new_account_authority_checked_def run_iff split: if_splits)
  have eq: "custody_of w' = (custody_of w)\<lparr>cu_owner := (cu_owner (custody_of w))(ctx_auth_marginfi_account ct \<mapsto> ctx_new_authority ct)\<rparr>"
    using a(1) by (auto simp: w' custody_of_def store_account_def unset_flag_def holding_def fun_eq_iff)
  show "custody_step (G, {ctx_auth_signer ct}) (custody_of w) (custody_of w')"
    unfolding eq by (rule custody_step.handed_over) (simp_all add: custody_of_def a)
qed

text \<open>An operation that favours the holder of a position, seen from outside.\<close>

lemma favours_no_worse:
  assumes "w_accounts w ak = Some a" and "w_accounts w' ak = Some a'" and "position_in a bk la i"
    and "favours \<lparr>bw_balance = la ! i, bw_bank = b\<rparr> wr" and "balances a' = la[i := bw_balance wr]"
  shows "no_worse (custody_of w) (custody_of w') ak k"
proof -
  have la: "active (la ! i)" "bank_pk (la ! i) = bk" "held asset_shares k la = held asset_shares k (balances a)"
      "held liability_shares k la = held liability_shares k (balances a)" for k
    using assms(3) by (simp_all add: position_in_def)
  have bal: "active (bw_balance wr)" "bank_pk (bw_balance wr) = bk" "asset_shares (la ! i) \<le> asset_shares (bw_balance wr)"
      "liability_shares (bw_balance wr) \<le> liability_shares (la ! i)"
    using assms(4) la by (simp_all add: favours_def)
  note held = held_position [OF assms(3), of "bw_balance wr"]
  show ?thesis
    using assms(1,2,5) bal la held(1) [of k] held(2)
    by (cases "k = bk") (simp_all add: no_worse_def custody_of_def holding_def share_of_def)
qed

lemma bankruptcy_step:
  assumes "fixed_point (rt_fx rt)" and "world_ok w" and "lending_pool_handle_bankruptcy rt w c ais = Ok w'"
    and "w_banks w' (bkr_bank c) = Some b'" and "1 < asset_share_value b'"
  shows "custody_step (grounds_of rt (LendingPoolHandleBankruptcy c ais) w, S) (custody_of w) (custody_of w')"
proof (rule handle_bankruptcy_OkD [OF assms(1,3)])
  fix g b0 a m rest b1 k bad covered loss n pre ledger b2 and wr :: bank_account_wrapper and available :: u64
  let ?ak = "bkr_marginfi_account c" and ?a' = "set_flag (with_balance a (balances a) k (bw_balance wr)) DISABLED_FLAG"
  assume ctx: "w_banks w (bkr_bank c) = Some b0" "w_accounts w ?ak = Some a"
    and mint: "maybe_take_bank_mint (rt_mints rt) ais b0 (bkr_token_program c) = Ok (m, rest)"
    and bankrupt: "bind (risk_engine_new (rt_sdk rt) (w_banks w) (rt_clock rt) a rest)
           (check_account_bankrupt (rt_fx rt) (rt_sdk rt) (w_banks w)) = Ok ()"
    and acc: "accrue_interest (rt_fx rt) b0 (now rt) g = Ok b1"
    and pos: "position (\<lambda>bal. active bal \<and> bank_pk bal = bkr_bank c) (balances a) = Some k"
    and bad: "bad = liability_shares (balances a ! k) * liability_share_value b1 div SCALE" "ZERO_AMOUNT_THRESHOLD < bad"
    and split: "bankruptcy_split (rt_fx rt) bad (uint available * SCALE) = Ok (covered, loss, n)"
    and run: "socialize_loss (rt_fx rt) b1 loss = Ok b2"
      "repay (rt_fx rt) \<lparr>bw_balance = balances a ! k, bw_bank = b2\<rparr> bad (now rt) = Ok wr"
    and w': "w' = (store_bank (bkr_bank c) (bw_bank wr) (store_account ?ak ?a' w))\<lparr>w_ledger := ledger\<rparr>"
  have pos': "1 < asset_share_value (bw_bank wr)" using assms(4,5) by (simp add: w')
  have "0 \<le> bad" using bad(2) by (simp add: ZERO_AMOUNT_THRESHOLD_def)
  note fav = handle_bankruptcy_settles(6) [OF assms(1,2) ctx(2) fixed_point.accrue_interest_backs [OF assms(1) world_okD(3) [OF assms(2) ctx(1)] acc]
      pos bad(1) bankruptcy_split_OkD(2) [OF assms(1) this split] run pos']
  have posn: "position_in a (bkr_bank c) (balances a) k"
    using find_balance_position [OF world_okD(2) [OF assms(2) ctx(2)]] pos by (simp add: find_balance_def)
  show ?thesis
  proof (rule custody_step.settled [where ak = ?ak])
    obtain n where rest: "rest = drop n ais" using bank_mint_rest [OF mint] ..
    show "bankrupt (grounds_of rt (LendingPoolHandleBankruptcy c ais) w) ?ak"
      using ctx(2) bankrupt by (auto simp: grounds_of_def rest)
    show "cu_owner (custody_of w') = cu_owner (custody_of w)"
      using ctx(2) by (auto simp: custody_of_def w' store_account_def set_flag_def with_balance_def)
    show "same_holdings (custody_of w) (custody_of w') x" if "x \<noteq> ?ak" for x
      using that by (intro same_holdings_of) (simp add: w' store_account_def)
    show "no_worse (custody_of w) (custody_of w') ?ak bk" for bk
      by (rule favours_no_worse [OF ctx(2) _ posn fav, where a' = ?a']) (simp_all add: w' store_account_def, simp add: with_balance_def)
  qed
qed

text \<open>The legs of a liquidation, seen from outside.\<close>

lemma change_position_others:
  assumes "change_position fx t create side ak bk op w = Ok w'"
  shows "x \<noteq> ak \<Longrightarrow> w_accounts w' x = w_accounts w x" and "k \<noteq> bk \<Longrightarrow> w_banks w' k = w_banks w k"
  using assms by (auto simp: change_position_def bind_Ok_iff store_account_def store_bank_def)

lemma change_position_favours:
  assumes "world_ok w" and "change_position fx t create side ak bk op w = Ok w'"
    and "\<And>wr wr'. wrapper_ok wr \<Longrightarrow> op wr = Ok wr' \<Longrightarrow> favours wr wr'"
  shows "no_worse (custody_of w) (custody_of w') ak k"
proof (rule change_position_OkD [OF assms(2,1)])
  fix a b i la wr
  assume a: "w_accounts w ak = Some a" and b: "w_banks w bk = Some b" and pos: "position_in a bk la i"
    and op: "op \<lparr>bw_balance = la ! i, bw_bank = b\<rparr> = Ok wr"
    and w': "w' = store_bank bk (bw_bank wr) (store_account ak (with_balance a la i (bw_balance wr)) w)"
  note fav = assms(3) [OF position_wrapper_ok [OF assms(1) a pos world_okD(3) [OF assms(1) b]] op]
  show ?thesis
    by (rule favours_no_worse [OF a _ pos fav]) (simp add: w' store_account_def, simp add: with_balance_def)
qed

lemma change_position_withdraw:
  assumes "fixed_point fx" and "world_ok w" and "0 \<le> amount"
    and "change_position fx t create side ak bk (\<lambda>wr. map_err (withdraw fx wr amount t) e) w = Ok w'" and "w_banks w bk = Some b"
  defines "d \<equiv> cu_debts (custody_of w') ak bk - cu_debts (custody_of w) ak bk"
  shows "k \<noteq> bk \<Longrightarrow> no_worse (custody_of w) (custody_of w') ak k"
    and "0 \<le> d" and "d * liability_share_value b < ZERO_AMOUNT_THRESHOLD * SCALE"
proof -
  obtain a i la wr where a: "w_accounts w ak = Some a" and pos: "position_in a bk la i"
    and op: "withdraw fx \<lparr>bw_balance = la ! i, bw_bank = b\<rparr> amount t = Ok wr"
    and w': "w' = store_bank bk (bw_bank wr) (store_account ak (with_balance a la i (bw_balance wr)) w)"
    by (rule change_position_OkD [OF assms(4,2)]) (use assms(5) in \<open>simp add: map_err_Ok_iff\<close>)
  have la: "active (la ! i)" "bank_pk (la ! i) = bk" "held asset_shares k la = held asset_shares k (balances a)"
      "held liability_shares k la = held liability_shares k (balances a)" for k
    using pos by (simp_all add: position_in_def)
  note wd = fixed_point.withdraw_dust [OF assms(1) position_wrapper_ok [OF assms(2) a pos world_okD(3) [OF assms(2,5)]] assms(3) op,
      unfolded bank_account_wrapper.simps]
  have held: "holding f (w_accounts w' ak) k = held f k (la[i := bw_balance wr])" for f k
    by (simp add: w' store_account_def holding_def with_balance_def)
  have bal: "active (bw_balance wr) \<longrightarrow> bank_pk (bw_balance wr) = bk"
    using wd(1,2) la by simp
  show "no_worse (custody_of w) (custody_of w') ak k" if "k \<noteq> bk"
    using held_position(1) [OF pos bal that] la by (simp add: no_worse_def custody_of_def held) (simp add: holding_def a)
  have "d = liability_shares (bw_balance wr) - liability_shares (la ! i)"
    using held_position(2) [OF pos bal] la wd(1,2)
    by (simp add: d_def custody_of_def held) (simp add: holding_def a share_of_def)
  with wd(3,4) show "0 \<le> d" "d * liability_share_value b < ZERO_AMOUNT_THRESHOLD * SCALE" by simp_all
qed

lemma accounting_step:
  assumes "fixed_point (rt_fx rt)" and "world_ok w" and "0 \<le> amount" and "0 \<le> ql" and "0 \<le> qf"
    and "liquidation_accounting rt c m amount ql qf fee w = Ok w'"
    and "w_banks w (liq_asset_bank c) = Some b" and "liq_asset_bank c \<noteq> liq_liab_bank c"
    and "liq_liquidator_marginfi_account c \<noteq> liq_liquidatee_marginfi_account c"
  defines "le \<equiv> liq_liquidatee_marginfi_account c" and "ab \<equiv> liq_asset_bank c"
  shows "bk \<noteq> ab \<Longrightarrow> no_worse (custody_of w) (custody_of w') le bk"
    and "\<exists>d \<ge> 0. cu_debts (custody_of w') le ab - cu_debts (custody_of w) le ab \<le> d \<and>
      d * liability_share_value b < ZERO_AMOUNT_THRESHOLD * SCALE"
proof -
  let ?lq = "liq_liquidator_marginfi_account c"
  obtain w1 w2 w3 w4 b4 x l where
    1: "change_position (rt_fx rt) (now rt) True Liabilities ?lq (liq_liab_bank c)
       (\<lambda>wr. decrease_balance_in_liquidation (rt_fx rt) wr ql (now rt)) w = Ok w1" and ok1: "world_ok w1"
    and 2: "change_position (rt_fx rt) (now rt) False Assets le ab
       (\<lambda>wr. map_err (withdraw (rt_fx rt) wr amount (now rt)) IllegalLiquidation) w1 = Ok w2"
    and 3: "change_position (rt_fx rt) (now rt) True Assets ?lq ab
       (\<lambda>wr. increase_balance_in_liquidation (rt_fx rt) wr amount (now rt)) w2 = Ok w3" and ok3: "world_ok w3"
    and 4: "change_position (rt_fx rt) (now rt) True Liabilities le (liq_liab_bank c)
       (\<lambda>wr. increase_balance (rt_fx rt) wr qf (now rt)) w3 = Ok w4"
    and w': "w' = (store_bank (liq_liab_bank c) (b4\<lparr>collected_insurance_fees_outstanding := x\<rparr>) w4)\<lparr>w_ledger := l\<rparr>"
    unfolding le_def ab_def by (rule liquidation_legs [OF assms(1-6)])
  have le: "w_accounts w1 le = w_accounts w le" "w_accounts w3 le = w_accounts w2 le" and b: "w_banks w1 ab = Some b"
    using change_position_others [OF 1] change_position_others(1) [OF 3] assms(7-9) by (simp_all add: le_def ab_def)
  note leg2 = change_position_withdraw [OF assms(1) ok1 assms(3) 2 b]
  have leg4: "no_worse (custody_of w3) (custody_of w4) le k" for k
    by (rule change_position_favours [OF ok3 4])
      (auto simp: increase_balance_def intro: fixed_point.increase_favours [OF assms(1) _ assms(5)])
  have eq: "custody_of w' = custody_of w4"
    by (rule custody_of_accounts) (simp add: w')
  show "no_worse (custody_of w) (custody_of w') le bk" if "bk \<noteq> ab"
    using leg2(1) [OF that] leg4 [of bk] unfolding eq by (auto simp: no_worse_def custody_of_def le)
  show "\<exists>d \<ge> 0. cu_debts (custody_of w') le ab - cu_debts (custody_of w) le ab \<le> d \<and>
      d * liability_share_value b < ZERO_AMOUNT_THRESHOLD * SCALE"
    unfolding eq by (rule exI [of _ "cu_debts (custody_of w2) le ab - cu_debts (custody_of w1) le ab"])
      (use leg2(2,3) leg4 [of ab] in \<open>auto simp: no_worse_def custody_of_def le\<close>)
qed

lemma liquidation_step:
  assumes "fixed_point (rt_fx rt)" and "world_ok w" and "lending_account_liquidate rt w c ais asset_amount = Ok w'"
  shows "custody_step (grounds_of rt (LendingAccountLiquidate c ais asset_amount) w, {liq_signer c}) (custody_of w) (custody_of w')"
proof (rule liquidate_OkD [OF assms(3)])
  fix g ab0 lb0 ab lb lq0 le m rest pos re0 pre amount ap lp ql qf fee
  let ?lq = "liq_liquidator_marginfi_account c" and ?le = "liq_liquidatee_marginfi_account c"
  let ?ab = "liq_asset_bank c" and ?lb = "liq_liab_bank c"
  let ?w1 = "store_bank ?lb lb (store_bank ?ab ab w)"
  assume ctx: "w_banks w ?ab = Some ab0" "w_banks w ?lb = Some lb0" "?ab \<noteq> ?lb"
      "w_accounts w ?lq = Some lq0" "liq_signer c = ma_authority lq0" "w_accounts w ?le = Some le"
    and acc: "accrue_interest (rt_fx rt) ab0 (now rt) g = Ok ab" "accrue_interest (rt_fx rt) lb0 (now rt) g = Ok lb"
    and pre: "risk_engine_new (rt_sdk rt) ((w_banks w)(?ab \<mapsto> ab, ?lb \<mapsto> lb)) (rt_clock rt) le (drop pos rest) = Ok re0"
      "check_pre_liquidation_condition_and_get_account_health (rt_fx rt) (rt_sdk rt) ((w_banks w)(?ab \<mapsto> ab, ?lb \<mapsto> lb)) re0 ?lb = Ok pre"
    and mint: "maybe_take_bank_mint (rt_mints rt) ais lb0 (liq_token_program c) = Ok (m, rest)"
    and amount: "from_u64 (rt_fx rt) asset_amount = Ok amount"
    and prices: "liquidation_price rt ab rest 0 Low = Ok ap" "liquidation_price rt lb rest 1 High = Ok lp"
    and q: "liquidation_quantities (rt_fx rt) (mint_decimals ab) (mint_decimals lb) amount ap lp = Ok (ql, qf, fee)"
    and acct: "liquidation_accounting rt c m amount ql qf fee ?w1 = Ok w'"
    and group: "w_groups w (liq_marginfi_group c) = Some g" "bk_group ab0 = liq_marginfi_group c" "bk_group lb0 = liq_marginfi_group c"
  let ?ins = "LendingAccountLiquidate c ais asset_amount"
  note w1 = accrued_world_ok [OF assms(1,2) ctx(1,2) acc]
  have "0 \<le> amount" using amount amount_nonneg by (auto simp: fixed_point.from_u64_law [OF assms(1)])
  note nn = this liquidation_quantities_OkD [OF assms(1) q this liquidation_price_nonneg [OF assms(1) prices(1)]
      liquidation_price_nonneg [OF assms(1) prices(2)]]
  have frame: "x \<noteq> ?lq \<Longrightarrow> x \<noteq> ?le \<Longrightarrow> w_accounts w' x = w_accounts w x" for x
    using liquidate_keeps_world [OF assms] by (simp add: only_changes_def)
  have owners: "cu_owner (custody_of w') = cu_owner (custody_of w)"
    by (simp add: owner_headers liquidate_headers [OF assms(3)])
  have signer: "cu_owner (custody_of w) ?lq = Some (liq_signer c)"
    using ctx(4,5) by (simp add: custody_of_def)
  show ?thesis
  proof (cases "?lq = ?le")
    case True
    show ?thesis
      by (rule custody_step.owner [where ak = ?lq and k = "liq_signer c"])
        (use True frame owners signer in \<open>auto intro: same_holdings_of\<close>)
  next
    case False
    have b1: "w_banks ?w1 ?ab = Some ab" using ctx(3) by (simp add: store_bank_def)
    note legs = accounting_step [OF assms(1) w1 nn(1,3,2) acct b1 ctx(3) False]
    have same: "custody_of ?w1 = custody_of w" by (rule custody_of_accounts) simp
    have seen: "banks_seen rt ?ins w = (w_banks w)(?ab \<mapsto> ab, ?lb \<mapsto> lb)"
      using ctx(1,2) acc group by (auto simp: banks_seen_def accrued_def fun_eq_iff)
    obtain n where "rest = drop n ais" using bank_mint_rest [OF mint] ..
    then have tail: "drop pos rest = drop (pos + n) (evidence ?ins)" by simp
    have "unhealthy (grounds_of rt ?ins w) ?le"
      using ctx(6) pre_liquidation_OkD [OF pre] unfolding grounds_of_def grounds.simps seen tail by blast
    moreover have "dust (grounds_of rt ?ins w) ?ab (cu_debts (custody_of w') ?le ?ab - cu_debts (custody_of w) ?le ?ab)"
    proof -
      obtain d where d: "0 \<le> d" "cu_debts (custody_of w') ?le ?ab - cu_debts (custody_of w) ?le ?ab \<le> d"
          "d * liability_share_value ab < ZERO_AMOUNT_THRESHOLD * SCALE"
        using legs(2) unfolding same by blast
      have b0: "bank_ok ab0" using world_okD(3) [OF assms(2) ctx(1)] by (simp add: backs_def)
      have lsv: "0 < liability_share_value ab0" "liability_share_value ab0 \<le> liability_share_value ab"
        using fixed_point.accrue_interest_frame [OF assms(1) b0 acc(1)] b0 by (auto simp: bank_ok_def)
      have "(cu_debts (custody_of w') ?le ?ab - cu_debts (custody_of w) ?le ?ab) * liability_share_value ab0 \<le> d * liability_share_value ab0"
        using d(2) lsv(1) by (intro mult_right_mono) simp_all
      also have "\<dots> \<le> d * liability_share_value ab" using d(1) lsv(2) by (rule mult_left_mono [rotated])
      also have "\<dots> < ZERO_AMOUNT_THRESHOLD * SCALE" by (rule d(3))
      finally show ?thesis using ctx(1) by (simp add: grounds_of_def)
    qed
    ultimately show ?thesis
      using legs(1) [unfolded same] owners frame signer
      by (intro custody_step.seized [where lq = ?lq and k = "liq_signer c" and le = ?le and ab = ?ab])
        (auto intro: same_holdings_of)
  qed
qed

lemma instruction_refines:
  assumes "fixed_point (rt_fx rt)" and "world_ok w" and "process_instruction rt tx w ins = Ok w'" and "admissible w' ins"
  shows "custody_step (grounds_of rt ins w, instruction_signers ins) (custody_of w) (custody_of w')"
proof (cases "administers ins")
  case True
  from custody_of_accounts [OF administers_accounts [OF this assms(3)]] show ?thesis
    by (simp add: custody_step.idle)
next
  case False
  show ?thesis
  proof (cases ins)
    case (LendingPoolHandleBankruptcy c ais)
    with assms(3,4) bankruptcy_step [OF assms(1,2)] show ?thesis
      by (auto split: option.splits)
  qed (use False assms(3) in \<open>auto intro: user_steps flag_steps account_steps settle_emissions_step [OF assms(1,2)]
      liquidation_step [OF assms(1,2)]\<close>)
qed

section \<open>Runs\<close>

text \<open>Runs of a labelled machine, with the label and the state before each step.\<close>

inductive runs :: "('l \<Rightarrow> 's \<Rightarrow> 's \<Rightarrow> bool) \<Rightarrow> 's \<Rightarrow> ('l \<times> 's) list \<Rightarrow> 's \<Rightarrow> bool" for step where
  stop: "runs step s [] s"
| more: "step l s s' \<Longrightarrow> runs step s' trace s'' \<Longrightarrow> runs step s ((l, s) # trace) s''"

text \<open>A machine that refines another under an invariant, step by step and so run by run.\<close>

locale simulation =
  fixes cstep :: "'l \<Rightarrow> 's \<Rightarrow> 's \<Rightarrow> bool" and astep :: "'m \<Rightarrow> 'a \<Rightarrow> 'a \<Rightarrow> bool"
    and label :: "'l \<Rightarrow> 's \<Rightarrow> 'm" and abs :: "'s \<Rightarrow> 'a" and inv :: "'s \<Rightarrow> bool"
  assumes keeps: "inv s \<Longrightarrow> cstep l s s' \<Longrightarrow> inv s'"
    and simulates: "inv s \<Longrightarrow> cstep l s s' \<Longrightarrow> astep (label l s) (abs s) (abs s')"
begin

lemma runs_refine:
  "runs cstep s trace s' \<Longrightarrow> inv s \<Longrightarrow> runs astep (abs s) (map (\<lambda>(l, s). (label l s, abs s)) trace) (abs s')"
proof (induction rule: runs.induct)
  case (more l s s' trace s'')
  from runs.more [OF simulates [OF more.prems more.hyps(1)] more.IH [OF keeps [OF more.prems more.hyps(1)]]]
  show ?case by simp
qed (simp add: runs.stop)

end

text \<open>
  A step of the program: an instruction that succeeds, after tokens have moved as they like, and that is
  one of those the invariant of the protocol admits.
\<close>

fun instruction_step :: "runtime \<times> tx_context \<times> instruction \<Rightarrow> world \<Rightarrow> world \<Rightarrow> bool" where
  "instruction_step (rt, tx, ins) w w' \<longleftrightarrow> fixed_point (rt_fx rt) \<and> admissible w' ins \<and>
     (\<exists>l n. process_instruction rt tx (w\<lparr>w_ledger := l, w_lamports := n\<rparr>) ins = Ok w')"

fun custody_label :: "runtime \<times> tx_context \<times> instruction \<Rightarrow> world \<Rightarrow> grounds \<times> pubkey set" where
  "custody_label (rt, tx, ins) w = (grounds_of rt ins w, instruction_signers ins)"

lemma banks_unseen: "banks_seen rt ins (w\<lparr>w_ledger := l, w_lamports := n\<rparr>) = banks_seen rt ins w"
  by (simp add: banks_seen_def accrued_def fun_eq_iff split: option.split)

lemma tokens_unseen:
  "world_ok (w\<lparr>w_ledger := l, w_lamports := n\<rparr>) = world_ok w" "custody_of (w\<lparr>w_ledger := l, w_lamports := n\<rparr>) = custody_of w"
  "grounds_of rt ins (w\<lparr>w_ledger := l, w_lamports := n\<rparr>) = grounds_of rt ins w"
  by (simp_all add: custody_of_def grounds_of_def banks_unseen)

interpretation custody: simulation instruction_step custody_step custody_label custody_of world_ok
proof
  fix l w w'
  assume w: "world_ok w" and "instruction_step l w w'"
  then obtain rt tx ins x y where l: "l = (rt, tx, ins)" and step: "fixed_point (rt_fx rt)"
      "process_instruction rt tx (w\<lparr>w_ledger := x, w_lamports := y\<rparr>) ins = Ok w'" "admissible w' ins"
    by (cases l) auto
  have ok: "world_ok (w\<lparr>w_ledger := x, w_lamports := y\<rparr>)" using w by (simp add: tokens_unseen)
  show "world_ok w'" by (rule process_instruction_keeps_world [OF step(1) ok step(2,3)])
  show "custody_step (custody_label l w) (custody_of w) (custody_of w')"
    using instruction_refines [OF step(1) ok step(2,3)] by (simp add: l tokens_unseen)
qed

lemma custody_runs_protect:
  assumes "runs custody_step c trace c'" and "cu_owner c ak = Some k"
    and "\<And>G S v. ((G, S), v) \<in> set trace \<Longrightarrow> k \<notin> S \<and> \<not> unhealthy G ak"
  shows "cu_owner c' ak = Some k \<and> no_worse c c' ak bk"
  using assms
proof (induction rule: runs.induct)
  case (more l c c' trace c'')
  obtain G S where l: "l = (G, S)" by fastforce
  have "cu_owner c' ak = Some k \<and> no_worse c c' ak bk"
    using custody_step_protects [OF more.hyps(1) [unfolded l] more.prems(1)] more.prems(2) by (auto simp: l)
  with more.IH more.prems(2) show ?case by (fastforce simp: no_worse_def)
qed (simp add: no_worse_def)

section \<open>Claims\<close>

text \<open>
  C9. The program refines the custody machine. Every run of instructions from a well-formed world is,
  seen through the abstraction, a run of the machine: step by step an account changes its owner or
  its holdings only by a signature of the owner, by a liquidation of an unhealthy account that the
  owner of another account signs, or by the settlement of a bankrupt account. The runs are those in
  which the global fee admin sets a program fee rate between none and all, and in which a
  bankruptcy leaves the bank a deposit share value above the smallest positive one.
\<close>

theorem custody_refinement:
  assumes "world_ok w" and "runs instruction_step w trace w'"
  shows "runs custody_step (custody_of w) (map (\<lambda>(l, v). (custody_label l v, custody_of v)) trace) (custody_of w')"
  by (rule custody.runs_refine [OF assms(2,1)])

text \<open>
  C2. Custody of deposits. Over any run of instructions, of any users, admins, liquidators and foreign
  programs, in which the owner of an account signs none and the account is unhealthy at none, the
  account stays with its owner, its deposits in no bank fall and its debts in no bank rise, in
  shares. An account is unhealthy at an instruction when it owes something and its maintenance health
  is at most zero, computed at the prices in the accounts of the instruction over the stored banks;
  where the instruction is a liquidation, its two banks have accrued their interest with the fees of
  their own group. The runs are those in which the global fee admin sets a program fee rate between
  none and all, and in which a bankruptcy leaves the bank a deposit share value above the smallest
  positive one.
\<close>

theorem owner_protected:
  assumes "world_ok w" and "runs instruction_step w trace w'" and "w_accounts w ak = Some a"
    and "\<forall>rt tx ins v. ((rt, tx, ins), v) \<in> set trace \<longrightarrow>
      ma_authority a \<notin> instruction_signers ins \<and> \<not> unhealthy (grounds_of rt ins v) ak"
  shows "\<exists>a'. w_accounts w' ak = Some a' \<and> ma_authority a' = ma_authority a \<and>
    (\<forall>bk. held asset_shares bk (balances a) \<le> held asset_shares bk (balances a') \<and>
          held liability_shares bk (balances a') \<le> held liability_shares bk (balances a))"
proof -
  let ?trace = "map (\<lambda>(l, v). (custody_label l v, custody_of v)) trace"
  have clear: "ma_authority a \<notin> S \<and> \<not> unhealthy G ak" if "((G, S), c) \<in> set ?trace" for G S c
    using that assms(4) by (auto 0 3)
  have owner: "cu_owner (custody_of w) ak = Some (ma_authority a)"
    using assms(3) by (simp add: custody_of_def)
  have safe: "cu_owner (custody_of w') ak = Some (ma_authority a) \<and> no_worse (custody_of w) (custody_of w') ak bk" for bk
    by (rule custody_runs_protect [OF custody.runs_refine [OF assms(2,1)] owner clear])
  then obtain a' where a': "w_accounts w' ak = Some a'" "ma_authority a' = ma_authority a"
    by (auto simp: custody_of_def)
  with safe assms(3) show ?thesis
    by (auto simp: custody_of_def no_worse_def holding_def)
qed

definition example_deposit :: instruction where
  "example_deposit = LendingAccountDeposit \<lparr>ctx_marginfi_group = 2, ctx_marginfi_account = 61, ctx_signer = 71, ctx_bank = 51,
     ctx_signer_token_account = 5, ctx_deposit_vault = 41, ctx_deposit_token_program = 1\<rparr> [] 1000"

lemma example_deposit_runs:
  "\<exists>w'. runs instruction_step example_world [((example_runtime, example_tx, example_deposit), example_world)] w'"
proof -
  have "is_ok (process_instruction example_runtime example_tx example_world example_deposit)"
    by code_simp
  then obtain w' where run: "process_instruction example_runtime example_tx example_world example_deposit = Ok w'"
    by (auto simp: is_ok_iff)
  have "fixed_point (rt_fx example_runtime)" "admissible w' example_deposit"
    using reference.fixed_point_axioms by (simp_all add: example_runtime_def example_deposit_def)
  moreover have "example_world\<lparr>w_ledger := w_ledger example_world, w_lamports := w_lamports example_world\<rparr> = example_world"
    by simp
  ultimately have "instruction_step (example_runtime, example_tx, example_deposit) example_world w'"
    unfolding instruction_step.simps using run by metis
  then have "runs instruction_step example_world [((example_runtime, example_tx, example_deposit), example_world)] w'"
    by (rule runs.more) (rule runs.stop)
  then show ?thesis ..
qed

theorem custody_refinement_witness:
  "\<exists>trace w'. runs instruction_step example_world trace w' \<and> trace \<noteq> [] \<and>
     runs custody_step (custody_of example_world) (map (\<lambda>(l, v). (custody_label l v, custody_of v)) trace) (custody_of w')"
  using example_deposit_runs custody_refinement [OF example_world_ok] by blast

theorem owner_protected_witness:
  "\<exists>trace w' a'. runs instruction_step example_world trace w' \<and> trace \<noteq> [] \<and> w_accounts w' 62 = Some a' \<and>
     ma_authority a' = 72 \<and> held asset_shares 51 (balances wealthy_holder) \<le> held asset_shares 51 (balances a')"
proof -
  obtain w' where run: "runs instruction_step example_world [((example_runtime, example_tx, example_deposit), example_world)] w'"
    using example_deposit_runs ..
  have a: "w_accounts example_world 62 = Some wealthy_holder" "ma_authority wealthy_holder = 72"
    by (simp_all add: example_world_def wealthy_holder_def example_holder_def)
  have "\<not> owes wealthy_holder bk" for bk
    by (auto simp: owes_def wealthy_holder_def example_holder_def deposit_of_def balance_is_empty_def
        empty_deactivated_def EMPTY_BALANCE_THRESHOLD_def ZERO_def)
  then have "\<not> unhealthy (grounds_of example_runtime ins example_world) 62" for ins
    using a(1) by (simp add: grounds_of_def)
  then have clear: "\<forall>rt tx ins v. ((rt, tx, ins), v) \<in> set [((example_runtime, example_tx, example_deposit), example_world)] \<longrightarrow>
      ma_authority wealthy_holder \<notin> instruction_signers ins \<and> \<not> unhealthy (grounds_of rt ins v) 62"
    by (simp add: a(2) example_deposit_def)
  from owner_protected [OF example_world_ok run a(1) clear] run a(2) show ?thesis by auto
qed

end
