(* ===== verification/Liquidity_Incentive.thy ===== *)
theory Liquidity_Incentive
  imports Account_Instructions
begin

text \<open>
  The liquidity incentive program, \<^verbatim>\<open>programs/liquidity-incentive-program\<close>: an admin funds a campaign
  with rewards, users lock deposits of a marginfi bank in it, each in a marginfi account of its own
  that the program controls, and get at least a guaranteed yield when they end them.

  The program calls marginfi: its world holds the world of marginfi. Addresses that belong to this
  program and the creation and closing of token accounts are parameters.
\<close>

section \<open>State\<close>

record campaign =
  cmp_admin :: pubkey
  lockup_period :: u64
  cmp_active :: bool
  max_deposits :: u64
  remaining_capacity :: u64
  max_rewards :: u64
  marginfi_bank_pk :: pubkey

record lip_deposit =
  dep_owner :: pubkey
  dep_amount :: u64
  dep_start_time :: i64
  dep_campaign :: pubkey

record lip_world =
  lw_mfi :: world
  lw_campaigns :: "pubkey \<Rightarrow> campaign option"
  lw_deposits :: "pubkey \<Rightarrow> lip_deposit option"

record lip_runtime =
  lr_rt :: runtime
  lr_find_address :: "string \<Rightarrow> pubkey \<Rightarrow> pubkey \<times> u8"
  lr_init_token_account :: "ledger \<Rightarrow> pubkey \<Rightarrow> ledger option"
  lr_close_token_account :: "ledger \<Rightarrow> pubkey \<Rightarrow> ledger option"

definition CAMPAIGN_SEED :: string where "CAMPAIGN_SEED = ''campaign''"
definition CAMPAIGN_AUTH_SEED :: string where "CAMPAIGN_AUTH_SEED = ''campaign_auth''"
definition DEPOSIT_MFI_AUTH_SIGNER_SEED :: string where "DEPOSIT_MFI_AUTH_SIGNER_SEED = ''deposit_mfi_auth''"
definition TEMP_TOKEN_ACCOUNT_AUTH_SEED :: string where "TEMP_TOKEN_ACCOUNT_AUTH_SEED = ''ephemeral_token_account_auth''"
definition MARGINFI_ACCOUNT_SEED :: string where "MARGINFI_ACCOUNT_SEED = ''marginfi_account''"

section \<open>Accounts\<close>

record create_campaign_accounts =
  cc_campaign :: pubkey
  cc_campaign_reward_vault :: pubkey
  cc_campaign_reward_vault_authority :: pubkey
  cc_asset_mint :: account_info
  cc_marginfi_bank :: pubkey
  cc_admin :: pubkey
  cc_funding_account :: pubkey
  cc_token_program :: pubkey

record create_deposit_accounts =
  cd_campaign :: pubkey
  cd_signer :: pubkey
  cd_deposit :: pubkey
  cd_mfi_pda_signer :: pubkey
  cd_funding_account :: pubkey
  cd_temp_token_account :: pubkey
  cd_asset_mint :: account_info
  cd_marginfi_group :: pubkey
  cd_marginfi_bank :: pubkey
  cd_marginfi_account :: pubkey
  cd_marginfi_bank_vault :: pubkey
  cd_token_program :: pubkey

record end_deposit_accounts =
  ed_campaign :: pubkey
  ed_campaign_reward_vault :: pubkey
  ed_campaign_reward_vault_authority :: pubkey
  ed_signer :: pubkey
  ed_deposit :: pubkey
  ed_mfi_pda_signer :: pubkey
  ed_temp_token_account :: pubkey
  ed_temp_token_account_authority :: pubkey
  ed_destination_account :: pubkey
  ed_asset_mint :: account_info
  ed_marginfi_account :: pubkey
  ed_marginfi_group :: pubkey
  ed_marginfi_bank :: pubkey
  ed_marginfi_bank_vault :: pubkey
  ed_marginfi_bank_vault_authority :: pubkey
  ed_token_program :: pubkey

text \<open>What the constraints share: new accounts, derived addresses, the mint of a bank.\<close>

definition lip_unused :: "lip_world \<Rightarrow> pubkey \<Rightarrow> bool" where
  "lip_unused lw pk \<longleftrightarrow> lw_campaigns lw pk = None \<and> lw_deposits lw pk = None \<and> unused (lw_mfi lw) pk"

definition require_derived :: "lip_runtime \<Rightarrow> string \<Rightarrow> pubkey \<Rightarrow> pubkey \<Rightarrow> unit result" where
  "require_derived lr seed key pk = require (fst (lr_find_address lr seed key) = pk) ConstraintSeeds"

definition require_mint :: "lip_runtime \<Rightarrow> bank \<Rightarrow> account_info \<Rightarrow> unit result" where
  "require_mint lr b m =
     (bind (require (mint_parses (rt_mints (lr_rt lr)) m) AccountNotLoadable) (\<lambda>_.
      require (ai_key m = mint b) ConstraintAddress))"

definition init_token_account :: "lip_runtime \<Rightarrow> ledger \<Rightarrow> pubkey \<Rightarrow> ledger result" where
  "init_token_account lr l pk = ok_or (lr_init_token_account lr l pk) (Anchor CallFailed)"

definition close_token_account :: "lip_runtime \<Rightarrow> ledger \<Rightarrow> pubkey \<Rightarrow> ledger result" where
  "close_token_account lr l pk = ok_or (lr_close_token_account lr l pk) (Anchor CallFailed)"

definition lip_transfer :: "lip_runtime \<Rightarrow> ledger \<Rightarrow> pubkey \<Rightarrow> pubkey \<Rightarrow> pubkey \<Rightarrow> account_info \<Rightarrow> u64 \<Rightarrow> ledger result" where
  "lip_transfer lr l src dst authority m amount =
     ok_or (token_transfer (rt_tk (lr_rt lr)) l src dst authority (Some (ai_key m)) amount) (Anchor CallFailed)"

section \<open>Creating a campaign\<close>

definition create_campaign ::
    "lip_runtime \<Rightarrow> lip_world \<Rightarrow> create_campaign_accounts \<Rightarrow> u64 \<Rightarrow> u64 \<Rightarrow> u64 \<Rightarrow> lip_world result" where
  "create_campaign lr lw c lockup deposits_limit rewards =
     (let w = lw_mfi lw; vault = cc_campaign_reward_vault c in
      bind (require (lip_unused lw (cc_campaign c)) CallFailed) (\<lambda>_.
      bind (require_derived lr CAMPAIGN_SEED (cc_campaign c) vault) (\<lambda>_.
      bind (init_token_account lr (w_ledger w) vault) (\<lambda>ledger0.
      bind (require_derived lr CAMPAIGN_AUTH_SEED (cc_campaign c) (cc_campaign_reward_vault_authority c)) (\<lambda>_.
      bind (load_bank_at w (cc_marginfi_bank c)) (\<lambda>b.
      bind (require_mint lr b (cc_asset_mint c)) (\<lambda>_.
      bind (require_token_program (lr_rt lr) (cc_token_program c)) (\<lambda>_.
      bind (require (0 < deposits_limit) RequireViolated) (\<lambda>_.
      bind (lip_transfer lr ledger0 (cc_funding_account c) vault (cc_admin c) (cc_asset_mint c) rewards) (\<lambda>ledger1.
      Ok (lw\<lparr>lw_mfi := w\<lparr>w_ledger := ledger1\<rparr>,
             lw_campaigns := (lw_campaigns lw)(cc_campaign c \<mapsto>
               \<lparr>cmp_admin = cc_admin c, lockup_period = lockup, cmp_active = True, max_deposits = deposits_limit,
                remaining_capacity = deposits_limit, max_rewards = ledger1 vault, marginfi_bank_pk = cc_marginfi_bank c\<rparr>)\<rparr>)))))))))))"

section \<open>Creating a deposit\<close>

definition create_deposit_constraints ::
    "lip_runtime \<Rightarrow> lip_world \<Rightarrow> create_deposit_accounts \<Rightarrow> (campaign \<times> ledger) result" where
  "create_deposit_constraints lr lw c =
     (bind (ok_or (lw_campaigns lw (cd_campaign c)) (Anchor AccountNotLoadable)) (\<lambda>cmp.
      bind (require (lip_unused lw (cd_deposit c)) CallFailed) (\<lambda>_.
      bind (require_derived lr DEPOSIT_MFI_AUTH_SIGNER_SEED (cd_deposit c) (cd_mfi_pda_signer c)) (\<lambda>_.
      bind (init_token_account lr (w_ledger (lw_mfi lw)) (cd_temp_token_account c)) (\<lambda>ledger0.
      bind (load_bank_at (lw_mfi lw) (cd_marginfi_bank c)) (\<lambda>b.
      bind (require_mint lr b (cd_asset_mint c)) (\<lambda>_.
      bind (require (cd_marginfi_bank c = marginfi_bank_pk cmp) ConstraintAddress) (\<lambda>_.
      bind (require_derived lr MARGINFI_ACCOUNT_SEED (cd_deposit c) (cd_marginfi_account c)) (\<lambda>_.
      bind (require_token_program (lr_rt lr) (cd_token_program c)) (\<lambda>_.
      Ok (cmp, ledger0)))))))))))"

definition create_deposit ::
    "lip_runtime \<Rightarrow> lip_world \<Rightarrow> create_deposit_accounts \<Rightarrow> account_info list \<Rightarrow> u64 \<Rightarrow> lip_world result" where
  "create_deposit lr lw c remaining_accounts amount =
     (let rt = lr_rt lr in
      bind (create_deposit_constraints lr lw c) (\<lambda>(cmp, ledger0).
      bind (if cmp_active cmp then Ok () else Err (Lip CampaignNotActive)) (\<lambda>_.
      bind (if amount \<le> remaining_capacity cmp then Ok () else Err (Lip DepositAmountTooLarge)) (\<lambda>_.
      bind (require (0 < amount) RequireViolated) (\<lambda>_.
      bind (lip_transfer lr ledger0 (cd_funding_account c) (cd_temp_token_account c) (cd_signer c) (cd_asset_mint c) amount) (\<lambda>ledger1.
      bind (initialize_account ((lw_mfi lw)\<lparr>w_ledger := ledger1\<rparr>)
              \<lparr>ctx_init_marginfi_group = cd_marginfi_group c, ctx_init_marginfi_account = cd_marginfi_account c,
               ctx_init_authority = cd_mfi_pda_signer c\<rparr>) (\<lambda>w1.
      bind (nonzero_fee (rt_mints rt) (cd_asset_mint c) (epoch (rt_clock rt))) (\<lambda>fee.
      bind (require (\<not> fee) InvalidAccountData) (\<lambda>_.
      bind (lending_account_deposit rt w1
              \<lparr>ctx_marginfi_group = cd_marginfi_group c, ctx_marginfi_account = cd_marginfi_account c,
               ctx_signer = cd_mfi_pda_signer c, ctx_bank = cd_marginfi_bank c, ctx_signer_token_account = cd_temp_token_account c,
               ctx_deposit_vault = cd_marginfi_bank_vault c, ctx_deposit_token_program = cd_token_program c\<rparr>
              remaining_accounts amount) (\<lambda>w2.
      bind (close_token_account lr (w_ledger w2) (cd_temp_token_account c)) (\<lambda>ledger2.
      bind (unwrap (checked_u64 (uint (remaining_capacity cmp) - uint amount))) (\<lambda>capacity.
      Ok (lw\<lparr>lw_mfi := w2\<lparr>w_ledger := ledger2\<rparr>,
             lw_deposits := (lw_deposits lw)(cd_deposit c \<mapsto>
               \<lparr>dep_owner = cd_signer c, dep_amount = amount, dep_start_time = now rt, dep_campaign = cd_campaign c\<rparr>),
             lw_campaigns := (lw_campaigns lw)(cd_campaign c \<mapsto> cmp\<lparr>remaining_capacity := capacity\<rparr>)\<rparr>)))))))))))))"

section \<open>Ending a deposit\<close>

definition end_deposit_constraints ::
    "lip_runtime \<Rightarrow> lip_world \<Rightarrow> end_deposit_accounts \<Rightarrow> (lip_deposit \<times> campaign \<times> ledger) result" where
  "end_deposit_constraints lr lw c =
     (bind (ok_or (lw_deposits lw (ed_deposit c)) (Anchor AccountNotLoadable)) (\<lambda>d.
      bind (ok_or (lw_campaigns lw (ed_campaign c)) (Anchor AccountNotLoadable)) (\<lambda>cmp.
      bind (require (ed_campaign c = dep_campaign d) ConstraintAddress) (\<lambda>_.
      bind (require_derived lr CAMPAIGN_SEED (ed_campaign c) (ed_campaign_reward_vault c)) (\<lambda>_.
      bind (require_derived lr CAMPAIGN_AUTH_SEED (ed_campaign c) (ed_campaign_reward_vault_authority c)) (\<lambda>_.
      bind (require (ed_signer c = dep_owner d) ConstraintAddress) (\<lambda>_.
      bind (require_derived lr DEPOSIT_MFI_AUTH_SIGNER_SEED (ed_deposit c) (ed_mfi_pda_signer c)) (\<lambda>_.
      bind (init_token_account lr (w_ledger (lw_mfi lw)) (ed_temp_token_account c)) (\<lambda>ledger0.
      bind (require_derived lr TEMP_TOKEN_ACCOUNT_AUTH_SEED (ed_deposit c) (ed_temp_token_account_authority c)) (\<lambda>_.
      bind (load_bank_at (lw_mfi lw) (ed_marginfi_bank c)) (\<lambda>b.
      bind (require_mint lr b (ed_asset_mint c)) (\<lambda>_.
      bind (require_derived lr MARGINFI_ACCOUNT_SEED (ed_deposit c) (ed_marginfi_account c)) (\<lambda>_.
      bind (require (ed_marginfi_bank c = marginfi_bank_pk cmp) ConstraintAddress) (\<lambda>_.
      bind (require_token_program (lr_rt lr) (ed_token_program c)) (\<lambda>_.
      Ok (d, cmp, ledger0))))))))))))))))"

text \<open>\<^verbatim>\<open>start_time + lockup_period as i64\<close>: the cast wraps, the addition panics on overflow.\<close>

definition maturity :: "lip_deposit \<Rightarrow> campaign \<Rightarrow> i64 result" where
  "maturity d cmp =
     (let t = sint (dep_start_time d) + sint (ucast (lockup_period cmp) :: i64) in
      if - (2 ^ 63) \<le> t \<and> t < 2 ^ 63 then Ok (word_of_int t) else Err Panic)"

definition max_reward_for_deposit :: "fixed_ops \<Rightarrow> campaign \<Rightarrow> u64 \<Rightarrow> u64 result" where
  "max_reward_for_deposit fx cmp amount =
     (bind (from_u64 fx (max_rewards cmp)) (\<lambda>rewards.
      bind (from_u64 fx (max_deposits cmp)) (\<lambda>deposits.
      bind (from_u64 fx amount) (\<lambda>deposit_amount.
      bind (unwrap (checked_div fx deposit_amount deposits)) (\<lambda>part.
      bind (unwrap (checked_mul fx part rewards)) (\<lambda>reward.
      unwrap (checked_to_u64 fx reward)))))))"

text \<open>\<^verbatim>\<open>saturating_sub\<close> on \<^verbatim>\<open>u64\<close>.\<close>

definition saturating_sub_u64 :: "u64 \<Rightarrow> u64 \<Rightarrow> u64" where
  "saturating_sub_u64 a b = (if b \<le> a then a - b else 0)"

definition additional_reward_amount :: "fixed_ops \<Rightarrow> campaign \<Rightarrow> u64 \<Rightarrow> u64 \<Rightarrow> u64 result" where
  "additional_reward_amount fx cmp initial_deposit end_amount =
     (let base_yield = saturating_sub_u64 end_amount initial_deposit in
      bind (max_reward_for_deposit fx cmp initial_deposit) (\<lambda>max_reward.
      Ok (saturating_sub_u64 max_reward base_yield)))"

text \<open>The position is redeemed in full into the temporary token account; what is missing of the guaranteed yield is the top-up.\<close>

definition redeem_deposit ::
    "lip_runtime \<Rightarrow> lip_world \<Rightarrow> end_deposit_accounts \<Rightarrow> account_info list \<Rightarrow> (world \<times> u64) result" where
  "redeem_deposit lr lw c remaining_accounts =
     (let rt = lr_rt lr in
      bind (end_deposit_constraints lr lw c) (\<lambda>(d, cmp, ledger0).
      bind (maturity d cmp) (\<lambda>matures.
      bind (if matures \<le>s now rt then Ok () else Err (Lip DepositNotMature)) (\<lambda>_.
      bind (lending_account_withdraw rt ((lw_mfi lw)\<lparr>w_ledger := ledger0\<rparr>)
              \<lparr>ctx_marginfi_group = ed_marginfi_group c, ctx_marginfi_account = ed_marginfi_account c,
               ctx_signer = ed_mfi_pda_signer c, ctx_bank = ed_marginfi_bank c, ctx_destination_token_account = ed_temp_token_account c,
               ctx_bank_liquidity_vault_authority = ed_marginfi_bank_vault_authority c,
               ctx_bank_liquidity_vault = ed_marginfi_bank_vault c, ctx_token_program = ed_token_program c\<rparr>
              remaining_accounts 0 (Some True)) (\<lambda>w1.
      bind (additional_reward_amount (rt_fx rt) cmp (dep_amount d) (w_ledger w1 (ed_temp_token_account c))) (\<lambda>additional.
      Ok (w1, additional)))))))"

definition end_deposit ::
    "lip_runtime \<Rightarrow> lip_world \<Rightarrow> end_deposit_accounts \<Rightarrow> account_info list \<Rightarrow> lip_world result" where
  "end_deposit lr lw c remaining_accounts =
     (let temp = ed_temp_token_account c in
      bind (redeem_deposit lr lw c remaining_accounts) (\<lambda>(w1, additional).
      bind (if 0 < additional
            then lip_transfer lr (w_ledger w1) (ed_campaign_reward_vault c) temp (ed_campaign_reward_vault_authority c)
                   (ed_asset_mint c) additional
            else Ok (w_ledger w1)) (\<lambda>ledger1.
      bind (lip_transfer lr ledger1 temp (ed_destination_account c) (ed_temp_token_account_authority c) (ed_asset_mint c)
              (ledger1 temp)) (\<lambda>ledger2.
      bind (close_token_account lr ledger2 temp) (\<lambda>ledger3.
      Ok (lw\<lparr>lw_mfi := w1\<lparr>w_ledger := ledger3\<rparr>, lw_deposits := (lw_deposits lw)(ed_deposit c := None)\<rparr>))))))"

section \<open>Rewards\<close>

definition reward_of :: "campaign \<Rightarrow> u64 \<Rightarrow> int" where
  "reward_of cmp amount = uint amount * SCALE div uint (max_deposits cmp) * uint (max_rewards cmp) div SCALE"

text \<open>A deposit within the limit has a reward, and the computation of it does not panic.\<close>

lemma max_reward_for_deposit_Ok:
  assumes "fixed_point fx" and "0 < max_deposits cmp" and "amount \<le> max_deposits cmp"
  shows "max_reward_for_deposit fx cmp amount = Ok (word_of_int (reward_of cmp amount))"
    and "0 \<le> reward_of cmp amount" and "reward_of cmp amount \<le> uint (max_rewards cmp)"
    and "reward_of cmp amount * uint (max_deposits cmp) \<le> uint amount * uint (max_rewards cmp)"
proof -
  define D where "D = uint (max_deposits cmp)"
  define R where "R = uint (max_rewards cmp)"
  define part where "part = uint amount * SCALE div D"
  have D: "0 < D" "uint amount \<le> D" and R: "0 \<le> R" "R < 2 ^ 64"
    using assms(2,3) uint_bounded [of "max_rewards cmp"] by (simp_all add: D_def R_def word_less_def word_le_def)
  have part: "0 \<le> part" "part \<le> SCALE" "part * D \<le> uint amount * SCALE"
    using D quot_le_scale [OF D(2,1)] quot_mult_le [OF D(1), of "uint amount * SCALE"]
    by (simp_all add: part_def pos_imp_zdiv_nonneg_iff)
  have r: "reward_of cmp amount = part * R div SCALE"
    by (simp add: reward_of_def part_def D_def R_def)
  show nn: "0 \<le> reward_of cmp amount" "reward_of cmp amount \<le> uint (max_rewards cmp)"
    using part R mul_floor_le_factor [of R part] by (simp_all add: r R_def)
  have "reward_of cmp amount * D * SCALE \<le> part * R * D"
    using mult_right_mono [OF mul_floor_le [of part R], of D] D(1) by (simp add: r mult.assoc mult.commute mult.left_commute)
  also have "\<dots> \<le> uint amount * SCALE * R"
    using mult_right_mono [OF part(3) R(1)] by (simp add: mult.assoc mult.commute mult.left_commute)
  finally show "reward_of cmp amount * uint (max_deposits cmp) \<le> uint amount * uint (max_rewards cmp)"
    using SCALE_pos(1) by (simp add: D_def R_def mult.assoc mult.commute mult.left_commute)
  have quot: "trunc_div (uint amount * SCALE * SCALE) (D * SCALE) = part"
    using D SCALE_pos(1) by (simp add: trunc_div_nonneg part_def)
  have "fits part" "fits (part * R)"
  proof -
    show "fits part" using part by (auto simp: fits_def SCALE_def)
    have "part * R \<le> SCALE * 2 ^ 64" using part R by (intro mult_mono) simp_all
    moreover have "0 \<le> part * R" using part R by simp
    ultimately show "fits (part * R)" by (auto simp: fits_def SCALE_def)
  qed
  moreover have "from_num fx D = Ok (D * SCALE)" "from_num fx R = Ok (R * SCALE)"
    unfolding D_def R_def by (rule fixed_point.from_u64_law [OF assms(1)])+
  ultimately show "max_reward_for_deposit fx cmp amount = Ok (word_of_int (reward_of cmp amount))"
    using D(1) nn R SCALE_pos(1) quot
    by (simp add: max_reward_for_deposit_def fixed_point.from_u64_law [OF assms(1)] fixed_point.div_law [OF assms(1)]
        fixed_point.mul_law [OF assms(1)] fixed_point.to_u64_law [OF assms(1)] fit_def ok_or_def D_def [symmetric] R_def [symmetric] r)
qed

text \<open>The amount by which a reward tops up a deposit: at least the guaranteed reward, counted from what came back.\<close>

lemma additional_reward_Ok:
  assumes "fixed_point fx" and "0 < max_deposits cmp" and "amount \<le> max_deposits cmp"
  shows "\<exists>n. additional_reward_amount fx cmp amount end_amount = Ok n \<and>
    uint end_amount + uint n = max (uint end_amount) (min (uint end_amount) (uint amount) + reward_of cmp amount)"
proof -
  note r = max_reward_for_deposit_Ok [OF assms]
  have "reward_of cmp amount < 2 ^ 64" using r(3) uint_bounded [of "max_rewards cmp"] by simp
  then have u: "uint (word_of_int (reward_of cmp amount) :: u64) = reward_of cmp amount"
    using r(2) by (simp add: uint_word_of_int)
  have sub: "uint (saturating_sub_u64 x y) = max 0 (uint x - uint y)" for x y :: u64
    by (simp add: saturating_sub_u64_def word_le_def uint_sub_lem [THEN iffD1])
  show ?thesis
    by (auto simp: additional_reward_amount_def r(1) Let_def sub u)
qed

section \<open>The campaigns\<close>

text \<open>
  The deposits of a campaign that are still open, and what is locked in them. \<open>paid\<close> is the sum of the
  top-ups a campaign has paid so far; the accounts do not record it.
\<close>

definition open_deposits :: "lip_world \<Rightarrow> pubkey \<Rightarrow> pubkey set" where
  "open_deposits lw ck = {dk. \<exists>d. lw_deposits lw dk = Some d \<and> dep_campaign d = ck}"

abbreviation locked_in :: "lip_world \<Rightarrow> pubkey \<Rightarrow> u64" where
  "locked_in lw dk \<equiv> dep_amount (the (lw_deposits lw dk))"

definition locked :: "lip_world \<Rightarrow> pubkey \<Rightarrow> int" where
  "locked lw ck = (\<Sum>dk \<in> open_deposits lw ck. uint (locked_in lw dk))"

definition campaign_ok :: "lip_world \<Rightarrow> int \<Rightarrow> pubkey \<Rightarrow> campaign \<Rightarrow> bool" where
  "campaign_ok lw paid ck cmp \<longleftrightarrow> 0 < max_deposits cmp \<and>
     locked lw ck + uint (remaining_capacity cmp) \<le> uint (max_deposits cmp) \<and>
     paid * uint (max_deposits cmp) + (locked lw ck + uint (remaining_capacity cmp)) * uint (max_rewards cmp)
       \<le> uint (max_deposits cmp) * uint (max_rewards cmp)"

definition lip_ok :: "lip_world \<Rightarrow> (pubkey \<Rightarrow> int) \<Rightarrow> bool" where
  "lip_ok lw paid \<longleftrightarrow> finite (dom (lw_deposits lw)) \<and>
     (\<forall>dk d. lw_deposits lw dk = Some d \<longrightarrow> lw_campaigns lw (dep_campaign d) \<noteq> None) \<and>
     (\<forall>ck. lw_campaigns lw ck = None \<longrightarrow> paid ck = 0) \<and>
     (\<forall>ck cmp. lw_campaigns lw ck = Some cmp \<longrightarrow> campaign_ok lw (paid ck) ck cmp)"

lemma finite_open: "finite (dom (lw_deposits lw)) \<Longrightarrow> finite (open_deposits lw ck)"
  by (rule finite_subset [of _ "dom (lw_deposits lw)"]) (auto simp: open_deposits_def)

lemma locked_insert:
  assumes "finite (dom (lw_deposits lw))" and "lw_deposits lw dk = None"
    and "lw_deposits lw' = (lw_deposits lw)(dk \<mapsto> d)"
  shows "locked lw' ck = locked lw ck + (if dep_campaign d = ck then uint (dep_amount d) else 0)"
proof -
  have op: "open_deposits lw' ck = (if dep_campaign d = ck then insert dk (open_deposits lw ck) else open_deposits lw ck)"
    and new: "dk \<notin> open_deposits lw ck"
    using assms(2,3) by (auto simp: open_deposits_def)
  have "(\<Sum>x \<in> open_deposits lw ck. uint (locked_in lw' x)) = locked lw ck"
    unfolding locked_def using new assms(3) by (intro sum.cong) auto
  then show ?thesis
    using new finite_open [OF assms(1), of ck] assms(3) by (simp add: locked_def [of lw'] op)
qed

lemma locked_remove:
  assumes "finite (dom (lw_deposits lw))" and "lw_deposits lw dk = Some d"
    and "lw_deposits lw' = (lw_deposits lw)(dk := None)"
  shows "locked lw' ck = locked lw ck - (if dep_campaign d = ck then uint (dep_amount d) else 0)"
proof -
  have op: "open_deposits lw' ck = open_deposits lw ck - {dk}"
    and was: "dk \<in> open_deposits lw ck \<longleftrightarrow> dep_campaign d = ck"
    using assms(2,3) by (auto simp: open_deposits_def)
  have "locked lw' ck = (\<Sum>x \<in> open_deposits lw ck - {dk}. uint (locked_in lw x))"
    unfolding locked_def op using assms(3) by (intro sum.cong) auto
  then show ?thesis
    using was assms(2) finite_open [OF assms(1), of ck] by (auto simp: locked_def sum_diff1)
qed

lemma locked_same: "lw_deposits lw' = lw_deposits lw \<Longrightarrow> locked lw' = locked lw"
  by (simp add: locked_def open_deposits_def fun_eq_iff)

lemma open_deposit_bounded:
  assumes "lip_ok lw paid" and "lw_deposits lw dk = Some d" and "lw_campaigns lw (dep_campaign d) = Some cmp"
  shows "0 < max_deposits cmp" and "dep_amount d \<le> max_deposits cmp"
proof -
  have ok: "campaign_ok lw (paid (dep_campaign d)) (dep_campaign d) cmp"
    using assms(1,3) by (simp add: lip_ok_def)
  then show "0 < max_deposits cmp" by (simp add: campaign_ok_def)
  have "finite (open_deposits lw (dep_campaign d))" "dk \<in> open_deposits lw (dep_campaign d)"
    using assms(1,2) by (auto simp: lip_ok_def open_deposits_def intro: finite_open [unfolded open_deposits_def])
  then have "uint (locked_in lw dk) \<le> locked lw (dep_campaign d)"
    unfolding locked_def by (intro member_le_sum) simp_all
  also have "\<dots> \<le> uint (max_deposits cmp)"
    using ok uint_ge_0 [of "remaining_capacity cmp"] unfolding campaign_ok_def by linarith
  finally show "dep_amount d \<le> max_deposits cmp"
    using assms(2) by (simp add: word_le_def)
qed

lemma create_campaign_keeps:
  assumes "lip_ok lw paid" and "create_campaign lr lw c lockup deposits_limit rewards = Ok lw'"
  shows "lip_ok lw' paid"
proof -
  obtain cmp where new: "lw_campaigns lw (cc_campaign c) = None" and limit: "0 < deposits_limit"
    and lw': "lw_campaigns lw' = (lw_campaigns lw)(cc_campaign c \<mapsto> cmp)" "lw_deposits lw' = lw_deposits lw"
    and cmp: "max_deposits cmp = deposits_limit" "remaining_capacity cmp = deposits_limit"
    using assms(2) by (auto simp: create_campaign_def Let_def bind_Ok_iff require_Ok_iff lip_unused_def)
  have "open_deposits lw (cc_campaign c) = {}"
    using assms(1) new unfolding lip_ok_def open_deposits_def by fastforce
  then have "locked lw (cc_campaign c) = 0"
    by (simp add: locked_def)
  moreover have "paid (cc_campaign c) = 0"
    using assms(1) new by (simp add: lip_ok_def)
  ultimately show ?thesis
    using assms(1) limit cmp by (auto simp: lip_ok_def campaign_ok_def lw' locked_same [OF lw'(2)])
qed

lemma create_deposit_OkD:
  assumes "create_deposit lr lw c ais amount = Ok lw'"
  obtains cmp where "lw_campaigns lw (cd_campaign c) = Some cmp" and "cmp_active cmp" and "lw_deposits lw (cd_deposit c) = None"
    and "0 < amount" and "amount \<le> remaining_capacity cmp"
    and "lw_deposits lw' = (lw_deposits lw)(cd_deposit c \<mapsto>
           \<lparr>dep_owner = cd_signer c, dep_amount = amount, dep_start_time = now (lr_rt lr), dep_campaign = cd_campaign c\<rparr>)"
    and "lw_campaigns lw' = (lw_campaigns lw)(cd_campaign c \<mapsto> cmp\<lparr>remaining_capacity := remaining_capacity cmp - amount\<rparr>)"
  using assms
  by (auto simp: create_deposit_def create_deposit_constraints_def Let_def bind_Ok_iff require_Ok_iff lip_unused_def ok_or_Ok_iff
      checked_u64_def word_of_int_minus split: if_splits)

lemma create_deposit_keeps:
  assumes "lip_ok lw paid" and "create_deposit lr lw c ais amount = Ok lw'"
  shows "lip_ok lw' paid"
proof (rule create_deposit_OkD [OF assms(2)])
  fix cmp
  assume cmp: "lw_campaigns lw (cd_campaign c) = Some cmp" and new: "lw_deposits lw (cd_deposit c) = None"
    and amount: "0 < amount" "amount \<le> remaining_capacity cmp"
    and deps: "lw_deposits lw' = (lw_deposits lw)(cd_deposit c \<mapsto>
           \<lparr>dep_owner = cd_signer c, dep_amount = amount, dep_start_time = now (lr_rt lr), dep_campaign = cd_campaign c\<rparr>)"
    and cmps: "lw_campaigns lw' = (lw_campaigns lw)(cd_campaign c \<mapsto> cmp\<lparr>remaining_capacity := remaining_capacity cmp - amount\<rparr>)"
  have fin: "finite (dom (lw_deposits lw))" using assms(1) by (simp add: lip_ok_def)
  have "uint (remaining_capacity cmp - amount) = uint (remaining_capacity cmp) - uint amount"
    using amount(2) by (simp add: uint_sub_lem word_le_def)
  then show ?thesis
    using assms(1) cmp amount(1) locked_insert [OF fin new deps]
    by (auto simp: lip_ok_def campaign_ok_def deps cmps)
qed

lemma redeem_deposit_OkD:
  assumes "redeem_deposit lr lw c ais = Ok (w1, additional)"
  obtains d cmp t where "lw_deposits lw (ed_deposit c) = Some d" and "lw_campaigns lw (dep_campaign d) = Some cmp"
    and "ed_campaign c = dep_campaign d" and "ed_signer c = dep_owner d" and "maturity d cmp = Ok t" and "t \<le>s now (lr_rt lr)"
    and "additional_reward_amount (rt_fx (lr_rt lr)) cmp (dep_amount d) (w_ledger w1 (ed_temp_token_account c)) = Ok additional"
  using assms
  by (auto simp: redeem_deposit_def end_deposit_constraints_def Let_def bind_Ok_iff require_Ok_iff ok_or_Ok_iff split: if_splits)

lemma end_deposit_OkD:
  assumes "end_deposit lr lw c ais = Ok lw'"
  obtains w1 additional where "redeem_deposit lr lw c ais = Ok (w1, additional)"
    and "lw_deposits lw' = (lw_deposits lw)(ed_deposit c := None)" and "lw_campaigns lw' = lw_campaigns lw"
  using assms by (auto simp: end_deposit_def Let_def bind_Ok_iff)

lemma end_deposit_keeps:
  assumes "fixed_point (rt_fx (lr_rt lr))" and "lip_ok lw paid" and "end_deposit lr lw c ais = Ok lw'"
    and "redeem_deposit lr lw c ais = Ok (w1, additional)"
  shows "lip_ok lw' (paid(ed_campaign c := paid (ed_campaign c) + uint additional))"
proof (rule end_deposit_OkD [OF assms(3)], rule redeem_deposit_OkD [OF assms(4)])
  fix d cmp
  assume deps: "lw_deposits lw' = (lw_deposits lw)(ed_deposit c := None)" and cmps: "lw_campaigns lw' = lw_campaigns lw"
    and d: "lw_deposits lw (ed_deposit c) = Some d" and cmp: "lw_campaigns lw (dep_campaign d) = Some cmp"
    and ck: "ed_campaign c = dep_campaign d"
    and add: "additional_reward_amount (rt_fx (lr_rt lr)) cmp (dep_amount d) (w_ledger w1 (ed_temp_token_account c)) = Ok additional"
  note bounded = open_deposit_bounded [OF assms(2) d cmp]
  have fin: "finite (dom (lw_deposits lw))" using assms(2) by (simp add: lip_ok_def)
  have "uint additional \<le> reward_of cmp (dep_amount d)"
    using additional_reward_Ok [OF assms(1) bounded, of "w_ledger w1 (ed_temp_token_account c)"]
      max_reward_for_deposit_Ok(2) [OF assms(1) bounded] add by auto
  then have "uint additional * uint (max_deposits cmp) \<le> uint (dep_amount d) * uint (max_rewards cmp)"
    using max_reward_for_deposit_Ok(4) [OF assms(1) bounded] by (meson mult_right_mono order_trans uint_ge_0)
  moreover have "campaign_ok lw (paid (dep_campaign d)) (dep_campaign d) cmp"
    using assms(2) cmp by (simp add: lip_ok_def)
  moreover obtain a where "uint (dep_amount d) = a" "0 \<le> a" by simp
  ultimately have "campaign_ok lw' (paid (dep_campaign d) + uint additional) (dep_campaign d) cmp"
    by (auto simp: campaign_ok_def locked_remove [OF fin d deps] algebra_simps)
  then show ?thesis
    using assms(2) cmp by (auto simp: lip_ok_def campaign_ok_def deps cmps ck locked_remove [OF fin d deps])
qed

text \<open>
  The runs of the program, from no campaign at all: its three instructions in any order, between
  which marginfi, the token program and everybody else may change the world they share.
\<close>

inductive lip_reachable :: "lip_world \<Rightarrow> (pubkey \<Rightarrow> int) \<Rightarrow> bool" where
  start: "lip_reachable \<lparr>lw_mfi = w, lw_campaigns = Map.empty, lw_deposits = Map.empty\<rparr> (\<lambda>_. 0)"
| others: "lip_reachable lw paid \<Longrightarrow> lip_reachable (lw\<lparr>lw_mfi := w\<rparr>) paid"
| campaign: "lip_reachable lw paid \<Longrightarrow> create_campaign lr lw c lockup deposits_limit rewards = Ok lw' \<Longrightarrow> lip_reachable lw' paid"
| deposit: "lip_reachable lw paid \<Longrightarrow> create_deposit lr lw cd ais amount = Ok lw' \<Longrightarrow> lip_reachable lw' paid"
| ended: "lip_reachable lw paid \<Longrightarrow> fixed_point (rt_fx (lr_rt lr)) \<Longrightarrow> end_deposit lr lw ce ais = Ok lw' \<Longrightarrow>
    redeem_deposit lr lw ce ais = Ok (w1, additional) \<Longrightarrow>
    lip_reachable lw' (paid(ed_campaign ce := paid (ed_campaign ce) + uint additional))"

lemma lip_reachable_ok: "lip_reachable lw paid \<Longrightarrow> lip_ok lw paid"
proof (induction rule: lip_reachable.induct)
  case (others lw paid w)
  then show ?case by (simp add: lip_ok_def campaign_ok_def locked_same [of "lw\<lparr>lw_mfi := w\<rparr>" lw])
next
  case (ended lw paid lr ce ais lw' w1 additional)
  then show ?case by (intro end_deposit_keeps)
qed (simp add: lip_ok_def, (blast intro: create_campaign_keeps create_deposit_keeps)+)

text \<open>
  C6. Campaigns of the liquidity incentive program are solvent: in every reachable state the top-ups a
  campaign has paid and the guaranteed rewards of its open deposits do not exceed the rewards it was funded
  with. The deposits stay within the campaign's limit, and the reward of every open deposit can be
  computed: none of the unwraps of \<^verbatim>\<open>end_deposit\<close> panics on it.
\<close>

theorem campaigns_solvent:
  assumes "lip_reachable lw paid" and "lw_campaigns lw ck = Some cmp" and "fixed_point fx"
  shows "paid ck + (\<Sum>dk \<in> open_deposits lw ck. reward_of cmp (locked_in lw dk)) \<le> uint (max_rewards cmp) \<and>
    locked lw ck + uint (remaining_capacity cmp) \<le> uint (max_deposits cmp) \<and>
    (\<forall>dk. dk \<in> open_deposits lw ck \<longrightarrow>
       max_reward_for_deposit fx cmp (locked_in lw dk) = Ok (word_of_int (reward_of cmp (locked_in lw dk))))"
proof (intro conjI allI impI)
  note ok = lip_reachable_ok [OF assms(1)]
  have cmp: "campaign_ok lw (paid ck) ck cmp" using ok assms(2) by (simp add: lip_ok_def)
  have bounded: "0 < max_deposits cmp" "locked_in lw dk \<le> max_deposits cmp" if "dk \<in> open_deposits lw ck" for dk
    using that open_deposit_bounded [OF ok, of dk _ cmp] assms(2) by (auto simp: open_deposits_def)
  let ?D = "uint (max_deposits cmp)" and ?R = "uint (max_rewards cmp)"
  let ?owed = "\<Sum>dk \<in> open_deposits lw ck. reward_of cmp (locked_in lw dk)"
  have "?owed * ?D \<le> locked lw ck * ?R"
    unfolding sum_distrib_right locked_def
    by (intro sum_mono max_reward_for_deposit_Ok(4) [OF assms(3)] bounded)
  moreover have "paid ck * ?D + (locked lw ck + uint (remaining_capacity cmp)) * ?R \<le> ?D * ?R"
    using cmp by (simp add: campaign_ok_def)
  moreover have "0 \<le> uint (remaining_capacity cmp) * ?R" by simp
  ultimately have "(paid ck + ?owed) * ?D \<le> ?R * ?D"
    unfolding distrib_right mult.commute [of ?R ?D] by linarith
  moreover have "0 < ?D" using cmp by (simp add: campaign_ok_def word_less_def)
  ultimately show "paid ck + ?owed \<le> ?R" by simp
  show "locked lw ck + uint (remaining_capacity cmp) \<le> ?D" using cmp by (simp add: campaign_ok_def)
  show "max_reward_for_deposit fx cmp (locked_in lw dk) = Ok (word_of_int (reward_of cmp (locked_in lw dk)))"
    if "dk \<in> open_deposits lw ck" for dk
    by (rule max_reward_for_deposit_Ok(1) [OF assms(3) bounded [OF that]])
qed

text \<open>A lockup that fits the signed cast is added to the start; a longer one is read as a negative number.\<close>

lemma sint_uint_64: "sint (w :: 64 word) = (if uint w < 2 ^ 63 then uint w else uint w - 2 ^ 64)"
proof -
  have u: "0 \<le> uint w" "uint w < 2 ^ 64" using uint_bounded [of w] by auto
  have "(uint w + 2 ^ 63) mod 2 ^ 64 = uint w - 2 ^ 63" if "\<not> uint w < 2 ^ 63"
    using that u mod_pos_pos_trivial [of "uint w - 2 ^ 63" "2 ^ 64"] mod_add_self2 [of "uint w - 2 ^ 63" "2 ^ 64"]
    by (simp add: add.commute)
  then show ?thesis
    using u unfolding sint_uint by (simp add: signed_take_bit_eq_take_bit_shift take_bit_eq_mod)
qed

lemma maturity_Ok:
  assumes "maturity d cmp = Ok t"
  shows "lockup_period cmp < 2 ^ 63 \<Longrightarrow> sint t = sint (dep_start_time d) + uint (lockup_period cmp)"
    and "\<not> lockup_period cmp < 2 ^ 63 \<Longrightarrow> sint t = sint (dep_start_time d) + uint (lockup_period cmp) - 2 ^ 64"
proof -
  define z where "z = sint (dep_start_time d) + sint (ucast (lockup_period cmp) :: i64)"
  have "sint (word_of_int z :: i64) = z" if "- (2 ^ 63) \<le> z" "z < 2 ^ 63"
    using that by (simp add: sint_sbintrunc' signed_take_bit_int_eq_self)
  then have "sint t = z"
    using assms unfolding maturity_def Let_def z_def [symmetric] by (auto split: if_splits)
  then have t: "sint t = sint (dep_start_time d) + sint (lockup_period cmp)"
    by (simp add: z_def)
  show "lockup_period cmp < 2 ^ 63 \<Longrightarrow> sint t = sint (dep_start_time d) + uint (lockup_period cmp)"
    and "\<not> lockup_period cmp < 2 ^ 63 \<Longrightarrow> sint t = sint (dep_start_time d) + uint (lockup_period cmp) - 2 ^ 64"
    using t by (simp_all add: sint_uint_64 [of "lockup_period cmp"] word_less_def)
qed

lemma lockup_wraps:
  assumes "maturity d cmp = Ok t" and "2 ^ 63 \<le> lockup_period cmp"
  shows "sint t < sint (dep_start_time d)"
  using maturity_Ok(2) [OF assms(1)] assms(2) uint_bounded [of "lockup_period cmp"] by simp

text \<open>
  What ending a deposit relies on of the token program, for a mint without transfer fees: a transfer between
  different accounts moves exactly the amount, which the source has and the destination can take.
\<close>

definition exact_transfers :: "token_ops \<Rightarrow> bool" where
  "exact_transfers tk \<longleftrightarrow> (\<forall>l src dst authority m n l'. src \<noteq> dst \<longrightarrow> token_transfer tk l src dst authority m n = Some l' \<longrightarrow>
     n \<le> l src \<and> uint (l dst) + uint n < 2 ^ 64 \<and> l' = l(src := l src - n, dst := l dst + n))"

lemma lip_transfer_exact:
  assumes "exact_transfers (rt_tk (lr_rt lr))" and "src \<noteq> dst" and "lip_transfer lr l src dst authority m n = Ok l'"
  shows "uint (l dst) + uint n < 2 ^ 64" and "l' = l(src := l src - n, dst := l dst + n)"
proof -
  have "token_transfer (rt_tk (lr_rt lr)) l src dst authority (Some (ai_key m)) n = Some l'"
    using assms(3) by (simp add: lip_transfer_def ok_or_Ok_iff)
  then show "uint (l dst) + uint n < 2 ^ 64" and "l' = l(src := l src - n, dst := l dst + n)"
    using assms(1,2) unfolding exact_transfers_def by blast+
qed

lemma top_up_exact:
  assumes "exact_transfers (rt_tk (lr_rt lr))" and "vault \<noteq> temp"
    and "(if 0 < n then lip_transfer lr l vault temp authority m n else Ok l) = Ok l1"
  shows "l1 = l(vault := l vault - n, temp := l temp + n)" and "uint (l1 temp) = uint (l temp) + uint n"
proof -
  consider "n = 0" "l1 = l" | "uint (l temp) + uint n < 2 ^ 64" "l1 = l(vault := l vault - n, temp := l temp + n)"
    using assms(3) lip_transfer_exact [OF assms(1,2)] by (cases "n = 0") (auto simp: word_gt_0)
  then have "l1 = l(vault := l vault - n, temp := l temp + n) \<and> uint (l1 temp) = uint (l temp) + uint n"
    by cases (simp_all add: uint_add_lem [THEN iffD1])
  then show "l1 = l(vault := l vault - n, temp := l temp + n)" and "uint (l1 temp) = uint (l temp) + uint n"
    by blast+
qed

text \<open>
  C7. Ending a deposit of the liquidity incentive program pays the guaranteed yield: only the owner ends a
  deposit, and only when the lockup has passed (a lockup below 2^63 seconds); where transfers move exact amounts and the
  temporary account is neither the reward vault nor the destination, if marginfi returns \<open>E\<close> for a deposit of \<open>I\<close>, the destination gets
  the larger of \<open>E\<close> and \<open>min E I\<close> plus the reward of the deposit, what exceeds \<open>E\<close> comes out of the reward
  vault of the deposit's campaign, nothing stays in the temporary account, and the deposit is gone.
\<close>

theorem end_deposit_pays:
  assumes "lip_reachable lw paid" and "fixed_point (rt_fx (lr_rt lr))" and "exact_transfers (rt_tk (lr_rt lr))"
    and "end_deposit lr lw c ais = Ok lw'"
    and "ed_campaign_reward_vault c \<noteq> ed_temp_token_account c" and "ed_destination_account c \<noteq> ed_temp_token_account c"
  shows "\<exists>d cmp w1 additional. lw_deposits lw (ed_deposit c) = Some d \<and> lw_campaigns lw (dep_campaign d) = Some cmp \<and>
    ed_signer c = dep_owner d \<and>
    (lockup_period cmp < 2 ^ 63 \<longrightarrow> sint (dep_start_time d) + uint (lockup_period cmp) \<le> sint (now (lr_rt lr))) \<and>
    ed_campaign_reward_vault c = fst (lr_find_address lr CAMPAIGN_SEED (dep_campaign d)) \<and>
    redeem_deposit lr lw c ais = Ok (w1, additional) \<and>
    (let E = w_ledger w1 (ed_temp_token_account c);
         l1 = (w_ledger w1)(ed_campaign_reward_vault c := w_ledger w1 (ed_campaign_reward_vault c) - additional,
                            ed_temp_token_account c := 0);
         l2 = l1(ed_destination_account c := l1 (ed_destination_account c) + (E + additional)) in
     uint (E + additional) = max (uint E) (min (uint E) (uint (dep_amount d)) + reward_of cmp (dep_amount d)) \<and>
     close_token_account lr l2 (ed_temp_token_account c) = Ok (w_ledger (lw_mfi lw'))) \<and>
    lw_deposits lw' = (lw_deposits lw)(ed_deposit c := None)"
proof -
  let ?temp = "ed_temp_token_account c" and ?vault = "ed_campaign_reward_vault c"
  obtain w1 n l1 l2 where redeem: "redeem_deposit lr lw c ais = Ok (w1, n)"
    and up: "(if 0 < n then lip_transfer lr (w_ledger w1) ?vault ?temp (ed_campaign_reward_vault_authority c) (ed_asset_mint c) n
              else Ok (w_ledger w1)) = Ok l1"
    and out: "lip_transfer lr l1 ?temp (ed_destination_account c) (ed_temp_token_account_authority c) (ed_asset_mint c) (l1 ?temp) = Ok l2"
    and close: "close_token_account lr l2 ?temp = Ok (w_ledger (lw_mfi lw'))"
    and lw': "lw_deposits lw' = (lw_deposits lw)(ed_deposit c := None)"
    using assms(4) by (auto simp: end_deposit_def Let_def bind_Ok_iff)
  obtain d cmp t where d: "lw_deposits lw (ed_deposit c) = Some d" "lw_campaigns lw (dep_campaign d) = Some cmp"
      "ed_signer c = dep_owner d" "maturity d cmp = Ok t" "t \<le>s now (lr_rt lr)"
      "?vault = fst (lr_find_address lr CAMPAIGN_SEED (dep_campaign d))"
    and add: "additional_reward_amount (rt_fx (lr_rt lr)) cmp (dep_amount d) (w_ledger w1 ?temp) = Ok n"
    using redeem
    by (auto simp: redeem_deposit_def end_deposit_constraints_def require_derived_def Let_def bind_Ok_iff require_Ok_iff
        ok_or_Ok_iff split: if_splits)
  note l1 = top_up_exact [OF assms(3,5) up]
  have l2: "l2 = l1(?temp := 0, ed_destination_account c := l1 (ed_destination_account c) + l1 ?temp)"
    using lip_transfer_exact(2) [OF assms(3) assms(6) [symmetric] out] by simp
  have "uint (w_ledger w1 ?temp + n) = uint (w_ledger w1 ?temp) + uint n" using l1 by simp
  also have "\<dots> = max (uint (w_ledger w1 ?temp)) (min (uint (w_ledger w1 ?temp)) (uint (dep_amount d)) + reward_of cmp (dep_amount d))"
    using additional_reward_Ok [OF assms(2) open_deposit_bounded [OF lip_reachable_ok [OF assms(1)] d(1,2)], of "w_ledger w1 ?temp"] add by auto
  finally show ?thesis
    using d redeem close lw' assms(5,6) maturity_Ok [OF d(4)] by (auto simp: Let_def l1(1) l2 word_sle_eq)
qed

section \<open>An example\<close>

definition careful_tokens :: token_ops where
  "careful_tokens = \<lparr>token_transfer = (\<lambda>l src dst authority mint amount.
     if amount \<le> l src \<and> uint (l dst) + uint amount < 2 ^ 64
     then Some (let l' = l(src := l src - amount) in l'(dst := l' dst + amount)) else None)\<rparr>"

definition example_lip :: "i64 \<Rightarrow> lip_runtime" where
  "example_lip t = \<lparr>lr_rt = example_runtime\<lparr>rt_tk := careful_tokens, rt_clock := example_clock\<lparr>unix_timestamp := t\<rparr>\<rparr>,
     lr_find_address = (\<lambda>seed key. (10 * key + (if seed = CAMPAIGN_SEED then 1 else if seed = CAMPAIGN_AUTH_SEED then 2
        else if seed = DEPOSIT_MFI_AUTH_SIGNER_SEED then 3 else if seed = TEMP_TOKEN_ACCOUNT_AUTH_SEED then 4 else 5), 255)),
     lr_init_token_account = (\<lambda>l pk. Some (l(pk := 0))),
     lr_close_token_account = (\<lambda>l pk. if l pk = 0 then Some l else None)\<rparr>"

definition example_asset :: account_info where
  "example_asset = \<lparr>ai_key = 31, ai_owner = 1, ai_data = []\<rparr>"

definition example_campaign :: "lip_world result" where
  "example_campaign =
     bind (create_campaign (example_lip 0) \<lparr>lw_mfi = example_world, lw_campaigns = Map.empty, lw_deposits = Map.empty\<rparr>
             \<lparr>cc_campaign = 100, cc_campaign_reward_vault = 1001, cc_campaign_reward_vault_authority = 1002,
              cc_asset_mint = example_asset, cc_marginfi_bank = 51, cc_admin = 201, cc_funding_account = 202,
              cc_token_program = 1\<rparr> 500 1000000 50000) (\<lambda>lw1.
     create_deposit (example_lip 10) lw1
       \<lparr>cd_campaign = 100, cd_signer = 203, cd_deposit = 110, cd_mfi_pda_signer = 1103, cd_funding_account = 204,
        cd_temp_token_account = 205, cd_asset_mint = example_asset, cd_marginfi_group = 2, cd_marginfi_bank = 51,
        cd_marginfi_account = 1105, cd_marginfi_bank_vault = 41, cd_token_program = 1\<rparr> [] 400000)"

definition example_ending :: end_deposit_accounts where
  "example_ending = \<lparr>ed_campaign = 100, ed_campaign_reward_vault = 1001, ed_campaign_reward_vault_authority = 1002,
     ed_signer = 203, ed_deposit = 110, ed_mfi_pda_signer = 1103, ed_temp_token_account = 206,
     ed_temp_token_account_authority = 1104, ed_destination_account = 207, ed_asset_mint = example_asset,
     ed_marginfi_account = 1105, ed_marginfi_group = 2, ed_marginfi_bank = 51, ed_marginfi_bank_vault = 41,
     ed_marginfi_bank_vault_authority = 44, ed_token_program = 1\<rparr>"

text \<open>A deposit of 400000 under a guarantee of 50000 for 1000000: the reward, rounded down twice, is 19999.\<close>

lemma example_campaign_runs:
  "\<exists>lw. example_campaign = Ok lw \<and> lip_reachable lw (\<lambda>_. 0) \<and>
     map_option dep_amount (lw_deposits lw 110) = Some 400000 \<and> map_option remaining_capacity (lw_campaigns lw 100) = Some 600000"
proof -
  define seen where "seen = (case example_campaign of
     Inr lw \<Rightarrow> (map_option dep_amount (lw_deposits lw 110), map_option remaining_capacity (lw_campaigns lw 100)) | Inl _ \<Rightarrow> (None, None))"
  have "seen = (Some 400000, Some 600000)" unfolding seen_def by code_simp
  then obtain lw where lw: "example_campaign = Ok lw" "map_option dep_amount (lw_deposits lw 110) = Some 400000"
      "map_option remaining_capacity (lw_campaigns lw 100) = Some 600000"
    by (auto simp: seen_def split: sum.splits)
  then have "lip_reachable lw (\<lambda>_. 0)"
    unfolding example_campaign_def bind_Ok_iff by (blast intro: lip_reachable.intros)
  with lw show ?thesis by blast
qed

theorem campaigns_solvent_witness:
  "\<exists>lw cmp. example_campaign = Ok lw \<and> lw_campaigns lw 100 = Some cmp \<and>
     (\<Sum>dk \<in> open_deposits lw 100. reward_of cmp (locked_in lw dk)) \<le> uint (max_rewards cmp) \<and>
     locked lw 100 + 600000 \<le> uint (max_deposits cmp)"
proof -
  obtain lw where lw: "example_campaign = Ok lw" "lip_reachable lw (\<lambda>_. 0)" "map_option remaining_capacity (lw_campaigns lw 100) = Some 600000"
    using example_campaign_runs by blast
  from lw(3) obtain cmp where cmp: "lw_campaigns lw 100 = Some cmp" "remaining_capacity cmp = 600000" by auto
  from campaigns_solvent [OF lw(2) cmp(1) reference.fixed_point_axioms] show ?thesis
    using lw(1) cmp by auto
qed

lemma careful_exact: "exact_transfers careful_tokens"
  by (simp add: exact_transfers_def careful_tokens_def Let_def split: if_splits)

theorem end_deposit_pays_witness:
  "\<exists>lw lw' d. example_campaign = Ok lw \<and> end_deposit (example_lip 1000) lw example_ending [] = Ok lw' \<and>
     lw_deposits lw 110 = Some d \<and> dep_owner d = 203 \<and> lw_deposits lw' 110 = None \<and> w_ledger (lw_mfi lw') 207 = 1000419999"
proof -
  let ?run = "bind example_campaign (\<lambda>lw. end_deposit (example_lip 1000) lw example_ending [])"
  define seen where "seen = (case ?run of Inr lw \<Rightarrow> w_ledger (lw_mfi lw) 207 | Inl _ \<Rightarrow> 0)"
  have "seen = 1000419999" unfolding seen_def by code_simp
  then obtain lw lw' where run: "example_campaign = Ok lw" "end_deposit (example_lip 1000) lw example_ending [] = Ok lw'"
      "w_ledger (lw_mfi lw') 207 = 1000419999"
    by (auto simp: seen_def bind_Ok_iff split: sum.splits)
  have lw: "lip_reachable lw (\<lambda>_. 0)" using example_campaign_runs run(1) by (metis sum.inject(2))
  have fx: "fixed_point (rt_fx (lr_rt (example_lip 1000)))" and tk: "exact_transfers (rt_tk (lr_rt (example_lip 1000)))"
    using reference.fixed_point_axioms careful_exact by (simp_all add: example_lip_def example_runtime_def)
  have "ed_campaign_reward_vault example_ending \<noteq> ed_temp_token_account example_ending"
      "ed_destination_account example_ending \<noteq> ed_temp_token_account example_ending"
    by (simp_all add: example_ending_def)
  from end_deposit_pays [OF lw fx tk run(2) this] run show ?thesis
    by (auto simp: example_ending_def Let_def)
qed

end
