(* ===== verification/Hex.thy ===== *)
theory Hex
  imports Prelude
begin

text \<open>
  The conversion of hexadecimal strings in \<^verbatim>\<open>programs/marginfi/src/utils.rs\<close>. A string is the list of its
  bytes; \<open>chunks\<close> is the iterator of the Rust slices, with a last chunk that may be shorter, and \<open>to_digit16\<close> is
  \<^verbatim>\<open>char::to_digit(16)\<close> on the character of a byte.
\<close>

function chunks :: "nat \<Rightarrow> 'a list \<Rightarrow> 'a list list" where
  "chunks n xs = (if n = 0 \<or> xs = [] then [] else take n xs # chunks n (drop n xs))"
  by pat_completeness auto
termination
  by (relation "measure (length \<circ> snd)") auto

declare chunks.simps [simp del]

definition to_digit16 :: "u8 \<Rightarrow> u8 option" where
  "to_digit16 c =
     (if 48 \<le> c \<and> c \<le> 57 then Some (c - 48)
      else if 97 \<le> c \<and> c \<le> 102 then Some (c - 87)
      else if 65 \<le> c \<and> c \<le> 70 then Some (c - 55)
      else None)"

definition hex_byte :: "u8 list \<Rightarrow> u8 result" where
  "hex_byte chunk =
     (bind (index_at chunk 0) (\<lambda>high.
      bind (index_at chunk 1) (\<lambda>low.
      bind (unwrap (to_digit16 high)) (\<lambda>h.
      bind (unwrap (to_digit16 low)) (\<lambda>l.
      Ok (or (push_bit 4 h) l))))))"

fun collect :: "('a \<Rightarrow> 'b result) \<Rightarrow> 'a list \<Rightarrow> 'b list result" where
  "collect f [] = Ok []"
| "collect f (x # xs) = bind (f x) (\<lambda>y. bind (collect f xs) (\<lambda>ys. Ok (y # ys)))"

definition hex_to_bytes :: "u8 list \<Rightarrow> u8 list result" where
  "hex_to_bytes hex = collect hex_byte (chunks 2 hex)"

section \<open>Which strings are converted\<close>

lemma chunks_2:
  "chunks 2 [] = []" "chunks 2 [a] = [[a]]" "chunks 2 (a # b # xs) = [a, b] # chunks 2 xs"
  by (simp_all add: chunks.simps [of 2 "[]"] chunks.simps [of 2 "[a]"] chunks.simps [of 2 "a # b # xs"])

lemma pairs_induct [case_names none one more]:
  assumes "P []" and "\<And>a. P [a]" and "\<And>a b xs. P xs \<Longrightarrow> P (a # b # xs)"
  shows "P xs"
  using assms by (induction xs rule: induct_list012) auto

lemma digit_below_16: "to_digit16 c = Some d \<Longrightarrow> uint d < 16"
  by (auto simp: to_digit16_def word_le_def uint_sub_lem [THEN iffD1] split: if_splits)

lemma hex_byte_pair:
  assumes "to_digit16 a = Some h" and "to_digit16 b = Some l"
  shows "hex_byte [a, b] = Ok (16 * h + l)"
proof -
  have "uint l < 16" by (rule digit_below_16 [OF assms(2)])
  then have "uint (take_bit 4 l) = uint l"
    by (simp add: unsigned_take_bit_eq take_bit_int_eq_self)
  then have l: "take_bit 4 l = l" by (simp only: word_uint_eq_iff)
  have "or (push_bit 4 h) l = push_bit 4 h + l"
    by (rule disjunctive_add [symmetric]) (metis bit_push_bit_iff bit_take_bit_iff l linorder_not_less)
  then show ?thesis
    using assms by (simp add: hex_byte_def index_at_def push_bit_eq_mult mult.commute)
qed

lemma hex_byte_panics:
  "hex_byte [a] = Err Panic" "to_digit16 a = None \<or> to_digit16 b = None \<Longrightarrow> hex_byte [a, b] = Err Panic"
  by (auto simp: hex_byte_def index_at_def ok_or_def split: option.splits)

abbreviation is_hex :: "u8 \<Rightarrow> bool" where
  "is_hex c \<equiv> to_digit16 c \<noteq> None"

text \<open>
  C39. \<^verbatim>\<open>hex_to_bytes\<close> ends on every string, in one of two ways. On a string of hexadecimal digits of even
  length it returns, with one byte for every two digits, the first digit the high one; on every other
  string it panics.
\<close>

theorem hex_to_bytes_ends:
  "hex_to_bytes hex =
     (if even (length hex) \<and> list_all is_hex hex
      then Ok (map (\<lambda>i. 16 * the (to_digit16 (hex ! (2 * i))) + the (to_digit16 (hex ! (2 * i + 1)))) [0..<length hex div 2])
      else Err Panic)"
proof (induction hex rule: pairs_induct)
  case (more a b xs)
  show ?case
  proof (cases "is_hex a \<and> is_hex b")
    case True
    then obtain h l where hl: "to_digit16 a = Some h" "to_digit16 b = Some l" by auto
    have "[0..<length (a # b # xs) div 2] = 0 # map Suc [0..<length xs div 2]"
      by (simp add: upt_conv_Cons map_Suc_upt del: upt_Suc)
    with more hl show ?thesis
      by (simp add: hex_to_bytes_def chunks_2 hex_byte_pair [OF hl] comp_def)
  next
    case False
    then show ?thesis by (auto simp: hex_to_bytes_def chunks_2 hex_byte_panics)
  qed
qed (simp_all add: hex_to_bytes_def chunks_2 hex_byte_panics)

text \<open>The example of the comment on the function, \<^verbatim>\<open>22f123639\<close>, has nine digits.\<close>

lemma hex_comment_example: "hex_to_bytes [50, 50, 102, 49, 50, 51, 54, 51, 57] = Err Panic"
  by code_simp

end
