(* ===== verification/Spec2Isabelle.thy ===== *)
theory Spec2Isabelle
  imports Lending_Properties Custody Liquidity_Incentive Hex
begin

text \<open>
  A verification development of the marginfi v2 lending protocol and of its liquidity incentive program,
  two Solana programs in Rust.

  \<^bold>\<open>The program.\<close> A group has banks, one for each token. Users deposit tokens into a bank and borrow from it;
  their accounts hold shares of assets or liabilities of up to sixteen banks, and the value of a share grows
  with the interest (\<^verbatim>\<open>state/marginfi_group.rs\<close>, \<^verbatim>\<open>state/marginfi_account.rs\<close>). The risk engine values an
  account with weights and oracle prices (\<^verbatim>\<open>state/price.rs\<close>); it guards withdrawals and borrowings, decides who may be
  liquidated and who is bankrupt. Handlers (\<^verbatim>\<open>instructions/\<close>) check the accounts they are given, call these
  methods and move tokens. The liquidity incentive program calls the handlers of marginfi on behalf of
  depositors who lock their deposits for a guaranteed yield. All paths here are under
  \<^verbatim>\<open>src/programs/marginfi/src\<close> unless they name another program.

  \<^bold>\<open>The theories\<close>, in the order in which the code builds up:
  \<^item> \<open>Prelude\<close>: results with every error the code returns and with panics as values, their sequencing, and the
    macros of \<^verbatim>\<open>macros.rs\<close> and \<^verbatim>\<open>errors.rs\<close>.
  \<^item> \<open>Fixed_Point\<close>: \<^verbatim>\<open>I80F48\<close> as the integer of its bits. The operations of the crate are a record of parameters, the
    locale \<open>fixed_point\<close> states their documented behaviour (rounding, and failure exactly outside 128 bits),
    and \<open>i80f48_ref\<close> interprets it. Constants of \<^verbatim>\<open>constants.rs\<close> are here.
  \<^item> \<open>Group_State\<close>, \<open>Interest_Rate\<close>, \<open>Bank_Config\<close>, \<open>Bank\<close>: the four parts of \<^verbatim>\<open>state/marginfi_group.rs\<close>.
  \<^item> \<open>Oracle_Price\<close>: the feeds of \<^verbatim>\<open>state/price.rs\<close>; the decoders of the oracle crates are parameters.
  \<^item> \<open>Lending_Account\<close>, \<open>Lending_Properties\<close>: balances, accounts and \<^verbatim>\<open>BankAccountWrapper\<close> of
    \<^verbatim>\<open>state/marginfi_account.rs\<close>.
  \<^item> \<open>Token_Fee\<close>: transfer fees of \<^verbatim>\<open>utils.rs\<close>; the locale \<open>token_2022\<close> is what the code relies on of a mint.
  \<^item> \<open>Risk_Engine\<close>: loading of banks and prices, health and the checks.
  \<^item> \<open>World\<close>: all accounts of the program, the token ledger and the clock, with the invariant \<open>world_ok\<close>.
    \<open>Example_World\<close> is a small instance for the examples.
  \<^item> \<open>Account_Instructions\<close>, \<open>Flashloan\<close>, \<open>Liquidation\<close>: the handlers of \<^verbatim>\<open>instructions/marginfi_account\<close>;
    \<open>Group_Instructions\<close>, \<open>Fee_Instructions\<close>, \<open>Bankruptcy\<close>: those of \<^verbatim>\<open>instructions/marginfi_group\<close>. A handler is a
    function from the runtime, the world, the accounts it is given and its arguments to a result. The
    constraints of the account structures are definitions of their own.
  \<^item> \<open>Program\<close>: the entry points of \<^verbatim>\<open>lib.rs\<close> as one step function, and the reachable worlds.
  \<^item> \<open>Transaction\<close>: transactions, in which a flash loan spans several instructions and foreign programs.
  \<^item> \<open>Custody\<close>: an abstract machine of who may change the holdings of whom, and the simulation of the
    program by it, through the locale \<open>simulation\<close>.
  \<^item> \<open>Liquidity_Incentive\<close>: the program under \<^verbatim>\<open>src/programs/liquidity-incentive-program\<close>.
  \<^item> \<open>Hex\<close>: \<^verbatim>\<open>hex_to_bytes\<close> of \<^verbatim>\<open>utils.rs\<close>.

  \<^bold>\<open>What is shown.\<close>
  \<^item> Whole protocol: every reachable world keeps the invariant that banks cover the shares of all accounts; an
    account that its owner does not touch and that is healthy is not touched by others to its
    disadvantage, as a consequence of a refinement; a flash loan cannot end a transaction without the health check.
  \<^item> Handlers: liquidation, the settlement of bad debt and the collection of fees do what they are for,
    in the amounts, the authority they need and the frame they leave; deposits, borrowings and
    withdrawals leave the bank within its limits and its debts within its deposits.
  \<^item> Banks: accrual keeps the bank well formed and credits no more than it charges, with the rounding made
    explicit; the interest curve, configuration, losses and the discount of large banks.
  \<^item> Positions: every operation keeps balance and bank well formed, conserves shares, rounds for the
    bank and respects the operational state.
  \<^item> Prices and health: prices bracket the market price, feeds are authentic and fresh, a healthy account is
    covered at market prices and not bankrupt.
  \<^item> Liquidity incentives: campaigns are solvent in every reachable state, and ending a deposit pays the
    guaranteed yield to its owner.
  \<^item> Behaviour that differs from what the code or a comment intends is at the end of this theory and in the
    theories of the components.

  \<^bold>\<open>Bounds.\<close> No definition needs fuel: the loops of the code run over lists of accounts or balances, and the
  one loop that is not structural, the chunks of \<open>Hex\<close>, has a termination proof. Machine integers are words;
  additions and casts that the code does unchecked wrap or panic as in a build with overflow checks.

  \<^bold>\<open>Hypotheses.\<close> The invariant assumes of the admin of the fee state that the program fee rate is between
  none and all, which no handler checks, and of a settled loss that it leaves a share of the bank a
  value. The runs of \<open>Custody\<close> are restricted in the same way, and health there is judged at the prices an
  instruction brings, with the interest accrued that the instruction accrues. Statements about amounts of tokens name what they assume of the token program.

  \<^bold>\<open>Not modelled.\<close> The decoding of instruction data and accounts, which the framework generates; rent,
  lamports beyond the flat fee, and the creation of token accounts, which are the system and the token
  program; events and log messages, which no code reads; the features of the build for devnet
  and tests; \<^verbatim>\<open>load_unchecked\<close> and \<^verbatim>\<open>peek_feed_id\<close>, which only clients call. The command line client, the indexer, the
  alerting and snapshot tools and the ETL jobs are network and database I/O around the program; the
  programs \<^verbatim>\<open>mocks\<close>, \<^verbatim>\<open>brick\<close> and \<^verbatim>\<open>test_transfer_hook\<close>, the test utilities, tests and fuzzers only exercise it.
\<close>

section \<open>Where the code differs from its intent\<close>

text \<open>Setting up emissions drops the flag that lets anyone settle bad debt.\<close>

lemma emissions_setup_drops_settlement_flag:
  assumes "override_emissions_flag b flag = Ok b'"
  shows "\<not> bank_get_flag b' PERMISSIONLESS_BAD_DEBT_SETTLEMENT_FLAG"
proof -
  have flag: "flag AND 3 = flag" and b': "b' = b\<lparr>bk_flags := flag\<rparr>"
    using assms by (auto simp: override_emissions_flag_def bind_Ok_iff assert_that_Ok_iff verify_emissions_flags_def
        EMISSION_FLAGS_def EMISSIONS_FLAG_BORROW_ACTIVE_def EMISSIONS_FLAG_LENDING_ACTIVE_def)
  have "flag AND 4 = flag AND (3 AND 4)" using flag by (metis and.assoc)
  then show ?thesis by (simp add: b' bank_get_flag_def PERMISSIONLESS_BAD_DEBT_SETTLEMENT_FLAG_def)
qed

text \<open>A pull feed of Switchboard has no default age: it is live only in the second it was written.\<close>

lemma pull_default_age_zero:
  "oracle_max_age c = 0 \<Longrightarrow> bc_oracle_setup c = SwitchboardPull \<Longrightarrow> get_oracle_max_age c = 0"
  by (simp add: get_oracle_max_age_def)

text \<open>Two of the flags that the comment on the configurable flags calls valid are refused.\<close>

lemma comment_flag_refused: "\<not> flag_can_be_set 2" "\<not> flag_can_be_set 6"
  by (simp_all add: flag_can_be_set_def CONFIGURABLE_FLAGS_def FLASHLOAN_ENABLED_FLAG_def TRANSFER_AUTHORITY_ALLOWED_FLAG_def)

end
